(* ===== verification/Prelude.thy ===== *)
theory Prelude
  imports Main "HOL-Library.Word" "HOL-Library.Monad_Syntax"
begin

text \<open>
  Shared ground of the development: bytes and little-endian integers, stores into and
  loads from a block of memory, NUL-terminated strings, C integer conversions, and the
  \<open>option\<close> monad, in which \<open>None\<close> stands for a run the machine does not survive
  (a NULL or error pointer dereferenced, a block overrun, a \<open>BUG_ON\<close>).
\<close>

unbundle bit_operations_syntax

named_theorems mem_simps \<open>stores into and loads from a block\<close>
named_theorems cstr_simps \<open>NUL-terminated strings\<close>
named_theorems int_simps \<open>C integer conversions\<close>

type_synonym byte = "8 word"
type_synonym block = "byte list"

section \<open>C integer conversions\<close>

text \<open>\<open>to_int x\<close> is the conversion of a wider integer to the 32-bit \<open>int\<close>.\<close>

definition to_int :: "int \<Rightarrow> int" where
  "to_int x = signed_take_bit 31 x"

lemma to_int_range: "- (2 ^ 31) \<le> to_int x \<and> to_int x < 2 ^ 31"
  using signed_take_bit_int_greater_eq_minus_exp [of 31 x] signed_take_bit_int_less_exp [of 31 x]
  by (simp add: to_int_def)

lemma to_int_id [int_simps]: "- (2 ^ 31) \<le> x \<Longrightarrow> x < 2 ^ 31 \<Longrightarrow> to_int x = x"
  by (simp add: to_int_def signed_take_bit_int_eq_self)

lemma to_int_idem [simp]: "to_int (to_int x) = to_int x"
  using to_int_range [of x] by (simp add: to_int_id)

lemma sint_word32_of_int [int_simps]: "sint (word_of_int x :: 32 word) = to_int x"
  by (simp add: to_int_def sint_sbintrunc')

lemma sint_word32_range: "- (2 ^ 31) \<le> sint (w :: 32 word) \<and> sint w < 2 ^ 31"
  using sint_ge [of w] sint_lt [of w] by auto

lemma to_int_sint32 [simp]: "to_int (sint (w :: 32 word)) = sint w"
  using sint_word32_range [of w] by (simp add: to_int_id)

lemma sint_word16_range: "- (2 ^ 15) \<le> sint (w :: 16 word) \<and> sint w < 2 ^ 15"
  using sint_ge [of w] sint_lt [of w] by auto

lemma sint_word16_of_nat [int_simps]: "n < 2 ^ 15 \<Longrightarrow> sint (of_nat n :: 16 word) = int n"
  using sint_sbintrunc' [where 'a = 16, of "int n"] by (simp add: signed_take_bit_int_eq_self)

section \<open>Blocks of memory\<close>

text \<open>
  \<open>poke off bs blk\<close> stores the bytes \<open>bs\<close> at offset \<open>off\<close>; \<open>peek off n blk\<close> loads
  \<open>n\<close> bytes. \<open>load\<close> is the load that checks the bounds of the block.
\<close>

definition poke :: "nat \<Rightarrow> block \<Rightarrow> block \<Rightarrow> block" where
  "poke off bs blk = take off blk @ bs @ drop (off + length bs) blk"

definition peek :: "nat \<Rightarrow> nat \<Rightarrow> block \<Rightarrow> block" where
  "peek off n blk = take n (drop off blk)"

definition load :: "nat \<Rightarrow> nat \<Rightarrow> block \<Rightarrow> block option" where
  "load off n blk = (if off + n \<le> length blk then Some (peek off n blk) else None)"

lemma length_poke [mem_simps]:
  "off + length bs \<le> length blk \<Longrightarrow> length (poke off bs blk) = length blk"
  by (simp add: poke_def)

lemma length_peek [mem_simps]: "off + n \<le> length blk \<Longrightarrow> length (peek off n blk) = n"
  by (simp add: peek_def)

lemma peek_poke_same [mem_simps]:
  "off + length bs \<le> length blk \<Longrightarrow> n = length bs \<Longrightarrow> peek off n (poke off bs blk) = bs"
  by (simp add: peek_def poke_def)

lemma peek_poke_before [mem_simps]:
  "off' + n \<le> off \<Longrightarrow> off + length bs \<le> length blk \<Longrightarrow>
   peek off' n (poke off bs blk) = peek off' n blk"
  by (simp add: peek_def poke_def take_drop min_def)

lemma peek_poke_after [mem_simps]:
  assumes "off + length bs \<le> off'" "off + length bs \<le> length blk"
  shows "peek off' n (poke off bs blk) = peek off' n blk"
proof -
  have "drop off' (poke off bs blk) = drop (off' - (off + length bs)) (drop (off + length bs) blk)"
    using assms by (simp add: poke_def)
  also have "\<dots> = drop off' blk" using assms by simp
  finally show ?thesis by (simp add: peek_def)
qed

lemma peek_append_left [mem_simps]: "off + n \<le> length xs \<Longrightarrow> peek off n (xs @ ys) = peek off n xs"
  by (simp add: peek_def)

lemma peek_append_right [mem_simps]:
  "length xs \<le> off \<Longrightarrow> peek off n (xs @ ys) = peek (off - length xs) n ys"
  by (simp add: peek_def)

lemma peek_all [mem_simps]: "n = length xs \<Longrightarrow> peek 0 n (xs @ ys) = xs"
  by (simp add: peek_def)

section \<open>Little-endian integers\<close>

definition le16 :: "16 word \<Rightarrow> block" where
  "le16 w = [ucast w, ucast (drop_bit 8 w)]"

definition le32 :: "32 word \<Rightarrow> block" where
  "le32 w = [ucast w, ucast (drop_bit 8 w), ucast (drop_bit 16 w), ucast (drop_bit 24 w)]"

definition de8 :: "block \<Rightarrow> 8 word" where
  "de8 bs = (case bs of [a] \<Rightarrow> a | _ \<Rightarrow> 0)"

definition de16 :: "block \<Rightarrow> 16 word" where
  "de16 bs = (case bs of [a, b] \<Rightarrow> ucast a OR push_bit 8 (ucast b) | _ \<Rightarrow> 0)"

definition de32 :: "block \<Rightarrow> 32 word" where
  "de32 bs = (case bs of [a, b, c, d] \<Rightarrow>
     ucast a OR push_bit 8 (ucast b) OR push_bit 16 (ucast c) OR push_bit 24 (ucast d) | _ \<Rightarrow> 0)"

lemma length_le16 [simp]: "length (le16 w) = 2" by (simp add: le16_def)

lemma length_le32 [simp]: "length (le32 w) = 4" by (simp add: le32_def)

lemma de8_single [simp]: "de8 [b] = b" by (simp add: de8_def)

lemma de16_le16 [simp]: "de16 (le16 w) = w"
proof (rule bit_word_eqI)
  fix n assume "n < LENGTH(16)"
  then have "n < 8 \<or> (8 \<le> n \<and> n < 16)" by auto
  then show "bit (de16 (le16 w)) n = bit w n"
    by (auto simp: de16_def le16_def bit_simps)
qed

lemma de32_le32 [simp]: "de32 (le32 w) = w"
proof (rule bit_word_eqI)
  fix n assume "n < LENGTH(32)"
  then have "n < 8 \<or> (8 \<le> n \<and> n < 16) \<or> (16 \<le> n \<and> n < 24) \<or> (24 \<le> n \<and> n < 32)" by auto
  then show "bit (de32 (le32 w)) n = bit w n"
    by (auto simp: de32_def le32_def bit_simps)
qed

section \<open>NUL-terminated strings\<close>

text \<open>
  \<open>strlen\<close> scans the block from its start; \<open>None\<close> is a scan that leaves the block.
\<close>

fun strlen :: "block \<Rightarrow> nat option" where
  "strlen [] = None"
| "strlen (b # bs) = (if b = 0 then Some 0 else map_option Suc (strlen bs))"

text \<open>The string a block holds: its bytes up to the first NUL.\<close>

definition cstr :: "block \<Rightarrow> block option" where
  "cstr blk = map_option (\<lambda>n. take n blk) (strlen blk)"

lemma strlen_nul [cstr_simps]: "0 \<notin> set s \<Longrightarrow> strlen (s @ 0 # rest) = Some (length s)"
  by (induction s) auto

lemma strlen_None_iff [cstr_simps]: "strlen blk = None \<longleftrightarrow> 0 \<notin> set blk"
  by (induction blk) auto

lemma cstr_nul [cstr_simps]: "0 \<notin> set s \<Longrightarrow> cstr (s @ 0 # rest) = Some s"
  by (simp add: cstr_def strlen_nul)

lemma cstr_None_iff [cstr_simps]: "cstr blk = None \<longleftrightarrow> 0 \<notin> set blk"
  by (simp add: cstr_def strlen_None_iff)

lemma strlen_less: "strlen blk = Some n \<Longrightarrow> n < length blk"
  by (induction blk arbitrary: n) (auto split: if_splits)

lemma cstr_no_nul: "cstr blk = Some s \<Longrightarrow> 0 \<notin> set s \<and> length s < length blk"
proof (induction blk arbitrary: s)
  case Nil
  then show ?case by (simp add: cstr_def)
next
  case (Cons b bs)
  show ?case
  proof (cases "b = 0")
    case True
    with Cons.prems show ?thesis by (simp add: cstr_def)
  next
    case False
    with Cons.prems obtain n where n: "strlen bs = Some n" and s: "s = b # take n bs"
      by (auto simp: cstr_def)
    then have "cstr bs = Some (take n bs)" by (simp add: cstr_def)
    from Cons.IH [OF this] s False show ?thesis by simp
  qed
qed

section \<open>Runs that may crash\<close>

text \<open>\<open>require P\<close> goes on when \<open>P\<close> holds; otherwise the run ends there.\<close>

definition require :: "bool \<Rightarrow> unit option" where
  "require P = (if P then Some () else None)"

lemma require_simps [simp]: "require True = Some ()" "require False = None"
  by (simp_all add: require_def)

lemma require_eq_Some [simp]: "require P = Some u \<longleftrightarrow> P"
  by (simp add: require_def)

text \<open>
  The possible ways a run can have come to its result; used to take the runs of an
  operation apart, one disjunct for each path through the code.
\<close>

lemma if_eq_Some: "(if b then m else m') = Some x \<longleftrightarrow> b \<and> m = Some x \<or> \<not> b \<and> m' = Some x"
  by simp

lemma option_case_eq_Some:
  "(case v of None \<Rightarrow> m | Some a \<Rightarrow> f a) = Some x \<longleftrightarrow>
   v = None \<and> m = Some x \<or> (\<exists>a. v = Some a \<and> f a = Some x)"
  by (cases v) auto

lemmas run_simps = bind_eq_Some_conv if_eq_Some option_case_eq_Some case_prod_beta Let_def

end
