(* ===== verification/Trace_Record.thy ===== *)
theory Trace_Record
  imports Prelude
begin

text \<open>
  The trace record that the kernel module writes and \<open>treplay\<close> reads:
  \<open>struct trfs_trace_ds\<close> and the record types of \<open>src/fs/trfs/trfs.h\<close> and
  \<open>src/hw2/treplay.h\<close>, the byte image of the structure under the C layout rules, and
  the stream format (structure, first path, second path, written bytes).
\<close>

section \<open>Record types\<close>

definition OPEN_CALL :: nat where "OPEN_CALL = 0"
definition READ_CALL :: nat where "READ_CALL = 1"
definition WRITE_CALL :: nat where "WRITE_CALL = 2"
definition RELEASE_CALL :: nat where "RELEASE_CALL = 3"
definition CREATE_CALL :: nat where "CREATE_CALL = 4"
definition LINK_CALL :: nat where "LINK_CALL = 5"
definition UNLINK_CALL :: nat where "UNLINK_CALL = 6"
definition SYMLINK_CALL :: nat where "SYMLINK_CALL = 7"
definition MKDIR_CALL :: nat where "MKDIR_CALL = 8"
definition RMDIR_CALL :: nat where "RMDIR_CALL = 9"
definition MKNOD_CALL :: nat where "MKNOD_CALL = 10"
definition RENAME_CALL :: nat where "RENAME_CALL = 11"

lemmas call_defs = OPEN_CALL_def READ_CALL_def WRITE_CALL_def RELEASE_CALL_def CREATE_CALL_def
  LINK_CALL_def UNLINK_CALL_def SYMLINK_CALL_def MKDIR_CALL_def RMDIR_CALL_def MKNOD_CALL_def
  RENAME_CALL_def

definition BITMAP_MAX :: "64 word" where "BITMAP_MAX = 0xfff"

section \<open>The structure\<close>

record trfs_trace_ds =
  path_len1 :: "16 word"
  path_len2 :: "16 word"
  write_len :: "32 word"
  record_id :: "32 word"
  record_type :: "8 word"
  open_flags :: "32 word"
  permission_mode :: "16 word"
  err :: "32 word"

text \<open>
  Offsets of the members under the C rule: a member of size \<open>n\<close> is aligned to \<open>n\<close>, the
  structure to its largest member.
\<close>

definition align_up :: "nat \<Rightarrow> nat \<Rightarrow> nat" where
  "align_up n off = ((off + n - 1) div n) * n"

fun member_offsets :: "nat \<Rightarrow> nat list \<Rightarrow> nat list" where
  "member_offsets off [] = []"
| "member_offsets off (n # ns) = align_up n off # member_offsets (align_up n off + n) ns"

fun members_end :: "nat \<Rightarrow> nat list \<Rightarrow> nat" where
  "members_end off [] = off"
| "members_end off (n # ns) = members_end (align_up n off + n) ns"

definition sizeof_struct :: "nat list \<Rightarrow> nat" where
  "sizeof_struct ns = align_up (Max (set ns)) (members_end 0 ns)"

definition trace_ds_members :: "nat list" where
  "trace_ds_members = [2, 2, 4, 4, 1, 4, 2, 4]"

definition trace_ds_size :: nat where
  "trace_ds_size = sizeof_struct trace_ds_members"

lemma trace_ds_offsets: "member_offsets 0 trace_ds_members = [0, 2, 4, 8, 12, 16, 20, 24]"
  by (simp add: trace_ds_members_def align_up_def)

lemma trace_ds_size_28 [simp]: "trace_ds_size = 28"
  by (simp add: trace_ds_size_def sizeof_struct_def trace_ds_members_def align_up_def)

text \<open>
  The assignments to the members of a freshly allocated structure: each one stores its
  bytes at the member's offset and leaves the padding as it was.
\<close>

definition store_member :: "nat \<Rightarrow> block \<Rightarrow> block \<Rightarrow> block" where
  "store_member i bs blk = poke (member_offsets 0 trace_ds_members ! i) bs blk"

definition fill_trace_ds :: "trfs_trace_ds \<Rightarrow> block \<Rightarrow> block" where
  "fill_trace_ds r blk =
     (let blk = store_member 0 (le16 (path_len1 r)) blk;
          blk = store_member 1 (le16 (path_len2 r)) blk;
          blk = store_member 2 (le32 (write_len r)) blk;
          blk = store_member 3 (le32 (record_id r)) blk;
          blk = store_member 4 [record_type r] blk;
          blk = store_member 5 (le32 (open_flags r)) blk;
          blk = store_member 6 (le16 (permission_mode r)) blk;
          blk = store_member 7 (le32 (err r)) blk
      in blk)"

text \<open>Reading the members back, as the accesses through the structure pointer do.\<close>

definition load_member :: "nat \<Rightarrow> nat \<Rightarrow> block \<Rightarrow> block" where
  "load_member i n blk = peek (member_offsets 0 trace_ds_members ! i) n blk"

definition read_trace_ds :: "block \<Rightarrow> trfs_trace_ds" where
  "read_trace_ds blk =
     \<lparr>path_len1 = de16 (load_member 0 2 blk), path_len2 = de16 (load_member 1 2 blk),
      write_len = de32 (load_member 2 4 blk), record_id = de32 (load_member 3 4 blk),
      record_type = de8 (load_member 4 1 blk), open_flags = de32 (load_member 5 4 blk),
      permission_mode = de16 (load_member 6 2 blk), err = de32 (load_member 7 4 blk)\<rparr>"

lemmas member_defs = store_member_def load_member_def trace_ds_offsets

lemma length_fill_trace_ds [simp]: "length blk = 28 \<Longrightarrow> length (fill_trace_ds r blk) = 28"
  by (simp add: fill_trace_ds_def member_defs mem_simps Let_def)

lemma read_fill_trace_ds:
  "length blk = 28 \<Longrightarrow> read_trace_ds (fill_trace_ds r blk) = r"
  by (simp add: fill_trace_ds_def read_trace_ds_def member_defs mem_simps Let_def)

text \<open>The bytes that no member covers keep what the allocator left there.\<close>

lemma fill_trace_ds_padding:
  assumes "length blk = 28"
  shows "peek 13 3 (fill_trace_ds r blk) = peek 13 3 blk"
    and "peek 22 2 (fill_trace_ds r blk) = peek 22 2 blk"
  using assms by (simp_all add: fill_trace_ds_def member_defs mem_simps Let_def)

lemma read_trace_ds_take [simp]: "read_trace_ds (blk @ rest) = read_trace_ds blk"
  if "length blk = 28"
  using that by (simp add: read_trace_ds_def member_defs mem_simps)

section \<open>Entries of the trace\<close>

text \<open>
  What one traced call contributes: the structure, then the two paths and the written
  bytes, each of the length the structure announces. \<open>pad\<close> is the memory the structure
  was allocated in.
\<close>

record trace_entry =
  te_ds :: trfs_trace_ds
  te_path1 :: block
  te_path2 :: block
  te_content :: block

definition entry_bytes :: "block \<Rightarrow> trace_entry \<Rightarrow> block" where
  "entry_bytes pad e = fill_trace_ds (te_ds e) pad @ te_path1 e @ te_path2 e @ te_content e"

text \<open>A whole trace: its entries one after the other.\<close>

definition trace_bytes :: "block list \<Rightarrow> trace_entry list \<Rightarrow> block" where
  "trace_bytes pads es = concat (map2 entry_bytes pads es)"

definition entry_size :: "trace_entry \<Rightarrow> nat" where
  "entry_size e = 28 + length (te_path1 e) + length (te_path2 e) + length (te_content e)"

text \<open>The three lengths of the structure are those of what follows it.\<close>

definition wf_entry :: "trace_entry \<Rightarrow> bool" where
  "wf_entry e \<longleftrightarrow>
     sint (path_len1 (te_ds e)) = int (length (te_path1 e)) \<and>
     sint (path_len2 (te_ds e)) = int (length (te_path2 e)) \<and>
     sint (write_len (te_ds e)) = int (length (te_content e))"

lemma length_entry_bytes [simp]: "length pad = 28 \<Longrightarrow> length (entry_bytes pad e) = entry_size e"
  by (simp add: entry_bytes_def entry_size_def)

lemma entry_size_ge: "28 \<le> entry_size e"
  by (simp add: entry_size_def)

text \<open>Reading an entry back from the front of a byte sequence.\<close>

lemma read_entry_bytes:
  assumes "length pad = 28"
  shows "read_trace_ds (entry_bytes pad e @ rest) = te_ds e"
    and "peek 28 (length (te_path1 e)) (entry_bytes pad e @ rest) = te_path1 e"
    and "peek (28 + length (te_path1 e)) (length (te_path2 e)) (entry_bytes pad e @ rest) = te_path2 e"
    and "peek (28 + length (te_path1 e) + length (te_path2 e)) (length (te_content e))
           (entry_bytes pad e @ rest) = te_content e"
  using assms by (simp_all add: entry_bytes_def read_fill_trace_ds peek_def)

end
