(* ===== verification/Kernel.thy ===== *)
theory Kernel
  imports Trace_Record
begin

text \<open>
  The state the file system works on and the kernel it calls.

  The structures trfs itself fills in (its super block, inodes, dentries and files, with
  the private data of \<open>src/fs/trfs/trfs.h\<close>) are records. The rest of the kernel, the
  lower file system included, is not part of the repository: it is a parameter, a record
  \<open>'w kernel\<close> of functions over an opaque world \<open>'w\<close>. Every call is one value of
  \<open>icall\<close>, \<open>pcall\<close> or \<open>vcall\<close> (for calls that return an integer, a pointer or
  nothing) and is appended to the log of the state, so that the theorems can speak of
  which calls were made, in which order, and of the references, locks and allocations
  they take and give back.
\<close>

named_theorems call_simps \<open>effect of one kernel call on the state\<close>
named_theorems held_simps \<open>references, locks and allocations in a log\<close>

type_synonym ptr = nat

section \<open>Pointers and error numbers\<close>

text \<open>A kernel pointer: NULL, an encoded error number, or an address.\<close>

datatype kptr = Null | Err_ptr int | Ptr ptr

definition IS_ERR :: "kptr \<Rightarrow> bool" where
  "IS_ERR p = (case p of Err_ptr _ \<Rightarrow> True | _ \<Rightarrow> False)"

text \<open>Following a pointer; NULL and error pointers have nothing behind them.\<close>

definition deref :: "kptr \<Rightarrow> ptr option" where
  "deref p = (case p of Ptr a \<Rightarrow> Some a | _ \<Rightarrow> None)"

lemma deref_simps [simp]:
  "deref Null = None" "deref (Err_ptr e) = None" "deref (Ptr a) = Some a"
  by (simp_all add: deref_def)

lemma deref_eq_Some [simp]: "deref p = Some a \<longleftrightarrow> p = Ptr a"
  by (cases p) auto

lemma IS_ERR_simps [simp]:
  "\<not> IS_ERR Null" "IS_ERR (Err_ptr e)" "\<not> IS_ERR (Ptr a)"
  by (simp_all add: IS_ERR_def)

lemma kptr_case_eq_Some:
  "(case p of Null \<Rightarrow> m | Err_ptr e \<Rightarrow> f e | Ptr a \<Rightarrow> g a) = Some x \<longleftrightarrow>
   p = Null \<and> m = Some x \<or> (\<exists>e. p = Err_ptr e \<and> f e = Some x) \<or> (\<exists>a. p = Ptr a \<and> g a = Some x)"
  by (cases p) auto

definition EIO :: int where "EIO = 5"
definition ENOENT :: int where "ENOENT = 2"
definition ENOMEM :: int where "ENOMEM = 12"
definition EACCES :: int where "EACCES = 13"
definition EBUSY :: int where "EBUSY = 16"
definition EXDEV :: int where "EXDEV = 18"
definition EINVAL :: int where "EINVAL = 22"
definition ENOTTY :: int where "ENOTTY = 25"
definition ENOTEMPTY :: int where "ENOTEMPTY = 39"
definition EOPNOTSUPP :: int where "EOPNOTSUPP = 95"
definition ECHILD :: int where "ECHILD = 10"
definition ESTALE :: int where "ESTALE = 116"
definition EIOCBQUEUED :: int where "EIOCBQUEUED = 529"

lemmas errno_defs = EIO_def ENOENT_def ENOMEM_def EACCES_def EBUSY_def EXDEV_def EINVAL_def
  ENOTTY_def ENOTEMPTY_def EOPNOTSUPP_def ECHILD_def ESTALE_def EIOCBQUEUED_def

section \<open>Kernel structures\<close>

text \<open>\<open>struct path\<close>: a dentry and a mount, either of which may be NULL.\<close>

record path =
  p_dentry :: "ptr option"
  p_mnt :: "ptr option"

text \<open>The members of \<open>struct inode\<close> that the code reads or writes, upper or lower.\<close>

record attr =
  i_ino :: "64 word"
  i_mode :: "16 word"
  i_opflags :: "16 word"
  i_nlink :: "32 word"
  i_rdev :: "32 word"
  i_size :: int
  i_atime :: "int \<times> int"
  i_mtime :: "int \<times> int"
  i_ctime :: "int \<times> int"
  i_version :: "64 word"
  i_new :: bool

text \<open>Objects of the lower file system, as far as the code looks into them.\<close>

record linode =
  l_attr :: attr
  l_sb :: ptr
  has_i_op :: bool
  has_readlink :: bool
  has_setxattr :: bool
  has_getxattr :: bool
  has_listxattr :: bool
  has_removexattr :: bool

record ldentry =
  ld_inode :: "ptr option"
  ld_flags :: "32 word"
  ld_sb :: ptr

record lfile =
  lf_inode :: ptr
  lf_pos :: int
  has_f_op :: bool
  has_flush :: bool
  has_fasync :: bool
  has_unlocked_ioctl :: bool
  has_compat_ioctl :: bool
  has_read_iter :: bool
  has_write_iter :: bool
  has_writepage :: bool

record lsuper =
  ls_maxbytes :: int
  ls_umount_begin :: bool

text \<open>trfs's own objects.\<close>

datatype inode_ops = No_iops | Symlink_iops | Dir_iops | Main_iops

datatype file_ops = No_fops | Dir_fops | Main_fops

record inode =
  attrs :: attr
  lower_inode :: "ptr option"
  i_op :: inode_ops
  i_fop :: file_ops
  trfs_aops :: bool

record trfs_dentry_info =
  lower_path :: path

record dentry =
  d_inode :: "ptr option"
  d_unhashed :: bool
  d_fsdata :: "(ptr \<times> trfs_dentry_info) option"
  d_parent :: ptr
  d_name :: block
  d_trfs_dops :: bool

record trfs_file_info =
  lower_file :: "ptr option"
  lower_vm_ops :: "ptr option"

record kfile =
  f_flags :: "32 word"
  f_dentry :: ptr
  f_inode :: ptr
  f_pos :: int
  private_data :: "(ptr \<times> trfs_file_info) option"
  f_trfs_aops :: bool

text \<open>A memory mapping; its operations are trfs's or some lower file system's.\<close>

datatype vm_operations = Trfs_vm_ops | Other_vm_ops "ptr option"

record vma =
  vm_flags :: "64 word"
  vm_ops :: vm_operations
  vm_file :: ptr

text \<open>A heap string: its address and its bytes (without the NUL).\<close>

type_synonym heap_string = "ptr \<times> block"

record trfs_mount_path =
  mp_addr :: ptr
  tfile_path :: "heap_string option"
  device_path :: "heap_string option"

record trfs_sb_info =
  lower_sb :: "ptr option"
  mount_path :: "trfs_mount_path option"
  sb_record_id :: "32 word"
  mask :: "64 word"

record super_block =
  s_fs_info :: "(ptr \<times> trfs_sb_info) option"
  s_maxbytes :: int
  s_time_gran :: int
  s_trfs_ops :: bool
  s_export_ops :: bool
  s_root :: "ptr option"

section \<open>Calls into the kernel\<close>

text \<open>Where a read or write takes its file position from.\<close>

datatype pos_arg = Caller_ppos | Own_offset

record iattr =
  ia_valid :: "32 word"
  ia_size :: int
  ia_mode :: "16 word"
  ia_file :: "ptr option"

text \<open>Calls that return an integer.\<close>

datatype (plugins only: code size) icall =
    Vfs_read ptr ptr "64 word" pos_arg
  | Vfs_write ptr block "64 word" pos_arg
  | Iterate_dir ptr
  | Unlocked_ioctl ptr "32 word" "64 word"
  | Compat_ioctl ptr "32 word" "64 word"
  | Copy_to_user "64 word" "64 word"
  | Lower_mmap ptr ptr
  | Lower_flush ptr ptr
  | Filemap_write_and_wait ptr
  | Generic_file_fsync ptr int int int
  | Vfs_fsync_range ptr int int int
  | Lower_fasync int ptr int
  | Upper_llseek ptr int int
  | Lower_llseek ptr int int
  | Lower_read_iter ptr
  | Lower_write_iter ptr
  | Vfs_create ptr ptr "16 word" bool
  | Vfs_link ptr ptr ptr
  | Vfs_unlink ptr ptr
  | Vfs_symlink ptr ptr block
  | Vfs_mkdir ptr ptr "16 word"
  | Vfs_rmdir ptr ptr
  | Vfs_mknod ptr ptr "16 word" "32 word"
  | Vfs_rename ptr ptr ptr ptr
  | Lower_readlink ptr ptr int
  | Inode_permission ptr int
  | Inode_change_ok ptr iattr
  | Inode_newsize_ok ptr int
  | Notify_change ptr iattr
  | Vfs_getattr path
  | Vfs_setxattr ptr block block int
  | Vfs_getxattr ptr block int
  | Vfs_listxattr ptr int
  | Vfs_removexattr ptr block
  | Vfs_statfs path
  | Vfs_path_lookup ptr "ptr option" block
  | Kern_path block
  | Lower_d_revalidate ptr "32 word"
  | Lower_fault ptr ptr ptr
  | Lower_page_mkwrite ptr ptr ptr
  | Register_filesystem
  | Unregister_filesystem

text \<open>Calls that return a pointer.\<close>

datatype (plugins only: code size) pcall =
    Kmalloc nat
  | Kzalloc nat
  | Filp_open block
  | Filp_open_trunc block
  | Dentry_open path "32 word"
  | Dget_parent ptr
  | Lock_rename ptr ptr
  | Igrab ptr
  | D_lookup ptr block
  | D_alloc ptr block
  | Mntget "ptr option"
  | Ilookup "ptr option" "64 word"
  | Kmem_cache_create_dentry
  | Kmem_cache_create_inode
  | Kmem_cache_zalloc_dentry
  | Kmem_cache_alloc_inode

text \<open>Calls whose result, if any, the code ignores.\<close>

datatype (plugins only: code size) vcall =
    Path_get path
  | Path_put path
  | Spin_lock ptr
  | Spin_unlock ptr
  | Inode_lock ptr
  | Inode_unlock ptr
  | Unlock_rename ptr ptr
  | Dget ptr
  | Dput ptr
  | Upper_dget_parent ptr
  | Upper_dput ptr
  | Get_file ptr
  | Fput ptr
  | Iput ptr
  | Upper_iput ptr
  | Kfree ptr
  | Filp_close ptr
  | Set_fs_kernel
  | Set_fs_old
  | D_add_negative ptr
  | D_rehash ptr
  | Unlock_new_inode ptr
  | Truncate_inode_pages ptr
  | Clear_inode ptr
  | File_accessed ptr
  | S_active_inc ptr
  | S_active_dec ptr
  | Lower_umount_begin ptr
  | Generic_shutdown_super
  | Kmem_cache_free_dentry ptr
  | Kmem_cache_free_inode ptr
  | Kmem_cache_destroy ptr
  | Set_delayed_call kptr

datatype event =
    Int_call icall int
  | Ptr_call pcall kptr
  | Void_call vcall

text \<open>
  The kernel. \<open>k_int\<close>, \<open>k_ptr\<close> and \<open>k_void\<close> perform the calls; \<open>k_fill\<close> gives the
  bytes a new allocation holds; the observers read the structures of lower objects; the
  remaining functions are the ones that work on trfs's own structures (\<open>fs/stack.c\<close>, the
  inode and dentry caches).
\<close>

record 'w kernel =
  k_int :: "icall \<Rightarrow> 'w \<Rightarrow> int \<times> 'w"
  k_ptr :: "pcall \<Rightarrow> 'w \<Rightarrow> kptr \<times> 'w"
  k_void :: "vcall \<Rightarrow> 'w \<Rightarrow> 'w"
  k_fill :: "'w \<Rightarrow> nat \<Rightarrow> block"
  k_linode :: "'w \<Rightarrow> ptr \<Rightarrow> linode"
  k_ldentry :: "'w \<Rightarrow> ptr \<Rightarrow> ldentry"
  k_lfile :: "'w \<Rightarrow> ptr \<Rightarrow> lfile"
  k_lsuper :: "'w \<Rightarrow> ptr \<Rightarrow> lsuper"
  k_dentry_path_raw :: "(ptr \<Rightarrow> dentry) \<Rightarrow> ptr \<Rightarrow> block \<Rightarrow> kptr \<times> block"
  k_attr_all :: "attr \<Rightarrow> attr \<Rightarrow> attr"
  k_attr_times :: "attr \<Rightarrow> attr \<Rightarrow> attr"
  k_attr_atime :: "attr \<Rightarrow> attr \<Rightarrow> attr"
  k_inode_size :: "attr \<Rightarrow> attr \<Rightarrow> attr"
  k_init_special :: "attr \<Rightarrow> 16 word \<Rightarrow> 32 word \<Rightarrow> attr"
  k_truncate_setsize :: "attr \<Rightarrow> int \<Rightarrow> attr"
  k_d_drop :: "dentry \<Rightarrow> dentry"
  k_iget5 :: "(ptr \<Rightarrow> bool) \<Rightarrow> 64 word \<Rightarrow> (ptr \<Rightarrow> inode) \<Rightarrow> 'w \<Rightarrow> kptr \<times> (ptr \<Rightarrow> inode) \<times> 'w"
  k_d_splice_alias :: "ptr \<Rightarrow> ptr \<Rightarrow> (ptr \<Rightarrow> dentry) \<Rightarrow> 'w \<Rightarrow> kptr \<times> (ptr \<Rightarrow> dentry) \<times> 'w"
  k_d_make_root :: "ptr \<Rightarrow> (ptr \<Rightarrow> dentry) \<Rightarrow> 'w \<Rightarrow> kptr \<times> (ptr \<Rightarrow> dentry) \<times> 'w"
  k_path_result :: "'w \<Rightarrow> path"
  k_vm_ops :: "'w \<Rightarrow> ptr \<Rightarrow> ptr option"

section \<open>The state\<close>

record 'w st =
  inodes :: "ptr \<Rightarrow> inode"
  dentries :: "ptr \<Rightarrow> dentry"
  files :: "ptr \<Rightarrow> kfile"
  vmas :: "ptr \<Rightarrow> vma"
  ki_filp :: "ptr \<Rightarrow> ptr"
  sb :: super_block
  world :: 'w
  log :: "event list"

text \<open>One kernel call: the world moves on and the log grows (newest entry first).\<close>

definition call_int :: "'w kernel \<Rightarrow> icall \<Rightarrow> 'w st \<Rightarrow> int \<times> 'w st" where
  "call_int K c s =
     (fst (k_int K c (world s)),
      s\<lparr>world := snd (k_int K c (world s)), log := Int_call c (fst (k_int K c (world s))) # log s\<rparr>)"

definition call_ptr :: "'w kernel \<Rightarrow> pcall \<Rightarrow> 'w st \<Rightarrow> kptr \<times> 'w st" where
  "call_ptr K c s =
     (fst (k_ptr K c (world s)),
      s\<lparr>world := snd (k_ptr K c (world s)), log := Ptr_call c (fst (k_ptr K c (world s))) # log s\<rparr>)"

definition call_void :: "'w kernel \<Rightarrow> vcall \<Rightarrow> 'w st \<Rightarrow> 'w st" where
  "call_void K c s = s\<lparr>world := k_void K c (world s), log := Void_call c # log s\<rparr>"

text \<open>A call whose C result type is \<open>int\<close>.\<close>

definition call_i32 :: "'w kernel \<Rightarrow> icall \<Rightarrow> 'w st \<Rightarrow> int \<times> 'w st" where
  "call_i32 K c s = (to_int (fst (call_int K c s)), snd (call_int K c s))"

lemmas call_defs' [call_simps] = call_int_def call_ptr_def call_void_def call_i32_def

text \<open>Updates of one object.\<close>

definition upd_inode :: "ptr \<Rightarrow> (inode \<Rightarrow> inode) \<Rightarrow> 'w st \<Rightarrow> 'w st" where
  "upd_inode i f s = s\<lparr>inodes := (inodes s)(i := f (inodes s i))\<rparr>"

definition upd_attrs :: "ptr \<Rightarrow> (attr \<Rightarrow> attr) \<Rightarrow> 'w st \<Rightarrow> 'w st" where
  "upd_attrs i f s = upd_inode i (\<lambda>n. n\<lparr>attrs := f (attrs n)\<rparr>) s"

definition upd_dentry :: "ptr \<Rightarrow> (dentry \<Rightarrow> dentry) \<Rightarrow> 'w st \<Rightarrow> 'w st" where
  "upd_dentry d f s = s\<lparr>dentries := (dentries s)(d := f (dentries s d))\<rparr>"

definition upd_file :: "ptr \<Rightarrow> (kfile \<Rightarrow> kfile) \<Rightarrow> 'w st \<Rightarrow> 'w st" where
  "upd_file fp f s = s\<lparr>files := (files s)(fp := f (files s fp))\<rparr>"

definition upd_sb :: "(super_block \<Rightarrow> super_block) \<Rightarrow> 'w st \<Rightarrow> 'w st" where
  "upd_sb f s = s\<lparr>sb := f (sb s)\<rparr>"

lemmas upd_defs [call_simps] = upd_inode_def upd_attrs_def upd_dentry_def upd_file_def upd_sb_def

section \<open>References, locks and allocations\<close>

text \<open>
  What a kernel caller takes and has to give back. \<open>held l r\<close> is how many of \<open>r\<close> the
  calls of the log \<open>l\<close> have taken and not given back.
\<close>

datatype resource =
    R_dentry ptr
  | R_mnt ptr
  | R_file ptr
  | R_linode ptr
  | R_ilock ptr
  | R_rename_lock ptr ptr
  | R_spin ptr
  | R_mem ptr
  | R_dinfo ptr
  | R_upper_dentry ptr
  | R_active ptr

definition path_ref :: "path \<Rightarrow> resource \<Rightarrow> int" where
  "path_ref p r =
     (case p_dentry p of None \<Rightarrow> 0 | Some d \<Rightarrow> of_bool (r = R_dentry d)) +
     (case p_mnt p of None \<Rightarrow> 0 | Some m \<Rightarrow> of_bool (r = R_mnt m))"

text \<open>What a successful call hands to its caller.\<close>

fun grant :: "pcall \<Rightarrow> ptr \<Rightarrow> resource option" where
  "grant (Kmalloc n) a = Some (R_mem a)"
| "grant (Kzalloc n) a = Some (R_mem a)"
| "grant (Filp_open f) a = Some (R_file a)"
| "grant (Filp_open_trunc f) a = Some (R_file a)"
| "grant (Dentry_open p fl) a = Some (R_file a)"
| "grant (Dget_parent d) a = Some (R_dentry a)"
| "grant (Igrab i) a = Some (R_linode a)"
| "grant (D_lookup d n) a = Some (R_dentry a)"
| "grant (D_alloc d n) a = Some (R_dentry a)"
| "grant (Mntget m) a = Some (R_mnt a)"
| "grant Kmem_cache_zalloc_dentry a = Some (R_dinfo a)"
| "grant _ a = None"

fun granted :: "pcall \<Rightarrow> kptr \<Rightarrow> resource \<Rightarrow> int" where
  "granted (Lock_rename d1 d2) p r = of_bool (r = R_rename_lock d1 d2)"
| "granted c p r =
     (case p of Ptr a \<Rightarrow> (case grant c a of None \<Rightarrow> 0 | Some q \<Rightarrow> of_bool (r = q)) | _ \<Rightarrow> 0)"

fun taken_void :: "vcall \<Rightarrow> resource \<Rightarrow> int" where
  "taken_void (Path_get p) r = path_ref p r"
| "taken_void (Path_put p) r = - path_ref p r"
| "taken_void (Spin_lock d) r = of_bool (r = R_spin d)"
| "taken_void (Spin_unlock d) r = - of_bool (r = R_spin d)"
| "taken_void (Inode_lock i) r = of_bool (r = R_ilock i)"
| "taken_void (Inode_unlock i) r = - of_bool (r = R_ilock i)"
| "taken_void (Unlock_rename d1 d2) r = - of_bool (r = R_rename_lock d1 d2)"
| "taken_void (Dget d) r = of_bool (r = R_dentry d)"
| "taken_void (Dput d) r = - of_bool (r = R_dentry d)"
| "taken_void (Upper_dget_parent d) r = of_bool (r = R_upper_dentry d)"
| "taken_void (Upper_dput d) r = - of_bool (r = R_upper_dentry d)"
| "taken_void (Get_file f) r = of_bool (r = R_file f)"
| "taken_void (Fput f) r = - of_bool (r = R_file f)"
| "taken_void (Filp_close f) r = - of_bool (r = R_file f)"
| "taken_void (Iput i) r = - of_bool (r = R_linode i)"
| "taken_void (Kfree a) r = - of_bool (r = R_mem a)"
| "taken_void (Kmem_cache_free_dentry a) r = - of_bool (r = R_dinfo a)"
| "taken_void (S_active_inc b) r = of_bool (r = R_active b)"
| "taken_void (S_active_dec b) r = - of_bool (r = R_active b)"
| "taken_void _ r = 0"

fun taken :: "event \<Rightarrow> resource \<Rightarrow> int" where
  "taken (Int_call c e) r = 0"
| "taken (Ptr_call c p) r = granted c p r"
| "taken (Void_call c) r = taken_void c r"

primrec held :: "event list \<Rightarrow> resource \<Rightarrow> int" where
  "held [] r = 0"
| "held (e # l) r = held l r + taken e r"

end
