(* ===== verification/Trfs_Header.thy ===== *)
theory Trfs_Header
  imports Kernel
begin

text \<open>
  The inline functions of \<open>src/fs/trfs/trfs.h\<close>: the private data of files, inodes,
  dentries and the super block, and the locking helpers. A function that follows a
  pointer is \<open>None\<close> where that pointer is NULL.
\<close>

section \<open>Files\<close>

definition trfs_lower_file :: "ptr \<Rightarrow> 'w st \<Rightarrow> ptr option option" where
  "trfs_lower_file f s = do {
     (a, info) \<leftarrow> private_data (files s f);
     Some (lower_file info)
   }"

definition trfs_set_lower_file :: "ptr \<Rightarrow> ptr option \<Rightarrow> 'w st \<Rightarrow> 'w st option" where
  "trfs_set_lower_file f val s = do {
     (a, info) \<leftarrow> private_data (files s f);
     Some (upd_file f (\<lambda>x. x\<lparr>private_data := Some (a, info\<lparr>lower_file := val\<rparr>)\<rparr>) s)
   }"

section \<open>Inodes\<close>

definition trfs_lower_inode :: "ptr \<Rightarrow> 'w st \<Rightarrow> ptr option" where
  "trfs_lower_inode i s = lower_inode (inodes s i)"

definition trfs_set_lower_inode :: "ptr \<Rightarrow> ptr option \<Rightarrow> 'w st \<Rightarrow> 'w st" where
  "trfs_set_lower_inode i val s = upd_inode i (\<lambda>n. n\<lparr>lower_inode := val\<rparr>) s"

section \<open>The super block\<close>

definition trfs_lower_super :: "'w st \<Rightarrow> ptr option option" where
  "trfs_lower_super s = do {
     (a, info) \<leftarrow> s_fs_info (sb s);
     Some (lower_sb info)
   }"

definition trfs_set_lower_super ::
  "ptr option \<Rightarrow> trfs_mount_path option \<Rightarrow> 32 word \<Rightarrow> 64 word \<Rightarrow> 'w st \<Rightarrow> 'w st option" where
  "trfs_set_lower_super val mt_path rec_id mk s = do {
     (a, info) \<leftarrow> s_fs_info (sb s);
     Some (upd_sb (\<lambda>b. b\<lparr>s_fs_info :=
       Some (a, \<lparr>lower_sb = val, mount_path = mt_path, sb_record_id = rec_id, mask = mk\<rparr>)\<rparr>) s)
   }"

section \<open>Lower paths\<close>

definition pathcpy :: "path \<Rightarrow> path" where
  "pathcpy src = \<lparr>p_dentry = p_dentry src, p_mnt = p_mnt src\<rparr>"

definition trfs_get_lower_path :: "'w kernel \<Rightarrow> ptr \<Rightarrow> 'w st \<Rightarrow> (path \<times> 'w st) option" where
  "trfs_get_lower_path K dent s = do {
     (a, info) \<leftarrow> d_fsdata (dentries s dent);
     let s = call_void K (Spin_lock dent) s;
     let p = pathcpy (lower_path info);
     let s = call_void K (Path_get p) s;
     let s = call_void K (Spin_unlock dent) s;
     Some (p, s)
   }"

definition trfs_put_lower_path :: "'w kernel \<Rightarrow> path \<Rightarrow> 'w st \<Rightarrow> 'w st" where
  "trfs_put_lower_path K p s = call_void K (Path_put p) s"

definition trfs_set_lower_path :: "'w kernel \<Rightarrow> ptr \<Rightarrow> path \<Rightarrow> 'w st \<Rightarrow> 'w st option" where
  "trfs_set_lower_path K dent p s = do {
     (a, info) \<leftarrow> d_fsdata (dentries s dent);
     let s = call_void K (Spin_lock dent) s;
     let s = upd_dentry dent (\<lambda>d. d\<lparr>d_fsdata := Some (a, info\<lparr>lower_path := pathcpy p\<rparr>)\<rparr>) s;
     Some (call_void K (Spin_unlock dent) s)
   }"

definition null_path :: path where
  "null_path = \<lparr>p_dentry = None, p_mnt = None\<rparr>"

definition trfs_reset_lower_path :: "'w kernel \<Rightarrow> ptr \<Rightarrow> 'w st \<Rightarrow> 'w st option" where
  "trfs_reset_lower_path K dent s = do {
     (a, info) \<leftarrow> d_fsdata (dentries s dent);
     let s = call_void K (Spin_lock dent) s;
     let s = upd_dentry dent (\<lambda>d. d\<lparr>d_fsdata := Some (a, info\<lparr>lower_path := null_path\<rparr>)\<rparr>) s;
     Some (call_void K (Spin_unlock dent) s)
   }"

definition trfs_put_reset_lower_path :: "'w kernel \<Rightarrow> ptr \<Rightarrow> 'w st \<Rightarrow> 'w st option" where
  "trfs_put_reset_lower_path K dent s = do {
     (a, info) \<leftarrow> d_fsdata (dentries s dent);
     let s = call_void K (Spin_lock dent) s;
     let p = pathcpy (lower_path info);
     let s = upd_dentry dent (\<lambda>d. d\<lparr>d_fsdata := Some (a, info\<lparr>lower_path := null_path\<rparr>)\<rparr>) s;
     let s = call_void K (Spin_unlock dent) s;
     Some (call_void K (Path_put p) s)
   }"

section \<open>Locking helpers\<close>

text \<open>The inode of a lower dentry, as \<open>d_inode\<close> reads it.\<close>

definition lower_d_inode :: "'w kernel \<Rightarrow> ptr \<Rightarrow> 'w st \<Rightarrow> ptr option" where
  "lower_d_inode K d s = ld_inode (k_ldentry K (world s) d)"

definition lock_parent :: "'w kernel \<Rightarrow> ptr option \<Rightarrow> 'w st \<Rightarrow> (ptr \<times> 'w st) option" where
  "lock_parent K dent s = do {
     d \<leftarrow> dent;
     let (p, s) = call_ptr K (Dget_parent d) s;
     dir \<leftarrow> deref p;
     i \<leftarrow> lower_d_inode K dir s;
     Some (dir, call_void K (Inode_lock i) s)
   }"

definition unlock_dir :: "'w kernel \<Rightarrow> ptr \<Rightarrow> 'w st \<Rightarrow> 'w st option" where
  "unlock_dir K dir s = do {
     i \<leftarrow> lower_d_inode K dir s;
     let s = call_void K (Inode_unlock i) s;
     Some (call_void K (Dput dir) s)
   }"

section \<open>Freeing a local pointer unless it is NULL\<close>

definition kfree_local :: "'w kernel \<Rightarrow> ptr option \<Rightarrow> 'w st \<Rightarrow> 'w st" where
  "kfree_local K p s = (case p of None \<Rightarrow> s | Some a \<Rightarrow> call_void K (Kfree a) s)"

end
