(* ===== verification/Tracer.thy ===== *)
theory Tracer
  imports Trfs_Header
begin

text \<open>
  The tracing code that the twelve traced operations of \<open>src/fs/trfs/file.c\<close> and
  \<open>src/fs/trfs/inode.c\<close> repeat: the test of the bitmap, the two allocations, the paths,
  the record, the writes to the trace file and the record counter.
\<close>

section \<open>The local pointers of a traced operation\<close>

record trace_locals =
  l_trace_str :: "ptr option"
  l_buffer :: "ptr option"
  l_writer :: "ptr option"

definition no_locals :: trace_locals where
  "no_locals = \<lparr>l_trace_str = None, l_buffer = None, l_writer = None\<rparr>"

text \<open>The two orders in which the operations free them.\<close>

definition free_str_buffer_writer :: "'w kernel \<Rightarrow> trace_locals \<Rightarrow> 'w st \<Rightarrow> 'w st" where
  "free_str_buffer_writer K l s =
     kfree_local K (l_writer l) (kfree_local K (l_buffer l) (kfree_local K (l_trace_str l) s))"

definition free_str_writer_buffer :: "'w kernel \<Rightarrow> trace_locals \<Rightarrow> 'w st \<Rightarrow> 'w st" where
  "free_str_writer_buffer K l s =
     kfree_local K (l_buffer l) (kfree_local K (l_writer l) (kfree_local K (l_trace_str l) s))"

section \<open>The trace block\<close>

text \<open>
  The second path of a record: none, one that \<open>dentry_path_raw\<close> builds in the same
  buffer as the first (link, rename), or a string the caller gave (symlink).
\<close>

datatype second_path = No_second | Same_buffer ptr | Given_string block

text \<open>
  \<open>dentry_path_raw\<close> on a buffer and \<open>strlen\<close> of its result: the new buffer, the place of
  the path in it and its length. An error pointer has no length.
\<close>

definition path_in_buffer ::
  "'w kernel \<Rightarrow> (ptr \<Rightarrow> dentry) \<Rightarrow> ptr \<Rightarrow> block \<Rightarrow> (block \<times> nat \<times> nat) option" where
  "path_in_buffer K ds d buf = do {
     let (p, buf) = k_dentry_path_raw K ds d buf;
     off \<leftarrow> deref p;
     n \<leftarrow> strlen (drop off buf);
     Some (buf, off, n)
   }"

text \<open>A \<open>short\<close> length passed as the \<open>size_t\<close> argument of \<open>vfs_write\<close>.\<close>

definition short_count :: "nat \<Rightarrow> 64 word" where
  "short_count n = scast (of_nat n :: 16 word)"

definition trace_write :: "'w kernel \<Rightarrow> ptr \<Rightarrow> block \<Rightarrow> 64 word \<Rightarrow> 'w st \<Rightarrow> 'w st" where
  "trace_write K file_op data n s = snd (call_int K (Vfs_write file_op data n Own_offset) s)"

text \<open>The buffer of 256 bytes and the paths of the record.\<close>

definition trace_paths ::
  "'w kernel \<Rightarrow> ptr \<Rightarrow> second_path \<Rightarrow> 'w st \<Rightarrow> (ptr \<times> (block \<times> nat) \<times> (block \<times> nat) \<times> 'w st) option" where
  "trace_paths K d1 second s = do {
     let (bp, s) = call_ptr K (Kmalloc 256) s;
     buffer \<leftarrow> deref bp;
     (buf, off1, len1) \<leftarrow> path_in_buffer K (dentries s) d1 (k_fill K (world s) buffer);
     (case second of
         No_second \<Rightarrow> Some (buffer, (drop off1 buf, len1), ([], 0), s)
       | Same_buffer d2 \<Rightarrow> do {
           (buf, off2, len2) \<leftarrow> path_in_buffer K (dentries s) d2 buf;
           Some (buffer, (drop off1 buf, len1), (drop off2 buf, len2), s) }
       | Given_string str \<Rightarrow> Some (buffer, (drop off1 buf, len1), (str, length str), s))
   }"

text \<open>The members of the record.\<close>

definition new_record ::
  "nat \<Rightarrow> 32 word \<Rightarrow> 16 word \<Rightarrow> int \<Rightarrow> 32 word \<Rightarrow> nat \<Rightarrow> nat \<Rightarrow> block option \<Rightarrow> trfs_trace_ds" where
  "new_record rec_type oflags perm_mode er rec_id len1 len2 content =
     \<lparr>path_len1 = of_nat len1, path_len2 = of_nat len2,
      write_len = (case content of None \<Rightarrow> 0 | Some _ \<Rightarrow> word_of_int er),
      record_id = rec_id, record_type = of_nat rec_type, open_flags = oflags,
      permission_mode = perm_mode, err = word_of_int er\<rparr>"

text \<open>The writes to the trace file: the structure, the paths, the written bytes.\<close>

definition trace_writes ::
  "'w kernel \<Rightarrow> ptr \<Rightarrow> block \<Rightarrow> block \<times> nat \<Rightarrow> second_path \<Rightarrow> block \<times> nat \<Rightarrow> block option \<Rightarrow> int \<Rightarrow>
   'w st \<Rightarrow> 'w st" where
  "trace_writes K file_op bytes p1 second p2 content er s =
     (let s = trace_write K file_op bytes (of_nat trace_ds_size) s;
          s = trace_write K file_op (fst p1) (short_count (snd p1)) s;
          s = (if second = No_second then s
               else trace_write K file_op (fst p2) (short_count (snd p2)) s)
      in (case content of None \<Rightarrow> s
          | Some data \<Rightarrow> trace_write K file_op data (word_of_int er) s))"

definition trace_block ::
  "'w kernel \<Rightarrow> nat \<Rightarrow> 32 word \<Rightarrow> 16 word \<Rightarrow> int \<Rightarrow> ptr \<Rightarrow> second_path \<Rightarrow> block option \<Rightarrow>
   'w st \<Rightarrow> (trace_locals \<times> 'w st) option" where
  "trace_block K rec_type oflags perm_mode er d1 second content s = do {
     (sa, info) \<leftarrow> s_fs_info (sb s);
     mp \<leftarrow> mount_path info;
     (fa, filename) \<leftarrow> tfile_path mp;
     let rec_id = sb_record_id info;
     (buffer, p1, p2, s) \<leftarrow> trace_paths K d1 second s;
     let (fp, s) = call_ptr K (Filp_open filename) s;
     let (tp, s) = call_ptr K (Kmalloc trace_ds_size) s;
     trace_str \<leftarrow> deref tp;
     let fresh = k_fill K (world s) trace_str;
     let s = call_void K Set_fs_kernel s;
     let bytes = fill_trace_ds
       (new_record rec_type oflags perm_mode er rec_id (snd p1) (snd p2) content) fresh;
     let (wp, s) = call_ptr K (Kmalloc trace_ds_size) s;
     writer \<leftarrow> deref wp;
     file_op \<leftarrow> deref fp;
     let s = trace_writes K file_op bytes p1 second p2 content er s;
     let s = call_void K Set_fs_old s;
     let s = call_void K (Filp_close file_op) s;
     let s = upd_sb (\<lambda>b. b\<lparr>s_fs_info := Some (sa, info\<lparr>sb_record_id := rec_id + 1\<rparr>)\<rparr>) s;
     Some (\<lparr>l_trace_str = Some trace_str, l_buffer = Some buffer, l_writer = Some writer\<rparr>, s)
   }"

text \<open>
  The test of the bitmap around it. \<open>flds\<close> are the open flags and the permission mode
  the operation records; where they are read through a pointer, they are \<open>None\<close> if that
  pointer is NULL.
\<close>

definition traced :: "nat \<Rightarrow> 64 word \<Rightarrow> bool" where
  "traced rec_type mk \<longleftrightarrow> drop_bit rec_type mk AND 1 = 1"

definition trace_op ::
  "'w kernel \<Rightarrow> nat \<Rightarrow> (32 word \<times> 16 word) option \<Rightarrow> int \<Rightarrow> ptr \<Rightarrow> second_path \<Rightarrow> block option \<Rightarrow>
   'w st \<Rightarrow> (trace_locals \<times> 'w st) option" where
  "trace_op K rec_type flds er d1 second content s = do {
     (sa, info) \<leftarrow> s_fs_info (sb s);
     if traced rec_type (mask info) then do {
       (oflags, perm_mode) \<leftarrow> flds;
       trace_block K rec_type oflags perm_mode er d1 second content s
     } else Some (no_locals, s)
   }"

lemma traced_bit: "traced rec_type mk \<longleftrightarrow> bit mk rec_type"
  by (simp add: traced_def and_one_eq mod_2_eq_odd bit_iff_odd_drop_bit)

section \<open>What the trace relies on\<close>

text \<open>
  The content \<open>tf\<close> of the trace file \<open>name\<close>, where \<open>th\<close> tells which open files are it:
  \<open>filp_open\<close> of that name returns such a file, opened for appending; writing to it
  appends the bytes (a negative count is refused); no other call changes it, opening with
  truncation apart.
\<close>

definition on_trace_file :: "(ptr \<Rightarrow> bool) \<Rightarrow> icall \<Rightarrow> bool" where
  "on_trace_file th c = (case c of Vfs_write f b n p \<Rightarrow> th f | _ \<Rightarrow> False)"

definition trace_file_ok :: "'w kernel \<Rightarrow> block \<Rightarrow> ('w \<Rightarrow> block) \<Rightarrow> (ptr \<Rightarrow> bool) \<Rightarrow> bool" where
  "trace_file_ok K name tf th \<longleftrightarrow>
     (\<forall>c w. \<not> on_trace_file th c \<longrightarrow> tf (snd (k_int K c w)) = tf w) \<and>
     (\<forall>f b n w. th f \<longrightarrow> tf (snd (k_int K (Vfs_write f b n Own_offset) w)) =
        (if sint n < 0 then tf w else tf w @ take (unat n) b)) \<and>
     (\<forall>c w. c \<noteq> Filp_open_trunc name \<longrightarrow> tf (snd (k_ptr K c w)) = tf w) \<and>
     (\<forall>w. tf (snd (k_ptr K (Filp_open_trunc name) w)) = []) \<and>
     (\<forall>w h. fst (k_ptr K (Filp_open name) w) = Ptr h \<longrightarrow> th h) \<and>
     (\<forall>c w. tf (k_void K c w) = tf w) \<and>
     (\<forall>t h ns w. tf (snd (snd (k_iget5 K t h ns w))) = tf w) \<and>
     (\<forall>i d ds w. tf (snd (snd (k_d_splice_alias K i d ds w))) = tf w) \<and>
     (\<forall>i ds w. tf (snd (snd (k_d_make_root K i ds w))) = tf w)"

text \<open>\<open>kmalloc\<close> returns a block of the size asked for.\<close>

definition kmalloc_ok :: "'w kernel \<Rightarrow> bool" where
  "kmalloc_ok K \<longleftrightarrow>
     (\<forall>n w a. fst (k_ptr K (Kmalloc n) w) = Ptr a \<longrightarrow>
        length (k_fill K (snd (k_ptr K (Kmalloc n) w)) a) = n)"

text \<open>
  \<open>dentry_path_raw\<close> builds the path, NUL-terminated, at the end of the buffer and returns
  where it starts; a path that does not fit is refused with an error pointer.
  \<open>path_of\<close> is the path of a dentry below the mount point; giving a dentry its inode does
  not move it.
\<close>

definition dentry_path_ok :: "'w kernel \<Rightarrow> ((ptr \<Rightarrow> dentry) \<Rightarrow> ptr \<Rightarrow> block) \<Rightarrow> bool" where
  "dentry_path_ok K path_of \<longleftrightarrow>
     (\<forall>ds d buf. 0 \<notin> set (path_of ds d) \<and>
        (if length (path_of ds d) < length buf
         then k_dentry_path_raw K ds d buf =
           (Ptr (length buf - 1 - length (path_of ds d)),
            take (length buf - 1 - length (path_of ds d)) buf @ path_of ds d @ [0])
         else \<exists>e buf'. k_dentry_path_raw K ds d buf = (Err_ptr e, buf'))) \<and>
     (\<forall>i d ds w. path_of (fst (snd (k_d_splice_alias K i d ds w))) = path_of ds)"

text \<open>All of it together.\<close>

definition tracing_env ::
  "'w kernel \<Rightarrow> block \<Rightarrow> ('w \<Rightarrow> block) \<Rightarrow> (ptr \<Rightarrow> bool) \<Rightarrow> ((ptr \<Rightarrow> dentry) \<Rightarrow> ptr \<Rightarrow> block) \<Rightarrow> bool" where
  "tracing_env K name tf th path_of \<longleftrightarrow>
     trace_file_ok K name tf th \<and> kmalloc_ok K \<and> dentry_path_ok K path_of"

section \<open>Folded effects of the kernel calls\<close>

text \<open>What a call leaves of each component of the state, with the call itself kept folded.\<close>

lemma call_void_frame [simp]:
  "inodes (call_void K c s) = inodes s" "dentries (call_void K c s) = dentries s"
  "files (call_void K c s) = files s" "sb (call_void K c s) = sb s"
  "log (call_void K c s) = Void_call c # log s"
  by (simp_all add: call_void_def)

lemma call_int_frame [simp]:
  "inodes (snd (call_int K c s)) = inodes s" "dentries (snd (call_int K c s)) = dentries s"
  "files (snd (call_int K c s)) = files s" "sb (snd (call_int K c s)) = sb s"
  "log (snd (call_int K c s)) = Int_call c (fst (call_int K c s)) # log s"
  by (simp_all add: call_int_def)

lemma call_i32_frame [simp]:
  "inodes (snd (call_i32 K c s)) = inodes s" "dentries (snd (call_i32 K c s)) = dentries s"
  "files (snd (call_i32 K c s)) = files s" "sb (snd (call_i32 K c s)) = sb s"
  "log (snd (call_i32 K c s)) = Int_call c (fst (call_int K c s)) # log s"
  by (simp_all add: call_i32_def)

lemma call_i32_range [simp]: "- (2 ^ 31) \<le> fst (call_i32 K c s)" "fst (call_i32 K c s) < 2 ^ 31"
  using to_int_range by (auto simp: call_i32_def)

lemma call_ptr_frame [simp]:
  "inodes (snd (call_ptr K c s)) = inodes s" "dentries (snd (call_ptr K c s)) = dentries s"
  "files (snd (call_ptr K c s)) = files s" "sb (snd (call_ptr K c s)) = sb s"
  "log (snd (call_ptr K c s)) = Ptr_call c (fst (call_ptr K c s)) # log s"
  by (simp_all add: call_ptr_def)

lemma upd_frame [simp]:
  "world (upd_inode i f s) = world s" "world (upd_attrs i g s) = world s"
  "world (upd_dentry d h s) = world s" "world (upd_file fp k s) = world s"
  "world (upd_sb m s) = world s"
  "log (upd_inode i f s) = log s" "log (upd_attrs i g s) = log s"
  "log (upd_dentry d h s) = log s" "log (upd_file fp k s) = log s" "log (upd_sb m s) = log s"
  "sb (upd_inode i f s) = sb s" "sb (upd_attrs i g s) = sb s"
  "sb (upd_dentry d h s) = sb s" "sb (upd_file fp k s) = sb s" "sb (upd_sb m s) = m (sb s)"
  "dentries (upd_inode i f s) = dentries s" "dentries (upd_attrs i g s) = dentries s"
  "dentries (upd_file fp k s) = dentries s" "dentries (upd_sb m s) = dentries s"
  "dentries (upd_dentry d h s) = (dentries s)(d := h (dentries s d))"
  "files (upd_inode i f s) = files s" "files (upd_attrs i g s) = files s"
  "files (upd_dentry d h s) = files s" "files (upd_sb m s) = files s"
  "files (upd_file fp k s) = (files s)(fp := k (files s fp))"
  "inodes (upd_dentry d h s) = inodes s" "inodes (upd_file fp k s) = inodes s"
  "inodes (upd_sb m s) = inodes s"
  "inodes (upd_inode i f s) = (inodes s)(i := f (inodes s i))"
  "inodes (upd_attrs i g s) = (inodes s)(i := (inodes s i)\<lparr>attrs := g (attrs (inodes s i))\<rparr>)"
  by (simp_all add: upd_defs)

lemma kfree_local_frame [simp]:
  "inodes (kfree_local K p s) = inodes s" "dentries (kfree_local K p s) = dentries s"
  "files (kfree_local K p s) = files s" "sb (kfree_local K p s) = sb s"
  by (simp_all add: kfree_local_def split: option.splits)

lemma free_locals_frame [simp]:
  "sb (free_str_buffer_writer K l s) = sb s" "sb (free_str_writer_buffer K l s) = sb s"
  "files (free_str_buffer_writer K l s) = files s" "files (free_str_writer_buffer K l s) = files s"
  "inodes (free_str_buffer_writer K l s) = inodes s"
  "inodes (free_str_writer_buffer K l s) = inodes s"
  "dentries (free_str_buffer_writer K l s) = dentries s"
  "dentries (free_str_writer_buffer K l s) = dentries s"
  by (simp_all add: free_str_buffer_writer_def free_str_writer_buffer_def)

text \<open>The trace file under the calls of the model.\<close>

lemma trace_file_calls:
  assumes "trace_file_ok K name tf th"
  shows "tf (world (call_void K c s)) = tf (world s)"
    and "\<not> on_trace_file th ci \<Longrightarrow>
         tf (world (snd (call_int K ci s))) = tf (world s)"
    and "cp \<noteq> Filp_open_trunc name \<Longrightarrow> tf (world (snd (call_ptr K cp s))) = tf (world s)"
    and "tf (world (kfree_local K p s)) = tf (world s)"
    and "\<not> on_trace_file th ci \<Longrightarrow> tf (world (snd (call_i32 K ci s))) = tf (world s)"
  using assms
  by (auto simp: trace_file_ok_def call_void_def call_int_def call_i32_def call_ptr_def kfree_local_def
      split: option.splits)

lemma trace_file_free_locals:
  assumes "trace_file_ok K name tf th"
  shows "tf (world (free_str_buffer_writer K l s)) = tf (world s)"
    and "tf (world (free_str_writer_buffer K l s)) = tf (world s)"
  by (simp_all add: free_str_buffer_writer_def free_str_writer_buffer_def
      trace_file_calls(4) [OF assms])

lemma trace_write_appends:
  assumes "trace_file_ok K name tf th" "th f"
  shows "tf (world (trace_write K f b n s)) =
    (if sint n < 0 then tf (world s) else tf (world s) @ take (unat n) b)"
  using assms by (simp add: trace_file_ok_def trace_write_def call_int_def)

lemma trace_write_frame [simp]:
  "inodes (trace_write K f b n s) = inodes s" "dentries (trace_write K f b n s) = dentries s"
  "files (trace_write K f b n s) = files s" "sb (trace_write K f b n s) = sb s"
  "held (log (trace_write K f b n s)) r = held (log s) r"
  by (simp_all add: trace_write_def)

lemma short_count_small:
  assumes "n < 2 ^ 15"
  shows "sint (short_count n) = int n" "unat (short_count n) = n"
proof -
  have "sint (scast (of_nat n :: 16 word) :: 64 word) = int n"
    using assms by (simp add: signed_scast_eq sint_word16_of_nat signed_take_bit_int_eq_self sint_sbintrunc')
  then show *: "sint (short_count n) = int n" by (simp add: short_count_def)
  have "uint (short_count n) = int n"
    using * uint_sint [of "short_count n"] assms by (simp add: take_bit_int_eq_self)
  then show "unat (short_count n) = n" by (simp add: unat_eq_nat_uint)
qed


section \<open>Effect of the trace block\<close>

lemma path_in_buffer_ok:
  assumes "dentry_path_ok K path_of"
  shows "path_in_buffer K ds d buf =
    (let p = path_of ds d; off = length buf - 1 - length p in
     if length p < length buf then Some (take off buf @ p @ [0], off, length p) else None)"
proof (cases "length (path_of ds d) < length buf")
  case True
  let ?off = "length buf - 1 - length (path_of ds d)"
  have nn: "0 \<notin> set (path_of ds d)" using assms by (simp add: dentry_path_ok_def)
  have eq: "k_dentry_path_raw K ds d buf = (Ptr ?off, take ?off buf @ path_of ds d @ [0])"
    using assms True by (simp add: dentry_path_ok_def)
  have "drop ?off (take ?off buf @ path_of ds d @ [0]) = path_of ds d @ [0]"
    using True by simp
  then show ?thesis using True strlen_nul [OF nn, of "[]"]
    by (simp add: path_in_buffer_def eq Let_def)
next
  case False
  then obtain e buf' where "k_dentry_path_raw K ds d buf = (Err_ptr e, buf')"
    using assms unfolding dentry_path_ok_def by metis
  with False show ?thesis by (simp add: path_in_buffer_def)
qed

text \<open>
  The bytes at the first path's place once the second path has been built at the end of
  the same buffer: what is left of the first path, then the second one.
\<close>

definition overwritten :: "block \<Rightarrow> block \<Rightarrow> block" where
  "overwritten p1 p2 =
     (if length p1 \<le> length p2 then drop (length p2 - length p1) p2
      else take (length p1 - length p2) p1 @ p2)"

lemma length_overwritten [simp]: "length (overwritten p1 p2) = length p1"
  by (simp add: overwritten_def)

lemma overwritten_drop:
  assumes "length p1 < n" "length p2 < n" "length buf = n"
  shows "drop (n - 1 - length p1) (take (n - 1 - length p2) (take (n - 1 - length p1) buf @ p1 @ [0]) @ p2 @ [0])
    = overwritten p1 p2 @ [0]"
  using assms by (auto simp: overwritten_def)

text \<open>The two strings of a record, where \<open>pf\<close> gives the path of each dentry.\<close>

fun first_string :: "(ptr \<Rightarrow> block) \<Rightarrow> ptr \<Rightarrow> second_path \<Rightarrow> block" where
  "first_string pf d1 (Same_buffer d2) = overwritten (pf d1) (pf d2)"
| "first_string pf d1 _ = pf d1"

fun second_string :: "(ptr \<Rightarrow> block) \<Rightarrow> second_path \<Rightarrow> block" where
  "second_string pf No_second = []"
| "second_string pf (Same_buffer d2) = pf d2"
| "second_string pf (Given_string str) = str"

lemma trace_paths_frame:
  assumes "trace_paths K d1 second s = Some (b, p1, p2, s')"
  shows "inodes s' = inodes s" "dentries s' = dentries s" "files s' = files s" "sb s' = sb s"
    "held (log s') r = held (log s) r + of_bool (r = R_mem b)"
    "world s' = world (snd (call_ptr K (Kmalloc 256) s))"
  using assms
  by (cases second; auto simp: trace_paths_def bind_eq_Some_conv case_prod_beta Let_def)+

lemma trace_writes_frame [simp]:
  "inodes (trace_writes K f b p1 sec p2 c er s) = inodes s"
  "dentries (trace_writes K f b p1 sec p2 c er s) = dentries s"
  "files (trace_writes K f b p1 sec p2 c er s) = files s"
  "sb (trace_writes K f b p1 sec p2 c er s) = sb s"
  "held (log (trace_writes K f b p1 sec p2 c er s)) r = held (log s) r"
  by (simp_all add: trace_writes_def Let_def split: option.splits)

lemma trace_block_frame:
  assumes "trace_block K rt fl pm er d1 second content s = Some (l, s')"
  shows "inodes s' = inodes s \<and> dentries s' = dentries s \<and> files s' = files s \<and>
    (\<exists>sa info. s_fs_info (sb s) = Some (sa, info) \<and>
       sb s' = (sb s)\<lparr>s_fs_info := Some (sa, info\<lparr>sb_record_id := sb_record_id info + 1\<rparr>)\<rparr>)"
  using assms
  by (auto simp: trace_block_def bind_eq_Some_conv case_prod_beta Let_def dest: trace_paths_frame)


text \<open>The allocations the local pointers stand for.\<close>

definition mem_ref :: "ptr option \<Rightarrow> resource \<Rightarrow> int" where
  "mem_ref p r = (case p of None \<Rightarrow> 0 | Some a \<Rightarrow> of_bool (r = R_mem a))"

definition locals_held :: "trace_locals \<Rightarrow> resource \<Rightarrow> int" where
  "locals_held l r = mem_ref (l_trace_str l) r + mem_ref (l_buffer l) r + mem_ref (l_writer l) r"

lemma trace_block_held:
  assumes "trace_block K rt fl pm er d1 second content s = Some (l, s')"
  shows "held (log s') r = held (log s) r + locals_held l r"
  using assms
  by (clarsimp simp: trace_block_def bind_eq_Some_conv case_prod_beta Let_def locals_held_def mem_ref_def
     trace_paths_frame(5)[where r = r])
    
lemma trace_op_held:
  assumes "trace_op K rt flds er d1 second content s = Some (l, s')"
  shows "held (log s') r = held (log s) r + locals_held l r"
  using assms
  by (auto simp: trace_op_def bind_eq_Some_conv no_locals_def locals_held_def mem_ref_def
      dest: trace_block_held [where r = r] split: if_splits)

lemma free_held [simp]:
  "held (log (kfree_local K p s)) r = held (log s) r - mem_ref p r"
  "held (log (free_str_buffer_writer K l s)) r = held (log s) r - locals_held l r"
  "held (log (free_str_writer_buffer K l s)) r = held (log s) r - locals_held l r"
  by (simp_all add: kfree_local_def free_str_buffer_writer_def free_str_writer_buffer_def
      locals_held_def mem_ref_def split: option.splits)


lemma path_in_buffer_SomeD:
  assumes "dentry_path_ok K path_of" "path_in_buffer K ds d buf = Some (buf', off, n)" 
  shows "n = length (path_of ds d)" "n < length buf" "off = length buf - 1 - n"
    "buf' = take off buf @ path_of ds d @ [0]" "length buf' = length buf"
    "drop off buf' = path_of ds d @ [0]" "0 \<notin> set (path_of ds d)"
  using assms(2) assms(1) by (auto simp: path_in_buffer_ok [OF assms(1)] Let_def dentry_path_ok_def split: if_splits)

lemma trace_paths_strings:
  assumes env: "tracing_env K name tf th path_of"
    and run: "trace_paths K d1 second s = Some (b, p1, p2, s')"
  shows "fst p1 = first_string (path_of (dentries s)) d1 second @ [0] \<and>
    snd p1 = length (first_string (path_of (dentries s)) d1 second) \<and>
    take (snd p2) (fst p2) = second_string (path_of (dentries s)) second \<and>
    snd p2 = length (second_string (path_of (dentries s)) second) \<and> snd p1 < 256 \<and>
    (\<forall>d. second = Same_buffer d \<longrightarrow> snd p2 < 256)"
proof -
  have dp: "dentry_path_ok K path_of" and km: "kmalloc_ok K"
    using env by (simp_all add: tracing_env_def)
  let ?s = "snd (call_ptr K (Kmalloc 256) s)" 
  obtain a buf off n where a: "fst (call_ptr K (Kmalloc 256) s) = Ptr a" and
    pib: "path_in_buffer K (dentries s) d1 (k_fill K (world ?s) a) = Some (buf, off, n)"
    using run by (auto simp: trace_paths_def bind_eq_Some_conv case_prod_beta Let_def)
  have len: "length (k_fill K (world ?s) a) = 256"
    using km a by (simp add: kmalloc_ok_def call_ptr_def)
  note D = path_in_buffer_SomeD [OF dp pib, unfolded len]
  show ?thesis
  proof (cases second)
    case No_second
    with run a pib have "p1 = (drop off buf, n)" "p2 = ([], 0)"
      by (simp_all add: trace_paths_def case_prod_beta Let_def)
    with No_second D(1,2,6) show ?thesis by simp
  next
    case (Given_string str)
    with run a pib have "p1 = (drop off buf, n)" "p2 = (str, length str)"
      by (simp_all add: trace_paths_def case_prod_beta Let_def)
    with Given_string D(1,2,6) show ?thesis by simp
  next
    case (Same_buffer d2)
    with run a pib obtain buf2 off2 n2 where
      pib2: "path_in_buffer K (dentries s) d2 buf = Some (buf2, off2, n2)" and
      p: "p1 = (drop off buf2, n)" "p2 = (drop off2 buf2, n2)"
      by (auto simp: trace_paths_def bind_eq_Some_conv case_prod_beta Let_def)
    note D2 = path_in_buffer_SomeD [OF dp pib2, unfolded D(5)]
    have "drop off buf2 = overwritten (path_of (dentries s) d1) (path_of (dentries s) d2) @ [0]"
      unfolding D2(4) D2(3) D(4) D(3) D2(1) D(1)
      by (rule overwritten_drop [OF D(2) [unfolded D(1)] D2(2) [unfolded D2(1)] len])
    then show ?thesis using p D(1,2) D2(1,2,6) Same_buffer by simp
  qed
qed

text \<open>The entry a traced call adds.\<close>

definition trace_entry_of ::
  "(ptr \<Rightarrow> block) \<Rightarrow> nat \<Rightarrow> 32 word \<Rightarrow> 16 word \<Rightarrow> int \<Rightarrow> 32 word \<Rightarrow>
   ptr \<Rightarrow> second_path \<Rightarrow> block option \<Rightarrow> trace_entry" where
  "trace_entry_of pf rec_type oflags perm_mode er rec_id d1 second content =
     (let p1 = first_string pf d1 second; p2 = second_string pf second in
      \<lparr>te_ds = new_record rec_type oflags perm_mode er rec_id (length p1) (length p2) content,
       te_path1 = p1, te_path2 = p2,
       te_content = (case content of None \<Rightarrow> [] | Some data \<Rightarrow> take (nat er) data)\<rparr>)"

lemma trace_writes_appends:
  assumes ok: "trace_file_ok K name tf th" "th f"
    and p1: "fst p1 = s1 @ [0]" "snd p1 = length s1" "length s1 < 2 ^ 15"
    and p2: "take (snd p2) (fst p2) = s2" "snd p2 = length s2" "length s2 < 2 ^ 15"
    and sec: "sec = No_second \<Longrightarrow> s2 = []"
    and er: "- (2 ^ 31) \<le> er" "er < 2 ^ 31" and len: "length bytes = 28"
  shows "tf (world (trace_writes K f bytes p1 sec p2 content er s)) =
    tf (world s) @ bytes @ s1 @ s2 @ (case content of None \<Rightarrow> [] | Some data \<Rightarrow> take (nat er) data)"
proof -
  note app = trace_write_appends [OF ok]
  have er': "sint (word_of_int er :: 64 word) = er"
    using er by (simp add: sint_sbintrunc' signed_take_bit_int_eq_self)
  have ern: "unat (word_of_int er :: 64 word) = nat er" if "0 \<le> er"
    using er that by (simp add: unat_eq_nat_uint uint_word_of_int_eq take_bit_int_eq_self)
  show ?thesis
    using p1 p2 sec len
    by (auto simp: trace_writes_def Let_def app short_count_small er' ern split: option.splits)
qed

lemma trace_block_appends:
  assumes env: "tracing_env K name tf th path_of"
    and run: "trace_block K rt fl pm er d1 second content s = Some (l, s')"
    and sb: "s_fs_info (sb s) = Some (sa, info)" "mount_path info = Some mp" "tfile_path mp = Some (fa, name)"
    and er: "- (2 ^ 31) \<le> er" "er < 2 ^ 31"
    and len: "\<And>str. second = Given_string str \<Longrightarrow> length str < 2 ^ 15"
  shows "\<exists>pad. length pad = 28 \<and> tf (world s') = tf (world s) @
    entry_bytes pad (trace_entry_of (path_of (dentries s)) rt fl pm er (sb_record_id info) d1 second content)"
proof -
  have ok: "trace_file_ok K name tf th" and km: "kmalloc_ok K"
    using env by (simp_all add: tracing_env_def)
  obtain b p1 p2 s1 t h where
    tp: "trace_paths K d1 second s = Some (b, p1, p2, s1)" and
    h: "fst (call_ptr K (Filp_open name) s1) = Ptr h" and
    t: "fst (call_ptr K (Kmalloc 28) (snd (call_ptr K (Filp_open name) s1))) = Ptr t" 
    using run sb by (auto simp: trace_block_def bind_eq_Some_conv case_prod_beta Let_def)
  let ?s2 = "snd (call_ptr K (Kmalloc 28) (snd (call_ptr K (Filp_open name) s1)))"
  let ?pad = "k_fill K (world ?s2) t"
  let ?s3 = "snd (call_ptr K (Kmalloc 28) (call_void K Set_fs_kernel ?s2))"
  note str = trace_paths_strings [OF env tp]
  let ?r = "new_record rt fl pm er (sb_record_id info) (snd p1) (snd p2) content"
  have tfs': "tf (world s') = tf (world (trace_writes K h (fill_trace_ds ?r ?pad) p1 second p2 content er ?s3))"
    using run sb tp h t
    by (auto simp: trace_block_def bind_eq_Some_conv case_prod_beta Let_def trace_file_calls [OF ok])
  have pad: "length ?pad = 28" using km t by (simp add: kmalloc_ok_def call_ptr_def)
  have "th h" using ok h by (simp add: trace_file_ok_def call_ptr_def)
  have s3: "tf (world ?s3) = tf (world s)"
    using trace_paths_frame(6) [OF tp] by (simp add: trace_file_calls [OF ok])
  have l2: "length (second_string (path_of (dentries s)) second) < 2 ^ 15"
    using str len by (cases second) auto
  have "tf (world (trace_writes K h (fill_trace_ds ?r ?pad) p1 second p2 content er ?s3)) =
    tf (world ?s3) @ fill_trace_ds ?r ?pad @ first_string (path_of (dentries s)) d1 second @
    second_string (path_of (dentries s)) second @
    (case content of None \<Rightarrow> [] | Some data \<Rightarrow> take (nat er) data)"
    by (rule trace_writes_appends [OF ok \<open>th h\<close>]) (use str l2 er pad in auto)
  with pad s3 tfs' str show ?thesis
    by (intro exI [where x = ?pad]) (simp add: entry_bytes_def trace_entry_of_def Let_def)
qed


section \<open>The traced call as a whole\<close>

text \<open>The mounted file system: its trace file is \<open>name\<close>.\<close>

definition mounted :: "'w st \<Rightarrow> block \<Rightarrow> trfs_sb_info \<Rightarrow> bool" where
  "mounted s name info \<longleftrightarrow> (\<exists>sa mp fa. s_fs_info (sb s) = Some (sa, info) \<and>
     mount_path info = Some mp \<and> tfile_path mp = Some (fa, name))"

definition bump_id :: "super_block \<Rightarrow> super_block" where
  "bump_id b = (case s_fs_info b of None \<Rightarrow> b
     | Some (a, i) \<Rightarrow> b\<lparr>s_fs_info := Some (a, i\<lparr>sb_record_id := sb_record_id i + 1\<rparr>)\<rparr>)"

text \<open>A step that adds the entry \<open>e\<close> to the trace, and one that adds nothing.\<close>

definition emits :: "('w \<Rightarrow> block) \<Rightarrow> 'w st \<Rightarrow> 'w st \<Rightarrow> trace_entry \<Rightarrow> bool" where
  "emits tf s s' e \<longleftrightarrow> sb s' = bump_id (sb s) \<and>
     (\<exists>pad. length pad = 28 \<and> tf (world s') = tf (world s) @ entry_bytes pad e)"

definition silent :: "('w \<Rightarrow> block) \<Rightarrow> 'w st \<Rightarrow> 'w st \<Rightarrow> bool" where
  "silent tf s s' \<longleftrightarrow> sb s' = sb s \<and> tf (world s') = tf (world s)"

lemma trace_op_frame:
  assumes "trace_op K rt flds er d1 second content s = Some (l, s')"
  shows "inodes s' = inodes s" "dentries s' = dentries s" "files s' = files s"
  using assms trace_block_frame
  by (fastforce simp: trace_op_def bind_eq_Some_conv split: if_splits)+

lemma trace_op_effect:
  assumes env: "tracing_env K name tf th path_of" and m: "mounted s name info"
    and run: "trace_op K rt flds er d1 second content s = Some (l, s')"
    and er: "- (2 ^ 31) \<le> er" "er < 2 ^ 31"
    and len: "\<And>str. second = Given_string str \<Longrightarrow> length str < 2 ^ 15"
  shows "if traced rt (mask info)
    then \<exists>fl pm. flds = Some (fl, pm) \<and> emits tf s s'
      (trace_entry_of (path_of (dentries s)) rt fl pm er (sb_record_id info) d1 second content)
    else s' = s"
proof (cases "traced rt (mask info)")
  case True
  obtain sa mp fa where sb: "s_fs_info (sb s) = Some (sa, info)" "mount_path info = Some mp"
    "tfile_path mp = Some (fa, name)" using m by (auto simp: mounted_def)
  obtain fl pm where f: "flds = Some (fl, pm)"
    and tb: "trace_block K rt fl pm er d1 second content s = Some (l, s')"
    using run sb True by (auto simp: trace_op_def bind_eq_Some_conv)
  have "sb s' = bump_id (sb s)" using trace_block_frame [OF tb] by (auto simp: bump_id_def)
  with trace_block_appends [OF env tb sb er len] f True show ?thesis by (auto simp: emits_def)
next
  case False
  with m run show ?thesis by (auto simp: trace_op_def mounted_def)
qed

end
