(* ===== verification/File_Ops.thy ===== *)
theory File_Ops
  imports Tracer
begin

text \<open>
  The file operations of \<open>src/fs/trfs/file.c\<close>: read, write, open and release with their
  tracing, the \<open>ioctl\<close> that sets the bitmap, and the operations that are passed through
  to the lower file.
\<close>

section \<open>Shared steps\<close>

text \<open>
  \<open>fsstack_copy_*(inode, lower)\<close>: the attributes of an upper inode after one of the
  functions of \<open>fs/stack.c\<close> has copied from a lower inode.
\<close>

definition fsstack :: "'w kernel \<Rightarrow> (attr \<Rightarrow> attr \<Rightarrow> attr) \<Rightarrow> ptr \<Rightarrow> ptr \<Rightarrow> 'w st \<Rightarrow> 'w st" where
  "fsstack K cp i li s = upd_attrs i (\<lambda>a. cp a (l_attr (k_linode K (world s) li))) s"

definition lower_file_inode :: "'w kernel \<Rightarrow> ptr \<Rightarrow> 'w st \<Rightarrow> ptr" where
  "lower_file_inode K lf s = lf_inode (k_lfile K (world s) lf)"

text \<open>The flags and mode of a dentry's inode, as the read and write records take them.\<close>

definition inode_fields :: "ptr \<Rightarrow> 'w st \<Rightarrow> (32 word \<times> 16 word) option" where
  "inode_fields d s = do {
     i \<leftarrow> d_inode (dentries s d);
     Some (ucast (i_opflags (attrs (inodes s i))), i_mode (attrs (inodes s i)))
   }"

section \<open>Traced operations\<close>

definition trfs_read :: "'w kernel \<Rightarrow> ptr \<Rightarrow> ptr \<Rightarrow> 64 word \<Rightarrow> 'w st \<Rightarrow> (int \<times> 'w st) option" where
  "trfs_read K f buf count s = do {
     let dentry = f_dentry (files s f);
     lf \<leftarrow> trfs_lower_file f s;
     lower \<leftarrow> lf;
     let (e, s) = call_int K (Vfs_read lower buf count Caller_ppos) s;
     let er = to_int e;
     s \<leftarrow> (if 0 \<le> er then do {
              i \<leftarrow> d_inode (dentries s dentry);
              Some (fsstack K (k_attr_atime K) i (lower_file_inode K lower s) s) }
            else Some s);
     (l, s) \<leftarrow> trace_op K READ_CALL (inode_fields dentry s) er dentry No_second None s;
     Some (er, free_str_buffer_writer K l s)
   }"

definition trfs_write :: "'w kernel \<Rightarrow> ptr \<Rightarrow> block \<Rightarrow> 64 word \<Rightarrow> 'w st \<Rightarrow> (int \<times> 'w st) option" where
  "trfs_write K f buf count s = do {
     let dentry = f_dentry (files s f);
     lf \<leftarrow> trfs_lower_file f s;
     lower \<leftarrow> lf;
     let (e, s) = call_int K (Vfs_write lower buf count Caller_ppos) s;
     let er = to_int e;
     (l, s) \<leftarrow> trace_op K WRITE_CALL (inode_fields dentry s) er dentry No_second (Some buf) s;
     s \<leftarrow> (if 0 \<le> er then do {
              i \<leftarrow> d_inode (dentries s dentry);
              let s = fsstack K (k_inode_size K) i (lower_file_inode K lower s) s;
              Some (fsstack K (k_attr_times K) i (lower_file_inode K lower s) s) }
            else Some s);
     Some (er, free_str_buffer_writer K l s)
   }"

definition trfs_open :: "'w kernel \<Rightarrow> ptr \<Rightarrow> ptr \<Rightarrow> 'w st \<Rightarrow> (int \<times> 'w st) option" where
  "trfs_open K inode f s = do {
     let dentry = f_dentry (files s f);
     if d_unhashed (dentries s dentry) then Some (- ENOENT, s)
     else do {
       let (fi, s) = call_ptr K (Kzalloc 16) s;
       let s = upd_file f (\<lambda>x. x\<lparr>private_data :=
         map_option (\<lambda>a. (a, \<lparr>lower_file = None, lower_vm_ops = None\<rparr>)) (deref fi)\<rparr>) s;
       if private_data (files s f) = None then Some (- ENOMEM, s)
       else do {
         (lp, s) \<leftarrow> trfs_get_lower_path K dentry s;
         let (lf, s) = call_ptr K (Dentry_open lp (f_flags (files s f))) s;
         let s = call_void K (Path_put lp) s;
         (er, s) \<leftarrow> (case lf of
             Err_ptr e \<Rightarrow> do {
               old \<leftarrow> trfs_lower_file f s;
               (case old of
                  Some lower \<Rightarrow> do {
                    s \<leftarrow> trfs_set_lower_file f None s;
                    Some (e, call_void K (Fput lower) s) }
                | None \<Rightarrow> Some (e, s)) }
           | _ \<Rightarrow> do {
               s \<leftarrow> trfs_set_lower_file f (deref lf) s;
               Some (0, s) });
         (l, s) \<leftarrow> trace_op K OPEN_CALL
           (do { i \<leftarrow> d_inode (dentries s dentry);
                 Some (f_flags (files s f), i_mode (attrs (inodes s i))) })
           er dentry No_second None s;
         s \<leftarrow> (if er \<noteq> 0 then
                  Some (kfree_local K (map_option fst (private_data (files s f))) s)
                else do {
                  li \<leftarrow> trfs_lower_inode inode s;
                  Some (fsstack K (k_attr_all K) inode li s) });
         Some (er, free_str_buffer_writer K l s)
       }
     }
   }"

definition trfs_file_release :: "'w kernel \<Rightarrow> ptr \<Rightarrow> ptr \<Rightarrow> 'w st \<Rightarrow> (int \<times> 'w st) option" where
  "trfs_file_release K inode f s = do {
     lf \<leftarrow> trfs_lower_file f s;
     s \<leftarrow> (case lf of
         Some lower \<Rightarrow> do {
           s \<leftarrow> trfs_set_lower_file f None s;
           Some (call_void K (Fput lower) s) }
       | None \<Rightarrow> Some s);
     (l, s) \<leftarrow> trace_op K RELEASE_CALL (Some (0, 0)) 0 (f_dentry (files s f)) No_second None s;
     let s = kfree_local K (map_option fst (private_data (files s f))) s;
     Some (0, free_str_buffer_writer K l s)
   }"

section \<open>The bitmap \<open>ioctl\<close>\<close>

text \<open>\<open>_IOC(dir, type, nr, size)\<close> of the kernel's \<open>ioctl\<close> numbering.\<close>

definition ioc :: "32 word \<Rightarrow> 32 word \<Rightarrow> 32 word \<Rightarrow> 32 word \<Rightarrow> 32 word" where
  "ioc dir typ nr sz = push_bit 30 dir OR push_bit 16 sz OR push_bit 8 typ OR nr"

definition MYDEV_MAGIC :: "32 word" where "MYDEV_MAGIC = 0x47"

definition IOC_ALL :: "32 word" where "IOC_ALL = ioc 1 MYDEV_MAGIC 0 8"
definition IOC_NONE :: "32 word" where "IOC_NONE = ioc 1 MYDEV_MAGIC 1 8"
definition IOC_HEX :: "32 word" where "IOC_HEX = ioc 1 MYDEV_MAGIC 2 8"
definition IOC_RET :: "32 word" where "IOC_RET = ioc 2 MYDEV_MAGIC 3 8"

lemma ioctl_numbers [simp]:
  "IOC_ALL = 0x40084700" "IOC_NONE = 0x40084701" "IOC_HEX = 0x40084702" "IOC_RET = 0x80084703"
  by (simp_all add: IOC_ALL_def IOC_NONE_def IOC_HEX_def IOC_RET_def ioc_def MYDEV_MAGIC_def)

definition set_mask :: "64 word \<Rightarrow> super_block \<Rightarrow> super_block" where
  "set_mask m b = (case s_fs_info b of None \<Rightarrow> b
     | Some (a, i) \<Rightarrow> b\<lparr>s_fs_info := Some (a, i\<lparr>mask := m\<rparr>)\<rparr>)"

text \<open>The switch on the command, then the lower file's own \<open>ioctl\<close>.\<close>

definition ioctl_switch :: "'w kernel \<Rightarrow> 32 word \<Rightarrow> 64 word \<Rightarrow> 'w st \<Rightarrow> 'w st option" where
  "ioctl_switch K cmd arg s = do {
     (sa, info) \<leftarrow> s_fs_info (sb s);
     Some (if cmd = IOC_ALL then upd_sb (set_mask arg) s
           else if cmd = IOC_NONE then upd_sb (set_mask arg) s
           else if cmd = IOC_HEX then upd_sb (set_mask arg) s
           else if cmd = IOC_RET then snd (call_int K (Copy_to_user arg (mask info)) s)
           else s)
   }"

definition ioctl_below ::
  "'w kernel \<Rightarrow> ptr \<Rightarrow> 32 word \<Rightarrow> 64 word \<Rightarrow> 'w st \<Rightarrow> (int \<times> 'w st) option" where
  "ioctl_below K f cmd arg s = do {
     lf \<leftarrow> trfs_lower_file f s;
     (case lf of
        None \<Rightarrow> Some (- ENOTTY, s)
      | Some lower \<Rightarrow>
          if \<not> has_f_op (k_lfile K (world s) lower) then Some (- ENOTTY, s)
          else do {
            let (er, s) = (if has_unlocked_ioctl (k_lfile K (world s) lower)
              then call_int K (Unlocked_ioctl lower cmd arg) s else (- ENOTTY, s));
            Some (er, if er = 0
              then fsstack K (k_attr_all K) (f_inode (files s f)) (lower_file_inode K lower s) s
              else s)
          })
   }"

definition trfs_unlocked_ioctl ::
  "'w kernel \<Rightarrow> ptr \<Rightarrow> 32 word \<Rightarrow> 64 word \<Rightarrow> 'w st \<Rightarrow> (int \<times> 'w st) option" where
  "trfs_unlocked_ioctl K f cmd arg s = do {
     s \<leftarrow> ioctl_switch K cmd arg s;
     ioctl_below K f cmd arg s
   }"

definition trfs_compat_ioctl ::
  "'w kernel \<Rightarrow> ptr \<Rightarrow> 32 word \<Rightarrow> 64 word \<Rightarrow> 'w st \<Rightarrow> (int \<times> 'w st) option" where
  "trfs_compat_ioctl K f cmd arg s = do {
     lf \<leftarrow> trfs_lower_file f s;
     (case lf of
        None \<Rightarrow> Some (- ENOTTY, s)
      | Some lower \<Rightarrow>
          if \<not> has_f_op (k_lfile K (world s) lower) then Some (- ENOTTY, s)
          else if has_compat_ioctl (k_lfile K (world s) lower)
            then Some (call_int K (Compat_ioctl lower cmd arg) s)
            else Some (- ENOTTY, s))
   }"

end
