(* ===== verification/Lookup.thy ===== *)
theory Lookup
  imports File_Ops
begin

text \<open>
  Interposition: \<open>src/fs/trfs/lookup.c\<close> (dentry private data, the inode cache, lookup) and
  the dentry operations of \<open>src/fs/trfs/dentry.c\<close>.
\<close>

section \<open>The dentry cache\<close>

definition trfs_init_dentry_cache :: "'w kernel \<Rightarrow> 'w st \<Rightarrow> int \<times> kptr \<times> 'w st" where
  "trfs_init_dentry_cache K s =
     (let (p, s) = call_ptr K Kmem_cache_create_dentry s
      in (if p \<noteq> Null then 0 else - ENOMEM, p, s))"

definition trfs_destroy_dentry_cache :: "'w kernel \<Rightarrow> kptr \<Rightarrow> 'w st \<Rightarrow> 'w st" where
  "trfs_destroy_dentry_cache K cachep s =
     (case cachep of Ptr c \<Rightarrow> call_void K (Kmem_cache_destroy c) s | _ \<Rightarrow> s)"

definition free_dentry_private_data :: "'w kernel \<Rightarrow> ptr option \<Rightarrow> 'w st \<Rightarrow> 'w st" where
  "free_dentry_private_data K dentry s =
     (case dentry of
        None \<Rightarrow> s
      | Some d \<Rightarrow>
          (case d_fsdata (dentries s d) of
             None \<Rightarrow> s
           | Some (a, info) \<Rightarrow>
               upd_dentry d (\<lambda>x. x\<lparr>d_fsdata := None\<rparr>)
                 (call_void K (Kmem_cache_free_dentry a) s)))"

definition new_dentry_private_data :: "'w kernel \<Rightarrow> ptr \<Rightarrow> 'w st \<Rightarrow> int \<times> 'w st" where
  "new_dentry_private_data K d s =
     (let (p, s) = call_ptr K Kmem_cache_zalloc_dentry s in
      case p of
        Ptr a \<Rightarrow> (0, upd_dentry d (\<lambda>x. x\<lparr>d_fsdata := Some (a, \<lparr>lower_path = null_path\<rparr>)\<rparr>) s)
      | _ \<Rightarrow> (- ENOMEM, s))"

section \<open>The inode cache\<close>

definition trfs_inode_test :: "'w st \<Rightarrow> ptr \<Rightarrow> ptr \<Rightarrow> bool" where
  "trfs_inode_test s candidate i \<longleftrightarrow> trfs_lower_inode i s = Some candidate"

text \<open>The file type bits of a mode.\<close>

definition S_IFMT :: "16 word" where "S_IFMT = 0xF000"
definition S_ISDIR :: "16 word \<Rightarrow> bool" where "S_ISDIR m \<longleftrightarrow> m AND S_IFMT = 0x4000"
definition S_ISLNK :: "16 word \<Rightarrow> bool" where "S_ISLNK m \<longleftrightarrow> m AND S_IFMT = 0xA000"
definition S_ISBLK :: "16 word \<Rightarrow> bool" where "S_ISBLK m \<longleftrightarrow> m AND S_IFMT = 0x6000"
definition S_ISCHR :: "16 word \<Rightarrow> bool" where "S_ISCHR m \<longleftrightarrow> m AND S_IFMT = 0x2000"
definition S_ISFIFO :: "16 word \<Rightarrow> bool" where "S_ISFIFO m \<longleftrightarrow> m AND S_IFMT = 0x1000"
definition S_ISSOCK :: "16 word \<Rightarrow> bool" where "S_ISSOCK m \<longleftrightarrow> m AND S_IFMT = 0xC000"

lemmas mode_defs = S_IFMT_def S_ISDIR_def S_ISLNK_def S_ISBLK_def S_ISCHR_def S_ISFIFO_def
  S_ISSOCK_def

text \<open>The initialisation of a new upper inode, from taking the lower inode to unlocking.\<close>

definition init_inode :: "'w kernel \<Rightarrow> ptr \<Rightarrow> ptr \<Rightarrow> 'w st \<Rightarrow> 'w st" where
  "init_inode K i li s =
     (let la = l_attr (k_linode K (world s) li);
          mode = i_mode la;
          s = trfs_set_lower_inode i (Some li) s;
          s = upd_attrs i (\<lambda>a. a\<lparr>i_version := i_version a + 1\<rparr>) s;
          s = upd_inode i (\<lambda>n. n\<lparr>i_op := (if S_ISDIR mode then Dir_iops
                                       else if S_ISLNK mode then Symlink_iops else Main_iops),
                              i_fop := (if S_ISDIR mode then Dir_fops else Main_fops),
                              trfs_aops := True\<rparr>) s;
          s = upd_attrs i (\<lambda>a. a\<lparr>i_atime := (0, 0), i_mtime := (0, 0), i_ctime := (0, 0)\<rparr>) s;
          s = (if S_ISBLK mode \<or> S_ISCHR mode \<or> S_ISFIFO mode \<or> S_ISSOCK mode
               then upd_attrs i (\<lambda>a. k_init_special K a mode (i_rdev la)) s else s);
          s = fsstack K (k_attr_all K) i li s;
          s = fsstack K (k_inode_size K) i li s
      in call_void K (Unlock_new_inode i) s)"

definition trfs_iget :: "'w kernel \<Rightarrow> ptr option \<Rightarrow> 'w st \<Rightarrow> (kptr \<times> 'w st) option" where
  "trfs_iget K lower s = do {
     li \<leftarrow> lower;
     let (p, ns, w) = k_iget5 K (trfs_inode_test s li)
           (i_ino (l_attr (k_linode K (world s) li))) (inodes s) (world s);
     let s = s\<lparr>inodes := ns, world := w\<rparr>;
     (case p of
        Ptr i \<Rightarrow>
          if \<not> i_new (attrs (inodes s i)) then Some (Ptr i, s)
          else do {
            let s = upd_attrs i (\<lambda>a. a\<lparr>i_ino := i_ino (l_attr (k_linode K (world s) li))\<rparr>) s;
            let (g, s) = call_ptr K (Igrab li) s;
            if g = Null then Some (Err_ptr (- ESTALE), s)
            else Some (Ptr i, init_inode K i li s) }
      | _ \<Rightarrow> Some (Err_ptr (- EACCES), call_void K (Iput li) s))
   }"

section \<open>Interposition and lookup\<close>

definition interpose_dentry :: "'w kernel \<Rightarrow> ptr \<Rightarrow> path \<Rightarrow> 'w st \<Rightarrow> (kptr \<times> 'w st) option" where
  "interpose_dentry K dentry lp s = do {
     ld \<leftarrow> p_dentry lp;
     li \<leftarrow> lower_d_inode K ld s;
     lower_sb \<leftarrow> trfs_lower_super s;
     if Some (l_sb (k_linode K (world s) li)) \<noteq> lower_sb then Some (Err_ptr (- EXDEV), s)
     else do {
       (ip, s) \<leftarrow> trfs_iget K (Some li) s;
       (case ip of
          Ptr i \<Rightarrow> do {
            let (r, ds, w) = k_d_splice_alias K i dentry (dentries s) (world s);
            Some (r, s\<lparr>dentries := ds, world := w\<rparr>) }
        | e \<Rightarrow> Some (e, s))
     }
   }"

text \<open>\<open>PTR_ERR\<close> of any pointer, cut to the \<open>int\<close> that \<open>trfs_interpose\<close> returns.\<close>

definition PTR_ERR :: "kptr \<Rightarrow> int" where
  "PTR_ERR p = (case p of Null \<Rightarrow> 0 | Err_ptr e \<Rightarrow> e | Ptr a \<Rightarrow> int a)"

definition trfs_interpose :: "'w kernel \<Rightarrow> ptr \<Rightarrow> path \<Rightarrow> 'w st \<Rightarrow> (int \<times> 'w st) option" where
  "trfs_interpose K dentry lp s = do {
     (r, s) \<leftarrow> interpose_dentry K dentry lp s;
     Some (to_int (PTR_ERR r), s)
   }"

definition LOOKUP_CREATE :: "32 word" where "LOOKUP_CREATE = 0x200"
definition LOOKUP_RENAME_TARGET :: "32 word" where "LOOKUP_RENAME_TARGET = 0x800"
definition LOOKUP_RCU :: "32 word" where "LOOKUP_RCU = 0x40"

definition lookup_dentry ::
  "'w kernel \<Rightarrow> (ptr \<Rightarrow> bool) \<Rightarrow> ptr \<Rightarrow> 32 word \<Rightarrow> path \<Rightarrow> 'w st \<Rightarrow> (kptr \<times> 'w st) option" where
  "lookup_dentry K is_root dentry flags parent s = do {
     let s = upd_dentry dentry (\<lambda>d. d\<lparr>d_trfs_dops := True\<rparr>) s;
     if is_root dentry then Some (Null, s)
     else do {
       let name = d_name (dentries s dentry);
       dir \<leftarrow> p_dentry parent;
       let (er, s) = call_i32 K (Vfs_path_lookup dir (p_mnt parent) name) s;
       if er = 0 then do {
         let lp = k_path_result K (world s);
         s \<leftarrow> trfs_set_lower_path K dentry lp s;
         (r, s) \<leftarrow> interpose_dentry K dentry lp s;
         if IS_ERR r then do {
           s \<leftarrow> trfs_put_reset_lower_path K dentry s;
           Some (r, s) }
         else Some (r, s) }
       else if er \<noteq> - ENOENT then Some (Err_ptr er, s)
       else do {
         let (p, s) = call_ptr K (D_lookup dir name) s;
         (q, s) \<leftarrow> (case p of
             Ptr ld \<Rightarrow> Some (p, s)
           | _ \<Rightarrow> do {
               let (a, s) = call_ptr K (D_alloc dir name) s;
               (case a of
                  Ptr ld \<Rightarrow> Some (a, call_void K (D_add_negative ld) s)
                | _ \<Rightarrow> Some (Null, s)) });
         (case q of
            Ptr ld \<Rightarrow> do {
              let (m, s) = call_ptr K (Mntget (p_mnt parent)) s;
              s \<leftarrow> trfs_set_lower_path K dentry \<lparr>p_dentry = Some ld, p_mnt = deref m\<rparr> s;
              let er = (if er = - ENOENT \<or> flags AND (LOOKUP_CREATE OR LOOKUP_RENAME_TARGET) \<noteq> 0
                        then 0 else er);
              Some (if er \<noteq> 0 then Err_ptr er else Null, s) }
          | _ \<Rightarrow> Some (Err_ptr (- ENOMEM), s))
       }
     }
   }"

definition trfs_lookup ::
  "'w kernel \<Rightarrow> (ptr \<Rightarrow> bool) \<Rightarrow> ptr \<Rightarrow> 32 word \<Rightarrow> 'w st \<Rightarrow> (kptr \<times> 'w st) option" where
  "trfs_lookup K is_root dentry flags s = do {
     let parent = d_parent (dentries s dentry);
     let s = call_void K (Upper_dget_parent parent) s;
     (pp, s) \<leftarrow> trfs_get_lower_path K parent s;
     let (er, s) = new_dentry_private_data K dentry s;
     (ret, s) \<leftarrow>
       (if er \<noteq> 0 then Some (Err_ptr er, s)
        else do {
          (ret, s) \<leftarrow> lookup_dentry K is_root dentry flags pp s;
          if IS_ERR ret then Some (ret, s)
          else do {
            let d = (case ret of Ptr a \<Rightarrow> a | _ \<Rightarrow> dentry);
            s \<leftarrow> (case d_inode (dentries s d) of
                None \<Rightarrow> Some s
              | Some i \<Rightarrow> do {
                  li \<leftarrow> trfs_lower_inode i s;
                  Some (fsstack K (k_attr_times K) i li s) });
            pi \<leftarrow> d_inode (dentries s parent);
            pli \<leftarrow> trfs_lower_inode pi s;
            Some (ret, fsstack K (k_attr_atime K) pi pli s) } });
     let s = trfs_put_lower_path K pp s;
     Some (ret, call_void K (Upper_dput parent) s)
   }"

section \<open>Dentry operations\<close>

definition DCACHE_OP_REVALIDATE :: "32 word" where "DCACHE_OP_REVALIDATE = 4"

definition trfs_d_revalidate :: "'w kernel \<Rightarrow> ptr \<Rightarrow> 32 word \<Rightarrow> 'w st \<Rightarrow> (int \<times> 'w st) option" where
  "trfs_d_revalidate K dentry flags s =
     (if flags AND LOOKUP_RCU \<noteq> 0 then Some (- ECHILD, s)
      else do {
        (lp, s) \<leftarrow> trfs_get_lower_path K dentry s;
        ld \<leftarrow> p_dentry lp;
        let (er, s) = (if ld_flags (k_ldentry K (world s) ld) AND DCACHE_OP_REVALIDATE = 0
          then (1, s) else call_i32 K (Lower_d_revalidate ld flags) s);
        Some (er, trfs_put_lower_path K lp s)
      })"

definition trfs_d_release :: "'w kernel \<Rightarrow> ptr \<Rightarrow> 'w st \<Rightarrow> 'w st option" where
  "trfs_d_release K dentry s = do {
     s \<leftarrow> trfs_put_reset_lower_path K dentry s;
     Some (free_dentry_private_data K (Some dentry) s)
   }"

end
