(* ===== verification/Inode_Ops.thy ===== *)
theory Inode_Ops
  imports Lookup
begin

text \<open>
  The traced directory operations of \<open>src/fs/trfs/inode.c\<close>: create, link, unlink,
  symlink, mkdir, rmdir, mknod and rename. Each is the whole function: the lower path and
  the lock of the lower parent, the lower operation, interposition and tracing in the
  order the function has them, the attributes it copies, and the common exit.
\<close>

section \<open>Small updates\<close>

definition set_nlink :: "ptr \<Rightarrow> 32 word \<Rightarrow> 'w st \<Rightarrow> 'w st" where
  "set_nlink i n s = upd_attrs i (\<lambda>a. a\<lparr>i_nlink := n\<rparr>) s"

definition lower_nlink :: "'w kernel \<Rightarrow> ptr \<Rightarrow> 'w st \<Rightarrow> 32 word" where
  "lower_nlink K li s = i_nlink (l_attr (k_linode K (world s) li))"

definition dir_opflags :: "ptr \<Rightarrow> 'w st \<Rightarrow> 32 word" where
  "dir_opflags dir s = ucast (i_opflags (attrs (inodes s dir)))"

definition d_drop :: "'w kernel \<Rightarrow> ptr \<Rightarrow> 'w st \<Rightarrow> 'w st" where
  "d_drop K d s = upd_dentry d (k_d_drop K) s"

text \<open>
  The entry of an operation on one name: the lower path, the locked lower parent, the
  lower dentry and the inode of the parent.
\<close>

definition in_parent ::
  "'w kernel \<Rightarrow> ptr \<Rightarrow> 'w st \<Rightarrow> (path \<times> ptr \<times> ptr \<times> ptr \<times> 'w st) option" where
  "in_parent K dentry s = do {
     (lp, s) \<leftarrow> trfs_get_lower_path K dentry s;
     (pd, s) \<leftarrow> lock_parent K (p_dentry lp) s;
     ld \<leftarrow> p_dentry lp;
     pi \<leftarrow> lower_d_inode K pd s;
     Some (lp, pd, ld, pi, s)
   }"

text \<open>The exit of an operation that holds one lower path and its locked parent.\<close>

definition out_parent ::
  "'w kernel \<Rightarrow> ptr \<Rightarrow> path \<Rightarrow> trace_locals \<Rightarrow> 'w st \<Rightarrow> 'w st option" where
  "out_parent K pd lp l s = do {
     s \<leftarrow> unlock_dir K pd s;
     let s = trfs_put_lower_path K lp s;
     Some (free_str_writer_buffer K l s)
   }"

definition with_parent ::
  "'w kernel \<Rightarrow> ptr \<Rightarrow>
   (path \<Rightarrow> ptr \<Rightarrow> ptr \<Rightarrow> ptr \<Rightarrow> 'w st \<Rightarrow> (int \<times> trace_locals \<times> 'w st) option) \<Rightarrow>
   'w st \<Rightarrow> (int \<times> 'w st) option" where
  "with_parent K dentry body s = do {
     (lp, pd, ld, pi, s) \<leftarrow> in_parent K dentry s;
     (er, l, s) \<leftarrow> body lp pd ld pi s;
     s \<leftarrow> out_parent K pd lp l s;
     Some (er, s)
   }"

section \<open>Operations on one name\<close>

text \<open>
  Each operation is its body, run between the entry and the exit above: the body is what
  the function does while it holds the lower parent, with its \<open>goto out\<close> as early results.
\<close>

definition create_body ::
  "'w kernel \<Rightarrow> ptr \<Rightarrow> ptr \<Rightarrow> 16 word \<Rightarrow> bool \<Rightarrow> path \<Rightarrow> ptr \<Rightarrow> ptr \<Rightarrow> ptr \<Rightarrow> 'w st \<Rightarrow>
   (int \<times> trace_locals \<times> 'w st) option" where
  "create_body K dir dentry mode want_excl lp pd ld pi s = do {
     let (er, s) = call_i32 K (Vfs_create pi ld mode want_excl) s;
     (l, s) \<leftarrow> trace_op K CREATE_CALL (Some (dir_opflags dir s, mode)) er dentry No_second None s;
     if er \<noteq> 0 then Some (er, l, s)
     else do {
       (er, s) \<leftarrow> trfs_interpose K dentry lp s;
       if er \<noteq> 0 then Some (er, l, s)
       else do {
         li \<leftarrow> trfs_lower_inode dir s;
         let s = fsstack K (k_attr_times K) dir li s;
         pi \<leftarrow> lower_d_inode K pd s;
         Some (er, l, fsstack K (k_inode_size K) dir pi s) } }
   }"

definition trfs_create ::
  "'w kernel \<Rightarrow> ptr \<Rightarrow> ptr \<Rightarrow> 16 word \<Rightarrow> bool \<Rightarrow> 'w st \<Rightarrow> (int \<times> 'w st) option" where
  "trfs_create K dir dentry mode want_excl s =
     with_parent K dentry (create_body K dir dentry mode want_excl) s"

definition symlink_body ::
  "'w kernel \<Rightarrow> ptr \<Rightarrow> ptr \<Rightarrow> block \<Rightarrow> path \<Rightarrow> ptr \<Rightarrow> ptr \<Rightarrow> ptr \<Rightarrow> 'w st \<Rightarrow>
   (int \<times> trace_locals \<times> 'w st) option" where
  "symlink_body K dir dentry symname lp pd ld pi s = do {
     let (er, s) = call_i32 K (Vfs_symlink pi ld symname) s;
     if er \<noteq> 0 then Some (er, no_locals, s)
     else do {
       (er, s) \<leftarrow> trfs_interpose K dentry lp s;
       if er \<noteq> 0 then Some (er, no_locals, s)
       else do {
         (l, s) \<leftarrow> trace_op K SYMLINK_CALL (Some (0, 0)) er dentry (Given_string symname) None s;
         li \<leftarrow> trfs_lower_inode dir s;
         let s = fsstack K (k_attr_times K) dir li s;
         pi \<leftarrow> lower_d_inode K pd s;
         Some (er, l, fsstack K (k_inode_size K) dir pi s) } }
   }"

definition trfs_symlink ::
  "'w kernel \<Rightarrow> ptr \<Rightarrow> ptr \<Rightarrow> block \<Rightarrow> 'w st \<Rightarrow> (int \<times> 'w st) option" where
  "trfs_symlink K dir dentry symname s =
     with_parent K dentry (symlink_body K dir dentry symname) s"

definition mkdir_body ::
  "'w kernel \<Rightarrow> ptr \<Rightarrow> ptr \<Rightarrow> 16 word \<Rightarrow> path \<Rightarrow> ptr \<Rightarrow> ptr \<Rightarrow> ptr \<Rightarrow> 'w st \<Rightarrow>
   (int \<times> trace_locals \<times> 'w st) option" where
  "mkdir_body K dir dentry mode lp pd ld pi s = do {
     let (er, s) = call_i32 K (Vfs_mkdir pi ld mode) s;
     if er \<noteq> 0 then Some (er, no_locals, s)
     else do {
       (l, s) \<leftarrow> trace_op K MKDIR_CALL (Some (dir_opflags dir s, mode)) er dentry No_second None s;
       (er, s) \<leftarrow> trfs_interpose K dentry lp s;
       if er \<noteq> 0 then Some (er, l, s)
       else do {
         li \<leftarrow> trfs_lower_inode dir s;
         let s = fsstack K (k_attr_times K) dir li s;
         pi \<leftarrow> lower_d_inode K pd s;
         let s = fsstack K (k_inode_size K) dir pi s;
         Some (er, l, set_nlink dir (lower_nlink K li s) s) } }
   }"

definition trfs_mkdir ::
  "'w kernel \<Rightarrow> ptr \<Rightarrow> ptr \<Rightarrow> 16 word \<Rightarrow> 'w st \<Rightarrow> (int \<times> 'w st) option" where
  "trfs_mkdir K dir dentry mode s = with_parent K dentry (mkdir_body K dir dentry mode) s"

definition mknod_body ::
  "'w kernel \<Rightarrow> ptr \<Rightarrow> ptr \<Rightarrow> 16 word \<Rightarrow> 32 word \<Rightarrow> path \<Rightarrow> ptr \<Rightarrow> ptr \<Rightarrow> ptr \<Rightarrow> 'w st \<Rightarrow>
   (int \<times> trace_locals \<times> 'w st) option" where
  "mknod_body K dir dentry mode dev lp pd ld pi s = do {
     let (er, s) = call_i32 K (Vfs_mknod pi ld mode dev) s;
     if er \<noteq> 0 then Some (er, no_locals, s)
     else do {
       (er, s) \<leftarrow> trfs_interpose K dentry lp s;
       if er \<noteq> 0 then Some (er, no_locals, s)
       else do {
         (l, s) \<leftarrow> trace_op K MKNOD_CALL (Some (dev, mode)) er dentry No_second None s;
         li \<leftarrow> trfs_lower_inode dir s;
         let s = fsstack K (k_attr_times K) dir li s;
         pi \<leftarrow> lower_d_inode K pd s;
         Some (er, l, fsstack K (k_inode_size K) dir pi s) } }
   }"

definition trfs_mknod ::
  "'w kernel \<Rightarrow> ptr \<Rightarrow> ptr \<Rightarrow> 16 word \<Rightarrow> 32 word \<Rightarrow> 'w st \<Rightarrow> (int \<times> 'w st) option" where
  "trfs_mknod K dir dentry mode dev s =
     with_parent K dentry (mknod_body K dir dentry mode dev) s"

definition rmdir_body ::
  "'w kernel \<Rightarrow> ptr \<Rightarrow> ptr \<Rightarrow> path \<Rightarrow> ptr \<Rightarrow> ptr \<Rightarrow> ptr \<Rightarrow> 'w st \<Rightarrow>
   (int \<times> trace_locals \<times> 'w st) option" where
  "rmdir_body K dir dentry lp pd ld pi s = do {
     let (er, s) = call_i32 K (Vfs_rmdir pi ld) s;
     if er \<noteq> 0 then Some (er, no_locals, s)
     else do {
       (l, s) \<leftarrow> trace_op K RMDIR_CALL
         (Some (dir_opflags dir s, i_mode (attrs (inodes s dir)))) er dentry No_second None s;
       let s = d_drop K dentry s;
       let s = (case d_inode (dentries s dentry) of
           None \<Rightarrow> s | Some i \<Rightarrow> set_nlink i 0 s);
       pi \<leftarrow> lower_d_inode K pd s;
       let s = fsstack K (k_attr_times K) dir pi s;
       let s = fsstack K (k_inode_size K) dir pi s;
       Some (er, l, set_nlink dir (lower_nlink K pi s) s) }
   }"

definition trfs_rmdir :: "'w kernel \<Rightarrow> ptr \<Rightarrow> ptr \<Rightarrow> 'w st \<Rightarrow> (int \<times> 'w st) option" where
  "trfs_rmdir K dir dentry s = with_parent K dentry (rmdir_body K dir dentry) s"

definition DCACHE_NFSFS_RENAMED :: "32 word" where "DCACHE_NFSFS_RENAMED = 0x1000"

definition unlink_body ::
  "'w kernel \<Rightarrow> ptr \<Rightarrow> ptr \<Rightarrow> ptr \<Rightarrow> ptr \<Rightarrow> 'w st \<Rightarrow> (int \<times> trace_locals \<times> 'w st) option" where
  "unlink_body K dir dentry ldi ld s = do {
     let (er, s) = call_i32 K (Vfs_unlink ldi ld) s;
     let er = (if er = - EBUSY \<and> ld_flags (k_ldentry K (world s) ld) AND DCACHE_NFSFS_RENAMED \<noteq> 0
               then 0 else er);
     if er \<noteq> 0 then Some (er, no_locals, s)
     else do {
       (l, s) \<leftarrow> trace_op K UNLINK_CALL (Some (0, 0)) er dentry No_second None s;
       let s = fsstack K (k_attr_times K) dir ldi s;
       let s = fsstack K (k_inode_size K) dir ldi s;
       i \<leftarrow> d_inode (dentries s dentry);
       li \<leftarrow> trfs_lower_inode i s;
       let s = set_nlink i (lower_nlink K li s) s;
       let s = upd_attrs i (\<lambda>a. a\<lparr>i_ctime := i_ctime (attrs (inodes s dir))\<rparr>) s;
       Some (er, l, d_drop K dentry s) }
   }"

definition trfs_unlink :: "'w kernel \<Rightarrow> ptr \<Rightarrow> ptr \<Rightarrow> 'w st \<Rightarrow> (int \<times> 'w st) option" where
  "trfs_unlink K dir dentry s = do {
     let lower_dir_inode = trfs_lower_inode dir s;
     (lp, s) \<leftarrow> trfs_get_lower_path K dentry s;
     ld \<leftarrow> p_dentry lp;
     let s = call_void K (Dget ld) s;
     (pd, s) \<leftarrow> lock_parent K (Some ld) s;
     ldi \<leftarrow> lower_dir_inode;
     (er, l, s) \<leftarrow> unlink_body K dir dentry ldi ld s;
     s \<leftarrow> unlock_dir K pd s;
     let s = call_void K (Dput ld) s;
     let s = trfs_put_lower_path K lp s;
     Some (er, free_str_writer_buffer K l s)
   }"

section \<open>Operations on two names\<close>

definition link_body ::
  "'w kernel \<Rightarrow> ptr \<Rightarrow> ptr \<Rightarrow> ptr \<Rightarrow> int \<Rightarrow> path \<Rightarrow> ptr \<Rightarrow> ptr \<Rightarrow> ptr \<Rightarrow> 'w st \<Rightarrow>
   (int \<times> trace_locals \<times> 'w st) option" where
  "link_body K old_dentry dir new_dentry file_size_save np lo ln pi s = do {
     let (er, s) = call_i32 K (Vfs_link lo pi ln) s;
     if er \<noteq> 0 \<or> lower_d_inode K ln s = None then Some (er, no_locals, s)
     else do {
       (er, s) \<leftarrow> trfs_interpose K new_dentry np s;
       if er \<noteq> 0 then Some (er, no_locals, s)
       else do {
         (l, s) \<leftarrow> trace_op K LINK_CALL (Some (0, 0)) er old_dentry (Same_buffer new_dentry) None s;
         lni \<leftarrow> lower_d_inode K ln s;
         let s = fsstack K (k_attr_times K) dir lni s;
         let s = fsstack K (k_inode_size K) dir lni s;
         oi \<leftarrow> d_inode (dentries s old_dentry);
         loi \<leftarrow> trfs_lower_inode oi s;
         let s = set_nlink oi (lower_nlink K loi s) s;
         ni \<leftarrow> d_inode (dentries s new_dentry);
         Some (er, l, upd_attrs ni (\<lambda>a. a\<lparr>i_size := file_size_save\<rparr>) s) } }
   }"

definition trfs_link ::
  "'w kernel \<Rightarrow> ptr \<Rightarrow> ptr \<Rightarrow> ptr \<Rightarrow> 'w st \<Rightarrow> (int \<times> 'w st) option" where
  "trfs_link K old_dentry dir new_dentry s = do {
     oi \<leftarrow> d_inode (dentries s old_dentry);
     let file_size_save = i_size (attrs (inodes s oi));
     (op, s) \<leftarrow> trfs_get_lower_path K old_dentry s;
     (np, s) \<leftarrow> trfs_get_lower_path K new_dentry s;
     (pd, s) \<leftarrow> lock_parent K (p_dentry np) s;
     lo \<leftarrow> p_dentry op;
     ln \<leftarrow> p_dentry np;
     pi \<leftarrow> lower_d_inode K pd s;
     (er, l, s) \<leftarrow> link_body K old_dentry dir new_dentry file_size_save np lo ln pi s;
     s \<leftarrow> unlock_dir K pd s;
     let s = trfs_put_lower_path K op s;
     let s = trfs_put_lower_path K np s;
     Some (er, free_str_writer_buffer K l s)
   }"

definition rename_body ::
  "'w kernel \<Rightarrow> ptr \<Rightarrow> ptr \<Rightarrow> ptr \<Rightarrow> ptr \<Rightarrow> kptr \<Rightarrow> ptr \<Rightarrow> ptr \<Rightarrow> ptr \<Rightarrow> ptr \<Rightarrow> 'w st \<Rightarrow>
   (int \<times> trace_locals \<times> 'w st) option" where
  "rename_body K old_dir old_dentry new_dir new_dentry trap lo ln od nd s =
     (if trap = Ptr lo then Some (- EINVAL, no_locals, s)
      else if trap = Ptr ln then Some (- ENOTEMPTY, no_locals, s)
      else do {
        odi \<leftarrow> lower_d_inode K od s;
        ndi \<leftarrow> lower_d_inode K nd s;
        let (er, s) = call_i32 K (Vfs_rename odi lo ndi ln) s;
        if er \<noteq> 0 then Some (er, no_locals, s)
        else do {
          (l, s) \<leftarrow> trace_op K RENAME_CALL (Some (0, 0)) er old_dentry (Same_buffer new_dentry) None s;
          ndi \<leftarrow> lower_d_inode K nd s;
          let s = fsstack K (k_attr_all K) new_dir ndi s;
          let s = fsstack K (k_inode_size K) new_dir ndi s;
          s \<leftarrow> (if new_dir \<noteq> old_dir then do {
                   odi \<leftarrow> lower_d_inode K od s;
                   let s = fsstack K (k_attr_all K) old_dir odi s;
                   Some (fsstack K (k_inode_size K) old_dir odi s) }
                 else Some s);
          Some (er, l, s) } })"

definition trfs_rename ::
  "'w kernel \<Rightarrow> ptr \<Rightarrow> ptr \<Rightarrow> ptr \<Rightarrow> ptr \<Rightarrow> 'w st \<Rightarrow> (int \<times> 'w st) option" where
  "trfs_rename K old_dir old_dentry new_dir new_dentry s = do {
     (op, s) \<leftarrow> trfs_get_lower_path K old_dentry s;
     (np, s) \<leftarrow> trfs_get_lower_path K new_dentry s;
     lo \<leftarrow> p_dentry op;
     ln \<leftarrow> p_dentry np;
     let (odp, s) = call_ptr K (Dget_parent lo) s;
     let (ndp, s) = call_ptr K (Dget_parent ln) s;
     od \<leftarrow> deref odp;
     nd \<leftarrow> deref ndp;
     let (trap, s) = call_ptr K (Lock_rename od nd) s;
     (er, l, s) \<leftarrow> rename_body K old_dir old_dentry new_dir new_dentry trap lo ln od nd s;
     let s = call_void K (Unlock_rename od nd) s;
     let s = call_void K (Dput od) s;
     let s = call_void K (Dput nd) s;
     let s = trfs_put_lower_path K op s;
     let s = trfs_put_lower_path K np s;
     Some (er, free_str_writer_buffer K l s)
   }"

end
