(* ===== verification/Effects.thy ===== *)
theory Effects
  imports Inode_Ops
begin

text \<open>
  What the building blocks of the operations leave behind, in a form that composes: how the
  trace grows (\<open>extends\<close>), which calls have been made (\<open>calls\<close>), and what is still held.
\<close>

section \<open>Growth of the trace\<close>

text \<open>The entries \<open>es\<close> have been appended, and the counter has moved once for each.\<close>

definition extends :: "('w \<Rightarrow> block) \<Rightarrow> 'w st \<Rightarrow> 'w st \<Rightarrow> trace_entry list \<Rightarrow> bool" where
  "extends tf s s' es \<longleftrightarrow> sb s' = (bump_id ^^ length es) (sb s) \<and>
     (\<exists>pads. length pads = length es \<and> (\<forall>p \<in> set pads. length p = 28) \<and>
        tf (world s') = tf (world s) @ concat (map2 entry_bytes pads es))"

lemma extends_Nil_iff: "extends tf s s' [] \<longleftrightarrow> sb s' = sb s \<and> tf (world s') = tf (world s)"
  by (simp add: extends_def)

lemma extends_single_iff: "extends tf s s' [e] \<longleftrightarrow> emits tf s s' e"
proof
  assume "extends tf s s' [e]"
  then show "emits tf s s' e" by (auto simp: extends_def emits_def length_Suc_conv)
next
  assume "emits tf s s' e"
  then obtain pad where "sb s' = bump_id (sb s)" "length pad = 28"
    "tf (world s') = tf (world s) @ entry_bytes pad e" by (auto simp: emits_def)
  then show "extends tf s s' [e]"
    unfolding extends_def by (intro conjI exI [where x = "[pad]"]) auto
qed

lemma extends_trans:
  assumes "extends tf s s1 es1" "extends tf s1 s2 es2"
  shows "extends tf s s2 (es1 @ es2)"
proof -
  from assms obtain p1 p2 where
    p: "length p1 = length es1" "\<forall>p \<in> set p1. length p = 28"
    "length p2 = length es2" "\<forall>p \<in> set p2. length p = 28"
    "tf (world s1) = tf (world s) @ concat (map2 entry_bytes p1 es1)"
    "tf (world s2) = tf (world s1) @ concat (map2 entry_bytes p2 es2)"
    "sb s1 = (bump_id ^^ length es1) (sb s)" "sb s2 = (bump_id ^^ length es2) (sb s1)"
    by (auto simp: extends_def)
  then show ?thesis unfolding extends_def
    by (intro conjI exI [where x = "p1 @ p2"]) (auto simp: funpow_add add.commute [of "length es1"])
qed

text \<open>Steps before and after that leave the trace alone.\<close>

lemma extends_frame:
  assumes "extends tf s1 s2 es" "sb s1 = sb s" "tf (world s1) = tf (world s)"
    "sb s' = sb s2" "tf (world s') = tf (world s2)"
  shows "extends tf s s' es"
  using assms by (simp add: extends_def)

section \<open>The world moves by kernel calls\<close>

inductive reach :: "'w kernel \<Rightarrow> 'w \<Rightarrow> 'w \<Rightarrow> bool" for K where
  reach_refl: "reach K w w"
| reach_int: "reach K w w1 \<Longrightarrow> reach K w (snd (k_int K c w1))"
| reach_ptr: "reach K w w1 \<Longrightarrow> reach K w (snd (k_ptr K c w1))"
| reach_void: "reach K w w1 \<Longrightarrow> reach K w (k_void K c w1)"
| reach_iget: "reach K w w1 \<Longrightarrow> reach K w (snd (snd (k_iget5 K t h ns w1)))"
| reach_splice: "reach K w w1 \<Longrightarrow> reach K w (snd (snd (k_d_splice_alias K i d ds w1)))"
| reach_root: "reach K w w1 \<Longrightarrow> reach K w (snd (snd (k_d_make_root K i ds w1)))"

lemma reach_trans:
  assumes "reach K w w1" "reach K w1 w2"
  shows "reach K w w2"
  using assms(2,1) by (induction rule: reach.induct) (auto intro: reach.intros)

lemma reach_calls [intro]:
  "reach K w (world s) \<Longrightarrow> reach K w (world (call_void K cv s))"
  "reach K w (world s) \<Longrightarrow> reach K w (world (snd (call_int K ci s)))"
  "reach K w (world s) \<Longrightarrow> reach K w (world (snd (call_i32 K ci s)))"
  "reach K w (world s) \<Longrightarrow> reach K w (world (snd (call_ptr K cp s)))"
  "reach K w (world s) \<Longrightarrow> reach K w (world (kfree_local K p s))"
  "reach K w (world s) \<Longrightarrow> reach K w (world (trace_write K f b n s))"
  by (auto simp: call_defs' kfree_local_def trace_write_def intro: reach.intros split: option.splits)

text \<open>
  The dentries that \<open>dget_parent\<close> returns are directories in use: they satisfy \<open>D\<close>, and a
  dentry that does keeps its inode, whatever the kernel does meanwhile.
\<close>

definition stable_dirs :: "'w kernel \<Rightarrow> (ptr \<Rightarrow> bool) \<Rightarrow> bool" where
  "stable_dirs K D \<longleftrightarrow>
     (\<forall>d w p. fst (k_ptr K (Dget_parent d) w) = Ptr p \<longrightarrow> D p) \<and>
     (\<forall>p. D p \<longrightarrow>
       (\<forall>c w. ld_inode (k_ldentry K (snd (k_int K c w)) p) = ld_inode (k_ldentry K w p)) \<and>
       (\<forall>c w. ld_inode (k_ldentry K (snd (k_ptr K c w)) p) = ld_inode (k_ldentry K w p)) \<and>
       (\<forall>c w. ld_inode (k_ldentry K (k_void K c w) p) = ld_inode (k_ldentry K w p)) \<and>
       (\<forall>t h ns w. ld_inode (k_ldentry K (snd (snd (k_iget5 K t h ns w))) p) =
          ld_inode (k_ldentry K w p)) \<and>
       (\<forall>i d ds w. ld_inode (k_ldentry K (snd (snd (k_d_splice_alias K i d ds w))) p) =
          ld_inode (k_ldentry K w p)) \<and>
       (\<forall>i ds w. ld_inode (k_ldentry K (snd (snd (k_d_make_root K i ds w))) p) =
          ld_inode (k_ldentry K w p)))"

lemma reach_stable:
  assumes "reach K w w'" "stable_dirs K D" "D p"
  shows "ld_inode (k_ldentry K w' p) = ld_inode (k_ldentry K w p)"
  using assms by (induction w' rule: reach.induct) (simp_all add: stable_dirs_def)

section \<open>The calls that have been made\<close>

text \<open>\<open>since s s'\<close> is what the log of \<open>s'\<close> has beyond that of \<open>s\<close>, if it is an extension.\<close>

definition grows :: "'w st \<Rightarrow> 'w st \<Rightarrow> bool" where
  "grows s s' \<longleftrightarrow> (\<exists>l. log s' = l @ log s)"

definition called :: "'w st \<Rightarrow> 'w st \<Rightarrow> event \<Rightarrow> bool" where
  "called s s' e \<longleftrightarrow> (\<exists>l. log s' = l @ log s \<and> e \<in> set l)"

lemma grows_refl [simp]: "grows s s" by (simp add: grows_def)

lemma grows_trans: "grows s s1 \<Longrightarrow> grows s1 s2 \<Longrightarrow> grows s s2"
  by (auto simp: grows_def)

lemma grows_log: "log s' = log s1 \<Longrightarrow> grows s s' = grows s s1"
  by (simp add: grows_def)

lemma grows_calls [intro]:
  "grows s s1 \<Longrightarrow> grows s (call_void K cv s1)"
  "grows s s1 \<Longrightarrow> grows s (snd (call_int K ci s1))"
  "grows s s1 \<Longrightarrow> grows s (snd (call_i32 K ci s1))"
  "grows s s1 \<Longrightarrow> grows s (snd (call_ptr K cp s1))"
  "grows s s1 \<Longrightarrow> grows s (kfree_local K p s1)"
  "grows s s1 \<Longrightarrow> grows s (trace_write K f b n s1)"
  by (auto simp: grows_def kfree_local_def trace_write_def split: option.splits)

lemma called_i32:
  "grows s s1 \<Longrightarrow> grows (snd (call_i32 K c s1)) s' \<Longrightarrow>
   called s s' (Int_call c (fst (call_int K c s1)))"
  by (auto simp: grows_def called_def)

lemma called_int:
  "grows s s1 \<Longrightarrow> grows (snd (call_int K c s1)) s' \<Longrightarrow>
   called s s' (Int_call c (fst (call_int K c s1)))"
  by (auto simp: grows_def called_def)

section \<open>The three together\<close>

definition moves :: "'w kernel \<Rightarrow> 'w st \<Rightarrow> 'w st \<Rightarrow> bool" where
  "moves K s s' \<longleftrightarrow> reach K (world s) (world s') \<and> grows s s'"

lemma moves_refl [intro]: "moves K s s"
  by (simp add: moves_def reach.intros)

lemma moves_trans: "moves K s s1 \<Longrightarrow> moves K s1 s2 \<Longrightarrow> moves K s s2"
  by (auto simp: moves_def intro: reach_trans grows_trans)

lemma moves_cong: "world s' = world s1 \<Longrightarrow> log s' = log s1 \<Longrightarrow> moves K s s' = moves K s s1"
  by (simp add: moves_def grows_def)

lemma moves_calls [intro!]:
  "moves K s s1 \<Longrightarrow> moves K s (call_void K cv s1)"
  "moves K s s1 \<Longrightarrow> moves K s (snd (call_int K ci s1))"
  "moves K s s1 \<Longrightarrow> moves K s (snd (call_i32 K ci s1))"
  "moves K s s1 \<Longrightarrow> moves K s (snd (call_ptr K cp s1))"
  "moves K s s1 \<Longrightarrow> moves K s (kfree_local K p s1)"
  "moves K s s1 \<Longrightarrow> moves K s (trace_write K f b n s1)"
  by (auto simp: moves_def)

lemma moves_upd [simp]:
  "moves K s (upd_inode i f s1) = moves K s s1" "moves K s (upd_attrs i g s1) = moves K s s1"
  "moves K s (upd_dentry d h s1) = moves K s s1" "moves K s (upd_file fp k s1) = moves K s s1"
  "moves K s (upd_sb m s1) = moves K s s1"
  by (simp_all add: moves_def grows_def)

lemma moves_caches [intro!]:
  "moves K s s1 \<Longrightarrow> moves K s (s1\<lparr>inodes := ns', world := snd (snd (k_iget5 K t h ns (world s1)))\<rparr>)"
  "moves K s s1 \<Longrightarrow>
   moves K s (s1\<lparr>dentries := ds', world := snd (snd (k_d_splice_alias K i d ds (world s1)))\<rparr>)"
  "moves K s s1 \<Longrightarrow>
   moves K s (s1\<lparr>dentries := ds', world := snd (snd (k_d_make_root K i ds (world s1)))\<rparr>)"
  by (auto simp: moves_def grows_def intro: reach.intros)

lemma moves_free_locals [intro!]:
  "moves K s s1 \<Longrightarrow> moves K s (free_str_buffer_writer K l s1)"
  "moves K s s1 \<Longrightarrow> moves K s (free_str_writer_buffer K l s1)"
  by (auto simp: free_str_buffer_writer_def free_str_writer_buffer_def)

lemma moves_stable:
  assumes "moves K s s'" "stable_dirs K D" "D p"
  shows "lower_d_inode K p s' = lower_d_inode K p s"
  using reach_stable [of K "world s" "world s'" D p] assms by (simp add: moves_def lower_d_inode_def)

section \<open>Helpers of the header\<close>

text \<open>A dentry of trfs on top of a lower dentry.\<close>

definition on_lower :: "ptr \<Rightarrow> path \<Rightarrow> ptr \<Rightarrow> 'w st \<Rightarrow> bool" where
  "on_lower d lp ld s \<longleftrightarrow> (\<exists>a info. d_fsdata (dentries s d) = Some (a, info) \<and> lower_path info = lp) \<and>
     p_dentry lp = Some ld"

lemma on_lower_unique: "on_lower d lp ld s \<Longrightarrow> on_lower d lp' ld' s \<Longrightarrow> lp' = lp \<and> ld' = ld"
  by (auto simp: on_lower_def)

lemma get_lower_path_effect:
  assumes "trfs_get_lower_path K d s = Some (p, s')"
  shows "inodes s' = inodes s" "dentries s' = dentries s" "files s' = files s" "sb s' = sb s"
    "held (log s') r = held (log s) r + path_ref p r" "moves K s s'"
    "\<exists>a info. d_fsdata (dentries s d) = Some (a, info) \<and> p = lower_path info"
    "trace_file_ok K name tf th \<Longrightarrow> tf (world s') = tf (world s)"
  using assms
  by (auto simp: trfs_get_lower_path_def run_simps pathcpy_def trace_file_calls)

lemma lock_parent_effect:
  assumes "lock_parent K d s = Some (p, s')"
  shows "inodes s' = inodes s" "dentries s' = dentries s" "files s' = files s" "sb s' = sb s"
    "moves K s s'" "trace_file_ok K name tf th \<Longrightarrow> tf (world s') = tf (world s)"
    "stable_dirs K D \<Longrightarrow> D p \<and> (\<exists>i. lower_d_inode K p s' = Some i \<and>
       (\<forall>r. held (log s') r = held (log s) r + of_bool (r = R_dentry p) + of_bool (r = R_ilock i)))"
proof -
  obtain x i where d: "d = Some x" and p: "fst (call_ptr K (Dget_parent x) s) = Ptr p" and
    i: "lower_d_inode K p (snd (call_ptr K (Dget_parent x) s)) = Some i" and
    s': "s' = call_void K (Inode_lock i) (snd (call_ptr K (Dget_parent x) s))"
    using assms by (auto simp: lock_parent_def run_simps)
  show "inodes s' = inodes s" "dentries s' = dentries s" "files s' = files s" "sb s' = sb s"
    "moves K s s'" using s' by auto
  show "tf (world s') = tf (world s)" if "trace_file_ok K name tf th"
    using s' that by (simp add: trace_file_calls)
  assume st: "stable_dirs K D"
  then have D: "D p" using p by (simp add: stable_dirs_def call_ptr_def)
  moreover have "lower_d_inode K p s' = Some i"
    using st D i by (simp add: s' stable_dirs_def lower_d_inode_def call_void_def)
  ultimately show "D p \<and> (\<exists>i. lower_d_inode K p s' = Some i \<and>
       (\<forall>r. held (log s') r = held (log s) r + of_bool (r = R_dentry p) + of_bool (r = R_ilock i)))"
    using p by (auto simp: s')
qed

lemma unlock_dir_effect:
  assumes "unlock_dir K p s = Some s'"
  shows "inodes s' = inodes s" "dentries s' = dentries s" "files s' = files s" "sb s' = sb s"
    "moves K s s'" "trace_file_ok K name tf th \<Longrightarrow> tf (world s') = tf (world s)"
    "\<exists>i. lower_d_inode K p s = Some i \<and>
       (\<forall>r. held (log s') r = held (log s) r - of_bool (r = R_dentry p) - of_bool (r = R_ilock i))"
  using assms by (auto simp: unlock_dir_def run_simps trace_file_calls)

lemma put_lower_path_effect [simp]:
  "inodes (trfs_put_lower_path K p s) = inodes s" "dentries (trfs_put_lower_path K p s) = dentries s"
  "files (trfs_put_lower_path K p s) = files s" "sb (trfs_put_lower_path K p s) = sb s"
  "held (log (trfs_put_lower_path K p s)) r = held (log s) r - path_ref p r"
  by (simp_all add: trfs_put_lower_path_def)

lemma moves_put [intro!]: "moves K s s1 \<Longrightarrow> moves K s (trfs_put_lower_path K p s1)"
  by (auto simp: trfs_put_lower_path_def)

lemma put_lower_path_tf:
  "trace_file_ok K name tf th \<Longrightarrow> tf (world (trfs_put_lower_path K p s)) = tf (world s)"
  by (simp add: trfs_put_lower_path_def trace_file_calls)

section \<open>Attribute updates\<close>

lemma fsstack_frame [simp]:
  "dentries (fsstack K cp i li s) = dentries s" "files (fsstack K cp i li s) = files s"
  "sb (fsstack K cp i li s) = sb s" "world (fsstack K cp i li s) = world s"
  "log (fsstack K cp i li s) = log s"
  by (simp_all add: fsstack_def)

lemma set_nlink_frame [simp]:
  "dentries (set_nlink i n s) = dentries s" "files (set_nlink i n s) = files s"
  "sb (set_nlink i n s) = sb s" "world (set_nlink i n s) = world s" "log (set_nlink i n s) = log s"
  by (simp_all add: set_nlink_def)

lemma d_drop_frame [simp]:
  "inodes (d_drop K d s) = inodes s" "files (d_drop K d s) = files s"
  "sb (d_drop K d s) = sb s" "world (d_drop K d s) = world s" "log (d_drop K d s) = log s"
  by (simp_all add: d_drop_def)

lemma moves_attr [simp]:
  "moves K s (fsstack K cp i li s1) = moves K s s1"
  "moves K s (set_nlink i n s1) = moves K s s1"
  "moves K s (d_drop K d s1) = moves K s s1"
  by (auto simp: fsstack_def set_nlink_def d_drop_def)

section \<open>The trace block\<close>

lemma trace_block_moves:
  assumes "trace_block K rt fl pm er d1 second content s = Some (l, s')"
  shows "moves K s s'"
proof -
  have tp: "moves K s s1" if "trace_paths K d1 second s = Some (b, p1, p2, s1)" for b p1 p2 s1
    using that by (cases second; auto simp: trace_paths_def run_simps)
  have tw: "moves K s (trace_writes K f b p1 sec p2 c er s1)" if "moves K s s1" for f b p1 sec p2 c er s1
    using that by (auto simp: trace_writes_def Let_def split: option.splits)
  show ?thesis using assms by (auto simp: trace_block_def run_simps dest!: tp intro!: tw)
qed

lemma trace_op_moves:
  assumes "trace_op K rt flds er d1 second content s = Some (l, s')"
  shows "moves K s s'"
  using assms trace_block_moves by (auto simp: trace_op_def run_simps)

lemma trace_op_extends:
  assumes env: "tracing_env K name tf th path_of" and m: "mounted s name info"
    and run: "trace_op K rt flds er d1 second content s = Some (l, s')"
    and er: "- (2 ^ 31) \<le> er" "er < 2 ^ 31"
    and len: "\<And>str. second = Given_string str \<Longrightarrow> length str < 2 ^ 15"
  shows "extends tf s s' (if traced rt (mask info)
     then [trace_entry_of (path_of (dentries s)) rt (fst (the flds)) (snd (the flds)) er
             (sb_record_id info) d1 second content]
     else [])"
  using trace_op_effect [OF assms]
  by (auto simp: extends_single_iff extends_Nil_iff split: if_splits)

section \<open>Interposition\<close>

lemma trace_file_caches:
  assumes "trace_file_ok K name tf th"
  shows "tf (snd (snd (k_iget5 K t h ns w))) = tf w"
    "tf (snd (snd (k_d_splice_alias K i d ds w))) = tf w"
    "tf (snd (snd (k_d_make_root K i ds w))) = tf w"
  using assms by (simp_all add: trace_file_ok_def)

lemma init_inode_frame [simp]:
  "sb (init_inode K i li s) = sb s" "dentries (init_inode K i li s) = dentries s"
  "files (init_inode K i li s) = files s"
  "log (init_inode K i li s) = Void_call (Unlock_new_inode i) # log s"
  by (simp_all add: init_inode_def Let_def trfs_set_lower_inode_def)

lemma init_inode_tf:
  "trace_file_ok K name tf th \<Longrightarrow> tf (world (init_inode K i li s)) = tf (world s)"
  by (simp add: init_inode_def Let_def trfs_set_lower_inode_def trace_file_calls)

lemma init_inode_moves [intro!]: "moves K s s1 \<Longrightarrow> moves K s (init_inode K i li s1)"
  by (auto simp: init_inode_def Let_def trfs_set_lower_inode_def)

lemma iget_effect:
  assumes "trfs_iget K li s = Some (r, s')"
  shows "sb s' = sb s" "dentries s' = dentries s" "files s' = files s"
    "trace_file_ok K name tf th \<Longrightarrow> tf (world s') = tf (world s)" "moves K s s'"
    "(\<And>i. q \<noteq> R_linode i) \<Longrightarrow> held (log s') q = held (log s) q"
  using assms
  by (auto simp: trfs_iget_def run_simps kptr_case_eq_Some trace_file_calls init_inode_tf
      trace_file_caches split: kptr.splits)

lemma interpose_dentry_effect:
  assumes "interpose_dentry K d lp s = Some (r, s')"
  shows "sb s' = sb s" "files s' = files s"
    "trace_file_ok K name tf th \<Longrightarrow> tf (world s') = tf (world s)" "moves K s s'"
    "dentry_path_ok K path_of \<Longrightarrow> path_of (dentries s') = path_of (dentries s)"
    "(\<And>i. q \<noteq> R_linode i) \<Longrightarrow> held (log s') q = held (log s) q"
  using assms
  by (auto simp: interpose_dentry_def run_simps kptr_case_eq_Some trace_file_caches dentry_path_ok_def
      iget_effect dest: iget_effect(1-5))

lemma interpose_effect:
  assumes "trfs_interpose K d lp s = Some (r, s')"
  shows "sb s' = sb s" "files s' = files s" "- (2 ^ 31) \<le> r" "r < 2 ^ 31"
    "trace_file_ok K name tf th \<Longrightarrow> tf (world s') = tf (world s)" "moves K s s'"
    "dentry_path_ok K path_of \<Longrightarrow> path_of (dentries s') = path_of (dentries s)"
    "(\<And>i. q \<noteq> R_linode i) \<Longrightarrow> held (log s') q = held (log s) q"
  using assms to_int_range
  by (auto simp: trfs_interpose_def bind_eq_Some_conv interpose_dentry_effect dest: interpose_dentry_effect(1-5))

end
