(* ===== verification/Inode_Trace.thy ===== *)
theory Inode_Trace
  imports Effects
begin

text \<open>
  What the traced directory operations do to the trace and to the references, locks and
  allocations they take: a specification of the bodies (\<open>body_spec\<close>), a rule that lifts
  it to the whole operation, and one lemma per operation.
\<close>

section \<open>Entry and exit\<close>

lemma in_parent_effect:
  assumes "in_parent K d s = Some (lp, pd, ld, pi, s')"
  shows "inodes s' = inodes s" "dentries s' = dentries s" "files s' = files s" "sb s' = sb s"
    "moves K s s'" "trace_file_ok K name tf th \<Longrightarrow> tf (world s') = tf (world s)"
    "stable_dirs K D \<Longrightarrow> D pd \<and> lower_d_inode K pd s' = Some pi \<and>
       (\<forall>r. held (log s') r = held (log s) r + path_ref lp r + of_bool (r = R_dentry pd) + of_bool (r = R_ilock pi))"
    "on_lower d lp ld s"
proof -
  obtain s1 where 1: "trfs_get_lower_path K d s = Some (lp, s1)" and
    2: "lock_parent K (p_dentry lp) s1 = Some (pd, s')" and 3: "lower_d_inode K pd s' = Some pi"
    and 4: "p_dentry lp = Some ld"
    using assms by (auto simp: in_parent_def run_simps)
  note g = get_lower_path_effect [OF 1] and l = lock_parent_effect [OF 2]
  show "inodes s' = inodes s" "dentries s' = dentries s" "files s' = files s" "sb s' = sb s"
    using g l by auto
  show "moves K s s'" using g(6) l(5) by (rule moves_trans)
  show "tf (world s') = tf (world s)" if "trace_file_ok K name tf th"
    using g(8) [OF that] l(6) [OF that] by simp
  show "stable_dirs K D \<Longrightarrow> D pd \<and> lower_d_inode K pd s' = Some pi \<and>
       (\<forall>r. held (log s') r = held (log s) r + path_ref lp r + of_bool (r = R_dentry pd) + of_bool (r = R_ilock pi))"
    using l(7) [of D] 3 g(5) by auto
  show "on_lower d lp ld s" using g(7) 4 by (auto simp: on_lower_def)
qed

lemma out_parent_effect:
  assumes "out_parent K pd lp l s = Some s'"
  shows "sb s' = sb s" "dentries s' = dentries s" "inodes s' = inodes s" "files s' = files s"
    "moves K s s'" "trace_file_ok K name tf th \<Longrightarrow> tf (world s') = tf (world s)"
    "\<exists>pi. lower_d_inode K pd s = Some pi \<and> (\<forall>r. held (log s') r = held (log s) r
       - path_ref lp r - of_bool (r = R_dentry pd) - of_bool (r = R_ilock pi) - locals_held l r)"
proof -
  obtain s1 where 1: "unlock_dir K pd s = Some s1" and
    2: "s' = free_str_writer_buffer K l (trfs_put_lower_path K lp s1)"
    using assms by (auto simp: out_parent_def run_simps)
  note u = unlock_dir_effect [OF 1]
  show "sb s' = sb s" "dentries s' = dentries s" "inodes s' = inodes s" "files s' = files s"
    using u 2 by auto
  show "moves K s s'" using u(5) 2 by auto
  show "tf (world s') = tf (world s)" if "trace_file_ok K name tf th"
    using u(6) [OF that] 2 that by (simp add: trace_file_free_locals put_lower_path_tf)
  show "\<exists>pi. lower_d_inode K pd s = Some pi \<and> (\<forall>r. held (log s') r = held (log s) r
       - path_ref lp r - of_bool (r = R_dentry pd) - of_bool (r = R_ilock pi) - locals_held l r)"
    using u(7) 2 by auto
qed

lemma moves_grows: "moves K s s' \<Longrightarrow> grows s s'" by (simp add: moves_def)

text \<open>Balance across an operation on one name whose middle part holds its locals.\<close>

lemma parent_balanced:
  assumes st: "stable_dirs K D"
    and ip: "in_parent K d s = Some (lp, pd, ld, pi, s1)"
    and mid: "moves K s1 s2" "held (log s2) r = held (log s1) r + locals_held l r"
    and op: "out_parent K pd lp l s2 = Some s'"
  shows "held (log s') r = held (log s) r"
proof -
  note i = in_parent_effect(7) [OF ip st]
  have "lower_d_inode K pd s2 = Some pi" using moves_stable [OF mid(1) st] i by simp
  with out_parent_effect(7) [OF op] i mid(2) show ?thesis by auto
qed


section \<open>Bodies\<close>

text \<open>
  The specification of a body: from the state it starts in, the calls it makes include \<open>c\<close>
  with some result \<open>e\<close>, the trace grows by what \<open>es e\<close> says, and it owes its locals only.
\<close>

definition body_spec ::
  "'w kernel \<Rightarrow> ('w \<Rightarrow> block) \<Rightarrow> icall \<Rightarrow> (int \<Rightarrow> trace_entry list) \<Rightarrow> trace_locals \<Rightarrow> 'w st \<Rightarrow> 'w st \<Rightarrow> bool" where
  "body_spec K tf c es l s s' \<longleftrightarrow>
     (\<exists>e. called s s' (Int_call c e) \<and> extends tf s s' (es (to_int e))) \<and> moves K s s' \<and>
     (\<forall>r. (\<forall>i. r \<noteq> R_linode i) \<longrightarrow> held (log s') r = held (log s) r + locals_held l r)"

definition quiet :: "'w kernel \<Rightarrow> ('w \<Rightarrow> block) \<Rightarrow> 'w st \<Rightarrow> 'w st \<Rightarrow> bool" where
  "quiet K tf s s' \<longleftrightarrow> sb s' = sb s \<and> tf (world s') = tf (world s) \<and> moves K s s' \<and>
     (\<forall>r. (\<forall>i. r \<noteq> R_linode i) \<longrightarrow> held (log s') r = held (log s) r)"

lemma locals_held_none [simp]: "locals_held no_locals r = 0"
  by (simp add: locals_held_def no_locals_def mem_ref_def)

lemma quiet_upd [simp]:
  "quiet K tf s (upd_attrs i g s1) = quiet K tf s s1"
  "quiet K tf s (fsstack K cp i li s1) = quiet K tf s s1"
  "quiet K tf s (set_nlink i n s1) = quiet K tf s s1"
  "quiet K tf s (d_drop K d s1) = quiet K tf s s1"
  by (simp_all add: quiet_def)

lemma quiet_refl [simp]: "quiet K tf s s"
  by (auto simp: quiet_def)

lemma interpose_quiet:
  assumes "trfs_interpose K d lp s = Some (r, s')" "trace_file_ok K name tf th"
  shows "quiet K tf s s'"
  using interpose_effect [OF assms(1)] assms(2) by (auto simp: quiet_def)

text \<open>A body that makes its lower call, and then runs on quietly around at most one trace.\<close>

lemma body_spec_untraced:
  assumes ok: "trace_file_ok K name tf th" and c: "\<not> on_trace_file th c"
    and q: "quiet K tf (snd (call_i32 K c s)) s'" and es: "es (fst (call_i32 K c s)) = []"
  shows "body_spec K tf c es no_locals s s'"
proof -
  have "called s s' (Int_call c (fst (call_int K c s)))"
    using called_i32 [of s s K c s'] q by (auto simp: quiet_def moves_def)
  moreover have "extends tf s s' []"
    using q c by (simp add: extends_Nil_iff quiet_def trace_file_calls [OF ok])
  moreover have "moves K s s'"
    using q moves_trans [of K s "snd (call_i32 K c s)" s'] by (auto simp: quiet_def)
  ultimately show ?thesis using q es by (auto simp: body_spec_def quiet_def call_i32_def)
qed

lemma body_spec_traced:
  assumes env: "tracing_env K name tf th path_of" and m: "mounted s name info"
    and c: "\<not> on_trace_file th c"
    and q: "quiet K tf (snd (call_i32 K c s)) s1"
    and t: "trace_op K rt flds er d1 second content s1 = Some (l, s2)"
    and q': "quiet K tf s2 s'"
    and er: "- (2 ^ 31) \<le> er" "er < 2 ^ 31"
    and len: "\<And>str. second = Given_string str \<Longrightarrow> length str < 2 ^ 15"
    and es: "es (fst (call_i32 K c s)) = (if traced rt (mask info)
     then [trace_entry_of (path_of (dentries s1)) rt (fst (the flds)) (snd (the flds)) er
             (sb_record_id info) d1 second content] else [])"
  shows "body_spec K tf c es l s s'"
proof -
  have ok: "trace_file_ok K name tf th" using env by (simp add: tracing_env_def)
  have m1: "mounted s1 name info" using m q by (simp add: mounted_def quiet_def)
  have mv: "moves K (snd (call_i32 K c s)) s'"
    using moves_trans [OF moves_trans [OF _ trace_op_moves [OF t]]] q q' by (auto simp: quiet_def)
  have "called s s' (Int_call c (fst (call_int K c s)))"
    using called_i32 [of s s K c s'] mv by (auto simp: moves_def)
  moreover have "extends tf s s' (es (fst (call_i32 K c s)))"
    unfolding es by (rule extends_frame [OF trace_op_extends [OF env m1 t er len]])
      (use q q' c in \<open>auto simp: quiet_def trace_file_calls [OF ok]\<close>)
  moreover have "moves K s s'"
    using mv moves_trans [of K s "snd (call_i32 K c s)" s'] by auto
  ultimately show ?thesis
    using q q' trace_op_held [OF t] by (auto simp: body_spec_def quiet_def call_i32_def)
qed

lemma with_parent_spec:
  assumes env: "tracing_env K name tf th path_of" and m: "mounted s name info"
    and run: "with_parent K d body s = Some (r, s')"
    and body: "\<And>lp pd ld pi s1 l s2. body lp pd ld pi s1 = Some (r, l, s2) \<Longrightarrow>
      mounted s1 name info \<Longrightarrow> inodes s1 = inodes s \<Longrightarrow> dentries s1 = dentries s \<Longrightarrow>
      body_spec K tf (c pi ld) es l s1 s2"
  shows "(\<exists>lp pi ld e. on_lower d lp ld s \<and> called s s' (Int_call (c pi ld) e) \<and> extends tf s s' (es (to_int e)))"
    and "stable_dirs K D \<Longrightarrow> (\<And>i. q \<noteq> R_linode i) \<Longrightarrow> held (log s') q = held (log s) q"
proof -
  have ok: "trace_file_ok K name tf th" using env by (simp add: tracing_env_def)
  obtain lp pd ld pi s1 l s2 where
    ip: "in_parent K d s = Some (lp, pd, ld, pi, s1)" and
    bd: "body lp pd ld pi s1 = Some (r, l, s2)" and
    op: "out_parent K pd lp l s2 = Some s'"
    using run by (auto simp: with_parent_def run_simps)
  note I = in_parent_effect [OF ip] and O = out_parent_effect [OF op]
  have "mounted s1 name info" using m I by (simp add: mounted_def)
  from body [OF bd this I(1,2)] have B: "body_spec K tf (c pi ld) es l s1 s2" .
  then obtain e where e: "called s1 s2 (Int_call (c pi ld) e)" "extends tf s1 s2 (es (to_int e))"
    by (auto simp: body_spec_def)
  have "called s s' (Int_call (c pi ld) e)"
    using e(1) I(5) O(5) by (auto simp: called_def moves_def grows_def)
  moreover have "extends tf s s' (es (to_int e))"
    by (rule extends_frame [OF e(2)]) (use I(4) O(1) I(6) [OF ok] O(6) [OF ok] in auto)
  ultimately show "\<exists>lp pi ld e. on_lower d lp ld s \<and> called s s' (Int_call (c pi ld) e) \<and> extends tf s s' (es (to_int e))"
    using I(8) by blast
  show "held (log s') q = held (log s) q" if "stable_dirs K D" "\<And>i. q \<noteq> R_linode i"
    using parent_balanced [OF that(1) ip _ _ op] B that(2) by (auto simp: body_spec_def)
qed

lemma mkdir_body_spec:
  assumes env: "tracing_env K name tf th path_of" and m: "mounted s name info"
    and run: "mkdir_body K dir d mode lp pd ld pi s = Some (r, l, s')"
  shows "body_spec K tf (Vfs_mkdir pi ld mode) (\<lambda>e. if (e = 0 \<or> r = 0) \<and> traced MKDIR_CALL (mask info)
      then [trace_entry_of (path_of (dentries s)) MKDIR_CALL (dir_opflags dir s) mode 0
              (sb_record_id info) d No_second None] else []) l s s'"
proof -
  have ok: "trace_file_ok K name tf th" using env by (simp add: tracing_env_def)
  let ?s1 = "snd (call_i32 K (Vfs_mkdir pi ld mode) s)"
  show ?thesis
  proof (cases "fst (call_i32 K (Vfs_mkdir pi ld mode) s) = 0")
    case False
    with run have "l = no_locals" "s' = ?s1" "r \<noteq> 0" by (auto simp: mkdir_body_def run_simps)
    with False show ?thesis
      by (auto intro!: body_spec_untraced [OF ok] simp: on_trace_file_def)
  next
    case True
    with run obtain s2 where
      t: "trace_op K MKDIR_CALL (Some (dir_opflags dir ?s1, mode)) 0 d No_second None ?s1 = Some (l, s2)"
      and q: "quiet K tf s2 s'"
      by (auto simp: mkdir_body_def run_simps dest!: interpose_quiet [OF _ ok])
    from True show ?thesis
      by (intro body_spec_traced [OF env m _ quiet_refl t q]) (auto simp: on_trace_file_def dir_opflags_def)
  qed
qed


lemma tracing_env_parts:
  assumes "tracing_env K name tf th path_of"
  shows "trace_file_ok K name tf th" "kmalloc_ok K" "dentry_path_ok K path_of"
  using assms by (simp_all add: tracing_env_def)

lemma create_body_spec:
  assumes env: "tracing_env K name tf th path_of" and m: "mounted s name info"
    and run: "create_body K dir d mode want_excl lp pd ld pi s = Some (r, l, s')"
  shows "body_spec K tf (Vfs_create pi ld mode want_excl) (\<lambda>e. if traced CREATE_CALL (mask info)
      then [trace_entry_of (path_of (dentries s)) CREATE_CALL (dir_opflags dir s) mode e
              (sb_record_id info) d No_second None] else []) l s s'"
proof -
  note ok = tracing_env_parts(1) [OF env]
  let ?c = "Vfs_create pi ld mode want_excl"
  let ?s1 = "snd (call_i32 K ?c s)" and ?e = "fst (call_i32 K ?c s)"
  from run obtain s2 where
    t: "trace_op K CREATE_CALL (Some (dir_opflags dir ?s1, mode)) ?e d No_second None ?s1 = Some (l, s2)"
    and q: "quiet K tf s2 s'"
    by (auto simp: create_body_def run_simps dest!: interpose_quiet [OF _ ok])
  show ?thesis
    by (intro body_spec_traced [OF env m _ quiet_refl t q])
      (use call_i32_range [of K ?c s] in \<open>auto simp: on_trace_file_def dir_opflags_def\<close>)
qed

text \<open>
  The operations that interpose before they trace: nothing is recorded unless both the
  lower operation and the interposition succeed.
\<close>

lemma interpose_then_trace:
  assumes env: "tracing_env K name tf th path_of" and m: "mounted s name info"
    and c: "\<not> on_trace_file th c"
    and ii: "trfs_interpose K d lp (snd (call_i32 K c s)) = Some (0, s1)"
    and t: "trace_op K rt flds 0 d1 second content s1 = Some (l, s2)"
    and q: "quiet K tf s2 s'"
    and len: "\<And>str. second = Given_string str \<Longrightarrow> length str < 2 ^ 15"
    and es: "es (fst (call_i32 K c s)) = (if traced rt (mask info)
     then [trace_entry_of (path_of (dentries s)) rt (fst (the flds)) (snd (the flds)) 0
             (sb_record_id info) d1 second content] else [])"
  shows "body_spec K tf c es l s s'"
proof -
  note P = tracing_env_parts [OF env]
  have "path_of (dentries s1) = path_of (dentries s)"
    using interpose_effect(7) [OF ii P(3)] by simp
  then show ?thesis
    using es len by (intro body_spec_traced [OF env m c interpose_quiet [OF ii P(1)] t q]) auto
qed

lemma symlink_body_spec:
  assumes env: "tracing_env K name tf th path_of" and m: "mounted s name info"
    and len: "length symname < 2 ^ 15"
    and run: "symlink_body K dir d symname lp pd ld pi s = Some (r, l, s')"
  shows "body_spec K tf (Vfs_symlink pi ld symname) (\<lambda>e. if r = 0 \<and> traced SYMLINK_CALL (mask info)
      then [trace_entry_of (path_of (dentries s)) SYMLINK_CALL 0 0 0
              (sb_record_id info) d (Given_string symname) None] else []) l s s'"
proof -
  note ok = tracing_env_parts(1) [OF env]
  let ?c = "Vfs_symlink pi ld symname"
  have nt: "\<not> on_trace_file th ?c" by (simp add: on_trace_file_def)
  show ?thesis
  proof (cases "r = 0")
    case False
    with run have "l = no_locals" "quiet K tf (snd (call_i32 K ?c s)) s'"
      by (auto simp: symlink_body_def run_simps dest!: interpose_quiet [OF _ ok])
    with False nt show ?thesis by (auto intro!: body_spec_untraced [OF ok])
  next
    case True
    with run obtain s1 s2 where
      ii: "trfs_interpose K d lp (snd (call_i32 K ?c s)) = Some (0, s1)" and
      t: "trace_op K SYMLINK_CALL (Some (0, 0)) 0 d (Given_string symname) None s1 = Some (l, s2)"
      and q: "quiet K tf s2 s'"
      by (auto simp: symlink_body_def run_simps)
    from True len show ?thesis by (intro interpose_then_trace [OF env m nt ii t q]) auto
  qed
qed

lemma mknod_body_spec:
  assumes env: "tracing_env K name tf th path_of" and m: "mounted s name info"
    and run: "mknod_body K dir d mode dev lp pd ld pi s = Some (r, l, s')"
  shows "body_spec K tf (Vfs_mknod pi ld mode dev) (\<lambda>e. if r = 0 \<and> traced MKNOD_CALL (mask info)
      then [trace_entry_of (path_of (dentries s)) MKNOD_CALL dev mode 0
              (sb_record_id info) d No_second None] else []) l s s'"
proof -
  note ok = tracing_env_parts(1) [OF env]
  let ?c = "Vfs_mknod pi ld mode dev"
  have nt: "\<not> on_trace_file th ?c" by (simp add: on_trace_file_def)
  show ?thesis
  proof (cases "r = 0")
    case False
    with run have "l = no_locals" "quiet K tf (snd (call_i32 K ?c s)) s'"
      by (auto simp: mknod_body_def run_simps dest!: interpose_quiet [OF _ ok])
    with False nt show ?thesis by (auto intro!: body_spec_untraced [OF ok])
  next
    case True
    with run obtain s1 s2 where
      ii: "trfs_interpose K d lp (snd (call_i32 K ?c s)) = Some (0, s1)" and
      t: "trace_op K MKNOD_CALL (Some (dev, mode)) 0 d No_second None s1 = Some (l, s2)"
      and q: "quiet K tf s2 s'"
      by (auto simp: mknod_body_def run_simps)
    from True show ?thesis by (intro interpose_then_trace [OF env m nt ii t q]) auto
  qed
qed

lemma rmdir_body_spec:
  assumes env: "tracing_env K name tf th path_of" and m: "mounted s name info"
    and run: "rmdir_body K dir d lp pd ld pi s = Some (r, l, s')"
  shows "body_spec K tf (Vfs_rmdir pi ld) (\<lambda>e. if r = 0 \<and> traced RMDIR_CALL (mask info)
      then [trace_entry_of (path_of (dentries s)) RMDIR_CALL (dir_opflags dir s)
              (i_mode (attrs (inodes s dir))) 0 (sb_record_id info) d No_second None] else []) l s s'"
proof -
  note ok = tracing_env_parts(1) [OF env]
  let ?c = "Vfs_rmdir pi ld"
  let ?s1 = "snd (call_i32 K ?c s)"
  have nt: "\<not> on_trace_file th ?c" by (simp add: on_trace_file_def)
  show ?thesis
  proof (cases "r = 0")
    case False
    with run have "l = no_locals" "s' = ?s1" by (auto simp: rmdir_body_def run_simps)
    with False nt show ?thesis by (auto intro!: body_spec_untraced [OF ok])
  next
    case True
    with run obtain s2 where
      t: "trace_op K RMDIR_CALL (Some (dir_opflags dir ?s1, i_mode (attrs (inodes ?s1 dir)))) 0 d
            No_second None ?s1 = Some (l, s2)"
      and q: "quiet K tf s2 s'"
      by (auto simp: rmdir_body_def run_simps split: option.splits)
    from True nt show ?thesis
      by (intro body_spec_traced [OF env m _ quiet_refl t q]) (auto simp: dir_opflags_def)
  qed
qed

lemma unlink_body_spec:
  assumes env: "tracing_env K name tf th path_of" and m: "mounted s name info"
    and run: "unlink_body K dir d ldi ld s = Some (r, l, s')"
  shows "body_spec K tf (Vfs_unlink ldi ld) (\<lambda>e. if r = 0 \<and> traced UNLINK_CALL (mask info)
      then [trace_entry_of (path_of (dentries s)) UNLINK_CALL 0 0 0
              (sb_record_id info) d No_second None] else []) l s s'"
proof -
  note ok = tracing_env_parts(1) [OF env]
  let ?c = "Vfs_unlink ldi ld"
  let ?s1 = "snd (call_i32 K ?c s)"
  have nt: "\<not> on_trace_file th ?c" by (simp add: on_trace_file_def)
  show ?thesis
  proof (cases "r = 0")
    case False
    with run have "l = no_locals" "s' = ?s1" by (auto simp: unlink_body_def run_simps)
    with False nt show ?thesis by (auto intro!: body_spec_untraced [OF ok])
  next
    case True
    with run obtain s2 where
      t: "trace_op K UNLINK_CALL (Some (0, 0)) 0 d No_second None ?s1 = Some (l, s2)"
      and q: "quiet K tf s2 s'"
      by (auto simp: unlink_body_def run_simps split: if_splits)
    from True nt show ?thesis by (intro body_spec_traced [OF env m _ quiet_refl t q]) auto
  qed
qed

lemma link_body_spec:
  assumes env: "tracing_env K name tf th path_of" and m: "mounted s name info"
    and run: "link_body K od dir nd sz np lo ln pi s = Some (r, l, s')"
  shows "body_spec K tf (Vfs_link lo pi ln) (\<lambda>e.
      if r = 0 \<and> lower_d_inode K ln (snd (call_i32 K (Vfs_link lo pi ln) s)) \<noteq> None \<and> traced LINK_CALL (mask info)
      then [trace_entry_of (path_of (dentries s)) LINK_CALL 0 0 0
              (sb_record_id info) od (Same_buffer nd) None] else []) l s s'"
proof -
  note ok = tracing_env_parts(1) [OF env]
  let ?c = "Vfs_link lo pi ln"
  let ?pos = "lower_d_inode K ln (snd (call_i32 K ?c s)) \<noteq> None"
  have nt: "\<not> on_trace_file th ?c" by (simp add: on_trace_file_def)
  show ?thesis
  proof (cases "r = 0 \<and> ?pos")
    case False
    with run have "l = no_locals" "quiet K tf (snd (call_i32 K ?c s)) s'"
      by (auto simp: link_body_def run_simps dest!: interpose_quiet [OF _ ok])
    with False nt show ?thesis by (auto intro!: body_spec_untraced [OF ok])
  next
    case True
    with run obtain s1 s2 where
      ii: "trfs_interpose K nd np (snd (call_i32 K ?c s)) = Some (0, s1)" and
      t: "trace_op K LINK_CALL (Some (0, 0)) 0 od (Same_buffer nd) None s1 = Some (l, s2)"
      and q: "quiet K tf s2 s'"
      by (auto simp: link_body_def run_simps)
    from True show ?thesis by (intro interpose_then_trace [OF env m nt ii t q]) auto
  qed
qed


text \<open>A rename refused before it reaches the lower file system makes no call.\<close>

lemma rename_body_refused:
  assumes run: "rename_body K odir od ndir nd trap lo ln lod lnd s = Some (r, l, s')"
    and trap: "trap = Ptr lo \<or> trap = Ptr ln"
  shows "r = (if trap = Ptr lo then - EINVAL else - ENOTEMPTY)" "l = no_locals" "s' = s"
  using assms by (auto simp: rename_body_def split: if_splits)

lemma rename_body_spec:
  assumes env: "tracing_env K name tf th path_of" and m: "mounted s name info"
    and run: "rename_body K odir od ndir nd trap lo ln lod lnd s = Some (r, l, s')"
    and trap: "trap \<noteq> Ptr lo" "trap \<noteq> Ptr ln"
  shows "\<exists>odi ndi. body_spec K tf (Vfs_rename odi lo ndi ln) (\<lambda>e. if r = 0 \<and> traced RENAME_CALL (mask info)
      then [trace_entry_of (path_of (dentries s)) RENAME_CALL 0 0 0
              (sb_record_id info) od (Same_buffer nd) None] else []) l s s'"
proof -
  note ok = tracing_env_parts(1) [OF env]
  obtain odi ndi where i: "lower_d_inode K lod s = Some odi" "lower_d_inode K lnd s = Some ndi"
    using run trap by (auto simp: rename_body_def run_simps)
  let ?c = "Vfs_rename odi lo ndi ln"
  let ?s1 = "snd (call_i32 K ?c s)"
  have nt: "\<not> on_trace_file th ?c" by (simp add: on_trace_file_def)
  have "body_spec K tf ?c (\<lambda>e. if r = 0 \<and> traced RENAME_CALL (mask info)
      then [trace_entry_of (path_of (dentries s)) RENAME_CALL 0 0 0
              (sb_record_id info) od (Same_buffer nd) None] else []) l s s'"
  proof (cases "r = 0")
    case False
    with run trap i have "l = no_locals" "s' = ?s1" by (auto simp: rename_body_def run_simps)
    with False nt show ?thesis by (auto intro!: body_spec_untraced [OF ok])
  next
    case True
    with run trap i obtain s2 where
      t: "trace_op K RENAME_CALL (Some (0, 0)) 0 od (Same_buffer nd) None ?s1 = Some (l, s2)"
      and q: "quiet K tf s2 s'"
      by (auto simp: rename_body_def run_simps)
    from True nt show ?thesis by (intro body_spec_traced [OF env m _ quiet_refl t q]) auto
  qed
  then show ?thesis by blast
qed

section \<open>The operations\<close>

text \<open>
  \<open>op_trace\<close>: the operation made the lower call \<open>c\<close> with result \<open>e\<close> and its trace is
  \<open>es e\<close>; \<open>balanced\<close>: it gives back every reference, lock and allocation it took. The
  reference that a new upper inode keeps on its lower inode is counted apart.
\<close>

definition op_trace ::
  "('w \<Rightarrow> block) \<Rightarrow> icall \<Rightarrow> (int \<Rightarrow> trace_entry list) \<Rightarrow> 'w st \<Rightarrow> 'w st \<Rightarrow> bool" where
  "op_trace tf c es s s' \<longleftrightarrow>
     (\<exists>e. called s s' (Int_call c e) \<and> extends tf s s' (es (to_int e)))"

definition balanced :: "'w st \<Rightarrow> 'w st \<Rightarrow> bool" where
  "balanced s s' \<longleftrightarrow>
     (\<forall>r. (\<forall>i. r \<noteq> R_linode i) \<longrightarrow> held (log s') r = held (log s) r)"

lemma body_spec_lift:
  assumes "body_spec K tf c es l s1 s2" "trace_file_ok K name tf th"
    and "moves K s s1" "moves K s2 s'" "sb s1 = sb s" "sb s' = sb s2"
    and "tf (world s1) = tf (world s)" "tf (world s') = tf (world s2)"
  shows "op_trace tf c es s s'"
proof -
  obtain e where e: "called s1 s2 (Int_call c e)" "extends tf s1 s2 (es (to_int e))"
    using assms(1) by (auto simp: body_spec_def)
  have "called s s' (Int_call c e)"
    using e(1) assms(3,4) by (auto simp: called_def moves_def grows_def)
  moreover have "extends tf s s' (es (to_int e))"
    by (rule extends_frame [OF e(2)]) (use assms in auto)
  ultimately show ?thesis by (auto simp: op_trace_def)
qed

lemma unlink_op:
  assumes env: "tracing_env K name tf th path_of" and m: "mounted s name info"
    and run: "trfs_unlink K dir d s = Some (r, s')"
  shows "\<exists>lp ldi ld. on_lower d lp ld s \<and> trfs_lower_inode dir s = Some ldi \<and> op_trace tf (Vfs_unlink ldi ld) (\<lambda>e. if r = 0 \<and> traced UNLINK_CALL (mask info)
      then [trace_entry_of (path_of (dentries s)) UNLINK_CALL 0 0 0
              (sb_record_id info) d No_second None] else []) s s'"
    and "stable_dirs K D \<Longrightarrow> balanced s s'"
proof -
  note ok = tracing_env_parts(1) [OF env]
  obtain lp s1 ld pd s2 ldi l s3 s4 where
    g: "trfs_get_lower_path K d s = Some (lp, s1)" and ld: "p_dentry lp = Some ld" and
    ldi: "trfs_lower_inode dir s = Some ldi" and
    k: "lock_parent K (Some ld) (call_void K (Dget ld) s1) = Some (pd, s2)" and
    b: "unlink_body K dir d ldi ld s2 = Some (r, l, s3)" and
    u: "unlock_dir K pd s3 = Some s4" and
    s': "s' = free_str_writer_buffer K l (trfs_put_lower_path K lp (call_void K (Dput ld) s4))"
    using run by (auto simp: trfs_unlink_def run_simps)
  note G = get_lower_path_effect [OF g] and L = lock_parent_effect [OF k]
    and U = unlock_dir_effect [OF u]
  have "mounted s2 name info" using m G(4) L(4) by (simp add: mounted_def)
  note B = unlink_body_spec [OF env this b]
  have mv: "moves K s s2" using moves_trans [OF _ L(5)] G(6) by auto
  have ds: "dentries s2 = dentries s" using G(2) L(2) by simp
  have T: "op_trace tf (Vfs_unlink ldi ld) (\<lambda>e. if r = 0 \<and> traced UNLINK_CALL (mask info)
      then [trace_entry_of (path_of (dentries s2)) UNLINK_CALL 0 0 0
              (sb_record_id info) d No_second None] else []) s s'"
    by (rule body_spec_lift [OF B ok mv])
      (use s' G(4) L(4) U(4,5) G(8) [OF ok] L(6) [OF ok] U(6) [OF ok] in
       \<open>auto simp: trace_file_calls [OF ok] trace_file_free_locals [OF ok] put_lower_path_tf [OF ok]\<close>)
  show "\<exists>lp ldi ld. on_lower d lp ld s \<and> trfs_lower_inode dir s = Some ldi \<and> op_trace tf (Vfs_unlink ldi ld) (\<lambda>e. if r = 0 \<and> traced UNLINK_CALL (mask info)
      then [trace_entry_of (path_of (dentries s)) UNLINK_CALL 0 0 0
              (sb_record_id info) d No_second None] else []) s s'"
    using T G(7) ld ldi unfolding ds on_lower_def by blast
  assume st: "stable_dirs K D"
  obtain i where i: "D pd" "lower_d_inode K pd s2 = Some i" "\<And>q. held (log s2) q =
      held (log (call_void K (Dget ld) s1)) q + of_bool (q = R_dentry pd) + of_bool (q = R_ilock i)"
    using L(7) [OF st] by auto
  have "lower_d_inode K pd s3 = Some i"
    using moves_stable [OF _ st i(1), of s2 s3] B i(2) by (simp add: body_spec_def)
  then have "held (log s4) q = held (log s3) q - of_bool (q = R_dentry pd) - of_bool (q = R_ilock i)" for q
    using U(7) by auto
  then show "balanced s s'"
    using G(5) i(3) B s' by (simp add: balanced_def body_spec_def)
qed


text \<open>A link that succeeds makes its target positive.\<close>

definition link_ok :: "'w kernel \<Rightarrow> bool" where
  "link_ok K \<longleftrightarrow> (\<forall>lo pi ln w. to_int (fst (k_int K (Vfs_link lo pi ln) w)) = 0 \<longrightarrow>
     ld_inode (k_ldentry K (snd (k_int K (Vfs_link lo pi ln) w)) ln) \<noteq> None)"

lemma link_op:
  assumes env: "tracing_env K name tf th path_of" and m: "mounted s name info"
    and run: "trfs_link K od dir nd s = Some (r, s')"
    and pos: "link_ok K"
  shows "\<exists>op np lo pi ln. on_lower od op lo s \<and> on_lower nd np ln s \<and> op_trace tf (Vfs_link lo pi ln) (\<lambda>e. if r = 0 \<and> traced LINK_CALL (mask info)
      then [trace_entry_of (path_of (dentries s)) LINK_CALL 0 0 0
              (sb_record_id info) od (Same_buffer nd) None] else []) s s'"
    and "stable_dirs K D \<Longrightarrow> balanced s s'"
proof -
  note ok = tracing_env_parts(1) [OF env]
  obtain op s1 np s2 pd s3 sz lo ln pi l s4 s5 where
    g1: "trfs_get_lower_path K od s = Some (op, s1)" and
    g2: "trfs_get_lower_path K nd s1 = Some (np, s2)" and
    k: "lock_parent K (p_dentry np) s2 = Some (pd, s3)" and
    pi: "lower_d_inode K pd s3 = Some pi" and lo: "p_dentry op = Some lo" and ln: "p_dentry np = Some ln" and
    b: "link_body K od dir nd sz np lo ln pi s3 = Some (r, l, s4)" and
    u: "unlock_dir K pd s4 = Some s5" and
    s': "s' = free_str_writer_buffer K l (trfs_put_lower_path K np (trfs_put_lower_path K op s5))"
    using run by (auto simp: trfs_link_def run_simps)
  note G1 = get_lower_path_effect [OF g1] and G2 = get_lower_path_effect [OF g2]
    and L = lock_parent_effect [OF k] and U = unlock_dir_effect [OF u]
  have "mounted s3 name info" using m G1(4) G2(4) L(4) by (simp add: mounted_def)
  note B = link_body_spec [OF env this b]
  have mv: "moves K s s3" by (rule moves_trans [OF moves_trans [OF G1(6) G2(6)] L(5)])
  have ds: "dentries s3 = dentries s" using G1(2) G2(2) L(2) by simp
  let ?es = "\<lambda>e::int. if r = 0 \<and> traced LINK_CALL (mask info)
      then [trace_entry_of (path_of (dentries s)) LINK_CALL 0 0 0
              (sb_record_id info) od (Same_buffer nd) None] else []"
  have B': "body_spec K tf (Vfs_link lo pi ln) ?es l s3 s4"
  proof (cases "r = 0")
    case True
    then have "fst (call_i32 K (Vfs_link lo pi ln) s3) = 0"
      using b by (auto simp: link_body_def run_simps)
    then have "lower_d_inode K ln (snd (call_i32 K (Vfs_link lo pi ln) s3)) \<noteq> None"
      using pos by (simp add: link_ok_def lower_d_inode_def call_i32_def call_int_def)
    then show ?thesis using B [unfolded ds] True by simp
  next
    case False
    then show ?thesis using B by simp
  qed
  have "op_trace tf (Vfs_link lo pi ln) ?es s s'"
    by (rule body_spec_lift [OF B' ok mv])
      (use s' G1(4) G2(4) L(4) U(4,5) G1(8) [OF ok] G2(8) [OF ok] L(6) [OF ok] U(6) [OF ok] in
       \<open>auto simp: trace_file_free_locals [OF ok] put_lower_path_tf [OF ok]\<close>)
  then show "\<exists>op np lo pi ln. on_lower od op lo s \<and> on_lower nd np ln s \<and> op_trace tf (Vfs_link lo pi ln) ?es s s'"
    using G1(7) G2(7) G1(2) lo ln unfolding on_lower_def by metis
  assume st: "stable_dirs K D"
  have Lp: "D pd" "held (log s3) q = held (log s2) q + of_bool (q = R_dentry pd) + of_bool (q = R_ilock pi)" for q
    using L(7) [OF st] pi by auto
  have "lower_d_inode K pd s4 = Some pi"
    using moves_stable [OF _ st Lp(1), of s3 s4] B pi by (simp add: body_spec_def)
  then have "held (log s5) q = held (log s4) q - of_bool (q = R_dentry pd) - of_bool (q = R_ilock pi)" for q
    using U(7) by auto
  then show "balanced s s'"
    using G1(5) G2(5) Lp(2) B s' by (simp add: balanced_def body_spec_def)
qed

lemma rename_op:
  assumes env: "tracing_env K name tf th path_of" and m: "mounted s name info"
    and run: "trfs_rename K odir od ndir nd s = Some (r, s')"
  shows "(\<exists>op np odi lo ndi ln. on_lower od op lo s \<and> on_lower nd np ln s \<and> op_trace tf (Vfs_rename odi lo ndi ln) (\<lambda>e. if r = 0 \<and> traced RENAME_CALL (mask info)
      then [trace_entry_of (path_of (dentries s)) RENAME_CALL 0 0 0
              (sb_record_id info) od (Same_buffer nd) None] else []) s s') \<or>
      (r = - EINVAL \<or> r = - ENOTEMPTY) \<and> silent tf s s'"
    and "balanced s s'"
proof -
  note ok = tracing_env_parts(1) [OF env]
  obtain op s1 np s2 lo ln s3 s4 lod lnd trap s5 l s6 where
    g1: "trfs_get_lower_path K od s = Some (op, s1)" and
    g2: "trfs_get_lower_path K nd s1 = Some (np, s2)" and
    lo: "p_dentry op = Some lo" and ln: "p_dentry np = Some ln" and
    s3: "s3 = snd (call_ptr K (Dget_parent lo) s2)" "fst (call_ptr K (Dget_parent lo) s2) = Ptr lod" and
    s4: "s4 = snd (call_ptr K (Dget_parent ln) s3)" "fst (call_ptr K (Dget_parent ln) s3) = Ptr lnd" and
    s5: "s5 = snd (call_ptr K (Lock_rename lod lnd) s4)" and
    b: "rename_body K odir od ndir nd trap lo ln lod lnd s5 = Some (r, l, s6)" and
    s': "s' = free_str_writer_buffer K l (trfs_put_lower_path K np (trfs_put_lower_path K op
       (call_void K (Dput lnd) (call_void K (Dput lod) (call_void K (Unlock_rename lod lnd) s6)))))"
    using run by (auto simp: trfs_rename_def run_simps)
  note G1 = get_lower_path_effect [OF g1] and G2 = get_lower_path_effect [OF g2]
  have m5: "mounted s5 name info" using m G1(4) G2(4) s3 s4 s5 by (simp add: mounted_def)
  have mv: "moves K s s5" using s3 s4 s5 moves_trans [OF G1(6) G2(6)] by auto
  have ds: "dentries s5 = dentries s" using G1(2) G2(2) s3 s4 s5 by simp
  have pre: "sb s5 = sb s" "tf (world s5) = tf (world s)"
    using s3 s4 s5 G1(4) G2(4) G1(8) [OF ok] G2(8) [OF ok] by (simp_all add: trace_file_calls [OF ok])
  have post: "sb s' = sb s6" "tf (world s') = tf (world s6)" "moves K s6 s'"
    using s' by (auto simp: trace_file_calls [OF ok] trace_file_free_locals [OF ok] put_lower_path_tf [OF ok])
  have bal: "balanced s s'" if "\<And>q. (\<And>i. q \<noteq> R_linode i) \<Longrightarrow> held (log s6) q = held (log s5) q + locals_held l q"
    using that G1(5) G2(5) s3 s4 s5 s' by (simp add: balanced_def)
  let ?es = "\<lambda>e::int. if r = 0 \<and> traced RENAME_CALL (mask info)
      then [trace_entry_of (path_of (dentries s)) RENAME_CALL 0 0 0
              (sb_record_id info) od (Same_buffer nd) None] else []"
  have "((\<exists>op np odi lo ndi ln. on_lower od op lo s \<and> on_lower nd np ln s \<and> op_trace tf (Vfs_rename odi lo ndi ln) ?es s s') \<or>
      (r = - EINVAL \<or> r = - ENOTEMPTY) \<and> silent tf s s') \<and> balanced s s'"
  proof (cases "trap = Ptr lo \<or> trap = Ptr ln")
    case True
    note R = rename_body_refused [OF b True]
    then show ?thesis using pre post bal by (simp add: silent_def)
  next
    case False
    then obtain odi ndi where B: "body_spec K tf (Vfs_rename odi lo ndi ln) ?es l s5 s6"
      using rename_body_spec [OF env m5 b, unfolded ds] by blast
    have "op_trace tf (Vfs_rename odi lo ndi ln) ?es s s'"
      by (rule body_spec_lift [OF B ok mv post(3) pre(1) post(1) pre(2) post(2)])
    moreover have "balanced s s'" by (rule bal) (use B in \<open>simp add: body_spec_def\<close>)
    moreover have "on_lower od op lo s" "on_lower nd np ln s"
      using G1(7) G2(7) G1(2) lo ln by (auto simp: on_lower_def)
    ultimately show ?thesis by blast
  qed
  then show "(\<exists>op np odi lo ndi ln. on_lower od op lo s \<and> on_lower nd np ln s \<and> op_trace tf (Vfs_rename odi lo ndi ln) ?es s s') \<or>
      (r = - EINVAL \<or> r = - ENOTEMPTY) \<and> silent tf s s'" "balanced s s'" by auto
qed

section \<open>The operations on one name\<close>

lemma with_parent_op:
  assumes env: "tracing_env K name tf th path_of" and m: "mounted s name info"
    and run: "with_parent K d body s = Some (r, s')"
    and body: "\<And>lp pd ld pi s1 l s2. body lp pd ld pi s1 = Some (r, l, s2) \<Longrightarrow>
      mounted s1 name info \<Longrightarrow> inodes s1 = inodes s \<Longrightarrow> dentries s1 = dentries s \<Longrightarrow>
      body_spec K tf (c pi ld) es l s1 s2"
  shows "(\<exists>lp pi ld. on_lower d lp ld s \<and> op_trace tf (c pi ld) es s s') \<and> (stable_dirs K D \<longrightarrow> balanced s s')"
proof (intro conjI impI)
  have "\<exists>lp pi ld e. on_lower d lp ld s \<and> called s s' (Int_call (c pi ld) e) \<and> extends tf s s' (es (to_int e))"
    by (rule with_parent_spec(1) [OF env m run]) (rule body)
  then show "\<exists>lp pi ld. on_lower d lp ld s \<and> op_trace tf (c pi ld) es s s'"
    unfolding op_trace_def by blast
  assume "stable_dirs K D"
  then show "balanced s s'"
    unfolding balanced_def by (intro allI impI with_parent_spec(2) [OF env m run body]) auto
qed

lemmas one_name_ops = trfs_create_def trfs_symlink_def trfs_mkdir_def trfs_mknod_def trfs_rmdir_def

lemma create_op:
  assumes env: "tracing_env K name tf th path_of" and m: "mounted s name info"
    and run: "trfs_create K dir d mode want_excl s = Some (r, s')"
  shows "(\<exists>lp pi ld. on_lower d lp ld s \<and> op_trace tf (Vfs_create pi ld mode want_excl) (\<lambda>e. if traced CREATE_CALL (mask info)
      then [trace_entry_of (path_of (dentries s)) CREATE_CALL (dir_opflags dir s) mode e
              (sb_record_id info) d No_second None] else []) s s') \<and>
    (stable_dirs K D \<longrightarrow> balanced s s')"
  by (rule with_parent_op [OF env m run [unfolded one_name_ops]])
    (drule (1) create_body_spec [OF env _, rotated], simp add: dir_opflags_def cong: if_cong)

lemma symlink_op:
  assumes env: "tracing_env K name tf th path_of" and m: "mounted s name info"
    and len: "length symname < 2 ^ 15"
    and run: "trfs_symlink K dir d symname s = Some (r, s')"
  shows "(\<exists>lp pi ld. on_lower d lp ld s \<and> op_trace tf (Vfs_symlink pi ld symname) (\<lambda>e. if r = 0 \<and> traced SYMLINK_CALL (mask info)
      then [trace_entry_of (path_of (dentries s)) SYMLINK_CALL 0 0 0
              (sb_record_id info) d (Given_string symname) None] else []) s s') \<and>
    (stable_dirs K D \<longrightarrow> balanced s s')"
  by (rule with_parent_op [OF env m run [unfolded one_name_ops]])
    (drule (1) symlink_body_spec [OF env _ len, rotated], simp add: dir_opflags_def cong: if_cong)

lemma mkdir_op:
  assumes env: "tracing_env K name tf th path_of" and m: "mounted s name info"
    and run: "trfs_mkdir K dir d mode s = Some (r, s')"
  shows "(\<exists>lp pi ld. on_lower d lp ld s \<and> op_trace tf (Vfs_mkdir pi ld mode) (\<lambda>e. if (e = 0 \<or> r = 0) \<and> traced MKDIR_CALL (mask info)
      then [trace_entry_of (path_of (dentries s)) MKDIR_CALL (dir_opflags dir s) mode 0
              (sb_record_id info) d No_second None] else []) s s') \<and>
    (stable_dirs K D \<longrightarrow> balanced s s')"
  by (rule with_parent_op [OF env m run [unfolded one_name_ops]])
    (drule (1) mkdir_body_spec [OF env _, rotated], simp add: dir_opflags_def cong: if_cong)

lemma mknod_op:
  assumes env: "tracing_env K name tf th path_of" and m: "mounted s name info"
    and run: "trfs_mknod K dir d mode dev s = Some (r, s')"
  shows "(\<exists>lp pi ld. on_lower d lp ld s \<and> op_trace tf (Vfs_mknod pi ld mode dev) (\<lambda>e. if r = 0 \<and> traced MKNOD_CALL (mask info)
      then [trace_entry_of (path_of (dentries s)) MKNOD_CALL dev mode 0
              (sb_record_id info) d No_second None] else []) s s') \<and>
    (stable_dirs K D \<longrightarrow> balanced s s')"
  by (rule with_parent_op [OF env m run [unfolded one_name_ops]])
    (drule (1) mknod_body_spec [OF env _, rotated], simp add: dir_opflags_def cong: if_cong)

lemma rmdir_op:
  assumes env: "tracing_env K name tf th path_of" and m: "mounted s name info"
    and run: "trfs_rmdir K dir d  s = Some (r, s')"
  shows "(\<exists>lp pi ld. on_lower d lp ld s \<and> op_trace tf (Vfs_rmdir pi ld) (\<lambda>e. if r = 0 \<and> traced RMDIR_CALL (mask info)
      then [trace_entry_of (path_of (dentries s)) RMDIR_CALL (dir_opflags dir s)
              (i_mode (attrs (inodes s dir))) 0
              (sb_record_id info) d No_second None] else []) s s') \<and>
    (stable_dirs K D \<longrightarrow> balanced s s')"
  by (rule with_parent_op [OF env m run [unfolded one_name_ops]])
    (drule (1) rmdir_body_spec [OF env _, rotated], simp add: dir_opflags_def cong: if_cong)

end
