(* ===== verification/File_Trace.thy ===== *)
theory File_Trace
  imports Inode_Trace
begin

text \<open>
  What the four traced file operations do: the record each one adds to the trace, and the
  references and allocations it keeps. A successful open keeps its private data and the
  lower file; the release gives back exactly these.
\<close>

section \<open>Reading and writing\<close>

text \<open>\<open>fsstack_copy_attr_atime\<close> copies the access time and nothing else.\<close>

definition atime_copy_ok :: "'w kernel \<Rightarrow> bool" where
  "atime_copy_ok K \<longleftrightarrow> (\<forall>a b. k_attr_atime K a b = a\<lparr>i_atime := i_atime b\<rparr>)"

lemma lower_file_Some:
  "trfs_lower_file f s = Some x \<longleftrightarrow>
   (\<exists>a info. private_data (files s f) = Some (a, info) \<and> x = lower_file info)"
  by (auto simp: trfs_lower_file_def run_simps)

lemma trace_op_silent_held:
  assumes "trace_op K rt flds er d1 second content s = Some (l, s')"
  shows "moves K s s'" "held (log s') r = held (log s) r + locals_held l r"
  using trace_op_moves [OF assms] trace_op_held [OF assms] by auto

lemma inode_fields_atime:
  assumes "atime_copy_ok K"
  shows "inode_fields d (fsstack K (k_attr_atime K) i li s) = inode_fields d s"
  using assms by (cases "d_inode (dentries s d)") (simp_all add: inode_fields_def fsstack_def atime_copy_ok_def)

lemma inode_fields_int [simp]: "inode_fields d (snd (call_int K c s)) = inode_fields d s"
  by (simp add: inode_fields_def)

lemma read_op:
  assumes env: "tracing_env K name tf th path_of" and m: "mounted s name info"
    and at: "atime_copy_ok K" and other: "\<And>lf. trfs_lower_file f s = Some (Some lf) \<Longrightarrow> \<not> th lf"
    and fields: "inode_fields (f_dentry (files s f)) s = Some (fl, pm)"
    and run: "trfs_read K f buf count s = Some (r, s')"
  shows "(\<exists>lf. trfs_lower_file f s = Some (Some lf) \<and> op_trace tf (Vfs_read lf buf count Caller_ppos) (\<lambda>e. if traced READ_CALL (mask info)
      then [trace_entry_of (path_of (dentries s)) READ_CALL fl pm r
              (sb_record_id info) (f_dentry (files s f)) No_second None] else []) s s') \<and> balanced s s'"
proof -
  note ok = tracing_env_parts(1) [OF env]
  let ?d = "f_dentry (files s f)"
  obtain lf where lf: "trfs_lower_file f s = Some (Some lf)" 
    using run by (auto simp: trfs_read_def run_simps)
  let ?c = "Vfs_read lf buf count Caller_ppos"
  let ?s1 = "snd (call_int K ?c s)"
  obtain s2 l s3 where
    p: "(if 0 \<le> r then do { i \<leftarrow> d_inode (dentries ?s1 ?d);
           Some (fsstack K (k_attr_atime K) i (lower_file_inode K lf ?s1) ?s1) } else Some ?s1) = Some s2" and
    t: "trace_op K READ_CALL (inode_fields ?d s2) r ?d No_second None s2 = Some (l, s3)" and
    r: "r = to_int (fst (call_int K ?c s))" and
    s': "s' = free_str_buffer_writer K l s3"
    using run lf by (auto simp: trfs_read_def bind_eq_Some_conv case_prod_beta Let_def)
  then have 2: "(\<exists>i. s2 = fsstack K (k_attr_atime K) i (lower_file_inode K lf ?s1) ?s1) \<or> s2 = ?s1"
    by (auto simp: run_simps)
  have fl: "inode_fields ?d s2 = Some (fl, pm)"
    using 2 inode_fields_atime [OF at] fields by auto
  have q: "quiet K tf (snd (call_i32 K ?c s)) s2"
    using 2 by (auto simp: call_i32_def )
  have ds: "dentries s2 = dentries s" using 2 by auto
  have B: "body_spec K tf ?c (\<lambda>e. if traced READ_CALL (mask info)
      then [trace_entry_of (path_of (dentries s)) READ_CALL fl pm r
              (sb_record_id info) ?d No_second None] else []) l s s3"
    by (rule body_spec_traced [OF env m _ q t quiet_refl])
      (use r to_int_range fl ds in \<open>auto simp: on_trace_file_def call_i32_def cong: if_cong\<close>)
  have "op_trace tf ?c (\<lambda>e. if traced READ_CALL (mask info)
      then [trace_entry_of (path_of (dentries s)) READ_CALL fl pm r
              (sb_record_id info) ?d No_second None] else []) s s'"
    by (rule body_spec_lift [OF B ok]) (auto simp: s' trace_file_free_locals [OF ok])
  moreover have "balanced s s'" using B s' by (simp add: balanced_def body_spec_def)
  ultimately show ?thesis using lf by blast
qed


lemma write_op:
  assumes env: "tracing_env K name tf th path_of" and m: "mounted s name info"
    and other: "\<And>lf. trfs_lower_file f s = Some (Some lf) \<Longrightarrow> \<not> th lf"
    and fields: "inode_fields (f_dentry (files s f)) s = Some (fl, pm)"
    and run: "trfs_write K f buf count s = Some (r, s')"
  shows "(\<exists>lf. trfs_lower_file f s = Some (Some lf) \<and> op_trace tf (Vfs_write lf buf count Caller_ppos) (\<lambda>e. if traced WRITE_CALL (mask info)
      then [trace_entry_of (path_of (dentries s)) WRITE_CALL fl pm r
              (sb_record_id info) (f_dentry (files s f)) No_second (Some buf)] else []) s s') \<and> balanced s s'"
proof -
  note ok = tracing_env_parts(1) [OF env]
  let ?d = "f_dentry (files s f)"
  obtain lf where lf: "trfs_lower_file f s = Some (Some lf)" 
    using run by (auto simp: trfs_write_def run_simps)
  let ?c = "Vfs_write lf buf count Caller_ppos"
  let ?s1 = "snd (call_int K ?c s)"
  obtain l s2 s3 where
    t: "trace_op K WRITE_CALL (inode_fields ?d s) r ?d No_second (Some buf) ?s1 = Some (l, s2)" and
    p: "(if 0 \<le> r then do { i \<leftarrow> d_inode (dentries s2 ?d);
           let s = fsstack K (k_inode_size K) i (lower_file_inode K lf s2) s2;
           Some (fsstack K (k_attr_times K) i (lower_file_inode K lf s) s) } else Some s2) = Some s3" and
    r: "r = to_int (fst (call_int K ?c s))" and
    s': "s' = free_str_buffer_writer K l s3"
    using run lf by (auto simp: trfs_write_def bind_eq_Some_conv case_prod_beta Let_def cong: if_cong)
  have q: "quiet K tf s2 s3" using p by (auto simp: run_simps)
  have nt: "\<not> on_trace_file th ?c" using other lf by (simp add: on_trace_file_def)
  let ?es = "\<lambda>e. if traced WRITE_CALL (mask info)
      then [trace_entry_of (path_of (dentries s)) WRITE_CALL fl pm r
              (sb_record_id info) ?d No_second (Some buf)] else []"
  have t': "trace_op K WRITE_CALL (inode_fields ?d s) r ?d No_second (Some buf) (snd (call_i32 K ?c s)) = Some (l, s2)"
    using t by (simp add: call_i32_def)
  have B: "body_spec K tf ?c ?es l s s3"
    by (rule body_spec_traced [OF env m nt quiet_refl t' q])
      (use r to_int_range fields in \<open>auto simp: call_i32_def cong: if_cong\<close>)
  have "op_trace tf ?c ?es s s'"
    by (rule body_spec_lift [OF B ok]) (auto simp: s' trace_file_free_locals [OF ok])
  moreover have "balanced s s'" using B s' by (simp add: balanced_def body_spec_def)
  ultimately show ?thesis using lf by blast
qed


section \<open>Opening and releasing\<close>

text \<open>The fields an open records.\<close>

definition open_fields :: "ptr \<Rightarrow> 'w st \<Rightarrow> (32 word \<times> 16 word) option" where
  "open_fields f s = (case d_inode (dentries s (f_dentry (files s f))) of None \<Rightarrow> None
     | Some i \<Rightarrow> Some (f_flags (files s f), i_mode (attrs (inodes s i))))"

text \<open>
  What an open that reached the lower file system did: its trace, and what it keeps, which
  is the private data and the lower file when it succeeds and nothing when it fails.
\<close>

definition open_keeps :: "ptr \<Rightarrow> int \<Rightarrow> 'w st \<Rightarrow> resource \<Rightarrow> int" where
  "open_keeps f r s q = (if r \<noteq> 0 then 0 else
     (case private_data (files s f) of None \<Rightarrow> 0 | Some (a, info) \<Rightarrow>
        of_bool (q = R_mem a) +
        (case lower_file info of None \<Rightarrow> 0 | Some lf \<Rightarrow> of_bool (q = R_file lf))))"

text \<open>\<open>dentry_open\<close> returns a file or an error number.\<close>

definition dentry_open_ok :: "'w kernel \<Rightarrow> bool" where
  "dentry_open_ok K \<longleftrightarrow> (\<forall>p fl w. fst (k_ptr K (Dentry_open p fl) w) \<noteq> Null \<and>
     (\<forall>e. fst (k_ptr K (Dentry_open p fl) w) = Err_ptr e \<longrightarrow> - (2 ^ 31) \<le> e \<and> e < 0))"

lemma open_op:
  assumes env: "tracing_env K name tf th path_of" and m: "mounted s name info"
    and fields: "open_fields f s = Some (fl, pm)"
    and dok: "dentry_open_ok K"
    and run: "trfs_open K inode f s = Some (r, s')"
  shows "(extends tf s s' (if traced OPEN_CALL (mask info)
      then [trace_entry_of (path_of (dentries s)) OPEN_CALL fl pm r
              (sb_record_id info) (f_dentry (files s f)) No_second None] else []) \<or>
      (r = - ENOENT \<or> r = - ENOMEM) \<and> silent tf s s') \<and>
    held (log s') q = held (log s) q + open_keeps f r s' q"
proof -
  note ok = tracing_env_parts(1) [OF env]
  let ?d = "f_dentry (files s f)"
  let ?s1 = "snd (call_ptr K (Kzalloc 16) s)" and ?fi = "fst (call_ptr K (Kzalloc 16) s)"
  show ?thesis
  proof (cases "d_unhashed (dentries s ?d) \<or> deref ?fi = None")
    case True
    then have "(r = - ENOENT \<or> r = - ENOMEM) \<and> sb s' = sb s \<and> tf (world s') = tf (world s) \<and>
        held (log s') q = held (log s) q"
      using run by (auto simp: trfs_open_def run_simps trace_file_calls [OF ok] deref_def split: kptr.splits)
    then show ?thesis by (auto simp: silent_def open_keeps_def errno_defs)
  next
    case False
    then obtain a where fi: "?fi = Ptr a" by (auto simp: deref_def split: kptr.splits)
    define s2 where "s2 = upd_file f (\<lambda>x. x\<lparr>private_data := Some (a, \<lparr>lower_file = None, lower_vm_ops = None\<rparr>)\<rparr>) ?s1"
    obtain lp s3 s5 l s6 s7 where
      g: "trfs_get_lower_path K ?d s2 = Some (lp, s3)" and
      o: "(case fst (call_ptr K (Dentry_open lp (f_flags (files s3 f))) s3) of
          Err_ptr e \<Rightarrow> r = e \<and> s5 = call_void K (Path_put lp) (snd (call_ptr K (Dentry_open lp (f_flags (files s3 f))) s3))
        | p \<Rightarrow> r = 0 \<and> trfs_set_lower_file f (deref p)
            (call_void K (Path_put lp) (snd (call_ptr K (Dentry_open lp (f_flags (files s3 f))) s3))) = Some s5)" and
      t: "trace_op K OPEN_CALL (do { i \<leftarrow> d_inode (dentries s5 ?d);
                 Some (f_flags (files s5 f), i_mode (attrs (inodes s5 i))) }) r ?d No_second None s5 = Some (l, s6)" and
      e: "(if r \<noteq> 0 then Some (kfree_local K (map_option fst (private_data (files s6 f))) s6)
           else do { li \<leftarrow> trfs_lower_inode inode s6; Some (fsstack K (k_attr_all K) inode li s6) }) = Some s7" and
      s': "s' = free_str_buffer_writer K l s7"
      using run False fi
      by (auto simp: trfs_open_def bind_eq_Some_conv case_prod_beta Let_def s2_def trfs_lower_file_def kptr_case_eq_Some
          option_case_eq_Some cong: if_cong dest: get_lower_path_effect(3))
    note G = get_lower_path_effect [OF g]
    let ?x = "fst (call_ptr K (Dentry_open lp (f_flags (files s3 f))) s3)"
    have x: "(\<exists>er. ?x = Err_ptr er \<and> - (2 ^ 31) \<le> er \<and> er < 0) \<or> (\<exists>lf. ?x = Ptr lf)"
      using dok by (cases ?x) (auto simp: call_ptr_def dentry_open_ok_def)
    have pre: "sb s5 = sb s" "tf (world s5) = tf (world s)" "dentries s5 = dentries s" "inodes s5 = inodes s"
      "f_flags (files s5 f) = f_flags (files s f)"
      using o x G G(8) [OF ok] unfolding s2_def
      by (auto simp: trfs_set_lower_file_def run_simps trace_file_calls [OF ok])
    have keep: "\<exists>info. private_data (files s5 f) = Some (a, info) \<and> (r \<noteq> 0 \<longrightarrow> lower_file info = None) \<and>
       held (log s5) q = held (log s) q + of_bool (q = R_mem a) +
         (case lower_file info of None \<Rightarrow> 0 | Some lf \<Rightarrow> of_bool (q = R_file lf))"
      using o x G(3,5) fi unfolding s2_def
      by (auto simp: trfs_set_lower_file_def run_simps)
    have rr: "- (2 ^ 31) \<le> r" "r < 2 ^ 31" using o x by auto
    have m5: "mounted s5 name info" using m pre by (simp add: mounted_def)
    have tr: "extends tf s5 s6 (if traced OPEN_CALL (mask info)
      then [trace_entry_of (path_of (dentries s)) OPEN_CALL fl pm r
              (sb_record_id info) ?d No_second None] else [])"
      using trace_op_extends [OF env m5 t rr] fields pre
      by (auto simp: open_fields_def split: option.splits)
    have ext: "extends tf s s' (if traced OPEN_CALL (mask info)
      then [trace_entry_of (path_of (dentries s)) OPEN_CALL fl pm r
              (sb_record_id info) ?d No_second None] else [])"
      by (rule extends_frame [OF tr])
        (use pre e s' in \<open>auto simp: run_simps trace_file_calls [OF ok] trace_file_free_locals [OF ok]\<close>)
    have "held (log s') q = held (log s) q + open_keeps f r s' q"
      using keep e s' trace_op_held [OF t, of q] trace_op_frame(3) [OF t]
      by (auto simp: open_keeps_def run_simps mem_ref_def)
    with ext show ?thesis by blast
  qed
qed


lemma release_op:
  assumes env: "tracing_env K name tf th path_of" and m: "mounted s name info"
    and run: "trfs_file_release K inode f s = Some (r, s')"
  shows "r = 0 \<and> extends tf s s' (if traced RELEASE_CALL (mask info)
      then [trace_entry_of (path_of (dentries s)) RELEASE_CALL 0 0 0
              (sb_record_id info) (f_dentry (files s f)) No_second None] else []) \<and>
    held (log s') q = held (log s) q - open_keeps f 0 s q"
proof -
  note ok = tracing_env_parts(1) [OF env]
  obtain a fi where pd: "private_data (files s f) = Some (a, fi)"
    using run by (auto simp: trfs_file_release_def run_simps trfs_lower_file_def)
  obtain s1 l s2 where
    c: "(case lower_file fi of None \<Rightarrow> s1 = s | Some lf \<Rightarrow>
       s1 = call_void K (Fput lf) (upd_file f (\<lambda>x. x\<lparr>private_data := Some (a, fi\<lparr>lower_file := None\<rparr>)\<rparr>) s))" and
    t: "trace_op K RELEASE_CALL (Some (0, 0)) 0 (f_dentry (files s1 f)) No_second None s1 = Some (l, s2)" and
    r: "r = 0" and
    s': "s' = free_str_buffer_writer K l (kfree_local K (map_option fst (private_data (files s2 f))) s2)"
    using run pd
    by (auto simp: trfs_file_release_def bind_eq_Some_conv case_prod_beta Let_def trfs_lower_file_def
        trfs_set_lower_file_def option_case_eq_Some split: option.splits)
  have pre: "sb s1 = sb s" "tf (world s1) = tf (world s)" "dentries s1 = dentries s"
    "f_dentry (files s1 f) = f_dentry (files s f)" "\<exists>fi'. private_data (files s1 f) = Some (a, fi')"
    using c pd by (auto simp: trace_file_calls [OF ok] split: option.splits)
  have m1: "mounted s1 name info" using m pre by (simp add: mounted_def)
  have tr: "extends tf s1 s2 (if traced RELEASE_CALL (mask info)
      then [trace_entry_of (path_of (dentries s)) RELEASE_CALL 0 0 0
              (sb_record_id info) (f_dentry (files s f)) No_second None] else [])"
    using trace_op_extends [OF env m1 t] pre by auto
  have "extends tf s s' (if traced RELEASE_CALL (mask info)
      then [trace_entry_of (path_of (dentries s)) RELEASE_CALL 0 0 0
              (sb_record_id info) (f_dentry (files s f)) No_second None] else [])"
    by (rule extends_frame [OF tr])
      (use pre s' in \<open>auto simp: trace_file_calls [OF ok] trace_file_free_locals [OF ok]\<close>)
  moreover have "held (log s') q = held (log s) q - open_keeps f 0 s q"
    using c pd s' trace_op_held [OF t, of q] trace_op_frame(3) [OF t] pre(5)
    by (auto simp: open_keeps_def mem_ref_def split: option.splits)
  ultimately show ?thesis using r by blast
qed

end
