(* ===== verification/File_Pass.thy ===== *)
theory File_Pass
  imports File_Ops
begin

text \<open>
  The file operations of \<open>src/fs/trfs/file.c\<close> that are passed to the lower file without
  tracing, and the page-fault and direct-I/O functions of \<open>src/fs/trfs/mmap.c\<close>.
\<close>

section \<open>Reading a directory, flushing and syncing\<close>

definition trfs_readdir :: "'w kernel \<Rightarrow> ptr \<Rightarrow> 'w st \<Rightarrow> (int \<times> 'w st) option" where
  "trfs_readdir K f s = do {
     let dentry = f_dentry (files s f);
     lf \<leftarrow> trfs_lower_file f s;
     lower \<leftarrow> lf;
     let (er, s) = call_i32 K (Iterate_dir lower) s;
     let s = upd_file f (\<lambda>x. x\<lparr>f_pos := lf_pos (k_lfile K (world s) lower)\<rparr>) s;
     if 0 \<le> er then do {
       i \<leftarrow> d_inode (dentries s dentry);
       Some (er, fsstack K (k_attr_atime K) i (lower_file_inode K lower s) s) }
     else Some (er, s)
   }"

definition trfs_flush :: "'w kernel \<Rightarrow> ptr \<Rightarrow> ptr \<Rightarrow> 'w st \<Rightarrow> (int \<times> 'w st) option" where
  "trfs_flush K f owner s = do {
     lf \<leftarrow> trfs_lower_file f s;
     (case lf of
        None \<Rightarrow> Some (0, s)
      | Some lower \<Rightarrow>
          if has_f_op (k_lfile K (world s) lower) \<and> has_flush (k_lfile K (world s) lower) then do {
            let (_, s) = call_i32 K (Filemap_write_and_wait f) s;
            let (er, s) = call_i32 K (Lower_flush lower owner) s;
            Some (er, s) }
          else Some (0, s))
   }"

definition trfs_fsync ::
  "'w kernel \<Rightarrow> ptr \<Rightarrow> int \<Rightarrow> int \<Rightarrow> int \<Rightarrow> 'w st \<Rightarrow> (int \<times> 'w st) option" where
  "trfs_fsync K f start stop datasync s = do {
     let dentry = f_dentry (files s f);
     let (er, s) = call_i32 K (Generic_file_fsync f start stop datasync) s;
     if er \<noteq> 0 then Some (er, s)
     else do {
       lf \<leftarrow> trfs_lower_file f s;
       (lp, s) \<leftarrow> trfs_get_lower_path K dentry s;
       lower \<leftarrow> lf;
       let (er, s) = call_i32 K (Vfs_fsync_range lower start stop datasync) s;
       Some (er, trfs_put_lower_path K lp s)
     }
   }"

definition trfs_fasync :: "'w kernel \<Rightarrow> int \<Rightarrow> ptr \<Rightarrow> int \<Rightarrow> 'w st \<Rightarrow> (int \<times> 'w st) option" where
  "trfs_fasync K fd f flag s = do {
     lf \<leftarrow> trfs_lower_file f s;
     lower \<leftarrow> lf;
     if has_f_op (k_lfile K (world s) lower) \<and> has_fasync (k_lfile K (world s) lower) then do {
       let (er, s) = call_i32 K (Lower_fasync fd lower flag) s;
       Some (er, s) }
     else Some (0, s)
   }"

section \<open>Seeking\<close>

text \<open>
  \<open>err\<close> is an \<open>int\<close>: the 64-bit position that \<open>generic_file_llseek\<close> returns is cut to
  32 bits before it is tested and returned.
\<close>

definition trfs_file_llseek :: "'w kernel \<Rightarrow> ptr \<Rightarrow> int \<Rightarrow> int \<Rightarrow> 'w st \<Rightarrow> (int \<times> 'w st) option" where
  "trfs_file_llseek K f offset whence s = do {
     let (e, s) = call_int K (Upper_llseek f offset whence) s;
     let er = to_int e;
     if er < 0 then Some (er, s)
     else do {
       lf \<leftarrow> trfs_lower_file f s;
       lower \<leftarrow> lf;
       let (e, s) = call_int K (Lower_llseek lower offset whence) s;
       Some (to_int e, s)
     }
   }"

section \<open>Asynchronous reads and writes\<close>

definition set_ki_filp :: "ptr \<Rightarrow> ptr \<Rightarrow> 'w st \<Rightarrow> 'w st" where
  "set_ki_filp iocb f s = s\<lparr>ki_filp := (ki_filp s)(iocb := f)\<rparr>"

definition trfs_read_iter :: "'w kernel \<Rightarrow> ptr \<Rightarrow> 'w st \<Rightarrow> (int \<times> 'w st) option" where
  "trfs_read_iter K iocb s = do {
     let f = ki_filp s iocb;
     lf \<leftarrow> trfs_lower_file f s;
     lower \<leftarrow> lf;
     if \<not> has_read_iter (k_lfile K (world s) lower) then Some (- EINVAL, s)
     else do {
       let s = call_void K (Get_file lower) s;
       let s = set_ki_filp iocb lower s;
       let (e, s) = call_int K (Lower_read_iter (ki_filp s iocb)) s;
       let er = to_int e;
         let s = set_ki_filp iocb f s;
       let s = call_void K (Fput lower) s;
       if 0 \<le> er \<or> er = - EIOCBQUEUED then do {
         i \<leftarrow> d_inode (dentries s (f_dentry (files s f)));
         Some (er, fsstack K (k_attr_atime K) i (lower_file_inode K lower s) s) }
       else Some (er, s)
     }
   }"

definition trfs_write_iter :: "'w kernel \<Rightarrow> ptr \<Rightarrow> 'w st \<Rightarrow> (int \<times> 'w st) option" where
  "trfs_write_iter K iocb s = do {
     let f = ki_filp s iocb;
     lf \<leftarrow> trfs_lower_file f s;
     lower \<leftarrow> lf;
     if \<not> has_write_iter (k_lfile K (world s) lower) then Some (- EINVAL, s)
     else do {
       let s = call_void K (Get_file lower) s;
       let s = set_ki_filp iocb lower s;
       let (e, s) = call_int K (Lower_write_iter (ki_filp s iocb)) s;
       let er = to_int e;
         let s = set_ki_filp iocb f s;
       let s = call_void K (Fput lower) s;
       if 0 \<le> er \<or> er = - EIOCBQUEUED then do {
         i \<leftarrow> d_inode (dentries s (f_dentry (files s f)));
         let s = fsstack K (k_inode_size K) i (lower_file_inode K lower s) s;
         Some (er, fsstack K (k_attr_times K) i (lower_file_inode K lower s) s) }
       else Some (er, s)
     }
   }"

section \<open>Memory mappings\<close>

definition VM_WRITE :: "64 word" where "VM_WRITE = 2"
definition VM_SHARED :: "64 word" where "VM_SHARED = 8"

definition upd_vma :: "ptr \<Rightarrow> (vma \<Rightarrow> vma) \<Rightarrow> 'w st \<Rightarrow> 'w st" where
  "upd_vma v f s = s\<lparr>vmas := (vmas s)(v := f (vmas s v))\<rparr>"

definition set_lower_vm_ops :: "ptr \<Rightarrow> ptr option \<Rightarrow> 'w st \<Rightarrow> 'w st option" where
  "set_lower_vm_ops f ops s = do {
     (a, info) \<leftarrow> private_data (files s f);
     Some (upd_file f (\<lambda>x. x\<lparr>private_data := Some (a, info\<lparr>lower_vm_ops := ops\<rparr>)\<rparr>) s)
   }"

definition trfs_mmap :: "'w kernel \<Rightarrow> ptr \<Rightarrow> ptr \<Rightarrow> 'w st \<Rightarrow> (int \<times> 'w st) option" where
  "trfs_mmap K f v s = do {
     let willwrite = (vm_flags (vmas s v) OR VM_SHARED OR VM_WRITE = vm_flags (vmas s v));
     lf \<leftarrow> trfs_lower_file f s;
     lower \<leftarrow> lf;
     if willwrite \<and> \<not> has_writepage (k_lfile K (world s) lower) then Some (- EINVAL, s)
     else do {
       (a, info) \<leftarrow> private_data (files s f);
       (er, saved, s) \<leftarrow> (if lower_vm_ops info = None then do {
           let (er, s) = call_i32 K (Lower_mmap lower v) s;
           let s = upd_vma v (\<lambda>m. m\<lparr>vm_ops := Other_vm_ops (k_vm_ops K (world s) v)\<rparr>) s;
           Some (er, k_vm_ops K (world s) v, s) }
         else Some (0, None, s));
       if er \<noteq> 0 then Some (er, s)
       else do {
         let s = call_void K (File_accessed f) s;
         let s = upd_vma v (\<lambda>m. m\<lparr>vm_ops := Trfs_vm_ops\<rparr>) s;
         let s = upd_file f (\<lambda>x. x\<lparr>f_trfs_aops := True\<rparr>) s;
         (a, info) \<leftarrow> private_data (files s f);
         s \<leftarrow> (if lower_vm_ops info = None then set_lower_vm_ops f saved s else Some s);
         Some (0, s)
       }
     }
   }"

text \<open>
  The fault handlers work on a copy of the mapping with the lower file in it
  (\<open>lower_vma\<close> on the stack), so the caller's mapping is never changed. \<open>BUG_ON\<close> and a
  lower file that is gone end the run.
\<close>

definition trfs_fault :: "'w kernel \<Rightarrow> ptr \<Rightarrow> ptr \<Rightarrow> 'w st \<Rightarrow> (int \<times> 'w st) option" where
  "trfs_fault K v vmf s = do {
     let lower_vma = vmas s v;
     let f = vm_file lower_vma;
     (a, info) \<leftarrow> private_data (files s f);
     ops \<leftarrow> lower_vm_ops info;
     lf \<leftarrow> trfs_lower_file f s;
     lower \<leftarrow> lf;
     let lower_vma = lower_vma\<lparr>vm_file := lower\<rparr>;
     let (er, s) = call_i32 K (Lower_fault ops (vm_file lower_vma) vmf) s;
     Some (er, s)
   }"

definition trfs_page_mkwrite ::
  "'w kernel \<Rightarrow> (ptr \<Rightarrow> bool) \<Rightarrow> ptr \<Rightarrow> ptr \<Rightarrow> 'w st \<Rightarrow> (int \<times> 'w st) option" where
  "trfs_page_mkwrite K has_page_mkwrite v vmf s = do {
     let lower_vma = vmas s v;
     let f = vm_file lower_vma;
     (a, info) \<leftarrow> private_data (files s f);
     ops \<leftarrow> lower_vm_ops info;
     if \<not> has_page_mkwrite ops then Some (0, s)
     else do {
       lf \<leftarrow> trfs_lower_file f s;
       lower \<leftarrow> lf;
       let lower_vma = lower_vma\<lparr>vm_file := lower\<rparr>;
       let (er, s) = call_i32 K (Lower_page_mkwrite ops (vm_file lower_vma) vmf) s;
       Some (er, s)
     }
   }"

definition trfs_direct_IO :: "'w st \<Rightarrow> int \<times> 'w st" where
  "trfs_direct_IO s = (- EINVAL, s)"

end
