(* ===== verification/Inode_Attr.thy ===== *)
theory Inode_Attr
  imports Inode_Ops
begin

text \<open>
  The remaining inode operations of \<open>src/fs/trfs/inode.c\<close>: symbolic links, permission,
  attributes and extended attributes. None of them is traced.
\<close>

section \<open>Shared steps\<close>

text \<open>An operation between taking and putting the lower path of a dentry.\<close>

definition with_lower_path ::
  "'w kernel \<Rightarrow> ptr \<Rightarrow> (path \<Rightarrow> 'w st \<Rightarrow> ('a \<times> 'w st) option) \<Rightarrow> 'w st \<Rightarrow> ('a \<times> 'w st) option" where
  "with_lower_path K dentry body s = do {
     (lp, s) \<leftarrow> trfs_get_lower_path K dentry s;
     (r, s) \<leftarrow> body lp s;
     Some (r, trfs_put_lower_path K lp s)
   }"

text \<open>Copying attributes to the inode of a dentry from the inode of its lower dentry.\<close>

definition copy_from_lower ::
  "'w kernel \<Rightarrow> (attr \<Rightarrow> attr \<Rightarrow> attr) \<Rightarrow> ptr \<Rightarrow> ptr \<Rightarrow> 'w st \<Rightarrow> 'w st option" where
  "copy_from_lower K cp dentry ld s = do {
     i \<leftarrow> d_inode (dentries s dentry);
     li \<leftarrow> lower_d_inode K ld s;
     Some (fsstack K cp i li s)
   }"

section \<open>Symbolic links\<close>

definition PAGE_SIZE :: nat where "PAGE_SIZE = 4096"

definition trfs_readlink :: "'w kernel \<Rightarrow> ptr \<Rightarrow> ptr \<Rightarrow> int \<Rightarrow> 'w st \<Rightarrow> (int \<times> 'w st) option" where
  "trfs_readlink K dentry buf bufsiz s =
     with_lower_path K dentry (\<lambda>lp s. do {
       ld \<leftarrow> p_dentry lp;
       li \<leftarrow> lower_d_inode K ld s;
       if \<not> has_i_op (k_linode K (world s) li) \<or> \<not> has_readlink (k_linode K (world s) li)
       then Some (- EINVAL, s)
       else do {
         let (er, s) = call_i32 K (Lower_readlink ld buf bufsiz) s;
         if er < 0 then Some (er, s)
         else do {
           s \<leftarrow> copy_from_lower K (k_attr_atime K) dentry ld s;
           Some (er, s) } }
     }) s"

text \<open>
  The link body for the path walk. \<open>buf[err] = 0\<close> is a store at the offset the lower file
  system returned; outside the page the run ends. The result is the pointer and the bytes
  behind it.
\<close>

definition trfs_get_link :: "'w kernel \<Rightarrow> ptr option \<Rightarrow> 'w st \<Rightarrow> (kptr \<times> block \<times> 'w st) option" where
  "trfs_get_link K dentry s =
     (case dentry of
        None \<Rightarrow> Some (Err_ptr (- ECHILD), [], s)
      | Some d \<Rightarrow> do {
          let (p, s) = call_ptr K (Kmalloc PAGE_SIZE) s;
          (case p of
             Ptr buf \<Rightarrow> do {
               let s = call_void K Set_fs_kernel s;
               (er, s) \<leftarrow> trfs_readlink K d buf (int PAGE_SIZE) s;
               let s = call_void K Set_fs_old s;
               (r, data, s) \<leftarrow> (if er < 0 then Some (Err_ptr er, [], call_void K (Kfree buf) s)
                 else do {
                   let blk = k_fill K (world s) buf;
                   require (nat er < PAGE_SIZE);
                   Some (Ptr buf, poke (nat er) [0] blk, s) });
               Some (r, data, call_void K (Set_delayed_call r) s) }
           | _ \<Rightarrow> Some (Err_ptr (- ENOMEM), [], s)) })"

section \<open>Permission and attributes\<close>

definition trfs_permission :: "'w kernel \<Rightarrow> ptr \<Rightarrow> int \<Rightarrow> 'w st \<Rightarrow> (int \<times> 'w st) option" where
  "trfs_permission K inode msk s = do {
     li \<leftarrow> trfs_lower_inode inode s;
     Some (call_i32 K (Inode_permission li msk) s)
   }"

definition ATTR_MODE :: "32 word" where "ATTR_MODE = 1"
definition ATTR_SIZE :: "32 word" where "ATTR_SIZE = 8"
definition ATTR_KILL_SUID :: "32 word" where "ATTR_KILL_SUID = 0x800"
definition ATTR_KILL_SGID :: "32 word" where "ATTR_KILL_SGID = 0x1000"
definition ATTR_FILE :: "32 word" where "ATTR_FILE = 0x2000"

lemmas attr_flag_defs = ATTR_MODE_def ATTR_SIZE_def ATTR_KILL_SUID_def ATTR_KILL_SGID_def ATTR_FILE_def

text \<open>The request that is passed down: the lower file in place of the upper one.\<close>

definition lower_iattr :: "iattr \<Rightarrow> 'w st \<Rightarrow> iattr option" where
  "lower_iattr ia s =
     (if ia_valid ia AND ATTR_FILE \<noteq> 0 then do {
        f \<leftarrow> ia_file ia;
        lf \<leftarrow> trfs_lower_file f s;
        Some (ia\<lparr>ia_file := lf\<rparr>) }
      else Some ia)"

definition drop_mode :: "iattr \<Rightarrow> iattr" where
  "drop_mode ia =
     (if ia_valid ia AND (ATTR_KILL_SUID OR ATTR_KILL_SGID) \<noteq> 0
      then ia\<lparr>ia_valid := ia_valid ia AND NOT ATTR_MODE\<rparr> else ia)"

definition setattr_body ::
  "'w kernel \<Rightarrow> ptr \<Rightarrow> iattr \<Rightarrow> path \<Rightarrow> 'w st \<Rightarrow> (int \<times> 'w st) option" where
  "setattr_body K inode ia lp s = do {
     ld \<leftarrow> p_dentry lp;
     let lower = trfs_lower_inode inode s;
     lower_ia \<leftarrow> lower_iattr ia s;
     let (er, s) = (if ia_valid ia AND ATTR_SIZE \<noteq> 0
       then call_i32 K (Inode_newsize_ok inode (ia_size ia)) s else (0, s));
     if er \<noteq> 0 then Some (er, s)
     else do {
       let s = (if ia_valid ia AND ATTR_SIZE \<noteq> 0
         then upd_attrs inode (\<lambda>a. k_truncate_setsize K a (ia_size ia)) s else s);
       li \<leftarrow> lower_d_inode K ld s;
       let s = call_void K (Inode_lock li) s;
       let (er, s) = call_i32 K (Notify_change ld (drop_mode lower_ia)) s;
       li \<leftarrow> lower_d_inode K ld s;
       let s = call_void K (Inode_unlock li) s;
       if er \<noteq> 0 then Some (er, s)
       else do {
         src \<leftarrow> lower;
         Some (0, fsstack K (k_attr_all K) inode src s) } }
   }"

definition trfs_setattr :: "'w kernel \<Rightarrow> ptr \<Rightarrow> iattr \<Rightarrow> 'w st \<Rightarrow> (int \<times> 'w st) option" where
  "trfs_setattr K dentry ia s = do {
     inode \<leftarrow> d_inode (dentries s dentry);
     let (er, s) = call_i32 K (Inode_change_ok inode ia) s;
     if er \<noteq> 0 then Some (er, s)
     else with_lower_path K dentry (setattr_body K inode ia) s
   }"

text \<open>What \<open>stat\<close> returns: the attributes of the upper inode, with the lower block count.\<close>

record kstat =
  st_attr :: attr
  st_blocks :: int

definition trfs_getattr ::
  "'w kernel \<Rightarrow> ('w \<Rightarrow> int) \<Rightarrow> ptr \<Rightarrow> 'w st \<Rightarrow> ((int \<times> kstat option) \<times> 'w st) option" where
  "trfs_getattr K lower_blocks dentry s =
     with_lower_path K dentry (\<lambda>lp s. do {
       let (er, s) = call_i32 K (Vfs_getattr lp) s;
       if er \<noteq> 0 then Some ((er, None), s)
       else do {
         let blocks = lower_blocks (world s);
         ld \<leftarrow> p_dentry lp;
         s \<leftarrow> copy_from_lower K (k_attr_all K) dentry ld s;
         i \<leftarrow> d_inode (dentries s dentry);
         Some ((er, Some \<lparr>st_attr = attrs (inodes s i), st_blocks = blocks\<rparr>), s) }
     }) s"

section \<open>Extended attributes\<close>

text \<open>
  The four operations have one shape. Where the code tests only the method and not
  \<open>i_op\<close> itself, a lower inode without operations ends the run.
\<close>

definition xattr_body ::
  "'w kernel \<Rightarrow> bool \<Rightarrow> (linode \<Rightarrow> bool) \<Rightarrow> int \<Rightarrow> icall \<Rightarrow> (attr \<Rightarrow> attr \<Rightarrow> attr) \<Rightarrow> ptr \<Rightarrow> ptr \<Rightarrow>
   'w st \<Rightarrow> (int \<times> 'w st) option" where
  "xattr_body K tests_i_op meth missing call cp dentry ld s = do {
     li \<leftarrow> lower_d_inode K ld s;
     let n = k_linode K (world s) li;
     require (tests_i_op \<or> has_i_op n);
     if \<not> has_i_op n \<or> \<not> meth n then Some (missing, s)
     else do {
       let (er, s) = call_i32 K call s;
       if er \<noteq> 0 then Some (er, s)
       else do {
         s \<leftarrow> copy_from_lower K cp dentry ld s;
         Some (er, s) } }
   }"

definition trfs_setxattr ::
  "'w kernel \<Rightarrow> ptr \<Rightarrow> block \<Rightarrow> block \<Rightarrow> int \<Rightarrow> 'w st \<Rightarrow> (int \<times> 'w st) option" where
  "trfs_setxattr K dentry name value flags s =
     with_lower_path K dentry (\<lambda>lp s. do {
       ld \<leftarrow> p_dentry lp;
       xattr_body K False has_setxattr (- EOPNOTSUPP) (Vfs_setxattr ld name value flags)
         (k_attr_all K) dentry ld s }) s"

definition trfs_getxattr :: "'w kernel \<Rightarrow> ptr \<Rightarrow> block \<Rightarrow> int \<Rightarrow> 'w st \<Rightarrow> (int \<times> 'w st) option" where
  "trfs_getxattr K dentry name sz s =
     with_lower_path K dentry (\<lambda>lp s. do {
       ld \<leftarrow> p_dentry lp;
       xattr_body K False has_getxattr (- EOPNOTSUPP) (Vfs_getxattr ld name sz)
         (k_attr_atime K) dentry ld s }) s"

definition trfs_listxattr :: "'w kernel \<Rightarrow> ptr \<Rightarrow> int \<Rightarrow> 'w st \<Rightarrow> (int \<times> 'w st) option" where
  "trfs_listxattr K dentry sz s =
     with_lower_path K dentry (\<lambda>lp s. do {
       ld \<leftarrow> p_dentry lp;
       xattr_body K False has_listxattr (- EOPNOTSUPP) (Vfs_listxattr ld sz)
         (k_attr_atime K) dentry ld s }) s"

definition trfs_removexattr :: "'w kernel \<Rightarrow> ptr \<Rightarrow> block \<Rightarrow> 'w st \<Rightarrow> (int \<times> 'w st) option" where
  "trfs_removexattr K dentry name s =
     with_lower_path K dentry (\<lambda>lp s. do {
       ld \<leftarrow> p_dentry lp;
       xattr_body K True has_removexattr (- EINVAL) (Vfs_removexattr ld name)
         (k_attr_all K) dentry ld s }) s"

end
