(* ===== verification/Super_Ops.thy ===== *)
theory Super_Ops
  imports Lookup
begin

text \<open>
  The super block operations and the NFS export of \<open>src/fs/trfs/super.c\<close>, with the inode
  cache they allocate from.
\<close>

section \<open>Unmounting and statistics\<close>

definition trfs_put_super :: "'w kernel \<Rightarrow> 'w st \<Rightarrow> 'w st option" where
  "trfs_put_super K s =
     (case s_fs_info (sb s) of
        None \<Rightarrow> Some s
      | Some (spd, info) \<Rightarrow> do {
          lower \<leftarrow> trfs_lower_super s;
          s \<leftarrow> trfs_set_lower_super None None 0 0 s;
          low \<leftarrow> lower;
          let s = call_void K (S_active_dec low) s;
          let s = call_void K (Kfree spd) s;
          Some (upd_sb (\<lambda>b. b\<lparr>s_fs_info := None\<rparr>) s) })"

text \<open>
  \<open>f_type\<close> is overwritten whatever \<open>vfs_statfs\<close> returned; the rest of the structure is
  the lower file system's.
\<close>

definition trfs_statfs :: "'w kernel \<Rightarrow> int \<Rightarrow> ptr \<Rightarrow> 'w st \<Rightarrow> ((int \<times> int) \<times> 'w st) option" where
  "trfs_statfs K super_magic dentry s = do {
     (lp, s) \<leftarrow> trfs_get_lower_path K dentry s;
     let (er, s) = call_i32 K (Vfs_statfs lp) s;
     let s = trfs_put_lower_path K lp s;
     Some ((er, super_magic), s)
   }"

definition MS_RDONLY :: "32 word" where "MS_RDONLY = 1"
definition MS_MANDLOCK :: "32 word" where "MS_MANDLOCK = 64"
definition MS_SILENT :: "32 word" where "MS_SILENT = 32768"

definition trfs_remount_fs :: "32 word \<Rightarrow> int" where
  "trfs_remount_fs flags =
     (if flags AND NOT (MS_RDONLY OR MS_MANDLOCK OR MS_SILENT) \<noteq> 0 then - EINVAL else 0)"

definition trfs_umount_begin :: "'w kernel \<Rightarrow> 'w st \<Rightarrow> 'w st option" where
  "trfs_umount_begin K s = do {
     lower \<leftarrow> trfs_lower_super s;
     (case lower of
        None \<Rightarrow> Some s
      | Some low \<Rightarrow>
          Some (if ls_umount_begin (k_lsuper K (world s) low)
                then call_void K (Lower_umount_begin low) s else s))
   }"

section \<open>Inodes\<close>

text \<open>\<open>iput\<close> of a pointer that may be NULL.\<close>

definition iput_opt :: "'w kernel \<Rightarrow> ptr option \<Rightarrow> 'w st \<Rightarrow> 'w st" where
  "iput_opt K p s = (case p of None \<Rightarrow> s | Some i \<Rightarrow> call_void K (Iput i) s)"

definition trfs_evict_inode :: "'w kernel \<Rightarrow> ptr \<Rightarrow> 'w st \<Rightarrow> 'w st" where
  "trfs_evict_inode K inode s =
     (let s = call_void K (Truncate_inode_pages inode) s;
          s = call_void K (Clear_inode inode) s;
          lower = trfs_lower_inode inode s;
          s = trfs_set_lower_inode inode None s
      in iput_opt K lower s)"

definition trfs_alloc_inode :: "'w kernel \<Rightarrow> 'w st \<Rightarrow> ptr option \<times> 'w st" where
  "trfs_alloc_inode K s =
     (let (p, s) = call_ptr K Kmem_cache_alloc_inode s in
      case p of
        Ptr i \<Rightarrow>
          (Some i, upd_inode i (\<lambda>n. n\<lparr>lower_inode := None, attrs := (attrs n)\<lparr>i_version := 1\<rparr>\<rparr>) s)
      | _ \<Rightarrow> (None, s))"

definition trfs_destroy_inode :: "'w kernel \<Rightarrow> ptr \<Rightarrow> 'w st \<Rightarrow> 'w st" where
  "trfs_destroy_inode K inode s = call_void K (Kmem_cache_free_inode inode) s"

definition trfs_init_inode_cache :: "'w kernel \<Rightarrow> 'w st \<Rightarrow> int \<times> kptr \<times> 'w st" where
  "trfs_init_inode_cache K s =
     (let (p, s) = call_ptr K Kmem_cache_create_inode s
      in (if p = Null then - ENOMEM else 0, p, s))"

definition trfs_destroy_inode_cache :: "'w kernel \<Rightarrow> kptr \<Rightarrow> 'w st \<Rightarrow> 'w st" where
  "trfs_destroy_inode_cache K cachep s =
     (case cachep of Ptr c \<Rightarrow> call_void K (Kmem_cache_destroy c) s | _ \<Rightarrow> s)"

section \<open>NFS export\<close>

text \<open>
  \<open>ilookup\<close> returns NULL when the lower inode is not in memory; \<open>trfs_iget\<close> then follows
  that pointer. The generic decoders are kernel functions that take the callback.
\<close>

definition trfs_nfs_get_inode :: "'w kernel \<Rightarrow> 64 word \<Rightarrow> 'w st \<Rightarrow> (kptr \<times> 'w st) option" where
  "trfs_nfs_get_inode K ino s = do {
     lower_sb \<leftarrow> trfs_lower_super s;
     let (p, s) = call_ptr K (Ilookup lower_sb ino) s;
     trfs_iget K (deref p) s
   }"

definition trfs_fh_to_dentry ::
  "'w kernel \<Rightarrow> ((64 word \<Rightarrow> 'w st \<Rightarrow> (kptr \<times> 'w st) option) \<Rightarrow> 'fid \<Rightarrow> 'w st \<Rightarrow> (kptr \<times> 'w st) option) \<Rightarrow>
   'fid \<Rightarrow> 'w st \<Rightarrow> (kptr \<times> 'w st) option" where
  "trfs_fh_to_dentry K generic_fh_to_dentry fid s =
     generic_fh_to_dentry (trfs_nfs_get_inode K) fid s"

definition trfs_fh_to_parent ::
  "'w kernel \<Rightarrow> ((64 word \<Rightarrow> 'w st \<Rightarrow> (kptr \<times> 'w st) option) \<Rightarrow> 'fid \<Rightarrow> 'w st \<Rightarrow> (kptr \<times> 'w st) option) \<Rightarrow>
   'fid \<Rightarrow> 'w st \<Rightarrow> (kptr \<times> 'w st) option" where
  "trfs_fh_to_parent K generic_fh_to_parent fid s =
     generic_fh_to_parent (trfs_nfs_get_inode K) fid s"

end
