(* ===== verification/Untraced.thy ===== *)
theory Untraced
  imports File_Trace File_Pass Inode_Attr Super_Ops
begin

text \<open>
  The operations that are passed to the lower file system without tracing: each leaves the
  trace, the record counter and the bitmap alone and gives back every reference, lock and
  allocation it takes (\<open>quiet\<close>). Symbolic links and lookups, which keep something, follow.
\<close>

section \<open>Operations that are passed on\<close>

lemma quiet_trans: "quiet K tf s s1 \<Longrightarrow> quiet K tf s1 s2 \<Longrightarrow> quiet K tf s s2"
  by (auto simp: quiet_def intro: moves_trans)

lemma quiet_call:
  "trace_file_ok K name tf th \<Longrightarrow> \<not> on_trace_file th c \<Longrightarrow>
   quiet K tf s s1 \<Longrightarrow> quiet K tf s (snd (call_i32 K c s1))"
  "trace_file_ok K name tf th \<Longrightarrow> \<not> on_trace_file th c \<Longrightarrow>
   quiet K tf s s1 \<Longrightarrow> quiet K tf s (snd (call_int K c s1))"
  "trace_file_ok K name tf th \<Longrightarrow> (\<And>r. taken_void cv r = 0) \<Longrightarrow>
   quiet K tf s s1 \<Longrightarrow> quiet K tf s (call_void K cv s1)"
  by (auto simp: quiet_def trace_file_calls)

lemma quiet_upd_more [simp]:
  "quiet K tf s (upd_file f g s1) = quiet K tf s s1"
  "quiet K tf s (upd_inode i h s1) = quiet K tf s s1"
  "quiet K tf s (set_ki_filp iocb f s1) = quiet K tf s s1"
  "quiet K tf s (upd_vma v g' s1) = quiet K tf s s1"
  by (auto simp: quiet_def set_ki_filp_def upd_vma_def moves_def grows_def)

lemma ki_frame [simp]:
  "files (set_ki_filp iocb f s) = files s" "dentries (set_ki_filp iocb f s) = dentries s"
  "world (set_ki_filp iocb f s) = world s" "log (set_ki_filp iocb f s) = log s" "sb (set_ki_filp iocb f s) = sb s"
  by (simp_all add: set_ki_filp_def)

lemma quiet_with_lower_path:
  assumes ok: "trace_file_ok K name tf th"
    and run: "with_lower_path K d body s = Some (r, s')"
    and body: "\<And>lp s1 s2. body lp s1 = Some (r, s2) \<Longrightarrow> quiet K tf s1 s2"
  shows "quiet K tf s s'"
proof -
  obtain lp s1 s2 where g: "trfs_get_lower_path K d s = Some (lp, s1)" and
    b: "body lp s1 = Some (r, s2)" and s': "s' = trfs_put_lower_path K lp s2"
    using run by (auto simp: with_lower_path_def run_simps)
  note G = get_lower_path_effect [OF g]
  have "moves K s s'" using moves_trans [OF G(6)] body [OF b] s' by (auto simp: quiet_def)
  then show ?thesis
    using G(4,5) G(8) [OF ok] body [OF b] s' by (simp add: quiet_def put_lower_path_tf [OF ok])
qed

lemma on_trace_simps [simp]: "(\<And>f b n p. c \<noteq> Vfs_write f b n p) \<Longrightarrow> \<not> on_trace_file th c"
  by (auto simp: on_trace_file_def split: icall.splits)

text \<open>Runs that end with a call.\<close>

lemma last_call:
  "call_i32 K c s = (r, s') \<longleftrightarrow> r = fst (call_i32 K c s) \<and> s' = snd (call_i32 K c s)"
  "call_int K c s = (r, s') \<longleftrightarrow> r = fst (call_int K c s) \<and> s' = snd (call_int K c s)"
  by (auto simp: prod_eq_iff)

lemma readdir_quiet:
  assumes "trace_file_ok K name tf th" "trfs_readdir K f s = Some (r, s')" 
  shows "quiet K tf s s'"
  using assms by (auto simp: trfs_readdir_def run_simps intro!: quiet_call)

lemma flush_quiet:
  assumes "trace_file_ok K name tf th" "trfs_flush K f ow s = Some (r, s')" 
  shows "quiet K tf s s'"
  using assms by (auto simp: trfs_flush_def run_simps last_call intro!: quiet_call)

lemma fsync_quiet:
  assumes "trace_file_ok K name tf th" "trfs_fsync K f a b c s = Some (r, s')" 
  shows "quiet K tf s s'"
proof -
  note ok = assms(1)
  let ?s1 = "snd (call_i32 K (Generic_file_fsync f a b c) s)"
  have q1: "quiet K tf s ?s1" by (rule quiet_call [OF ok]) auto
  show ?thesis
  proof (cases "fst (call_i32 K (Generic_file_fsync f a b c) s) = 0")
    case False
    then show ?thesis using assms(2) q1 by (auto simp: trfs_fsync_def run_simps)
  next
    case True
    then have "with_lower_path K (f_dentry (files s f)) (\<lambda>lp s. do {
        lf \<leftarrow> trfs_lower_file f ?s1;
        lower \<leftarrow> lf;
        Some (call_i32 K (Vfs_fsync_range lower a b c) s) }) ?s1 = Some (r, s')"
      using assms(2) by (auto simp: trfs_fsync_def with_lower_path_def run_simps)
    then have "quiet K tf ?s1 s'"
      by (rule quiet_with_lower_path [OF ok]) (auto simp: run_simps last_call intro!: quiet_call [OF ok])
    with q1 show ?thesis by (rule quiet_trans)
  qed
qed

lemma fasync_quiet:
  assumes "trace_file_ok K name tf th" "trfs_fasync K fd f fl s = Some (r, s')" 
  shows "quiet K tf s s'"
  using assms by (auto simp: trfs_fasync_def run_simps last_call intro!: quiet_call)

lemma llseek_quiet:
  assumes "trace_file_ok K name tf th" "trfs_file_llseek K f off wh s = Some (r, s')" 
  shows "quiet K tf s s'"
  using assms by (auto simp: trfs_file_llseek_def run_simps intro!: quiet_call)

lemma iter_calls_quiet:
  assumes ok: "trace_file_ok K name tf th" and c: "\<not> on_trace_file th c"
  shows "quiet K tf s (call_void K (Fput lf) (set_ki_filp iocb f
     (snd (call_int K c (set_ki_filp iocb lf (call_void K (Get_file lf) s))))))"
  using c by (auto simp: quiet_def trace_file_calls [OF ok] moves_def grows_def set_ki_filp_def intro!: reach_calls reach_refl)

lemma read_iter_quiet:
  assumes "trace_file_ok K name tf th" "trfs_read_iter K iocb s = Some (r, s')" 
  shows "quiet K tf s s'"
  using assms by (auto simp: trfs_read_iter_def run_simps intro!: iter_calls_quiet)

lemma write_iter_quiet:
  assumes "trace_file_ok K name tf th" "trfs_write_iter K iocb s = Some (r, s')" 
  shows "quiet K tf s s'"
  using assms by (auto simp: trfs_write_iter_def run_simps intro!: iter_calls_quiet)

lemma mmap_quiet:
  assumes "trace_file_ok K name tf th" "trfs_mmap K f v s = Some (r, s')" 
  shows "quiet K tf s s'"
  using assms by (auto simp: trfs_mmap_def set_lower_vm_ops_def run_simps intro!: quiet_call)

lemma fault_quiet:
  assumes "trace_file_ok K name tf th" "trfs_fault K v vmf s = Some (r, s')" 
  shows "quiet K tf s s'"
  using assms by (auto simp: trfs_fault_def run_simps last_call intro!: quiet_call)

lemma page_mkwrite_quiet:
  assumes "trace_file_ok K name tf th" "trfs_page_mkwrite K h v vmf s = Some (r, s')" 
  shows "quiet K tf s s'"
  using assms by (auto simp: trfs_page_mkwrite_def run_simps last_call intro!: quiet_call)

lemma compat_ioctl_quiet:
  assumes "trace_file_ok K name tf th" "trfs_compat_ioctl K f cmd arg s = Some (r, s')" 
  shows "quiet K tf s s'"
  using assms by (auto simp: trfs_compat_ioctl_def run_simps last_call intro!: quiet_call)


lemma statfs_quiet:
  assumes "trace_file_ok K name tf th" "trfs_statfs K mg d s = Some (r, s')" 
  shows "quiet K tf s s'"
proof -
  have "with_lower_path K d (\<lambda>lp s. Some ((fst (call_i32 K (Vfs_statfs lp) s), mg), snd (call_i32 K (Vfs_statfs lp) s))) s = Some (r, s')"
    using assms(2) by (auto simp: trfs_statfs_def with_lower_path_def run_simps)
  then show ?thesis
    by (rule quiet_with_lower_path [OF assms(1)]) (auto intro!: quiet_call [OF assms(1)])
qed

lemma revalidate_quiet:
  assumes ok: "trace_file_ok K name tf th" and run: "trfs_d_revalidate K d fl s = Some (r, s')" 
  shows "quiet K tf s s'"
proof (cases "fl AND LOOKUP_RCU \<noteq> 0")
  case True
  then show ?thesis using run by (simp add: trfs_d_revalidate_def)
next
  case False
  then have "with_lower_path K d (\<lambda>lp s. do {
      ld \<leftarrow> p_dentry lp;
      Some (if ld_flags (k_ldentry K (world s) ld) AND DCACHE_OP_REVALIDATE = 0
          then (1, s) else call_i32 K (Lower_d_revalidate ld fl) s) }) s = Some (r, s')"
    using run by (auto simp: trfs_d_revalidate_def with_lower_path_def run_simps)
  then show ?thesis
    by (rule quiet_with_lower_path [OF ok])
      (auto simp: run_simps last_call split: if_splits intro!: quiet_call [OF ok])
qed

section \<open>Links, permission and attributes\<close>

lemma readlink_quiet:
  assumes ok: "trace_file_ok K name tf th" and run: "trfs_readlink K d buf n s = Some (r, s')"
  shows "quiet K tf s s'"
  by (rule quiet_with_lower_path [OF ok run [unfolded trfs_readlink_def]])
    (auto simp: run_simps last_call copy_from_lower_def intro!: quiet_call [OF ok])

lemma permission_quiet:
  assumes ok: "trace_file_ok K name tf th" and run: "trfs_permission K i msk s = Some (r, s')"
  shows "quiet K tf s s'"
  using run by (auto simp: trfs_permission_def run_simps last_call intro!: quiet_call [OF ok])

lemma getattr_quiet:
  assumes ok: "trace_file_ok K name tf th" and run: "trfs_getattr K bl d s = Some (r, s')"
  shows "quiet K tf s s'"
  by (rule quiet_with_lower_path [OF ok run [unfolded trfs_getattr_def]])
    (auto simp: run_simps last_call copy_from_lower_def intro!: quiet_call [OF ok])

lemma xattr_body_quiet:
  assumes ok: "trace_file_ok K name tf th" and c: "\<not> on_trace_file th c"
    and run: "xattr_body K ti meth missing c cp d ld s = Some (r, s')"
  shows "quiet K tf s s'"
  using run c by (auto simp: xattr_body_def run_simps last_call copy_from_lower_def intro!: quiet_call [OF ok])

lemma xattr_quiet:
  assumes ok: "trace_file_ok K name tf th"
  shows "trfs_setxattr K d nm v fl s = Some (r, s') \<Longrightarrow> quiet K tf s s'"
    "trfs_getxattr K d nm sz s = Some (r, s') \<Longrightarrow> quiet K tf s s'"
    "trfs_listxattr K d sz s = Some (r, s') \<Longrightarrow> quiet K tf s s'"
    "trfs_removexattr K d nm s = Some (r, s') \<Longrightarrow> quiet K tf s s'"
  unfolding trfs_setxattr_def trfs_getxattr_def trfs_listxattr_def trfs_removexattr_def
  by (rule quiet_with_lower_path [OF ok], assumption,
      auto simp: bind_eq_Some_conv elim!: xattr_body_quiet [OF ok, rotated])+

text \<open>
  \<open>setattr\<close> reads the inode it unlocks anew; the lower dentry is in use and keeps it.
\<close>

lemma setattr_body_quiet:
  assumes ok: "trace_file_ok K name tf th" and st: "stable_dirs K D"
    and ld: "p_dentry lp = Some ld" "D ld"
    and run: "setattr_body K i ia lp s = Some (r, s')"
  shows "quiet K tf s s'"
proof -
  let ?sz = "ia_valid ia AND ATTR_SIZE \<noteq> 0"
  define s1 where "s1 = (if ?sz then snd (call_i32 K (Inode_newsize_ok i (ia_size ia)) s) else s)"
  define s2 where "s2 = (if ?sz then upd_attrs i (\<lambda>a. k_truncate_setsize K a (ia_size ia)) s1 else s1)"
  have q1: "quiet K tf s s1" by (auto simp: s1_def intro!: quiet_call [OF ok])
  have q2: "quiet K tf s s2" using q1 by (simp add: s2_def)
  have lock: "quiet K tf s2 (call_void K (Inode_unlock li') (snd (call_i32 K (Notify_change ld a) (call_void K (Inode_lock li) s2))))"
    if "lower_d_inode K ld s2 = Some li"
      "lower_d_inode K ld (snd (call_i32 K (Notify_change ld a) (call_void K (Inode_lock li) s2))) = Some li'" for li li' a
  proof -
    have "moves K s2 (snd (call_i32 K (Notify_change ld a) (call_void K (Inode_lock li) s2)))" by auto
    from moves_stable [OF this st ld(2)] that have "li' = li" by simp
    then show ?thesis by (auto simp: quiet_def trace_file_calls [OF ok])
  qed
  have "s' = s1 \<or> (\<exists>li li' a s3. lower_d_inode K ld s2 = Some li \<and>
      lower_d_inode K ld (snd (call_i32 K (Notify_change ld a) (call_void K (Inode_lock li) s2))) = Some li' \<and>
      s3 = call_void K (Inode_unlock li') (snd (call_i32 K (Notify_change ld a) (call_void K (Inode_lock li) s2))) \<and>
      (s' = s3 \<or> (\<exists>src. s' = fsstack K (k_attr_all K) i src s3)))"
    using run ld(1) unfolding s2_def s1_def
    by (cases ?sz; fastforce simp: setattr_body_def bind_eq_Some_conv Let_def case_prod_beta if_eq_Some)
  then show ?thesis
    using q1 quiet_trans [OF q2 lock] by (elim disjE exE conjE) auto
qed

lemma setattr_quiet:
  assumes ok: "trace_file_ok K name tf th" and st: "stable_dirs K D"
    and ld: "\<And>a info ld. d_fsdata (dentries s d) = Some (a, info) \<Longrightarrow> p_dentry (lower_path info) = Some ld \<Longrightarrow> D ld"
    and run: "trfs_setattr K d ia s = Some (r, s')"
  shows "quiet K tf s s'"
proof -
  obtain i where i: "d_inode (dentries s d) = Some i"
    using run by (auto simp: trfs_setattr_def run_simps)
  let ?s1 = "snd (call_i32 K (Inode_change_ok i ia) s)"
  have q1: "quiet K tf s ?s1" by (auto intro!: quiet_call [OF ok])
  show ?thesis
  proof (cases "fst (call_i32 K (Inode_change_ok i ia) s) = 0")
    case False
    then show ?thesis using run i q1 by (auto simp: trfs_setattr_def run_simps)
  next
    case True
    then obtain lp s2 s3 where g: "trfs_get_lower_path K d ?s1 = Some (lp, s2)" and
      b: "setattr_body K i ia lp s2 = Some (r, s3)" and s': "s' = trfs_put_lower_path K lp s3"
      using run i by (auto simp: trfs_setattr_def with_lower_path_def run_simps)
    note G = get_lower_path_effect [OF g]
    obtain x where x: "p_dentry lp = Some x" using b by (auto simp: setattr_body_def run_simps)
    have "D x" using G(7) ld x by auto
    have B: "quiet K tf s2 s3" by (rule setattr_body_quiet [OF ok st x \<open>D x\<close> b])
    have "moves K ?s1 s'" using moves_trans [OF G(6)] B s' by (auto simp: quiet_def)
    then have "quiet K tf ?s1 s'"
      using G(4,5) G(8) [OF ok] B s' by (simp add: quiet_def put_lower_path_tf [OF ok])
    with q1 show ?thesis by (rule quiet_trans)
  qed
qed


section \<open>Following a link\<close>

lemma poke_has_byte: "n < length blk \<Longrightarrow> b \<in> set (poke n [b] blk)"
  by (simp add: poke_def)

text \<open>An allocation of a page is a page, whenever it is looked at.\<close>

definition page_ok :: "'w kernel \<Rightarrow> bool" where
  "page_ok K \<longleftrightarrow> (\<forall>w w' a. fst (k_ptr K (Kmalloc PAGE_SIZE) w) = Ptr a \<longrightarrow> length (k_fill K w' a) = PAGE_SIZE)"

lemma get_link_ok:
  assumes ok: "trace_file_ok K name tf th" and pg: "page_ok K"
    and run: "trfs_get_link K (Some d) s = Some (p, data, s')"
  shows "sb s' = sb s \<and> tf (world s') = tf (world s) \<and>
    ((\<exists>e. p = Err_ptr e \<and> e < 0 \<and> (\<forall>q. (\<forall>i. q \<noteq> R_linode i) \<longrightarrow> held (log s') q = held (log s) q)) \<or>
     (\<exists>a. p = Ptr a \<and> cstr data \<noteq> None \<and>
        (\<forall>q. (\<forall>i. q \<noteq> R_linode i) \<longrightarrow> held (log s') q = held (log s) q + of_bool (q = R_mem a))))"
proof -
  let ?c = "call_ptr K (Kmalloc PAGE_SIZE) s"
  show ?thesis
  proof (cases "fst ?c")
    case (Ptr a)
    have km: "length (k_fill K w' a) = PAGE_SIZE" for w'
      using pg Ptr unfolding page_ok_def call_ptr_def by simp
    obtain er s2 where r: "trfs_readlink K d a (int PAGE_SIZE) (call_void K Set_fs_kernel (snd ?c)) = Some (er, s2)"
      using run Ptr by (auto simp: trfs_get_link_def run_simps)
    note Q = readlink_quiet [OF ok r, unfolded quiet_def]
    show ?thesis
    proof (cases "er < 0")
      case True
      then show ?thesis using run Ptr r Q
        by (auto simp: trfs_get_link_def run_simps trace_file_calls [OF ok])
    next
      case False
      then have "nat er < PAGE_SIZE" using run Ptr r
        by (auto simp: trfs_get_link_def run_simps)
      then have "cstr (poke (nat er) [0] (k_fill K (world (call_void K Set_fs_old s2)) a)) \<noteq> None"
        using poke_has_byte [of "nat er" _ "0 :: byte"] by (simp add: cstr_None_iff km)
      moreover have "p = Ptr a" "data = poke (nat er) [0] (k_fill K (world (call_void K Set_fs_old s2)) a)"
        "s' = call_void K (Set_delayed_call (Ptr a)) (call_void K Set_fs_old s2)"
        using run Ptr r False by (auto simp: trfs_get_link_def run_simps)
      ultimately show ?thesis using Q Ptr by (simp add: trace_file_calls [OF ok])
    qed
  qed (use run in \<open>auto simp: trfs_get_link_def run_simps trace_file_calls [OF ok] errno_defs\<close>)
qed

text \<open>A lower link that fills the whole page makes the store of the NUL leave the page.\<close>

lemma get_link_overrun:
  assumes "fst (call_ptr K (Kmalloc PAGE_SIZE) s) = Ptr a"
    and "trfs_readlink K d a (int PAGE_SIZE)
      (call_void K Set_fs_kernel (snd (call_ptr K (Kmalloc PAGE_SIZE) s))) = Some (int PAGE_SIZE, s2)"
  shows "trfs_get_link K (Some d) s = None"
  using assms by (auto simp: trfs_get_link_def Let_def case_prod_beta)

section \<open>Looking up\<close>

lemma last_ptr_call:
  "call_ptr K c s = (r, s') \<longleftrightarrow> r = fst (call_ptr K c s) \<and> s' = snd (call_ptr K c s)"
  by (auto simp: prod_eq_iff)

lemma private_data_silent:
  assumes ok: "trace_file_ok K name tf th"
  shows "trfs_set_lower_path K d p s = Some s' \<Longrightarrow> sb s' = sb s \<and> tf (world s') = tf (world s)"
    "trfs_put_reset_lower_path K d s = Some s' \<Longrightarrow> sb s' = sb s \<and> tf (world s') = tf (world s)"
    "trfs_get_lower_path K d s = Some (p, s') \<Longrightarrow> sb s' = sb s \<and> tf (world s') = tf (world s)"
    "interpose_dentry K d p s = Some (q, s') \<Longrightarrow> sb s' = sb s \<and> tf (world s') = tf (world s)"
  using get_lower_path_effect(4,8) interpose_dentry_effect(1,3) ok
  by (auto simp: trfs_set_lower_path_def trfs_put_reset_lower_path_def
      case_prod_beta Let_def trace_file_calls [OF ok] bind_eq_Some_conv)

lemma new_dentry_silent:
  "sb (snd (new_dentry_private_data K d s)) = sb s"
  "trace_file_ok K name tf th \<Longrightarrow> tf (world (snd (new_dentry_private_data K d s))) = tf (world s)"
  by (auto simp: new_dentry_private_data_def case_prod_beta Let_def trace_file_calls split: kptr.splits)

lemma lookup_dentry_silent:
  assumes ok: "trace_file_ok K name tf th" and run: "lookup_dentry K isr d fl pp s = Some (r, s')"
  shows "sb s' = sb s \<and> tf (world s') = tf (world s)"
  using run unfolding lookup_dentry_def
  by (auto simp: run_simps kptr_case_eq_Some trace_file_calls [OF ok] last_ptr_call
      dest!: private_data_silent [OF ok])

lemma lookup_silent:
  assumes ok: "trace_file_ok K name tf th" and run: "trfs_lookup K isr d fl s = Some (r, s')"
  shows "silent tf s s'"
  using run unfolding trfs_lookup_def silent_def
  by (auto simp: run_simps trace_file_calls [OF ok] put_lower_path_tf [OF ok]
        new_dentry_silent(1) new_dentry_silent(2) [OF ok]
      dest!: private_data_silent(3) [OF ok] lookup_dentry_silent [OF ok])
end
