(* ===== verification/Main_Mount.thy ===== *)
theory Main_Mount
  imports Super_Ops
begin

text \<open>
  Mounting, shutting down and loading the module: \<open>src/fs/trfs/main.c\<close>.
\<close>

section \<open>Mounting\<close>

text \<open>
  The scan for the \<open>=\<close> of the option string \<open>tfile=<path>\<close>, over the memory from the
  string on: the rest of the memory where it stops. \<open>None\<close> is a scan that leaves the
  memory. The test after the loop compares the pointer itself with 0, so it never fires and
  the step behind the stop is always taken.
\<close>

fun tracker_scan :: "block \<Rightarrow> block option" where
  "tracker_scan [] = None"
| "tracker_scan (c # cs) = (if c \<noteq> 0x3D \<and> c \<noteq> 0 then tracker_scan cs else Some (c # cs))"

definition tfile_option :: "block \<Rightarrow> block option" where
  "tfile_option mem = do {
     rest \<leftarrow> tracker_scan mem;
     cstr (tl rest)
   }"

text \<open>\<open>kmalloc(strlen(str) + 1)\<close> and \<open>strcpy\<close> into it.\<close>

definition dup_string :: "'w kernel \<Rightarrow> block \<Rightarrow> 'w st \<Rightarrow> (heap_string \<times> 'w st) option" where
  "dup_string K str s = do {
     let (p, s) = call_ptr K (Kmalloc (length str + 1)) s;
     a \<leftarrow> deref p;
     Some ((a, str), s)
   }"

text \<open>
  What \<open>trfs_mount\<close> prepares for \<open>mount_nodev\<close>. \<open>raw_data\<close> is NULL or the memory that
  holds the options; \<open>dev_name\<close> is NULL or the device string. \<open>err\<close> is set and never
  read: on every path the function goes on to \<open>mount_nodev\<close>, with a NULL \<open>mount_path\<close> on
  the failing ones.
\<close>

definition mount_prepare ::
  "'w kernel \<Rightarrow> block option \<Rightarrow> block option \<Rightarrow> 'w st \<Rightarrow> (trfs_mount_path option \<times> 'w st) option" where
  "mount_prepare K raw_data dev_name s =
     (case (raw_data, dev_name) of
        (Some mem, Some dev) \<Rightarrow> do {
          rest \<leftarrow> tracker_scan mem;
          let tracker = tl rest;
          let (p, s) = call_ptr K (Kmalloc 16) s;
          (case p of
             Ptr mp \<Rightarrow> do {
               str \<leftarrow> cstr tracker;
               (tf, s) \<leftarrow> dup_string K str s;
               (dp, s) \<leftarrow> dup_string K dev s;
               Some (Some \<lparr>mp_addr = mp, tfile_path = Some tf, device_path = Some dp\<rparr>, s) }
           | _ \<Rightarrow> Some (None, s)) }
      | _ \<Rightarrow> Some (None, s))"

text \<open>Error exits of \<open>trfs_read_super\<close>, from the last label up.\<close>

definition out_free :: "'w kernel \<Rightarrow> path \<Rightarrow> 'w st \<Rightarrow> 'w st" where
  "out_free K lp s = call_void K (Path_put lp) s"

definition out_sput :: "'w kernel \<Rightarrow> ptr \<Rightarrow> path \<Rightarrow> 'w st \<Rightarrow> 'w st option" where
  "out_sput K lower lp s = do {
     let s = call_void K (S_active_dec lower) s;
     (a, info) \<leftarrow> s_fs_info (sb s);
     let s = call_void K (Kfree a) s;
     let s = upd_sb (\<lambda>b. b\<lparr>s_fs_info := None\<rparr>) s;
     Some (out_free K lp s)
   }"

definition fresh_sb_info :: trfs_sb_info where
  "fresh_sb_info = \<lparr>lower_sb = None, mount_path = None, sb_record_id = 0, mask = 0\<rparr>"

text \<open>
  The part of \<open>trfs_read_super\<close> behind the creation of the trace file: the super block is
  filled in, then the root inode and dentry are made.
\<close>

definition fill_super ::
  "'w kernel \<Rightarrow> trfs_mount_path \<Rightarrow> ptr \<Rightarrow> 'w st \<Rightarrow> (ptr \<times> 'w st) option" where
  "fill_super K mp ld s = do {
     let lower = ld_sb (k_ldentry K (world s) ld);
     let s = call_void K (S_active_inc lower) s;
     s \<leftarrow> trfs_set_lower_super (Some lower) (Some mp) 0 BITMAP_MAX s;
     let s = upd_sb (\<lambda>b. b\<lparr>s_maxbytes := ls_maxbytes (k_lsuper K (world s) lower), s_time_gran := 1,
                           s_trfs_ops := True, s_export_ops := True\<rparr>) s;
     Some (lower, s)
   }"

definition make_root :: "'w kernel \<Rightarrow> path \<Rightarrow> ptr \<Rightarrow> ptr \<Rightarrow> 'w st \<Rightarrow> (int \<times> 'w st) option" where
  "make_root K lp lower i s = do {
     let (rp, ds, w) = k_d_make_root K i (dentries s) (world s);
     let s = upd_sb (\<lambda>b. b\<lparr>s_root := deref rp\<rparr>) (s\<lparr>dentries := ds, world := w\<rparr>);
     (case rp of
        Ptr root \<Rightarrow> do {
          let s = upd_dentry root (\<lambda>d. d\<lparr>d_trfs_dops := True, d_fsdata := None\<rparr>) s;
          let (er, s) = new_dentry_private_data K root s;
          if er \<noteq> 0 then do {
            let s = call_void K (Upper_dput root) s;
            let s = call_void K (Upper_iput i) s;
            s \<leftarrow> out_sput K lower lp s;
            Some (er, s) }
          else do {
            s \<leftarrow> trfs_set_lower_path K root lp s;
            Some (0, call_void K (D_rehash root) s) } }
      | _ \<Rightarrow> do {
          let s = call_void K (Upper_iput i) s;
          s \<leftarrow> out_sput K lower lp s;
          Some (- ENOMEM, s) })
   }"

definition read_super_root ::
  "'w kernel \<Rightarrow> trfs_mount_path \<Rightarrow> path \<Rightarrow> ptr \<Rightarrow> 'w st \<Rightarrow> (int \<times> 'w st) option" where
  "read_super_root K mp lp ld s = do {
     (lower, s) \<leftarrow> fill_super K mp ld s;
     (ip, s) \<leftarrow> trfs_iget K (lower_d_inode K ld s) s;
     (case ip of
        Ptr i \<Rightarrow> make_root K lp lower i s
      | e \<Rightarrow> do {
          s \<leftarrow> out_sput K lower lp s;
          Some (to_int (PTR_ERR e), s) })
   }"

text \<open>The trace file is created, or emptied, and closed again.\<close>

definition create_trace_file :: "'w kernel \<Rightarrow> trfs_mount_path \<Rightarrow> 'w st \<Rightarrow> 'w st option" where
  "create_trace_file K mp s = do {
     (fa, name) \<leftarrow> tfile_path mp;
     let (fp, s) = call_ptr K (Filp_open_trunc name) s;
     file_op \<leftarrow> deref fp;
     Some (call_void K (Filp_close file_op) s)
   }"

definition trfs_read_super ::
  "'w kernel \<Rightarrow> trfs_mount_path option \<Rightarrow> 'w st \<Rightarrow> (int \<times> 'w st) option" where
  "trfs_read_super K raw_data s =
     (case raw_data of
        None \<Rightarrow> Some (- EINVAL, s)
      | Some mp \<Rightarrow> do {
          (da, dev_name) \<leftarrow> device_path mp;
          let (er, s) = call_i32 K (Kern_path dev_name) s;
          if er \<noteq> 0 then Some (er, s)
          else do {
            let lp = k_path_result K (world s);
            let (p, s) = call_ptr K (Kzalloc 32) s;
            let s = upd_sb (\<lambda>b. b\<lparr>s_fs_info := map_option (\<lambda>a. (a, fresh_sb_info)) (deref p)\<rparr>) s;
            if s_fs_info (sb s) = None then Some (- ENOMEM, out_free K lp s)
            else do {
              s \<leftarrow> create_trace_file K mp s;
              ld \<leftarrow> p_dentry lp;
              read_super_root K mp lp ld s } } })"

text \<open>
  \<open>mount_nodev\<close> makes the super block, calls \<open>trfs_read_super\<close> and, when that fails,
  \<open>kill_sb\<close>. It is a kernel function, a parameter here.
\<close>

type_synonym 'w nodev =
  "(trfs_mount_path option \<Rightarrow> 'w st \<Rightarrow> (int \<times> 'w st) option) \<Rightarrow> trfs_mount_path option \<Rightarrow>
   'w st \<Rightarrow> (int \<times> 'w st) option"

definition trfs_mount ::
  "'w kernel \<Rightarrow> 'w nodev \<Rightarrow> block option \<Rightarrow> block option \<Rightarrow> 'w st \<Rightarrow> (int \<times> 'w st) option" where
  "trfs_mount K mount_nodev raw_data dev_name s = do {
     (mp, s) \<leftarrow> mount_prepare K raw_data dev_name s;
     mount_nodev (trfs_read_super K) mp s
   }"

section \<open>Shutting down\<close>

text \<open>
  The strings and the structure are freed before \<open>generic_shutdown_super\<close>, a kernel
  function that calls back into \<open>trfs_put_super\<close>.
\<close>

definition trfs_shutdown_super ::
  "'w kernel \<Rightarrow> ('w st \<Rightarrow> 'w st option) \<Rightarrow> 'w st \<Rightarrow> 'w st option" where
  "trfs_shutdown_super K generic_shutdown s = do {
     (a, info) \<leftarrow> s_fs_info (sb s);
     mp \<leftarrow> mount_path info;
     let s = kfree_local K (map_option fst (tfile_path mp)) s;
     let s = kfree_local K (map_option fst (device_path mp)) s;
     let s = call_void K (Kfree (mp_addr mp)) s;
     generic_shutdown (call_void K Generic_shutdown_super s)
   }"

section \<open>Loading and unloading the module\<close>

text \<open>The two cache pointers start as NULL; the state carries them as a pair.\<close>

definition init_trfs_fs :: "'w kernel \<Rightarrow> 'w st \<Rightarrow> int \<times> (kptr \<times> kptr) \<times> 'w st" where
  "init_trfs_fs K s =
     (let (er, ic, s) = trfs_init_inode_cache K s;
          (er, dc, s) = (if er \<noteq> 0 then (er, Null, s) else trfs_init_dentry_cache K s);
          (er, s) = (if er \<noteq> 0 then (er, s) else call_i32 K Register_filesystem s);
          s = (if er \<noteq> 0 then trfs_destroy_dentry_cache K dc (trfs_destroy_inode_cache K ic s) else s)
      in (er, (ic, dc), s))"

definition exit_trfs_fs :: "'w kernel \<Rightarrow> kptr \<times> kptr \<Rightarrow> 'w st \<Rightarrow> 'w st" where
  "exit_trfs_fs K caches s =
     (let s = trfs_destroy_inode_cache K (fst caches) s;
          s = trfs_destroy_dentry_cache K (snd caches) s
      in snd (call_int K Unregister_filesystem s))"

end
