(* ===== verification/Mount_Correct.thy ===== *)
theory Mount_Correct
  imports Untraced Main_Mount
begin

text \<open>
  What mounting, shutting down and loading the module do: the options, the state of the
  super block after a mount, the references kept and given back on every path, and the
  shutdown of a mount that failed.
\<close>

section \<open>The mount options\<close>

lemma tracker_scan_key:
  "0x3D \<notin> set key \<Longrightarrow> 0 \<notin> set key \<Longrightarrow> tracker_scan (key @ 0x3D # rest) = Some (0x3D # rest)"
  by (induction key) auto

lemma tracker_scan_none:
  "0x3D \<notin> set key \<Longrightarrow> 0 \<notin> set key \<Longrightarrow> tracker_scan (key @ 0 # rest) = Some (0 # rest)"
  by (induction key) auto

text \<open>\<open>tfile=<path>\<close> gives the path; without the \<open>=\<close> the string behind the options is read.\<close>

lemma tfile_option_found:
  "0x3D \<notin> set key \<Longrightarrow> 0 \<notin> set key \<Longrightarrow> 0 \<notin> set p \<Longrightarrow>
   tfile_option (key @ 0x3D # p @ 0 # rest) = Some p"
  by (simp add: tfile_option_def tracker_scan_key cstr_nul)

lemma tfile_option_missing:
  "0x3D \<notin> set opts \<Longrightarrow> 0 \<notin> set opts \<Longrightarrow> tfile_option (opts @ 0 # rest) = cstr rest"
  by (simp add: tfile_option_def tracker_scan_none)

section \<open>A mount that succeeds\<close>

definition mount_strings :: "trfs_mount_path \<Rightarrow> (block \<times> block) option" where
  "mount_strings mp = (case (tfile_path mp, device_path mp) of
     (Some (a, t), Some (b, d)) \<Rightarrow> Some (t, d) | _ \<Rightarrow> None)"

lemma mount_prepare_strings:
  assumes "mount_prepare K (Some mem) (Some dev) s = Some (Some mp, s')"
  shows "\<exists>t. tfile_option mem = Some t \<and> mount_strings mp = Some (t, dev)"
  using assms
  by (auto simp: mount_prepare_def run_simps kptr_case_eq_Some dup_string_def tfile_option_def mount_strings_def)

lemma prepare_silent:
  assumes "mount_prepare K raw dev s = Some (m, s')"
  shows "sb s' = sb s"
  using assms
  by (auto simp: mount_prepare_def run_simps kptr_case_eq_Some dup_string_def split: option.splits)

text \<open>
  \<open>mounted_fresh\<close>: what the super block is after a mount. The bitmap has all twelve calls,
  the counter starts at 0, the trace file is the empty file of the options, and the root
  dentry is on the lower directory.
\<close>

definition mounted_fresh :: "trfs_mount_path \<Rightarrow> path \<Rightarrow> 'w st \<Rightarrow> bool" where
  "mounted_fresh mp lp s \<longleftrightarrow>
     (\<exists>a lower root da info. s_fs_info (sb s) =
        Some (a, \<lparr>lower_sb = Some lower, mount_path = Some mp, sb_record_id = 0, mask = BITMAP_MAX\<rparr>) \<and>
      s_trfs_ops (sb s) \<and> s_root (sb s) = Some root \<and>
      d_fsdata (dentries s root) = Some (da, info) \<and> lower_path info = lp)"

text \<open>References that trfs takes below; those on its own dentries and inodes are the kernel's.\<close>

definition below :: "resource \<Rightarrow> bool" where
  "below q \<longleftrightarrow> (\<forall>i. q \<noteq> R_linode i) \<and> (\<forall>d. q \<noteq> R_upper_dentry d)"

lemma iget_result:
  "trfs_iget K li s = Some (r, s') \<Longrightarrow> (\<exists>i. r = Ptr i) \<or> r = Err_ptr (- EACCES) \<or> r = Err_ptr (- ESTALE)"
  by (auto simp: trfs_iget_def run_simps kptr_case_eq_Some)

lemma fill_super_effect:
  assumes "fill_super K mp ld s = Some (lower, s')"
  shows "\<exists>a info. s_fs_info (sb s) = Some (a, info) \<and> s_fs_info (sb s') =
      Some (a, \<lparr>lower_sb = Some lower, mount_path = Some mp, sb_record_id = 0, mask = BITMAP_MAX\<rparr>) \<and>
    s_trfs_ops (sb s') \<and> held (log s') q = held (log s) q + of_bool (q = R_active lower)"
    "trace_file_ok K name tf th \<Longrightarrow> tf (world s') = tf (world s)"
  using assms
  by (auto simp: fill_super_def trfs_set_lower_super_def run_simps trace_file_calls)

lemma out_sput_effect:
  assumes "out_sput K lower lp s = Some s'"
  shows "s_fs_info (sb s') = None" 
    "\<exists>a info. s_fs_info (sb s) = Some (a, info) \<and>
       held (log s') q = held (log s) q - of_bool (q = R_active lower) - of_bool (q = R_mem a) - path_ref lp q"
    "trace_file_ok K name tf th \<Longrightarrow> tf (world s') = tf (world s)"
  using assms by (auto simp: out_sput_def out_free_def run_simps trace_file_calls)

definition root_ready :: "path \<Rightarrow> super_block \<Rightarrow> 'w st \<Rightarrow> bool" where
  "root_ready lp b s \<longleftrightarrow> (\<exists>root da info. s_root (sb s) = Some root \<and> sb s = b\<lparr>s_root := Some root\<rparr> \<and>
     d_fsdata (dentries s root) = Some (da, info) \<and> lower_path info = lp)"

lemma make_root_cases:
  assumes run: "make_root K lp lower i s = Some (r, s')" and q: "below q"
    and sb: "s_fs_info (sb s) = Some (a, info)"
  shows "(r = 0 \<and> root_ready lp (sb s) s' \<and>
      (\<exists>root da x. s_root (sb s') = Some root \<and> d_fsdata (dentries s' root) = Some (da, x) \<and>
        held (log s') q = held (log s) q + of_bool (q = R_dinfo da))) \<or>
    (r \<noteq> 0 \<and> s_fs_info (sb s') = None \<and> held (log s') q =
      held (log s) q - of_bool (q = R_active lower) - of_bool (q = R_mem a) - path_ref lp q)"
proof -
  obtain rp ds w where m: "k_d_make_root K i (dentries s) (world s) = (rp, ds, w)"
    by (metis prod_cases3)
  define s1 where "s1 = upd_sb (\<lambda>b. b\<lparr>s_root := deref rp\<rparr>) (s\<lparr>dentries := ds, world := w\<rparr>)"
  have s1: "sb s1 = (sb s)\<lparr>s_root := deref rp\<rparr>" "log s1 = log s" by (simp_all add: s1_def)
  show ?thesis
  proof (cases "\<exists>root. rp = Ptr root")
    case False
    then obtain s2 where "out_sput K lower lp (call_void K (Upper_iput i) s1) = Some s2" "r = - ENOMEM" "s' = s2"
      using run m by (auto simp: make_root_def s1_def run_simps kptr_case_eq_Some)
    then show ?thesis using out_sput_effect(1,2) [of K lower lp _ s2] s1 sb
      by (fastforce simp: errno_defs)
  next
    case True
    then obtain root where root: "rp = Ptr root" by blast
    define s2 where "s2 = upd_dentry root (\<lambda>d. d\<lparr>d_trfs_dops := True, d_fsdata := None\<rparr>) s1"
    have s2e: "s2 = upd_dentry root (\<lambda>d. d\<lparr>d_trfs_dops := True, d_fsdata := None\<rparr>)
        (upd_sb (s_root_update (\<lambda>_. Some root)) (s\<lparr>dentries := ds, world := w\<rparr>))"
      by (simp add: s2_def s1_def root)
    let ?p = "call_ptr K Kmem_cache_zalloc_dentry s2"
    show ?thesis
    proof (cases "\<exists>da. fst ?p = Ptr da")
      case False
      then have n: "new_dentry_private_data K root s2 = (- ENOMEM, snd ?p)"
        by (auto simp: new_dentry_private_data_def case_prod_beta Let_def split: kptr.splits)
      then obtain s3 where "out_sput K lower lp (call_void K (Upper_iput i) (call_void K (Upper_dput root) (snd ?p))) = Some s3"
        "r = - ENOMEM" "s' = s3"
        using run m root by (auto simp: make_root_def s2e [symmetric] run_simps errno_defs)
      then show ?thesis 
        using out_sput_effect(1,2) [of K lower lp _ s3] s1 sb q False
        by (cases "fst ?p") (fastforce simp: errno_defs s2_def below_def)+
    next
      case True
      then obtain da where da: "fst ?p = Ptr da" by blast
      then have n: "new_dentry_private_data K root s2 =
          (0, upd_dentry root (\<lambda>x. x\<lparr>d_fsdata := Some (da, \<lparr>lower_path = null_path\<rparr>)\<rparr>) (snd ?p))"
        by (simp add: new_dentry_private_data_def case_prod_beta Let_def)
      then show ?thesis
        using run m root s1 sb q da
        by (auto simp: make_root_def s2e [symmetric] run_simps errno_defs
            trfs_set_lower_path_def root_ready_def pathcpy_def) (auto simp: s2_def)
    qed
  qed
qed

lemma make_root_tf:
  assumes ok: "trace_file_ok K name tf th" and run: "make_root K lower lp i s = Some (r, s')"
  shows "tf (world s') = tf (world s)"
proof -
  have n: "new_dentry_private_data K d s1 = (e, s2) \<Longrightarrow> tf (world s2) = tf (world s1)" for d s1 e s2
    using new_dentry_silent(2) [OF ok, of d s1] by simp
  show ?thesis
    using run trace_file_caches(3) [OF ok]
    by (auto simp: make_root_def run_simps kptr_case_eq_Some trace_file_calls [OF ok] new_dentry_silent(2) [OF ok]
        dest!: out_sput_effect(3) [OF _ ok] private_data_silent(1) [OF ok])
qed

lemma read_super_root_cases:
  assumes ok: "trace_file_ok K name tf th" and run: "read_super_root K mp lp ld s = Some (r, s')"
    and q: "below q" and sb: "s_fs_info (sb s) = Some (a, info)"
  shows "tf (world s') = tf (world s) \<and>
    ((r = 0 \<and> mounted_fresh mp lp s' \<and>
      (\<exists>lower root da x. s_fs_info (sb s') = Some (a, \<lparr>lower_sb = Some lower, mount_path = Some mp,
          sb_record_id = 0, mask = BITMAP_MAX\<rparr>) \<and> s_root (sb s') = Some root \<and>
        d_fsdata (dentries s' root) = Some (da, x) \<and>
        held (log s') q = held (log s) q + of_bool (q = R_active lower) + of_bool (q = R_dinfo da))) \<or>
    (r \<noteq> 0 \<and> s_fs_info (sb s') = None \<and> held (log s') q =
      held (log s) q - of_bool (q = R_mem a) - path_ref lp q))"
proof -
  obtain lower s1 ip s2 where f: "fill_super K mp ld s = Some (lower, s1)" and
    g: "trfs_iget K (lower_d_inode K ld s1) s1 = Some (ip, s2)" and
    k: "(case ip of Ptr i \<Rightarrow> make_root K lp lower i s2
      | e \<Rightarrow> do { s \<leftarrow> out_sput K lower lp s2; Some (to_int (PTR_ERR e), s) }) = Some (r, s')"
    using run by (auto simp: read_super_root_def bind_eq_Some_conv cong: kptr.case_cong)
  note F = fill_super_effect(1) [OF f, of q] fill_super_effect(2) [OF f ok]
  note G = iget_effect(1) [OF g] iget_effect(4) [OF g ok]
  have Gh: "held (log s2) q = held (log s1) q" using iget_effect(6) [OF g] q by (auto simp: below_def)
  have sb2: "s_fs_info (sb s2) = Some (a, \<lparr>lower_sb = Some lower, mount_path = Some mp, sb_record_id = 0, mask = BITMAP_MAX\<rparr>)"
    "s_trfs_ops (sb s2)" "held (log s2) q = held (log s) q + of_bool (q = R_active lower)"
    using F(1) G(1) Gh sb by auto
  show ?thesis
  proof (cases "\<exists>i. ip = Ptr i")
    case True
    then obtain i where m: "make_root K lp lower i s2 = Some (r, s')" using k by auto
    have t: "tf (world s') = tf (world s)" using make_root_tf [OF ok m] G(2) F(2) by simp
    show ?thesis using make_root_cases [OF m q sb2(1)]
    proof (elim disjE conjE exE)
      fix root da x
      assume "r = 0" "root_ready lp (sb s2) s'" "s_root (sb s') = Some root"
        "d_fsdata (dentries s' root) = Some (da, x)" "held (log s') q = held (log s2) q + of_bool (q = R_dinfo da)"
      then show ?thesis using t sb2 by (auto simp: mounted_fresh_def root_ready_def)
    qed (use t sb2 in auto)
  next
    case False
    then obtain e where e: "ip = Err_ptr e" "to_int (PTR_ERR ip) \<noteq> 0" "out_sput K lower lp s2 = Some s'"
      "r = to_int (PTR_ERR ip)"
      using iget_result [OF g] k by (auto simp: run_simps PTR_ERR_def to_int_id errno_defs)
    then show ?thesis using out_sput_effect(1,2) [OF e(3)] out_sput_effect(3) [OF e(3) ok] sb2 F(2) G(2) by auto
  qed
qed

text \<open>What a mount keeps: the private data, the lower super block and the root's private data.\<close>

definition mount_keeps :: "'w st \<Rightarrow> resource \<Rightarrow> int" where
  "mount_keeps s q = (case (s_fs_info (sb s), s_root (sb s)) of
     (Some (a, info), Some root) \<Rightarrow> of_bool (q = R_mem a) +
       (case lower_sb info of None \<Rightarrow> 0 | Some lower \<Rightarrow> of_bool (q = R_active lower)) +
       (case d_fsdata (dentries s root) of None \<Rightarrow> 0 | Some (da, x) \<Rightarrow> of_bool (q = R_dinfo da))
   | _ \<Rightarrow> 0)"

lemma read_super_cases:
  assumes ok: "trace_file_ok K name tf th" and run: "trfs_read_super K (Some mp) s = Some (r, s')"
    and name: "tfile_path mp = Some (fa, name)" and q: "below q"
  shows "(r = 0 \<and> tf (world s') = [] \<and> (\<exists>lp. mounted_fresh mp lp s') \<and>
       held (log s') q = held (log s) q + mount_keeps s' q) \<or>
    (r \<noteq> 0 \<and> (\<exists>lp. held (log s') q = held (log s) q - path_ref lp q) \<and> s_fs_info (sb s') = None) \<or>
    (r \<noteq> 0 \<and> held (log s') q = held (log s) q \<and> sb s' = sb s)"
proof -
  obtain da dev where dev: "device_path mp = Some (da, dev)"
    using run by (auto simp: trfs_read_super_def run_simps)
  define s1 where "s1 = snd (call_i32 K (Kern_path dev) s)"
  define lp where "lp = k_path_result K (world s1)"
  define z where "z = call_ptr K (Kzalloc 32) s1"
  define s2 where "s2 = upd_sb (\<lambda>b. b\<lparr>s_fs_info := map_option (\<lambda>a. (a, fresh_sb_info)) (deref (fst z))\<rparr>) (snd z)"
  have run': "(if fst (call_i32 K (Kern_path dev) s) \<noteq> 0 then Some (fst (call_i32 K (Kern_path dev) s), s1)
      else if s_fs_info (sb s2) = None then Some (- ENOMEM, out_free K lp s2)
      else do { s3 \<leftarrow> create_trace_file K mp s2; ld \<leftarrow> p_dentry lp; read_super_root K mp lp ld s3 }) = Some (r, s')"
    using run dev unfolding trfs_read_super_def s2_def z_def lp_def s1_def
    by (simp add: case_prod_beta Let_def cong: if_cong)
  have h1: "held (log s1) q = held (log s) q" "sb s1 = sb s" by (simp_all add: s1_def)
  show ?thesis
  proof (cases "fst (call_i32 K (Kern_path dev) s) = 0")
    case False
    then show ?thesis using run' h1 by auto
  next
    case path: True
    show ?thesis
    proof (cases "deref (fst z)")
      case None
      then have "held (log s2) q = held (log s) q" "s_fs_info (sb s2) = None"
        using h1 by (cases "fst z"; simp add: s2_def z_def)+
      then show ?thesis using run' path by (auto simp: out_free_def errno_defs)
    next
      case (Some a)
      then have sb2: "s_fs_info (sb s2) = Some (a, fresh_sb_info)" and
        h2: "held (log s2) q = held (log s) q + of_bool (q = R_mem a)"
        using h1 by (auto simp: s2_def z_def)
      obtain s3 ld where c: "create_trace_file K mp s2 = Some s3" and
        rr: "read_super_root K mp lp ld s3 = Some (r, s')"
        using run' path sb2 by (auto simp: bind_eq_Some_conv)
      have s3: "sb s3 = sb s2" "held (log s3) q = held (log s2) q" "tf (world s3) = []"
        using c name ok
        by (auto simp: create_trace_file_def run_simps trace_file_calls [OF ok]) (simp add: trace_file_ok_def call_ptr_def)
      have "s_fs_info (sb s3) = Some (a, fresh_sb_info)" using s3 sb2 by simp
      from read_super_root_cases [OF ok rr q this] show ?thesis
      proof (elim conjE disjE exE)
        fix lower root da x
        assume t: "tf (world s') = tf (world s3)" "r = 0" "mounted_fresh mp lp s'"
          and *: "s_fs_info (sb s') = Some (a, \<lparr>lower_sb = Some lower, mount_path = Some mp,
            sb_record_id = 0, mask = BITMAP_MAX\<rparr>)" "s_root (sb s') = Some root" "d_fsdata (dentries s' root) = Some (da, x)"
          and h: "held (log s') q = held (log s3) q + of_bool (q = R_active lower) + of_bool (q = R_dinfo da)"
        have "held (log s') q = held (log s) q + mount_keeps s' q"
          using h s3(2) h2 by (simp add: mount_keeps_def *)
        with t s3 show ?thesis by auto
      next
        assume "r \<noteq> 0" "s_fs_info (sb s') = None"
          and h: "held (log s') q = held (log s3) q - of_bool (q = R_mem a) - path_ref lp q"
        have "held (log s') q = held (log s) q - path_ref lp q"
          unfolding h s3(2) h2 by simp
        with \<open>r \<noteq> 0\<close> \<open>s_fs_info (sb s') = None\<close> show ?thesis by blast
      qed
    qed
  qed
qed

section \<open>Shutting down\<close>

text \<open>
  \<open>generic_shutdown_super\<close> calls \<open>put_super\<close> when the super block has a root.
\<close>

definition calls_put_super :: "'w kernel \<Rightarrow> ('w st \<Rightarrow> 'w st option) \<Rightarrow> bool" where
  "calls_put_super K gs \<longleftrightarrow>
     (\<forall>s. s_root (sb s) \<noteq> None \<longrightarrow> gs s = trfs_put_super K s)"

definition strings_held :: "trfs_mount_path \<Rightarrow> resource \<Rightarrow> int" where
  "strings_held mp q = mem_ref (map_option fst (tfile_path mp)) q +
     mem_ref (map_option fst (device_path mp)) q + of_bool (q = R_mem (mp_addr mp))"

text \<open>A shutdown of a mounted file system gives back the options and the private data.\<close>

lemma shutdown_effect:
  assumes gs: "calls_put_super K gs"
    and sb: "s_fs_info (sb s) = Some (a, info)" "mount_path info = Some mp" "lower_sb info = Some lower"
      "s_root (sb s) = Some root"
  shows "\<exists>s'. trfs_shutdown_super K gs s = Some s' \<and> s_fs_info (sb s') = None \<and>
    held (log s') q = held (log s) q - strings_held mp q - of_bool (q = R_mem a) - of_bool (q = R_active lower)"
proof -
  let ?s = "call_void K Generic_shutdown_super (call_void K (Kfree (mp_addr mp))
    (kfree_local K (map_option fst (device_path mp)) (kfree_local K (map_option fst (tfile_path mp)) s)))"
  have g: "gs ?s = trfs_put_super K ?s" using gs sb by (simp add: calls_put_super_def)
  show ?thesis
    using sb by (simp add: trfs_shutdown_super_def g trfs_put_super_def trfs_lower_super_def
        trfs_set_lower_super_def strings_held_def)
qed

text \<open>
  \<open>trfs_shutdown_super\<close> follows \<open>s_fs_info\<close> without a test, and it is also \<open>kill_sb\<close> of a
  mount that failed, where \<open>s_fs_info\<close> is NULL.
\<close>

lemma shutdown_unmounted: "s_fs_info (sb s) = None \<Longrightarrow> trfs_shutdown_super K gs s = None"
  by (simp add: trfs_shutdown_super_def)

lemma failed_mount_crashes:
  assumes "trace_file_ok K name tf th" "trfs_read_super K raw s = Some (r, s')" "r \<noteq> 0"
    and "s_fs_info (sb s) = None" "\<And>mp. raw = Some mp \<Longrightarrow> tfile_path mp = Some (fa, name)"
  shows "trfs_shutdown_super K gs s' = None"
proof (cases raw)
  case None
  then show ?thesis using assms by (simp add: trfs_read_super_def shutdown_unmounted)
next
  case (Some mp)
  have "below (R_mem 0)" by (simp add: below_def)
  from read_super_cases [OF assms(1) assms(2) [unfolded Some] assms(5) [OF Some] this] assms(3,4)
  show ?thesis by (intro shutdown_unmounted) auto
qed

section \<open>Loading the module\<close>

text \<open>A load that fails destroys the caches it created; one that succeeds keeps both.\<close>

fun caches_made :: "event list \<Rightarrow> int" where
  "caches_made [] = 0"
| "caches_made (Ptr_call Kmem_cache_create_inode p # l) = caches_made l + (case p of Ptr a \<Rightarrow> 1 | _ \<Rightarrow> 0)"
| "caches_made (Ptr_call Kmem_cache_create_dentry p # l) = caches_made l + (case p of Ptr a \<Rightarrow> 1 | _ \<Rightarrow> 0)"
| "caches_made (Void_call (Kmem_cache_destroy c) # l) = caches_made l - 1"
| "caches_made (_ # l) = caches_made l"

text \<open>\<open>kmem_cache_create\<close> returns a cache or NULL.\<close>

definition caches_or_null :: "'w kernel \<Rightarrow> bool" where
  "caches_or_null K \<longleftrightarrow> (\<forall>c \<in> {Kmem_cache_create_inode, Kmem_cache_create_dentry}. \<forall>w e.
     fst (k_ptr K c w) \<noteq> Err_ptr e)"

lemma init_effect:
  assumes nn: "caches_or_null K"
    and run: "init_trfs_fs K s = (r, caches, s')"
  shows "caches_made (log s') = caches_made (log s) + (if r = 0 then 2 else 0) \<and>
    (r = 0 \<longrightarrow> (\<exists>i d. caches = (Ptr i, Ptr d)))"
proof -
  have p: "fst (call_ptr K c s1) = Null \<or> (\<exists>a. fst (call_ptr K c s1) = Ptr a)"
    if "c \<in> {Kmem_cache_create_inode, Kmem_cache_create_dentry}" for c s1
    using nn that unfolding caches_or_null_def by (cases "fst (call_ptr K c s1)") (fastforce simp: call_ptr_def)+
  let ?i = "call_ptr K Kmem_cache_create_inode s"
  let ?d = "call_ptr K Kmem_cache_create_dentry (snd ?i)"
  show ?thesis
    using p [of Kmem_cache_create_inode s] p [of Kmem_cache_create_dentry "snd ?i"] run
    by (auto simp: init_trfs_fs_def trfs_init_inode_cache_def trfs_init_dentry_cache_def
        trfs_destroy_inode_cache_def trfs_destroy_dentry_cache_def case_prod_beta Let_def errno_defs
        split: if_splits)
qed

lemma exit_effect:
  "caches_made (log (exit_trfs_fs K (Ptr i, Ptr d) s)) = caches_made (log s) - 2"
  by (simp add: exit_trfs_fs_def trfs_destroy_inode_cache_def trfs_destroy_dentry_cache_def)

section \<open>From the command line to a mounted file system\<close>

text \<open>The strings and the structure that \<open>trfs_mount\<close> allocates stay allocated.\<close>

lemma dup_string_held:
  "dup_string K str s = Some (h, s') \<Longrightarrow> held (log s') q = held (log s) q + of_bool (q = R_mem (fst h))"
  by (auto simp: dup_string_def run_simps)

lemma mount_prepare_held:
  assumes "mount_prepare K (Some mem) (Some dev) s = Some (Some mp, s')"
  shows "held (log s') q = held (log s) q + strings_held mp q"
proof -
  obtain a str t s1 d where m: "fst (call_ptr K (Kmalloc 16) s) = Ptr a"
    and t: "dup_string K str (snd (call_ptr K (Kmalloc 16) s)) = Some (t, s1)"
    and d: "dup_string K dev s1 = Some (d, s')"
    and mp: "mp = \<lparr>mp_addr = a, tfile_path = Some t, device_path = Some d\<rparr>"
    using assms by (clarsimp simp: mount_prepare_def run_simps kptr_case_eq_Some)
  have "held (log (snd (call_ptr K (Kmalloc 16) s))) q = held (log s) q + of_bool (q = R_mem a)"
    using m by simp
  then have "held (log s') q = held (log s) q + of_bool (q = R_mem a) + of_bool (q = R_mem (fst t)) + of_bool (q = R_mem (fst d))"
    unfolding dup_string_held [OF d] dup_string_held [OF t] by (rule arg_cong)
  then show ?thesis unfolding mp strings_held_def mem_ref_def
    by (simp only: trfs_mount_path.simps option.map option.case ac_simps)
qed

text \<open>
  \<open>mount_nodev\<close> makes a super block and returns what the fill function returns on it; making
  it takes nothing of what trfs holds below.
\<close>

definition nodev_ok :: "'w nodev \<Rightarrow> bool" where
  "nodev_ok nodev \<longleftrightarrow> (\<forall>fill raw s s'. nodev fill raw s = Some (0, s') \<longrightarrow>
     (\<exists>s0. fill raw s0 = Some (0, s') \<and> (\<forall>q. below q \<longrightarrow> held (log s0) q = held (log s) q)))"

lemma mount_effect:
  assumes ok: "trace_file_ok K p tf th" and nd: "nodev_ok nodev"
    and opts: "0x3D \<notin> set key" "0 \<notin> set key" "0 \<notin> set p"
    and run: "trfs_mount K nodev (Some (key @ 0x3D # p @ 0 # rest)) (Some dev) s = Some (0, s')"
  shows "\<exists>mp lp. mount_strings mp = Some (p, dev) \<and> mounted_fresh mp lp s' \<and> tf (world s') = [] \<and>
    (\<forall>q. below q \<longrightarrow> held (log s') q = held (log s) q + strings_held mp q + mount_keeps s' q)"
proof -
  obtain m s1 where pr: "mount_prepare K (Some (key @ 0x3D # p @ 0 # rest)) (Some dev) s = Some (m, s1)"
    and nv: "nodev (trfs_read_super K) m s1 = Some (0, s')"
    using run by (auto simp: trfs_mount_def run_simps)
  obtain s0 where rs: "trfs_read_super K m s0 = Some (0, s')" and h0: "\<And>q. below q \<Longrightarrow> held (log s0) q = held (log s1) q"
    using nd [unfolded nodev_ok_def, rule_format, OF nv] by blast
  obtain mp where m: "m = Some mp" using rs by (cases m) (auto simp: trfs_read_super_def errno_defs)
  have st: "mount_strings mp = Some (p, dev)"
    using mount_prepare_strings [OF pr [unfolded m]] tfile_option_found [OF opts, of rest] by auto
  then obtain a where name: "tfile_path mp = Some (a, p)"
    by (auto simp: mount_strings_def split: option.splits)
  have R: "tf (world s') = [] \<and> (\<exists>lp. mounted_fresh mp lp s') \<and> held (log s') q = held (log s0) q + mount_keeps s' q"
    if "below q" for q
    using read_super_cases [OF ok rs [unfolded m] name that] by (elim disjE conjE) (intro conjI, assumption+, simp_all)
  have "below (R_mem 0)" by (simp add: below_def)
  from R [OF this] obtain lp where lp: "mounted_fresh mp lp s'" "tf (world s') = []" by blast
  have "held (log s') q = held (log s) q + strings_held mp q + mount_keeps s' q" if "below q" for q
    using R [OF that] h0 [OF that] mount_prepare_held [OF pr [unfolded m]] by simp
  with lp st show ?thesis by (intro exI conjI allI impI)
qed

text \<open>A fresh mount is a mounted file system with its counter at 0.\<close>

lemma mounted_fresh_mounted:
  assumes "mounted_fresh mp lp s" "mount_strings mp = Some (p, dev)"
  shows "\<exists>info. mounted s p info \<and> sb_record_id info = 0 \<and> mask info = BITMAP_MAX"
  using assms by (auto simp: mounted_fresh_def mounted_def mount_strings_def split: option.splits)

end
