(* ===== verification/Operations.thy ===== *)
theory Operations
  imports Mount_Correct
begin

text \<open>
  The operations tables of \<open>src/fs/trfs/file.c\<close> and \<open>src/fs/trfs/inode.c\<close>, the requests
  the VFS makes through them, and runs of the mounted file system: sequences of requests
  with whatever the rest of the kernel does in between.
\<close>

section \<open>Requests\<close>

datatype (plugins only: code size) file_request =
    Req_llseek ptr int int
  | Req_read ptr ptr "64 word"
  | Req_write ptr block "64 word"
  | Req_iterate ptr
  | Req_ioctl ptr "32 word" "64 word"
  | Req_compat_ioctl ptr "32 word" "64 word"
  | Req_mmap ptr ptr
  | Req_open ptr ptr
  | Req_flush ptr ptr
  | Req_release ptr ptr
  | Req_fsync ptr int int int
  | Req_fasync int ptr int
  | Req_read_iter ptr
  | Req_write_iter ptr

datatype (plugins only: code size) inode_request =
    Req_create ptr ptr "16 word" bool
  | Req_lookup ptr "32 word"
  | Req_link ptr ptr ptr
  | Req_unlink ptr ptr
  | Req_symlink ptr ptr block
  | Req_mkdir ptr ptr "16 word"
  | Req_rmdir ptr ptr
  | Req_mknod ptr ptr "16 word" "32 word"
  | Req_rename ptr ptr ptr ptr
  | Req_readlink ptr ptr int
  | Req_get_link "ptr option"
  | Req_permission ptr int
  | Req_setattr ptr iattr
  | Req_getattr ptr
  | Req_setxattr ptr block block int
  | Req_getxattr ptr block int
  | Req_listxattr ptr int
  | Req_removexattr ptr block

type_synonym 'w handler = "'w st \<Rightarrow> (int \<times> 'w st) option"

text \<open>The results that are not integers, as the integers the caller tests.\<close>

definition ptr_result :: "(kptr \<times> 'w st) option \<Rightarrow> (int \<times> 'w st) option" where
  "ptr_result r = map_option (\<lambda>(p, s). (PTR_ERR p, s)) r"

section \<open>The tables\<close>

definition EISDIR :: int where "EISDIR = 21"

text \<open>A method the table does not have is \<open>None\<close>.\<close>

definition trfs_main_fops :: "'w kernel \<Rightarrow> file_request \<Rightarrow> 'w handler option" where
  "trfs_main_fops K req = (case req of
     Req_llseek f off wh \<Rightarrow> Some (\<lambda>s. Some (call_int K (Upper_llseek f off wh) s))
   | Req_read f buf n \<Rightarrow> Some (trfs_read K f buf n)
   | Req_write f data n \<Rightarrow> Some (trfs_write K f data n)
   | Req_ioctl f cmd arg \<Rightarrow> Some (trfs_unlocked_ioctl K f cmd arg)
   | Req_compat_ioctl f cmd arg \<Rightarrow> Some (trfs_compat_ioctl K f cmd arg)
   | Req_mmap f v \<Rightarrow> Some (trfs_mmap K f v)
   | Req_open i f \<Rightarrow> Some (trfs_open K i f)
   | Req_flush f own \<Rightarrow> Some (trfs_flush K f own)
   | Req_release i f \<Rightarrow> Some (trfs_file_release K i f)
   | Req_fsync f a b c \<Rightarrow> Some (trfs_fsync K f a b c)
   | Req_fasync fd f flag \<Rightarrow> Some (trfs_fasync K fd f flag)
   | Req_read_iter iocb \<Rightarrow> Some (trfs_read_iter K iocb)
   | Req_write_iter iocb \<Rightarrow> Some (trfs_write_iter K iocb)
   | Req_iterate f \<Rightarrow> None)"

definition trfs_dir_fops :: "'w kernel \<Rightarrow> file_request \<Rightarrow> 'w handler option" where
  "trfs_dir_fops K req = (case req of
     Req_llseek f off wh \<Rightarrow> Some (trfs_file_llseek K f off wh)
   | Req_read f buf n \<Rightarrow> Some (\<lambda>s. Some (- EISDIR, s))
   | Req_iterate f \<Rightarrow> Some (trfs_readdir K f)
   | Req_ioctl f cmd arg \<Rightarrow> Some (trfs_unlocked_ioctl K f cmd arg)
   | Req_compat_ioctl f cmd arg \<Rightarrow> Some (trfs_compat_ioctl K f cmd arg)
   | Req_open i f \<Rightarrow> Some (trfs_open K i f)
   | Req_release i f \<Rightarrow> Some (trfs_file_release K i f)
   | Req_flush f own \<Rightarrow> Some (trfs_flush K f own)
   | Req_fsync f a b c \<Rightarrow> Some (trfs_fsync K f a b c)
   | Req_fasync fd f flag \<Rightarrow> Some (trfs_fasync K fd f flag)
   | _ \<Rightarrow> None)"

text \<open>\<open>lower_blocks\<close> and \<open>is_root\<close> are what the lower file system answers (see the operations).\<close>

definition common_iops :: "'w kernel \<Rightarrow> ('w \<Rightarrow> int) \<Rightarrow> inode_request \<Rightarrow> 'w handler option" where
  "common_iops K lower_blocks req = (case req of
     Req_permission i msk \<Rightarrow> Some (trfs_permission K i msk)
   | Req_setattr d ia \<Rightarrow> Some (trfs_setattr K d ia)
   | Req_getattr d \<Rightarrow>
       Some (\<lambda>s. map_option (\<lambda>(r, s). (fst r, s)) (trfs_getattr K lower_blocks d s))
   | Req_setxattr d nm v fl \<Rightarrow> Some (trfs_setxattr K d nm v fl)
   | Req_getxattr d nm n \<Rightarrow> Some (trfs_getxattr K d nm n)
   | Req_listxattr d n \<Rightarrow> Some (trfs_listxattr K d n)
   | Req_removexattr d nm \<Rightarrow> Some (trfs_removexattr K d nm)
   | _ \<Rightarrow> None)"

definition trfs_main_iops :: "'w kernel \<Rightarrow> ('w \<Rightarrow> int) \<Rightarrow> inode_request \<Rightarrow> 'w handler option" where
  "trfs_main_iops K lower_blocks req = common_iops K lower_blocks req"

definition trfs_symlink_iops :: "'w kernel \<Rightarrow> ('w \<Rightarrow> int) \<Rightarrow> inode_request \<Rightarrow> 'w handler option" where
  "trfs_symlink_iops K lower_blocks req = (case req of
     Req_readlink d buf n \<Rightarrow> Some (trfs_readlink K d buf n)
   | Req_get_link d \<Rightarrow>
       Some (\<lambda>s. ptr_result (map_option (\<lambda>(p, data, s). (p, s)) (trfs_get_link K d s)))
   | _ \<Rightarrow> common_iops K lower_blocks req)"

definition trfs_dir_iops ::
  "'w kernel \<Rightarrow> ('w \<Rightarrow> int) \<Rightarrow> (ptr \<Rightarrow> bool) \<Rightarrow> inode_request \<Rightarrow> 'w handler option" where
  "trfs_dir_iops K lower_blocks is_root req = (case req of
     Req_create dir d mode excl \<Rightarrow> Some (trfs_create K dir d mode excl)
   | Req_lookup d flags \<Rightarrow> Some (\<lambda>s. ptr_result (trfs_lookup K is_root d flags s))
   | Req_link od dir nd \<Rightarrow> Some (trfs_link K od dir nd)
   | Req_unlink dir d \<Rightarrow> Some (trfs_unlink K dir d)
   | Req_symlink dir d str \<Rightarrow> Some (trfs_symlink K dir d str)
   | Req_mkdir dir d mode \<Rightarrow> Some (trfs_mkdir K dir d mode)
   | Req_rmdir dir d \<Rightarrow> Some (trfs_rmdir K dir d)
   | Req_mknod dir d mode dev \<Rightarrow> Some (trfs_mknod K dir d mode dev)
   | Req_rename odir od ndir nd \<Rightarrow> Some (trfs_rename K odir od ndir nd)
   | _ \<Rightarrow> common_iops K lower_blocks req)"

text \<open>The tables by the names the inodes carry.\<close>

definition file_table :: "'w kernel \<Rightarrow> file_ops \<Rightarrow> file_request \<Rightarrow> 'w handler option" where
  "file_table K t req = (case t of No_fops \<Rightarrow> None
     | Dir_fops \<Rightarrow> trfs_dir_fops K req | Main_fops \<Rightarrow> trfs_main_fops K req)"

definition inode_table ::
  "'w kernel \<Rightarrow> ('w \<Rightarrow> int) \<Rightarrow> (ptr \<Rightarrow> bool) \<Rightarrow> inode_ops \<Rightarrow> inode_request \<Rightarrow> 'w handler option" where
  "inode_table K lower_blocks is_root t req = (case t of No_iops \<Rightarrow> None
     | Symlink_iops \<Rightarrow> trfs_symlink_iops K lower_blocks req
     | Dir_iops \<Rightarrow> trfs_dir_iops K lower_blocks is_root req
     | Main_iops \<Rightarrow> trfs_main_iops K lower_blocks req)"

datatype request = File_request file_ops file_request | Inode_request inode_ops inode_request

definition vfs_method ::
  "'w kernel \<Rightarrow> ('w \<Rightarrow> int) \<Rightarrow> (ptr \<Rightarrow> bool) \<Rightarrow> request \<Rightarrow> 'w handler option" where
  "vfs_method K lower_blocks is_root r = (case r of
     File_request t req \<Rightarrow> file_table K t req
   | Inode_request t req \<Rightarrow> inode_table K lower_blocks is_root t req)"

section \<open>The record type of a request\<close>

definition file_call :: "file_request \<Rightarrow> nat option" where
  "file_call req = (case req of
     Req_open i f \<Rightarrow> Some OPEN_CALL | Req_read f buf n \<Rightarrow> Some READ_CALL
   | Req_write f data n \<Rightarrow> Some WRITE_CALL | Req_release i f \<Rightarrow> Some RELEASE_CALL | _ \<Rightarrow> None)"

definition inode_call :: "inode_request \<Rightarrow> nat option" where
  "inode_call req = (case req of
     Req_create dir d mode excl \<Rightarrow> Some CREATE_CALL | Req_link od dir nd \<Rightarrow> Some LINK_CALL
   | Req_unlink dir d \<Rightarrow> Some UNLINK_CALL | Req_symlink dir d str \<Rightarrow> Some SYMLINK_CALL
   | Req_mkdir dir d mode \<Rightarrow> Some MKDIR_CALL | Req_rmdir dir d \<Rightarrow> Some RMDIR_CALL
   | Req_mknod dir d mode dev \<Rightarrow> Some MKNOD_CALL | Req_rename odir od ndir nd \<Rightarrow> Some RENAME_CALL
   | _ \<Rightarrow> None)"

definition request_call :: "request \<Rightarrow> nat option" where
  "request_call r = (case r of File_request t req \<Rightarrow> file_call req | Inode_request t req \<Rightarrow> inode_call req)"

end
