(* ===== verification/Treplay.thy ===== *)
theory Treplay
  imports Trace_Record "HOL-Library.Char_ord"
begin

text \<open>
  The replay program \<open>src/hw2/treplay.c\<close>: its command line, the loop over the records of
  the trace file, \<open>print_record\<close> and \<open>replay_record\<close>. What the machine decides is a
  parameter, the record \<open>env\<close>. A run that follows a bad pointer, runs past the memory it
  may read or writes past the memory it was given is \<open>None\<close>.
\<close>

section \<open>The machine\<close>

datatype syscall =
    Sys_open block "32 word"
  | Sys_read int nat
  | Sys_write int block
  | Sys_close int
  | Sys_open_mode block "32 word" "16 word"
  | Sys_link block "block option"
  | Sys_unlink block
  | Sys_symlink block "block option"
  | Sys_mkdir block "16 word"
  | Sys_rmdir block
  | Sys_mknod block "16 word" "32 word"
  | Sys_rename block "block option"

text \<open>
  \<open>usable k n\<close>: how many bytes the \<open>k\<close>-th allocation really has when \<open>n\<close> are asked for
  (\<open>None\<close> where it fails). \<open>tail t k\<close>: the readable memory behind the bytes of the \<open>k\<close>-th
  allocation, at the time of the \<open>t\<close>-th. \<open>syscall\<close>: the operating system.
\<close>

record 'o env =
  usable :: "nat \<Rightarrow> nat \<Rightarrow> nat option"
  tail :: "nat \<Rightarrow> nat \<Rightarrow> block"
  syscall :: "syscall \<Rightarrow> 'o \<Rightarrow> int \<times> 'o"

text \<open>A block of the heap: which allocation it is and the bytes stored in it.\<close>

type_synonym heap_block = "nat \<times> block"

datatype line =
    Text string
  | Number string int
  | Str string "block option"

record 'o rstate =
  mallocs :: nat
  global_fd :: int
  os :: 'o
  lines :: "line list"

definition emit :: "line \<Rightarrow> 'o rstate \<Rightarrow> 'o rstate" where
  "emit l st = st\<lparr>lines := lines st @ [l]\<rparr>"

definition sys :: "'o env \<Rightarrow> syscall \<Rightarrow> 'o rstate \<Rightarrow> int \<times> 'o rstate" where
  "sys E c st = (let (r, q) = syscall E c (os st) in (r, st\<lparr>os := q\<rparr>))"

text \<open>\<open>malloc(n)\<close> whose result is used without a test: the number of the block and its room.\<close>

definition alloc :: "'o env \<Rightarrow> nat \<Rightarrow> 'o rstate \<Rightarrow> (nat \<times> nat \<times> 'o rstate) option" where
  "alloc E n st = do {
     room \<leftarrow> usable E (mallocs st) n;
     Some (mallocs st, room, st\<lparr>mallocs := Suc (mallocs st)\<rparr>)
   }"

text \<open>The string at a block: up to the first NUL, in the block or behind it.\<close>

definition string_at :: "'o env \<Rightarrow> 'o rstate \<Rightarrow> heap_block \<Rightarrow> block option" where
  "string_at E st b = cstr (snd b @ tail E (mallocs st) (fst b))"

text \<open>\<open>/usr/src/replay\<close>, and a path below it in a block of the two lengths.\<close>

definition replay_path :: block where
  "replay_path = map (of_nat \<circ> of_char) ''/usr/src/replay''"

definition join_path :: "'o env \<Rightarrow> heap_block \<Rightarrow> 'o rstate \<Rightarrow> (block \<times> 'o rstate) option" where
  "join_path E b st = do {
     path \<leftarrow> string_at E st b;
     (k, room, st) \<leftarrow> alloc E (length replay_path + length path) st;
     require (length replay_path + length path + 1 \<le> room);
     Some (replay_path @ path, st)
   }"

definition join_opt ::
  "'o env \<Rightarrow> heap_block option \<Rightarrow> 'o rstate \<Rightarrow> (block option \<times> 'o rstate) option" where
  "join_opt E b st = (case b of None \<Rightarrow> Some (None, st)
     | Some b \<Rightarrow> do { (p, st) \<leftarrow> join_path E b st; Some (Some p, st) })"

section \<open>Printing a record\<close>

text \<open>\<open>%s\<close> of a pointer that may be NULL.\<close>

definition str_arg :: "'o env \<Rightarrow> 'o rstate \<Rightarrow> heap_block option \<Rightarrow> block option option" where
  "str_arg E st b = (case b of None \<Rightarrow> Some None
     | Some b \<Rightarrow> do { x \<leftarrow> string_at E st b; Some (Some x) })"

definition record_lines ::
  "trfs_trace_ds \<Rightarrow> block \<Rightarrow> block option \<Rightarrow> block option option \<Rightarrow> block option option \<Rightarrow>
   line list option" where
  "record_lines r full1 full2 path2 content =
     (let t = unat (record_type r) in
      if t = OPEN_CALL then Some
        [Text ''System call : open()'', Str ''Filepath to open : '' (Some full1),
         Number ''Open flags : '' (sint (open_flags r)),
         Number ''Permission mode : '' (uint (permission_mode r))]
      else if t = READ_CALL then Some
        [Text ''System call : read()'', Str ''Filepath to read : '' (Some full1)]
      else if t = WRITE_CALL then do {
        data \<leftarrow> content;
        Some [Text ''System call : write()'', Str ''Filepath where to write: '' (Some full1),
              Str ''Write content : '' data] }
      else if t = RELEASE_CALL then Some
        [Text ''System call : close()'', Str ''Filepath to be closed : '' (Some full1)]
      else if t = CREATE_CALL then Some
        [Text ''System call : create()'', Str ''Filepath to be created : '' (Some full1)]
      else if t = LINK_CALL then Some
        [Text ''System call : link()'', Str ''Source filepath : '' (Some full1),
         Str ''Target filepath : '' full2]
      else if t = UNLINK_CALL then Some
        [Text ''System call : unlink()'', Str ''Filepath to be unlinked : '' (Some full1)]
      else if t = SYMLINK_CALL then do {
        p2 \<leftarrow> path2;
        Some [Text ''System call : symlink()'', Str ''Source filepathd : '' (Some full1),
              Str ''Target filepath : '' p2] }
      else if t = MKDIR_CALL then Some
        [Text ''System call : mkdir()'', Str ''Dir path to be created : '' (Some full1)]
      else if t = RMDIR_CALL then Some
        [Text ''System call : rmdir()'', Str ''Dir path to be removed : '' (Some full1)]
      else if t = MKNOD_CALL then Some
        [Text ''System call : mknod()'', Str ''Filepath to be created : '' (Some full1)]
      else if t = RENAME_CALL then Some
        [Text ''System call : rename()'', Str ''Source filepath : '' (Some full1),
         Str ''Destination filepath : '' full2]
      else Some [])"

definition treplay_print_record ::
  "'o env \<Rightarrow> trfs_trace_ds \<Rightarrow> heap_block \<Rightarrow> heap_block option \<Rightarrow> heap_block option \<Rightarrow> 'o rstate \<Rightarrow>
   'o rstate option" where
  "treplay_print_record E r path1 path2 content st = do {
     (full1, st) \<leftarrow> join_path E path1 st;
     (full2, st) \<leftarrow> join_opt E path2 st;
     ls \<leftarrow> record_lines r full1 full2 (str_arg E st path2) (str_arg E st content);
     Some (fold emit ([Text ''Record details ->'', Number ''Record ID : '' (sint (record_id r))] @ ls @
       [Number ''Return value : '' (sint (err r))]) st)
   }"

section \<open>Replaying a record\<close>

text \<open>
  The arms of the switch. All but the first make one call and compare its result with the
  recorded one.
\<close>

definition replay_judge ::
  "'o env \<Rightarrow> trfs_trace_ds \<Rightarrow> syscall \<Rightarrow> 'o rstate \<Rightarrow> bool \<times> 'o rstate" where
  "replay_judge E r c st =
     (let (e, st) = sys E c st; errval = to_int e;
          st = emit (Number ''Replay return value : '' errval) st
      in (sint (err r) = errval, st))"

definition replay_open :: "'o env \<Rightarrow> trfs_trace_ds \<Rightarrow> block \<Rightarrow> 'o rstate \<Rightarrow> bool \<times> 'o rstate" where
  "replay_open E r full1 st =
     (let (e, st) = sys E (Sys_open full1 (open_flags r)) st; errval = to_int e;
          (errval, st) = (if errval < 0 then (- 1 :: int, emit (Number ''Replay return value : '' (- 1)) st)
             else (0, emit (Number ''Replay return value : '' 0) (st\<lparr>global_fd := errval\<rparr>)))
      in (sint (err r) = 0 \<and> errval > 0, st))"

definition replay_switch ::
  "'o env \<Rightarrow> trfs_trace_ds \<Rightarrow> block \<Rightarrow> block option \<Rightarrow> heap_block option \<Rightarrow> heap_block option \<Rightarrow>
   'o rstate \<Rightarrow> (bool \<times> 'o rstate) option" where
  "replay_switch E r full1 full2 path2 content st =
     (let t = unat (record_type r) in
      if t = OPEN_CALL then Some (replay_open E r full1 st)
      else if t = READ_CALL then Some (replay_judge E r (Sys_read (global_fd st) 0) st)
      else if t = WRITE_CALL then do {
        b \<leftarrow> content;
        data \<leftarrow> string_at E st b;
        Some (replay_judge E r (Sys_write (global_fd st) data) st) }
      else if t = RELEASE_CALL then Some (replay_judge E r (Sys_close (global_fd st)) st)
      else if t = CREATE_CALL then
        Some (replay_judge E r (Sys_open_mode full1 (open_flags r) (permission_mode r)) st)
      else if t = LINK_CALL then Some (replay_judge E r (Sys_link full1 full2) st)
      else if t = UNLINK_CALL then Some (replay_judge E r (Sys_unlink full1) st)
      else if t = SYMLINK_CALL then do {
        p2 \<leftarrow> str_arg E st path2;
        Some (replay_judge E r (Sys_symlink full1 p2) st) }
      else if t = MKDIR_CALL then Some (replay_judge E r (Sys_mkdir full1 (permission_mode r)) st)
      else if t = RMDIR_CALL then Some (replay_judge E r (Sys_rmdir full1) st)
      else if t = MKNOD_CALL then
        Some (replay_judge E r (Sys_mknod full1 (permission_mode r) (open_flags r)) st)
      else if t = RENAME_CALL then Some (replay_judge E r (Sys_rename full1 full2) st)
      else Some (True, st))"

definition replay_record ::
  "'o env \<Rightarrow> trfs_trace_ds \<Rightarrow> heap_block \<Rightarrow> heap_block option \<Rightarrow> heap_block option \<Rightarrow> 'o rstate \<Rightarrow>
   (bool \<times> 'o rstate) option" where
  "replay_record E r path1 path2 content st = do {
     (full1, st) \<leftarrow> join_path E path1 st;
     (full2, st) \<leftarrow> join_opt E path2 st;
     st \<leftarrow> (case content of None \<Rightarrow> Some st
       | Some b \<Rightarrow> do {
           data \<leftarrow> string_at E st b;
           (k, room, st) \<leftarrow> alloc E (length data + 1) st;
           require (length data + 1 \<le> room);
           Some st });
     let st = emit (Text ''Replay result ->'') st;
     let st = emit (Number ''Original return value : '' (sint (err r))) st;
     replay_switch E r full1 full2 path2 content st
   }"


section \<open>The loop over the trace\<close>

text \<open>
  The variables the loop carries: the offset of the next record and the two buffers that
  are assigned only when the record has such a part, so they keep the last one otherwise.
\<close>

record cursor =
  prev_rec_size :: int
  pathbuf2 :: "heap_block option"
  content_buf :: "heap_block option"

text \<open>
  A buffer for \<open>n\<close> bytes of the trace and the copy into it. A negative length asks
  \<open>malloc\<close> for more than there is and the copy goes through NULL.
\<close>

definition copy_part ::
  "'o env \<Rightarrow> block \<Rightarrow> nat \<Rightarrow> int \<Rightarrow> 'o rstate \<Rightarrow> (heap_block \<times> 'o rstate) option" where
  "copy_part E buffer off n st = do {
     require (0 \<le> n);
     (k, room, st) \<leftarrow> alloc E (nat n) st;
     bytes \<leftarrow> load off (nat n) buffer;
     Some ((k, bytes), st)
   }"

definition copy_part_unless_empty ::
  "'o env \<Rightarrow> block \<Rightarrow> nat \<Rightarrow> int \<Rightarrow> heap_block option \<Rightarrow> 'o rstate \<Rightarrow>
   (heap_block option \<times> 'o rstate) option" where
  "copy_part_unless_empty E buffer off n old st =
     (if n = 0 then Some (old, st)
      else do { (b, st) \<leftarrow> copy_part E buffer off n st; Some (Some b, st) })"

definition fetch ::
  "'o env \<Rightarrow> block \<Rightarrow> cursor \<Rightarrow> 'o rstate \<Rightarrow>
   (trfs_trace_ds \<times> heap_block \<times> cursor \<times> 'o rstate) option" where
  "fetch E buffer cur st = do {
     require (0 \<le> prev_rec_size cur);
     let off = nat (prev_rec_size cur);
     ((k, bytes), st) \<leftarrow> copy_part E buffer off (int trace_ds_size) st;
     let r = read_trace_ds bytes;
     let len1 = sint (path_len1 r);
     let len2 = sint (path_len2 r);
     let wlen = sint (write_len r);
     let off = off + trace_ds_size;
     (b1, st) \<leftarrow> copy_part E buffer off len1 st;
     (b2, st) \<leftarrow> copy_part_unless_empty E buffer (off + nat len1) len2 (pathbuf2 cur) st;
     (c, st) \<leftarrow> copy_part_unless_empty E buffer (off + nat len1 + nat len2) wlen (content_buf cur) st;
     Some (r, b1, \<lparr>prev_rec_size = to_int (prev_rec_size cur + int trace_ds_size + len1 + len2 + wlen),
                   pathbuf2 = b2, content_buf = c\<rparr>, st)
   }"

text \<open>One round: fetch, print, replay; the flag says that the run stops here.\<close>

definition separator :: line where
  "separator = Text ''-----------------------------------------------------------------''"

definition record_step ::
  "'o env \<Rightarrow> bool \<Rightarrow> bool \<Rightarrow> block \<Rightarrow> cursor \<Rightarrow> 'o rstate \<Rightarrow> (bool \<times> cursor \<times> 'o rstate) option" where
  "record_step E replay abort buffer cur st = do {
     (r, b1, cur, st) \<leftarrow> fetch E buffer cur st;
     st \<leftarrow> treplay_print_record E r b1 (pathbuf2 cur) (content_buf cur) st;
     (ok, st) \<leftarrow> (if replay then replay_record E r b1 (pathbuf2 cur) (content_buf cur) st
                     else Some (True, st));
     let st = emit separator st;
     if replay \<and> abort \<and> \<not> ok
     then Some (True, cur, emit (Text ''Deviation occured. Terminating replay!!!'') st)
     else Some (False, cur, st)
   }"

text \<open>Every round that survives moves the offset by 28 at least, inside the file.\<close>

lemma copy_part_bound:
  "copy_part E buffer off n st = Some (b, st') \<Longrightarrow> 0 \<le> n \<and> off + nat n \<le> length buffer"
  by (auto simp: copy_part_def load_def run_simps)

lemma copy_part_unless_empty_bound:
  "copy_part_unless_empty E buffer off n old st = Some (b, st') \<Longrightarrow> off \<le> length buffer \<Longrightarrow>
   0 \<le> n \<and> off + nat n \<le> length buffer"
  by (auto simp: copy_part_unless_empty_def run_simps dest: copy_part_bound split: if_splits)

lemma fetch_advances:
  assumes "fetch E buffer cur st = Some (r, b1, cur', st')"
  shows "0 \<le> prev_rec_size cur \<and> (\<exists>n. prev_rec_size cur' = to_int n \<and>
    prev_rec_size cur + 28 \<le> n \<and> n \<le> int (length buffer))"
proof -
  obtain kb st1 st2 b2 st3 c where
    p: "0 \<le> prev_rec_size cur" and
    1: "copy_part E buffer (nat (prev_rec_size cur)) 28 st = Some (kb, st1)" and
    r: "r = read_trace_ds (snd kb)" and
    2: "copy_part E buffer (nat (prev_rec_size cur) + 28) (sint (path_len1 r)) st1 = Some (b1, st2)" and
    3: "copy_part_unless_empty E buffer (nat (prev_rec_size cur) + 28 + nat (sint (path_len1 r)))
          (sint (path_len2 r)) (pathbuf2 cur) st2 = Some (b2, st3)" and
    4: "copy_part_unless_empty E buffer (nat (prev_rec_size cur) + 28 + nat (sint (path_len1 r)) +
          nat (sint (path_len2 r))) (sint (write_len r)) (content_buf cur) st3 = Some (c, st')" and
    cur': "prev_rec_size cur' = to_int (prev_rec_size cur + 28 + sint (path_len1 r) +
          sint (path_len2 r) + sint (write_len r))"
    using assms by (auto simp: fetch_def run_simps)
  note B2 = copy_part_bound [OF 2]
  note B3 = copy_part_unless_empty_bound [OF 3 conjunct2 [OF B2]]
  note B4 = copy_part_unless_empty_bound [OF 4 conjunct2 [OF B3]]
  show ?thesis
    using p cur' B2 B3 B4 by (intro conjI exI [where x = "prev_rec_size cur + 28 + sint (path_len1 r) +
          sint (path_len2 r) + sint (write_len r)"]) linarith+
qed

text \<open>
  How a run ends. A file of 4 GiB can hold a record whose length takes the \<open>int\<close> offset
  all the way round, so the loop need not end; it is given a number of rounds, and a run
  that wants more is \<open>Timeout\<close>.
\<close>

datatype 'a outcome = Crash | Timeout | Done 'a

primrec replay_loop ::
  "nat \<Rightarrow> 'o env \<Rightarrow> bool \<Rightarrow> bool \<Rightarrow> block \<Rightarrow> cursor \<Rightarrow> 'o rstate \<Rightarrow> 'o rstate outcome" where
  "replay_loop 0 E replay abort buffer cur st = Timeout"
| "replay_loop (Suc n) E replay abort buffer cur st =
     (if prev_rec_size cur < int (length buffer) - 1 then
        (case record_step E replay abort buffer cur st of
           None \<Rightarrow> Crash
         | Some (stop, cur', st') \<Rightarrow>
             if stop then Done st' else replay_loop n E replay abort buffer cur' st')
      else Done st)"

section \<open>The command line\<close>

text \<open>
  \<open>getopt(argc, argv, "ns")\<close> of the GNU library: the option characters in the order they
  are returned (an unknown one as \<open>?\<close>), and the arguments in the order it leaves them,
  the options first.
\<close>

definition opt_char :: "char \<Rightarrow> char" where
  "opt_char c = (if c = CHR ''n'' \<or> c = CHR ''s'' then c else CHR ''?'')"

definition is_option :: "string \<Rightarrow> bool" where
  "is_option a \<longleftrightarrow> length a > 1 \<and> hd a = CHR ''-''"

fun getopt :: "string list \<Rightarrow> string \<times> string list \<times> string list" where
  "getopt [] = ([], [], [])"
| "getopt (a # as) =
     (if a = ''--'' then ([], [a], as)
      else if is_option a then
        (case getopt as of (cs, opts, ns) \<Rightarrow> (List.map opt_char (tl a) @ cs, a # opts, ns))
      else (case getopt as of (cs, opts, ns) \<Rightarrow> (cs, opts, a # ns)))"

section \<open>The program\<close>

text \<open>
  What the local variables hold before they are assigned: \<open>nVal\<close>, \<open>sVal\<close>, and whether
  \<open>tracer\<close> is NULL.
\<close>

record garbage =
  g_nVal :: bool
  g_sVal :: bool
  g_tracer_null :: bool

text \<open>
  The options: whether to replay and whether to stop at a deviation, or the message the
  program ends with. \<open>args\<close> are the arguments after the program name.
\<close>

definition treplay_options :: "garbage \<Rightarrow> string list \<Rightarrow> string + (bool \<times> bool)" where
  "treplay_options g args =
     (let cs = fst (getopt args);
          param_len = length (filter (\<lambda>c. c \<noteq> CHR ''?'') cs);
          nVal = (g_nVal g \<or> CHR ''n'' \<in> set cs);
          sVal = (g_sVal g \<or> CHR ''s'' \<in> set cs)
      in if CHR ''?'' \<in> set cs then Inl ''Input options are incorrect. Terminating treplay call.''
         else if param_len > 1 then Inl ''Cannot take more than 1 parameters. Terminating treplay call.''
         else if length args = 1 \<and> param_len > 0
           then Inl ''Wrong input parameters. Terminating treplay call.''
         else if length args = 2 then
           (if \<not> nVal \<and> sVal then Inr (True, True) else Inr (False, False))
         else Inr (True, False))"

text \<open>The file the program opens: the last argument once \<open>getopt\<close> has moved the options.\<close>

definition file_argument :: "string list \<Rightarrow> string" where
  "file_argument args = (case getopt args of (cs, opts, ns) \<Rightarrow> last (opts @ ns))"

text \<open>The label \<open>exit\<close>: \<open>tracer\<close> is freed there whether or not it was ever assigned.\<close>

definition leave :: "garbage \<Rightarrow> 'o rstate \<Rightarrow> 'o rstate outcome" where
  "leave g st = (if g_tracer_null g then Done st else Crash)"

text \<open>
  \<open>contents\<close> gives what a file holds; a file that cannot be opened leaves \<open>stat_buf\<close>
  unset, and the run is then undefined. \<open>sizeof(struct stat)\<close> is 144.
\<close>

definition start_cursor :: cursor where
  "start_cursor = \<lparr>prev_rec_size = 0, pathbuf2 = None, content_buf = None\<rparr>"

definition treplay_main ::
  "nat \<Rightarrow> 'o env \<Rightarrow> garbage \<Rightarrow> (string \<Rightarrow> block option) \<Rightarrow> string list \<Rightarrow> 'o rstate \<Rightarrow>
   'o rstate outcome" where
  "treplay_main fuel E g contents args st =
     (if args = [] then leave g (emit (Text ''Input parameters missing.'') st)
      else
        let st = (if length args > 2 then emit (Text ''Too many input parameters.'') st else st) in
        (case treplay_options g args of
           Inl msg \<Rightarrow> leave g (emit (Text msg) st)
         | Inr (replay, abort) \<Rightarrow>
             (case (contents (file_argument args), alloc E 144 st) of
                (Some buffer, Some (_, _, st)) \<Rightarrow>
                  if length buffer = 0 then Done st
                  else
                    (case alloc E (length buffer) st of
                       None \<Rightarrow> Crash
                     | Some (_, _, st) \<Rightarrow>
                         let st = emit (Number ''Fileread : '' (int (length buffer))) st in
                         if length buffer = 1 then leave g st
                         else replay_loop fuel E replay abort buffer start_cursor st)
              | _ \<Rightarrow> Crash)))"

section \<open>The loop ends\<close>

lemma record_step_advances:
  assumes "record_step E replay abort buffer cur st = Some (stop, cur', st')"
    and "length buffer < 2 ^ 31"
  shows "prev_rec_size cur + 28 \<le> prev_rec_size cur'" "prev_rec_size cur' \<le> int (length buffer)"
    "0 \<le> prev_rec_size cur"
proof -
  obtain r b1 st1 where f: "fetch E buffer cur st = Some (r, b1, cur', st1)"
    using assms(1) by (auto simp: record_step_def run_simps)
  obtain n where "0 \<le> prev_rec_size cur" "prev_rec_size cur' = to_int n"
    "prev_rec_size cur + 28 \<le> n" "n \<le> int (length buffer)"
    using fetch_advances [OF f] by blast
  then show "prev_rec_size cur + 28 \<le> prev_rec_size cur'" "prev_rec_size cur' \<le> int (length buffer)"
    "0 \<le> prev_rec_size cur"
    using assms(2) by (simp_all add: to_int_id)
qed

lemma replay_loop_ends:
  assumes "length buffer < 2 ^ 31" "int (length buffer) - prev_rec_size cur < 28 * int n"
  shows "replay_loop (Suc n) E replay abort buffer cur st \<noteq> Timeout"
  using assms
proof (induction n arbitrary: cur st)
  case 0
  then show ?case by simp
next
  case (Suc n)
  show ?case
  proof (cases "record_step E replay abort buffer cur st")
    case None
    then show ?thesis by simp
  next
    case (Some x)
    obtain stop cur' st' where x: "x = (stop, cur', st')" by (cases x)
    note A = record_step_advances [OF Some [unfolded x] Suc.prems(1)]
    have "replay_loop (Suc n) E replay abort buffer cur' st' \<noteq> Timeout"
      by (rule Suc.IH [OF Suc.prems(1)]) (use Suc.prems(2) A in simp)
    then show ?thesis using Some x by (subst replay_loop.simps(2)) auto
  qed
qed

end
