(* ===== verification/Replay_Correct.thy ===== *)
theory Replay_Correct
  imports Treplay
begin

text \<open>
  What \<open>treplay\<close> makes of a well-formed trace: it prints, and replays, exactly the records
  that were written, in their order.
\<close>

section \<open>A calm machine\<close>

text \<open>
  Allocations succeed with at least one spare byte, and the memory behind a block starts
  with a NUL. Without the spare byte the paths overflow their blocks; without the NUL the
  strings run into what follows.
\<close>

definition calm :: "'o env \<Rightarrow> bool" where
  "calm E \<longleftrightarrow> (\<forall>k n. \<exists>room. usable E k n = Some room \<and> n < room) \<and>
     (\<forall>t k. \<exists>rest. tail E t k = 0 # rest)"

lemma strlen_takeWhile: "strlen (bs @ 0 # rest) = Some (length (takeWhile (\<lambda>b. b \<noteq> 0) bs))"
  by (induction bs) auto

lemma cstr_takeWhile: "cstr (bs @ 0 # rest) = Some (takeWhile (\<lambda>b. b \<noteq> 0) bs)"
proof -
  have "take (length (takeWhile (\<lambda>b. b \<noteq> 0) bs)) (bs @ 0 # rest) = takeWhile (\<lambda>b. b \<noteq> 0) bs"
    by (induction bs) auto
  then show ?thesis by (simp add: cstr_def strlen_takeWhile)
qed

lemma calm_string: "calm E \<Longrightarrow> string_at E st b = Some (takeWhile (\<lambda>x. x \<noteq> 0) (snd b))"
  unfolding calm_def string_at_def by (metis cstr_takeWhile)

lemma takeWhile_all: "0 \<notin> set s \<Longrightarrow> takeWhile (\<lambda>b. b \<noteq> 0) s = s"
  by (induction s) auto

text \<open>Taking more blocks of the heap.\<close>

definition ticks :: "nat \<Rightarrow> 'o rstate \<Rightarrow> 'o rstate" where
  "ticks n st = st\<lparr>mallocs := mallocs st + n\<rparr>"

lemma calm_alloc: "calm E \<Longrightarrow> \<exists>room. n < room \<and> alloc E n st = Some (mallocs st, room, ticks 1 st)"
proof -
  assume "calm E"
  then have "\<exists>room. usable E (mallocs st) n = Some room \<and> n < room"
    unfolding calm_def by blast
  then show ?thesis by (auto simp: alloc_def ticks_def)
qed

lemma ticks_simps [simp]:
  "lines (ticks n st) = lines st" "os (ticks n st) = os st" "global_fd (ticks n st) = global_fd st"
  "ticks m (ticks n st) = ticks (n + m) st" "ticks 0 st = st"
  by (simp_all add: ticks_def ac_simps)

lemma emit_simps [simp]:
  "lines (emit l st) = lines st @ [l]" "os (emit l st) = os st" "global_fd (emit l st) = global_fd st"
  "mallocs (emit l st) = mallocs st"
  by (simp_all add: emit_def)

lemma emit_all: "lines (fold emit ls st) = lines st @ ls \<and> os (fold emit ls st) = os st \<and>
  global_fd (fold emit ls st) = global_fd st"
  by (induction ls arbitrary: st) auto

lemma calm_join:
  assumes "calm E"
  shows "join_path E b st = Some (replay_path @ takeWhile (\<lambda>x. x \<noteq> 0) (snd b), ticks 1 st)"
proof -
  let ?p = "takeWhile (\<lambda>x. x \<noteq> 0) (snd b)"
  obtain room where "length replay_path + length ?p < room"
    "alloc E (length replay_path + length ?p) st = Some (mallocs st, room, ticks 1 st)"
    using calm_alloc [OF assms] by blast
  then show ?thesis by (simp add: join_path_def calm_string [OF assms])
qed

lemma calm_join_opt:
  "calm E \<Longrightarrow> join_opt E b st =
   Some (map_option (\<lambda>b. replay_path @ takeWhile (\<lambda>x. x \<noteq> 0) (snd b)) b, ticks (case b of None \<Rightarrow> 0 | Some _ \<Rightarrow> 1) st)"
  by (auto simp: join_opt_def calm_join split: option.splits)

lemma calm_str_arg:
  "calm E \<Longrightarrow> str_arg E st b = Some (map_option (\<lambda>b. takeWhile (\<lambda>x. x \<noteq> 0) (snd b)) b)"
  by (auto simp: str_arg_def calm_string split: option.splits)

section \<open>Fetching an entry\<close>

lemma copy_part_calm:
  assumes "calm E" "off + n \<le> length buffer"
  shows "copy_part E buffer off (int n) st = Some ((mallocs st, peek off n buffer), ticks 1 st)"
  using assms calm_alloc [OF assms(1), of n st] by (auto simp: copy_part_def load_def)

text \<open>The buffer that a part of the record is in after the fetch: a new one, or the old one.\<close>

definition part_buffer :: "nat \<Rightarrow> block \<Rightarrow> heap_block option \<Rightarrow> heap_block option" where
  "part_buffer k part old = (if part = [] then old else Some (k, part))"

lemma fetch_entry:
  assumes E: "calm E" and wf: "wf_entry e" and pad: "length pad = 28"
    and len: "length pre + entry_size e + length rest < 2 ^ 31"
    and pos: "prev_rec_size cur = int (length pre)"
  shows "\<exists>k1 k2 k3 n. fetch E (pre @ entry_bytes pad e @ rest) cur st =
    Some (te_ds e, (k1, te_path1 e),
      \<lparr>prev_rec_size = int (length pre + entry_size e),
       pathbuf2 = part_buffer k2 (te_path2 e) (pathbuf2 cur),
       content_buf = part_buffer k3 (te_content e) (content_buf cur)\<rparr>, ticks n st)"
proof -
  let ?buf = "pre @ entry_bytes pad e @ rest"
  have L: "length ?buf = length pre + entry_size e + length rest" using pad by simp
  have pk: "peek (length pre + n) m ?buf = peek n m (entry_bytes pad e @ rest)" for n m
    by (simp add: mem_simps)
  note R = read_entry_bytes [OF pad, of e rest]
  have w: "sint (path_len1 (te_ds e)) = int (length (te_path1 e))"
    "sint (path_len2 (te_ds e)) = int (length (te_path2 e))"
    "sint (write_len (te_ds e)) = int (length (te_content e))"
    using wf by (auto simp: wf_entry_def)
  have c: "copy_part E ?buf (length pre + n) (int m) st' =
      Some ((mallocs st', peek n m (entry_bytes pad e @ rest)), ticks 1 st')"
    if "n + m \<le> entry_size e" for n m st'
    using copy_part_calm [OF E, of "length pre + n" m ?buf st'] that L by (simp add: pk)
  have ds: "read_trace_ds (peek 0 28 (entry_bytes pad e @ rest)) = te_ds e"
  proof -
    have "peek 0 28 (entry_bytes pad e @ rest) = fill_trace_ds (te_ds e) pad"
      using pad by (simp add: entry_bytes_def peek_def)
    then show ?thesis using pad by (simp add: read_fill_trace_ds)
  qed
  have u: "copy_part_unless_empty E ?buf (length pre + n) (int (length p)) old st' =
      Some (part_buffer (mallocs st') p old, ticks (if p = [] then 0 else 1) st')"
    if "n + length p \<le> entry_size e" "peek n (length p) (entry_bytes pad e @ rest) = p" for n p old st'
    using c [OF that(1)] that(2) by (auto simp: copy_part_unless_empty_def part_buffer_def)
  let ?l1 = "length (te_path1 e)" and ?l2 = "length (te_path2 e)" and ?l3 = "length (te_content e)"
  have size: "entry_size e = 28 + ?l1 + ?l2 + ?l3" by (simp add: entry_size_def)
  note c0 = c [of 0 28 st, simplified] and c1 = c [of 28 ?l1]
    and u2 = u [of "28 + ?l1" "te_path2 e"] and u3 = u [of "28 + ?l1 + ?l2" "te_content e"]
  have off: "to_int (int (length pre) + 28 + int ?l1 + int ?l2 + int ?l3) = int (length pre + entry_size e)"
    using len by (simp add: size to_int_id)
  show ?thesis
    using c0 c1 u2 u3 R ds off size unfolding fetch_def pos trace_ds_size_28
    by (simp add: w Let_def ds add.assoc) blast
qed


section \<open>Printing and replaying an entry\<close>

text \<open>
  The entries the program can show in full: the paths are strings, and a call with a second
  path or with data has one.
\<close>

definition complete :: "trace_entry \<Rightarrow> bool" where
  "complete e \<longleftrightarrow> 0 \<notin> set (te_path1 e) \<and> 0 \<notin> set (te_path2 e) \<and>
     (unat (record_type (te_ds e)) \<in> {LINK_CALL, SYMLINK_CALL, RENAME_CALL} \<longrightarrow> te_path2 e \<noteq> []) \<and>
     (unat (record_type (te_ds e)) = WRITE_CALL \<longrightarrow> te_content e \<noteq> [])"

definition text_of :: "block \<Rightarrow> block" where
  "text_of bs = takeWhile (\<lambda>b. b \<noteq> 0) bs"

text \<open>The lines of an entry.\<close>

definition entry_lines :: "trace_entry \<Rightarrow> line list" where
  "entry_lines e =
     [Text ''Record details ->'', Number ''Record ID : '' (sint (record_id (te_ds e)))] @
     the (record_lines (te_ds e) (replay_path @ te_path1 e) (Some (replay_path @ te_path2 e))
       (Some (Some (te_path2 e))) (Some (Some (text_of (te_content e))))) @
     [Number ''Return value : '' (sint (err (te_ds e)))]"

lemma record_lines_Some: "record_lines r f1 f2 (Some p2) (Some c) \<noteq> None"
  by (simp add: record_lines_def Let_def)

lemma record_lines_complete:
  assumes "complete e"
  shows "record_lines (te_ds e) f1
      (map_option (\<lambda>b. replay_path @ text_of (snd b)) (part_buffer k2 (te_path2 e) old2))
      (Some (map_option (\<lambda>b. text_of (snd b)) (part_buffer k2 (te_path2 e) old2)))
      (Some (map_option (\<lambda>b. text_of (snd b)) (part_buffer k3 (te_content e) old3))) =
    record_lines (te_ds e) f1 (Some (replay_path @ te_path2 e)) (Some (Some (te_path2 e)))
      (Some (Some (text_of (te_content e))))"
proof -
  have 2: "text_of (te_path2 e) = te_path2 e"
    using assms by (simp add: complete_def text_of_def takeWhile_all)
  show ?thesis
  proof (cases "te_path2 e = []")
    case True
    then have "unat (record_type (te_ds e)) \<notin> {LINK_CALL, SYMLINK_CALL, RENAME_CALL}"
      using assms by (auto simp: complete_def)
    then show ?thesis using assms
      by (auto simp: record_lines_def Let_def complete_def part_buffer_def)
  next
    case False
    then show ?thesis using assms 2
      by (auto simp: record_lines_def Let_def complete_def part_buffer_def)
  qed
qed

lemma print_entry:
  assumes E: "calm E" and c: "complete e"
  shows "\<exists>st'. treplay_print_record E (te_ds e) (k1, te_path1 e) (part_buffer k2 (te_path2 e) old2)
      (part_buffer k3 (te_content e) old3) st = Some st' \<and>
    lines st' = lines st @ entry_lines e \<and> os st' = os st \<and> global_fd st' = global_fd st"
proof -
  have 1: "takeWhile (\<lambda>b. b \<noteq> 0) (te_path1 e) = te_path1 e"
    using c by (simp add: complete_def takeWhile_all)
  note L = record_lines_complete [OF c, unfolded text_of_def]
  obtain ls where "record_lines (te_ds e) (replay_path @ te_path1 e) (Some (replay_path @ te_path2 e))
      (Some (Some (te_path2 e))) (Some (Some (text_of (te_content e)))) = Some ls"
    using record_lines_Some by blast
  then show ?thesis
    by (simp add: treplay_print_record_def calm_join [OF E] calm_join_opt [OF E] calm_str_arg [OF E]
        1 L emit_all entry_lines_def text_of_def del: fold.simps)
qed

text \<open>The call an entry is replayed by, given the program's descriptor.\<close>

definition replay_call :: "int \<Rightarrow> trace_entry \<Rightarrow> syscall option" where
  "replay_call fd e =
     (let r = te_ds e; t = unat (record_type r);
          p1 = replay_path @ te_path1 e; p2 = replay_path @ te_path2 e in
      if t = OPEN_CALL then Some (Sys_open p1 (open_flags r))
      else if t = READ_CALL then Some (Sys_read fd 0)
      else if t = WRITE_CALL then Some (Sys_write fd (text_of (te_content e)))
      else if t = RELEASE_CALL then Some (Sys_close fd)
      else if t = CREATE_CALL then Some (Sys_open_mode p1 (open_flags r) (permission_mode r))
      else if t = LINK_CALL then Some (Sys_link p1 (Some p2))
      else if t = UNLINK_CALL then Some (Sys_unlink p1)
      else if t = SYMLINK_CALL then Some (Sys_symlink p1 (Some (te_path2 e)))
      else if t = MKDIR_CALL then Some (Sys_mkdir p1 (permission_mode r))
      else if t = RMDIR_CALL then Some (Sys_rmdir p1)
      else if t = MKNOD_CALL then Some (Sys_mknod p1 (permission_mode r) (open_flags r))
      else if t = RENAME_CALL then Some (Sys_rename p1 (Some p2))
      else None)"

lemma replay_record_calm:
  assumes E: "calm E"
  shows "\<exists>st'. replay_record E r b1 b2 c st =
    replay_switch E r (replay_path @ takeWhile (\<lambda>x. x \<noteq> 0) (snd b1))
      (map_option (\<lambda>b. replay_path @ takeWhile (\<lambda>x. x \<noteq> 0) (snd b)) b2) b2 c st' \<and>
    os st' = os st \<and> global_fd st' = global_fd st"
proof (cases c)
  case None
  then show ?thesis
    by (simp add: replay_record_def calm_join [OF E] calm_join_opt [OF E])
      (intro exI conjI, rule refl, simp_all)
next
  case (Some b)
  let ?n = "length (takeWhile (\<lambda>x. x \<noteq> 0) (snd b)) + 1"
  define st2 where "st2 = ticks (case b2 of None \<Rightarrow> 0 | Some _ \<Rightarrow> 1) (ticks 1 st)"
  obtain room where "?n < room" "alloc E ?n st2 = Some (mallocs st2, room, ticks 1 st2)"
    using calm_alloc [OF E] by blast
  then show ?thesis using Some
    by (simp add: replay_record_def calm_join [OF E] calm_join_opt [OF E] calm_string [OF E] st2_def)
      (intro exI conjI, rule refl, simp_all)
qed

lemma if_eq_SomeE:
  assumes "(if b then Some x else m) = Some y" "b \<Longrightarrow> y = x \<Longrightarrow> P" "\<not> b \<Longrightarrow> m = Some y \<Longrightarrow> P"
  shows P
  using assms by (auto split: if_splits)

lemma replay_entry:
  assumes E: "calm E" and c: "complete e" and call: "replay_call (global_fd st) e = Some sc"
  shows "\<exists>ok st'. replay_record E (te_ds e) (k1, te_path1 e) (part_buffer k2 (te_path2 e) old2)
      (part_buffer k3 (te_content e) old3) st = Some (ok, st') \<and>
    os st' = snd (syscall E sc (os st)) \<and>
    (ok \<longleftrightarrow> unat (record_type (te_ds e)) \<noteq> OPEN_CALL \<and>
       sint (err (te_ds e)) = to_int (fst (syscall E sc (os st))))"
proof -
  have 1: "takeWhile (\<lambda>b. b \<noteq> 0) (te_path1 e) = te_path1 e" "takeWhile (\<lambda>b. b \<noteq> 0) (te_path2 e) = te_path2 e"
    using c by (simp_all add: complete_def takeWhile_all)
  obtain st1 where R: "replay_record E (te_ds e) (k1, te_path1 e) (part_buffer k2 (te_path2 e) old2)
      (part_buffer k3 (te_content e) old3) st =
    replay_switch E (te_ds e) (replay_path @ te_path1 e)
      (map_option (\<lambda>b. replay_path @ takeWhile (\<lambda>x. x \<noteq> 0) (snd b)) (part_buffer k2 (te_path2 e) old2))
      (part_buffer k2 (te_path2 e) old2) (part_buffer k3 (te_content e) old3) st1" and
    st1: "os st1 = os st" "global_fd st1 = global_fd st"
    using replay_record_calm [OF E, of "te_ds e" "(k1, te_path1 e)" "part_buffer k2 (te_path2 e) old2"
      "part_buffer k3 (te_content e) old3" st] by (auto simp: 1)
  let ?t = "unat (record_type (te_ds e))"
  have w: "?t = WRITE_CALL \<Longrightarrow> part_buffer k3 (te_content e) old3 = Some (k3, te_content e)" 
    and p: "?t \<in> {LINK_CALL, SYMLINK_CALL, RENAME_CALL} \<Longrightarrow> part_buffer k2 (te_path2 e) old2 = Some (k2, te_path2 e)"
    using c by (auto simp: complete_def part_buffer_def)
  have S: "replay_record E (te_ds e) (k1, te_path1 e) (part_buffer k2 (te_path2 e) old2)
      (part_buffer k3 (te_content e) old3) st =
    Some (if ?t = OPEN_CALL then replay_open E (te_ds e) (replay_path @ te_path1 e) st1
          else replay_judge E (te_ds e) sc st1)"
    using call unfolding R replay_switch_def replay_call_def Let_def st1(2)
    by (elim if_eq_SomeE)
      (simp_all add: w p 1 calm_string [OF E] calm_str_arg [OF E] text_of_def call_defs)
  show ?thesis
  proof (cases "?t = OPEN_CALL")
    case True
    then have "sc = Sys_open (replay_path @ te_path1 e) (open_flags (te_ds e))"
      using call by (simp add: replay_call_def Let_def)
    with True S show ?thesis
      by (simp add: replay_open_def sys_def st1 case_prod_beta Let_def)
  next
    case False
    with S show ?thesis by (simp add: replay_judge_def sys_def st1 case_prod_beta Let_def)
  qed
qed


section \<open>The whole trace\<close>

text \<open>One round of the printing loop.\<close>

lemma print_step:
  assumes E: "calm E" and e: "wf_entry e" "complete e" and pad: "length pad = 28"
    and len: "length pre + entry_size e + length rest < 2 ^ 31"
    and pos: "prev_rec_size cur = int (length pre)"
  shows "\<exists>cur' st'. record_step E False ab (pre @ entry_bytes pad e @ rest) cur st =
      Some (False, cur', st') \<and> prev_rec_size cur' = int (length pre + entry_size e) \<and>
    lines st' = lines st @ entry_lines e @ [separator] \<and> os st' = os st"
proof -
  obtain k1 k2 k3 n where F: "fetch E (pre @ entry_bytes pad e @ rest) cur st =
    Some (te_ds e, (k1, te_path1 e),
      \<lparr>prev_rec_size = int (length pre + entry_size e),
       pathbuf2 = part_buffer k2 (te_path2 e) (pathbuf2 cur),
       content_buf = part_buffer k3 (te_content e) (content_buf cur)\<rparr>, ticks n st)"
    using fetch_entry [OF E e(1) pad len pos] by blast
  obtain st' where "treplay_print_record E (te_ds e) (k1, te_path1 e)
      (part_buffer k2 (te_path2 e) (pathbuf2 cur)) (part_buffer k3 (te_content e) (content_buf cur)) (ticks n st) = Some st'"
    "lines st' = lines st @ entry_lines e" "os st' = os st"
    using print_entry [OF E e(2), of k1 k2 _ k3 _ "ticks n st"] by fastforce
  with F show ?thesis by (simp add: record_step_def)
qed

lemma entry_bytes_length [simp]: "length pad = 28 \<Longrightarrow> length (entry_bytes pad e @ rest) = entry_size e + length rest"
  by simp

lemma print_loop:
  assumes E: "calm E" 
  shows "length pads = length es \<Longrightarrow> \<forall>p \<in> set pads. length p = 28 \<Longrightarrow>
    \<forall>e \<in> set es. wf_entry e \<and> complete e \<Longrightarrow> length pre + length (trace_bytes pads es) < 2 ^ 31 \<Longrightarrow>
    prev_rec_size cur = int (length pre) \<Longrightarrow> length es < fuel \<Longrightarrow>
    \<exists>st'. replay_loop fuel E False ab (pre @ trace_bytes pads es) cur st = Done st' \<and>
      lines st' = lines st @ concat (map (\<lambda>e. entry_lines e @ [separator]) es) \<and> os st' = os st"
proof (induction es arbitrary: pads pre cur st fuel)
  case Nil
  then obtain n where "fuel = Suc n" by (cases fuel) auto
  with Nil show ?case by (simp add: trace_bytes_def)
next
  case (Cons e es)
  obtain pad pads' where p: "pads = pad # pads'" using Cons.prems(1) by (cases pads) auto
  obtain n where n: "fuel = Suc n" using Cons.prems(6) by (cases fuel) auto
  let ?rest = "trace_bytes pads' es"
  have tb: "trace_bytes pads (e # es) = entry_bytes pad e @ ?rest" by (simp add: trace_bytes_def p)
  have pad: "length pad = 28" and e: "wf_entry e" "complete e" using Cons.prems p by auto
  have len: "length pre + entry_size e + length ?rest < 2 ^ 31" using Cons.prems(4) tb pad by simp
  obtain cur' st1 where S: "record_step E False ab (pre @ entry_bytes pad e @ ?rest) cur st = Some (False, cur', st1)"
    "prev_rec_size cur' = int (length pre + entry_size e)"
    "lines st1 = lines st @ entry_lines e @ [separator]" "os st1 = os st"
    using print_step [OF E e pad len Cons.prems(5)] by blast
  have more: "prev_rec_size cur < int (length (pre @ entry_bytes pad e @ ?rest)) - 1"
    using Cons.prems(5) pad entry_size_ge [of e] by simp
  obtain st' where "replay_loop n E False ab ((pre @ entry_bytes pad e) @ ?rest) cur' st1 = Done st'"
    "lines st' = lines st1 @ concat (map (\<lambda>e. entry_lines e @ [separator]) es)" "os st' = os st1"
    using Cons.IH [of pads' "pre @ entry_bytes pad e" cur' n st1] Cons.prems S(2) p n pad len by auto
  with S more show ?case by (simp add: tb n)
qed

end
