(* ===== verification/Trace_Spec.thy ===== *)
theory Trace_Spec
  imports Operations Replay_Correct "HOL-Library.Sublist"
begin

text \<open>
  What tracing promises, without the kernel: an abstract tracer with a bitmap, a counter and a
  list of records, and its step for a request with a result. The runs of the file system
  refine it (theory Runs).
\<close>

section \<open>The abstract tracer\<close>

record tracer =
  t_mask :: "64 word"
  t_next :: "32 word"
  t_log :: "trace_entry list"

text \<open>The requests that set the bitmap, and the value they set.\<close>

definition request_mask :: "request \<Rightarrow> 64 word option" where
  "request_mask r = (case r of
     File_request t (Req_ioctl f cmd arg) \<Rightarrow>
       (if cmd \<in> {IOC_ALL, IOC_NONE, IOC_HEX} then Some arg else None)
   | _ \<Rightarrow> None)"

text \<open>
  The results with which a request of a traced kind may leave no record: an open that finds no
  name or no memory, a read of a directory, an operation on a name (other than create) that
  fails.
\<close>

definition excused :: "nat \<Rightarrow> int \<Rightarrow> bool" where
  "excused rt e \<longleftrightarrow>
     (if rt = OPEN_CALL then e = - ENOENT \<or> e = - ENOMEM
      else if rt = READ_CALL then e = - EISDIR
      else rt \<in> {LINK_CALL, UNLINK_CALL, SYMLINK_CALL, MKDIR_CALL, RMDIR_CALL, MKNOD_CALL, RENAME_CALL} \<and> e \<noteq> 0)"

text \<open>
  What the record says of the result: the result itself, 0 for a directory that was made (its
  inode may still fail), and for a create that of the lower create.
\<close>

definition reported :: "nat \<Rightarrow> int \<Rightarrow> trace_entry \<Rightarrow> bool" where
  "reported rt e x \<longleftrightarrow>
     (if rt = CREATE_CALL then True
      else if rt = MKDIR_CALL then err (te_ds x) = 0
      else err (te_ds x) = word_of_int e)"

text \<open>A record of a type, with a number, that the reader can take apart.\<close>

definition record_of :: "nat \<Rightarrow> 32 word \<Rightarrow> int \<Rightarrow> trace_entry \<Rightarrow> bool" where
  "record_of rt n e x \<longleftrightarrow> unat (record_type (te_ds x)) = rt \<and> record_id (te_ds x) = n \<and>
     wf_entry x \<and> complete x \<and> reported rt e x"

inductive tracer_step :: "request \<Rightarrow> int \<Rightarrow> tracer \<Rightarrow> tracer \<Rightarrow> bool" where
  step_untraced: "request_call r = None \<Longrightarrow> request_mask r = None \<Longrightarrow> tracer_step r e t t"
| step_mask: "request_mask r = Some m \<Longrightarrow> tracer_step r e t (t\<lparr>t_mask := m\<rparr>)"
| step_skip: "request_call r = Some rt \<Longrightarrow> \<not> traced rt (t_mask t) \<or> excused rt e \<Longrightarrow> tracer_step r e t t"
| step_log: "request_call r = Some rt \<Longrightarrow> traced rt (t_mask t) \<Longrightarrow> record_of rt (t_next t) e x \<Longrightarrow>
    tracer_step r e t (t\<lparr>t_next := t_next t + 1, t_log := t_log t @ [x]\<rparr>)"

inductive tracer_run :: "tracer \<Rightarrow> request list \<Rightarrow> tracer \<Rightarrow> bool" for t where
  run_start: "tracer_run t [] t"
| run_step: "tracer_run t rs t1 \<Longrightarrow> tracer_step r e t1 t2 \<Longrightarrow> tracer_run t (rs @ [r]) t2"

inductive_cases tracer_stepE: "tracer_step r e t t'"
inductive_simps tracer_run_Nil: "tracer_run t [] t'"

lemma mask_not_traced: "request_mask r = Some m \<Longrightarrow> request_call r = None"
  by (auto simp: request_mask_def request_call_def file_call_def
      split: request.splits file_request.splits if_splits)

section \<open>What it keeps\<close>

definition numbered :: "32 word \<Rightarrow> trace_entry list \<Rightarrow> bool" where
  "numbered n es \<longleftrightarrow> (\<forall>k < length es. record_id (te_ds (es ! k)) = n + of_nat k)"

definition trace_ok :: "trfs_sb_info \<Rightarrow> request list \<Rightarrow> trace_entry list \<Rightarrow> bool" where
  "trace_ok info rs es \<longleftrightarrow> numbered (sb_record_id info) es \<and>
     (\<forall>e \<in> set es. wf_entry e \<and> complete e) \<and>
     subseq (map (\<lambda>e. Some (unat (record_type (te_ds e)))) es) (map request_call rs)"

lemma numbered_snoc: "numbered n es \<Longrightarrow> record_id (te_ds e) = n + of_nat (length es) \<Longrightarrow> numbered n (es @ [e])"
  by (auto simp: numbered_def nth_append less_Suc_eq)

text \<open>
  From an empty log on, the log holds records in the order of the requests, numbered from the
  counter, which counts them.
\<close>

lemma tracer_run_log:
  assumes "tracer_run t rs t'" "t_log t = []" "t_next t = sb_record_id info"
  shows "trace_ok info rs (t_log t') \<and> t_next t' = sb_record_id info + of_nat (length (t_log t'))"
  using assms
proof (induction rule: tracer_run.induct)
  case run_start
  then show ?case by (simp add: trace_ok_def numbered_def)
next
  case (run_step rs t1 r e t2)
  then have T: "trace_ok info rs (t_log t1)"
    and n: "t_next t1 = sb_record_id info + of_nat (length (t_log t1))" by auto
  have more: "trace_ok info (rs @ [r]) (t_log t1)"
    using T by (auto simp: trace_ok_def intro: subseq_order.trans [OF _ subseq_rev_drop_many])
  from \<open>tracer_step r e t1 t2\<close> show ?case
  proof (cases rule: tracer_step.cases)
    case (step_log rt x)
    have "numbered (sb_record_id info) (t_log t1 @ [x])"
      using T n step_log(4) by (intro numbered_snoc) (auto simp: trace_ok_def record_of_def)
    moreover have "subseq (map (\<lambda>e. Some (unat (record_type (te_ds e)))) (t_log t1 @ [x])) (map request_call (rs @ [r]))"
      using T step_log(2,4) by (auto simp: trace_ok_def record_of_def)
    ultimately have "trace_ok info (rs @ [r]) (t_log t1 @ [x])"
      using T step_log(4) by (auto simp: trace_ok_def record_of_def)
    then show ?thesis using n step_log(1) by simp
  qed (use more n in simp_all)
qed

text \<open>With every bit off nothing is ever logged, until a request sets the bitmap.\<close>

lemma tracer_run_off:
  assumes "tracer_run t rs t'" "t_mask t = 0" "\<forall>r \<in> set rs. request_mask r = None"
  shows "t' = t"
  using assms
proof (induction rule: tracer_run.induct)
  case (run_step rs t1 r e t2)
  then have "t1 = t" "request_mask r = None" by auto
  with run_step.hyps(2) run_step.prems(1) show ?case
    by (auto elim!: tracer_stepE simp: traced_bit)
qed simp

end
