(* ===== verification/Runs.thy ===== *)
theory Runs
  imports Trace_Spec
begin

text \<open>
  Runs of the mounted file system and what they leave in the trace file: every request adds
  one readable entry or none, the entries are numbered without gaps, and the replay program
  prints exactly them.
\<close>

section \<open>Growth of the trace, the bitmap aside\<close>

text \<open>The records a run has added, and the counter behind them.\<close>

definition logged :: "('w \<Rightarrow> block) \<Rightarrow> block \<Rightarrow> 'w st \<Rightarrow> 'w st \<Rightarrow> trace_entry list \<Rightarrow> bool" where
  "logged tf name s s' es \<longleftrightarrow>
     (\<forall>info. mounted s name info \<longrightarrow> (\<exists>info'. mounted s' name info' \<and>
        sb_record_id info' = sb_record_id info + of_nat (length es))) \<and>
     (\<exists>pads. length pads = length es \<and> (\<forall>p \<in> set pads. length p = 28) \<and>
        tf (world s') = tf (world s) @ trace_bytes pads es)"

section \<open>Entries the reader can take apart\<close>

definition paths_ok :: "((ptr \<Rightarrow> dentry) \<Rightarrow> ptr \<Rightarrow> block) \<Rightarrow> bool" where
  "paths_ok path_of \<longleftrightarrow>
     (\<forall>ds d. path_of ds d \<noteq> [] \<and> length (path_of ds d) < 2 ^ 15 \<and> 0 \<notin> set (path_of ds d))"

definition good_entry :: "nat option \<Rightarrow> trfs_sb_info \<Rightarrow> trace_entry \<Rightarrow> bool" where
  "good_entry rt info e \<longleftrightarrow> rt = Some (unat (record_type (te_ds e))) \<and>
     record_id (te_ds e) = sb_record_id info \<and> wf_entry e \<and> complete e \<and>
     traced (unat (record_type (te_ds e))) (mask info)"

lemma second_string_ok:
  assumes "paths_ok path_of" "\<And>str. second = Given_string str \<Longrightarrow> length str < 2 ^ 15 \<and> 0 \<notin> set str"
  shows "length (second_string (path_of ds) second) < 2 ^ 15" "0 \<notin> set (second_string (path_of ds) second)"
    "0 \<notin> set (first_string (path_of ds) d1 second)" "length (first_string (path_of ds) d1 second) < 2 ^ 15"
proof -
  have o: "0 \<notin> set p1 \<Longrightarrow> 0 \<notin> set p2 \<Longrightarrow> 0 \<notin> set (overwritten p1 p2)" for p1 p2
    by (auto simp: overwritten_def dest: in_set_dropD in_set_takeD)
  have "length (path_of ds d) < 2 ^ 15 \<and> 0 \<notin> set (path_of ds d)" for d
    using assms(1) by (simp add: paths_ok_def)
  then show "length (second_string (path_of ds) second) < 2 ^ 15" "0 \<notin> set (second_string (path_of ds) second)"
    "0 \<notin> set (first_string (path_of ds) d1 second)" "length (first_string (path_of ds) d1 second) < 2 ^ 15"
    using assms(2) by (cases second; simp add: o)+
qed

lemma entry_good:
  assumes p: "paths_ok path_of" and rt: "rt < 12" and tr: "traced rt (mask info)"
    and s2: "\<And>str. second = Given_string str \<Longrightarrow> length str < 2 ^ 15 \<and> 0 \<notin> set str \<and> str \<noteq> []"
    and two: "rt \<in> {LINK_CALL, SYMLINK_CALL, RENAME_CALL} \<Longrightarrow> second \<noteq> No_second"
    and con: "\<And>data. content = Some data \<Longrightarrow> 0 < er \<and> er \<le> int (length data) \<and> er < 2 ^ 31"
    and wr: "rt = WRITE_CALL \<Longrightarrow> content \<noteq> None"
  shows "good_entry (Some rt) info (trace_entry_of (path_of ds) rt fl pm er (sb_record_id info) d1 second content)"
proof -
  note S = second_string_ok [OF p, of second ds]
  have rtw: "unat (of_nat rt :: 8 word) = rt" using rt by (simp add: unat_of_nat)
  have len: "length (second_string (path_of ds) second) < 2 ^ 15" "length (first_string (path_of ds) d1 second) < 2 ^ 15"
    using S s2 by auto
  have wf: "wf_entry (trace_entry_of (path_of ds) rt fl pm er (sb_record_id info) d1 second content)"
    using len con
    by (auto simp: wf_entry_def trace_entry_of_def new_record_def Let_def sint_word16_of_nat sint_word32_of_int
        to_int_id split: option.splits)
  have ne: "rt \<in> {LINK_CALL, SYMLINK_CALL, RENAME_CALL} \<Longrightarrow> second_string (path_of ds) second \<noteq> []"
    using two s2 p by (cases second) (auto simp: paths_ok_def)
  have cne: "rt = WRITE_CALL \<Longrightarrow> (case content of None \<Rightarrow> [] | Some data \<Rightarrow> take (nat er) data) \<noteq> []"
    using wr con by fastforce
  have co: "complete (trace_entry_of (path_of ds) rt fl pm er (sb_record_id info) d1 second content)"
    using S s2 ne cne
    by (auto simp: complete_def trace_entry_of_def new_record_def Let_def rtw)
  show ?thesis using wf co tr by (simp add: good_entry_def) (simp add: trace_entry_of_def new_record_def Let_def rtw)
qed


section \<open>One request\<close>

text \<open>
  What the runs assume of the kernel, besides \<open>tracing_env\<close>: copying the access time copies
  nothing else; paths below the mount are strings that a \<open>short\<close> can measure; a link that
  succeeds makes its target positive; \<open>dentry_open\<close> returns a file or an error.
\<close>

definition fs_env ::
  "'w kernel \<Rightarrow> block \<Rightarrow> ('w \<Rightarrow> block) \<Rightarrow> (ptr \<Rightarrow> bool) \<Rightarrow> ((ptr \<Rightarrow> dentry) \<Rightarrow> ptr \<Rightarrow> block) \<Rightarrow> bool" where
  "fs_env K name tf th path_of \<longleftrightarrow> tracing_env K name tf th path_of \<and> atime_copy_ok K \<and>
     paths_ok path_of \<and> link_ok K \<and> dentry_open_ok K"

text \<open>
  What the VFS sees to when it makes a request (the file is not the trace file and has an
  inode, a link body is a string), and, for a write, that it wrote something.
\<close>

definition file_ok :: "(ptr \<Rightarrow> bool) \<Rightarrow> ptr \<Rightarrow> 'w st \<Rightarrow> bool" where
  "file_ok th f s \<longleftrightarrow> inode_fields (f_dentry (files s f)) s \<noteq> None \<and>
     (\<forall>lf. trfs_lower_file f s = Some (Some lf) \<longrightarrow> \<not> th lf)"

definition vfs_ok :: "(ptr \<Rightarrow> bool) \<Rightarrow> request \<Rightarrow> int \<Rightarrow> 'w st \<Rightarrow> bool" where
  "vfs_ok th r e s \<longleftrightarrow> (case r of
     File_request t req \<Rightarrow> (case req of
        Req_read f buf n \<Rightarrow> t = Main_fops \<longrightarrow> file_ok th f s
      | Req_write f data n \<Rightarrow> file_ok th f s \<and> 0 < e \<and> e \<le> int (length data)
      | Req_open i f \<Rightarrow> open_fields f s \<noteq> None
      | _ \<Rightarrow> True)
   | Inode_request t req \<Rightarrow> (case req of
        Req_symlink dir d str \<Rightarrow> str \<noteq> [] \<and> 0 \<notin> set str \<and> length str < 2 ^ 15
      | _ \<Rightarrow> True))"

text \<open>What a request with result \<open>e\<close> leaves: one good record, or none where that is allowed.\<close>

definition meets ::
  "('w \<Rightarrow> block) \<Rightarrow> nat option \<Rightarrow> int \<Rightarrow> trfs_sb_info \<Rightarrow> 'w st \<Rightarrow> 'w st \<Rightarrow> bool" where
  "meets tf rt e info s s' \<longleftrightarrow> (\<exists>es. extends tf s s' es \<and>
     (es = [] \<and> (\<forall>t. rt = Some t \<longrightarrow> \<not> traced t (mask info) \<or> excused t e) \<or>
      (\<exists>x t. es = [x] \<and> rt = Some t \<and> good_entry rt info x \<and> reported t e x)))"

lemma meets_silent:
  "silent tf s s' \<Longrightarrow> (\<And>t. rt = Some t \<Longrightarrow> \<not> traced t (mask info) \<or> excused t e) \<Longrightarrow> meets tf rt e info s s'"
  unfolding meets_def by (intro exI [where x = "[]"]) (simp add: extends_Nil_iff silent_def)

lemma meets_quiet: "quiet K tf s s' \<Longrightarrow> meets tf None e info s s'"
  by (rule meets_silent) (simp_all add: quiet_def silent_def)

lemma meets_if:
  "extends tf s s' (if b then [x] else []) \<Longrightarrow> (b \<Longrightarrow> good_entry (Some t) info x \<and> reported t e x) \<Longrightarrow>
   (\<not> b \<Longrightarrow> \<not> traced t (mask info) \<or> excused t e) \<Longrightarrow> meets tf (Some t) e info s s'"
  unfolding meets_def by (cases b) auto

lemma meets_op:
  assumes "op_trace tf c (\<lambda>x. if b x then [y x] else []) s s'"
    and "\<And>x. b x \<Longrightarrow> good_entry (Some t) info (y x) \<and> reported t e (y x)"
    and "\<And>x. \<not> b x \<Longrightarrow> \<not> traced t (mask info) \<or> excused t e"
  shows "meets tf (Some t) e info s s'"
proof -
  obtain x where "extends tf s s' (if b x then [y x] else [])" using assms(1) by (auto simp: op_trace_def)
  then show ?thesis by (rule meets_if) (use assms(2,3) in auto)
qed

lemma reported_entry [simp]:
  "reported t e (trace_entry_of p rt fl pm er n d second content) \<longleftrightarrow>
     t = CREATE_CALL \<or> (if t = MKDIR_CALL then word_of_int er = (0 :: 32 word) else word_of_int er = (word_of_int e :: 32 word))"
  by (auto simp: reported_def trace_entry_of_def new_record_def Let_def)

lemma read_meets:
  assumes env: "fs_env K name tf th path_of" and m: "mounted s name info"
    and run: "trfs_read K f buf n s = Some (e, s')" and f: "file_ok th f s"
  shows "meets tf (Some READ_CALL) e info s s'"
proof -
  have E: "tracing_env K name tf th path_of" "atime_copy_ok K" "paths_ok path_of"
    using env by (auto simp: fs_env_def)
  obtain fl pm where fl: "inode_fields (f_dentry (files s f)) s = Some (fl, pm)"
    and o: "\<And>lf. trfs_lower_file f s = Some (Some lf) \<Longrightarrow> \<not> th lf"
    using f by (auto simp: file_ok_def)
  from read_op [OF E(1) m E(2) o fl run] obtain lf where
    T: "op_trace tf (Vfs_read lf buf n Caller_ppos) (\<lambda>x. if traced READ_CALL (mask info)
      then [trace_entry_of (path_of (dentries s)) READ_CALL fl pm e
              (sb_record_id info) (f_dentry (files s f)) No_second None] else []) s s'" by blast
  show ?thesis
    by (rule meets_op [OF T]) (auto simp: call_defs excused_def intro!: entry_good [OF E(3)])
qed

lemma write_meets:
  assumes env: "fs_env K name tf th path_of" and m: "mounted s name info"
    and run: "trfs_write K f data n s = Some (e, s')" and f: "file_ok th f s"
    and e: "0 < e" "e \<le> int (length data)"
  shows "meets tf (Some WRITE_CALL) e info s s'"
proof -
  have E: "tracing_env K name tf th path_of" "paths_ok path_of"
    using env by (auto simp: fs_env_def)
  have er: "e < 2 ^ 31"
    using run to_int_range by (auto simp: trfs_write_def run_simps)
  obtain fl pm where fl: "inode_fields (f_dentry (files s f)) s = Some (fl, pm)"
    and o: "\<And>lf. trfs_lower_file f s = Some (Some lf) \<Longrightarrow> \<not> th lf"
    using f by (auto simp: file_ok_def)
  from write_op [OF E(1) m o fl run] obtain lf where
    T: "op_trace tf (Vfs_write lf data n Caller_ppos) (\<lambda>x. if traced WRITE_CALL (mask info)
      then [trace_entry_of (path_of (dentries s)) WRITE_CALL fl pm e
              (sb_record_id info) (f_dentry (files s f)) No_second (Some data)] else []) s s'" by blast
  show ?thesis
    by (rule meets_op [OF T]) (use e er in \<open>auto simp: call_defs excused_def intro!: entry_good [OF E(2)]\<close>)
qed

lemma open_meets:
  assumes env: "fs_env K name tf th path_of" and m: "mounted s name info"
    and run: "trfs_open K i f s = Some (e, s')" and f: "open_fields f s \<noteq> None"
  shows "meets tf (Some OPEN_CALL) e info s s'"
proof -
  have E: "tracing_env K name tf th path_of" "paths_ok path_of"
    and o: "dentry_open_ok K" using env by (auto simp: fs_env_def)
  obtain fl pm where fl: "open_fields f s = Some (fl, pm)" using f by auto
  note cases = open_op [OF E(1) m fl o run, THEN conjunct1]
  show ?thesis
  proof (rule disjE [OF cases])
    assume "(e = - ENOENT \<or> e = - ENOMEM) \<and> silent tf s s'"
    then show ?thesis by (intro meets_silent) (auto simp: excused_def call_defs)
  next
    assume "extends tf s s' (if traced OPEN_CALL (mask info)
      then [trace_entry_of (path_of (dentries s)) OPEN_CALL fl pm e
              (sb_record_id info) (f_dentry (files s f)) No_second None] else [])"
    then show ?thesis
      by (rule meets_if) (auto simp: call_defs excused_def intro!: entry_good [OF E(2)])
  qed
qed

lemma release_meets:
  assumes env: "fs_env K name tf th path_of" and m: "mounted s name info"
    and run: "trfs_file_release K i f s = Some (e, s')"
  shows "meets tf (Some RELEASE_CALL) e info s s'"
proof -
  have E: "tracing_env K name tf th path_of" "paths_ok path_of"
    using env by (auto simp: fs_env_def)
  from release_op [OF E(1) m run] have "e = 0" and T: "extends tf s s' (if traced RELEASE_CALL (mask info)
      then [trace_entry_of (path_of (dentries s)) RELEASE_CALL 0 0 0
              (sb_record_id info) (f_dentry (files s f)) No_second None] else [])" by auto
  show ?thesis by (rule meets_if [OF T]) (use \<open>e = 0\<close> in \<open>auto simp: call_defs intro!: entry_good [OF E(2)]\<close>)
qed

text \<open>The directory operations.\<close>

lemma one_name_meets:
  assumes env: "fs_env K name tf th path_of" and m: "mounted s name info"
  shows "trfs_create K dir d mode excl s = Some (e, s') \<Longrightarrow> meets tf (Some CREATE_CALL) e info s s'"
    "trfs_mkdir K dir d mode s = Some (e, s') \<Longrightarrow> meets tf (Some MKDIR_CALL) e info s s'"
    "trfs_rmdir K dir d s = Some (e, s') \<Longrightarrow> meets tf (Some RMDIR_CALL) e info s s'"
    "trfs_mknod K dir d mode dev s = Some (e, s') \<Longrightarrow> meets tf (Some MKNOD_CALL) e info s s'"
    "trfs_unlink K dir d s = Some (e, s') \<Longrightarrow> meets tf (Some UNLINK_CALL) e info s s'"
    "trfs_symlink K dir d str s = Some (e, s') \<Longrightarrow> str \<noteq> [] \<Longrightarrow> 0 \<notin> set str \<Longrightarrow> length str < 2 ^ 15 \<Longrightarrow>
      meets tf (Some SYMLINK_CALL) e info s s'"
    "trfs_link K od dir nd s = Some (e, s') \<Longrightarrow> meets tf (Some LINK_CALL) e info s s'"
proof -
  have E: "tracing_env K name tf th path_of" "paths_ok path_of" and l: "link_ok K"
    using env by (auto simp: fs_env_def)
  note ops = create_op [OF E(1) m] mkdir_op [OF E(1) m] rmdir_op [OF E(1) m] mknod_op [OF E(1) m]
    unlink_op(1) [OF E(1) m] symlink_op [OF E(1) m] link_op(1) [OF E(1) m _ l]
  show "trfs_create K dir d mode excl s = Some (e, s') \<Longrightarrow> meets tf (Some CREATE_CALL) e info s s'"
    by (drule ops(1)) (auto simp: call_defs excused_def intro!: entry_good [OF E(2)] elim!: meets_op)
  show "trfs_mkdir K dir d mode s = Some (e, s') \<Longrightarrow> meets tf (Some MKDIR_CALL) e info s s'"
    by (drule ops(2)) (auto simp: call_defs excused_def intro!: entry_good [OF E(2)] elim!: meets_op)
  show "trfs_rmdir K dir d s = Some (e, s') \<Longrightarrow> meets tf (Some RMDIR_CALL) e info s s'"
    by (drule ops(3)) (auto simp: call_defs excused_def intro!: entry_good [OF E(2)] elim!: meets_op)
  show "trfs_mknod K dir d mode dev s = Some (e, s') \<Longrightarrow> meets tf (Some MKNOD_CALL) e info s s'"
    by (drule ops(4)) (auto simp: call_defs excused_def intro!: entry_good [OF E(2)] elim!: meets_op)
  show "trfs_unlink K dir d s = Some (e, s') \<Longrightarrow> meets tf (Some UNLINK_CALL) e info s s'"
    by (drule ops(5)) (auto simp: call_defs excused_def intro!: entry_good [OF E(2)] elim!: meets_op)
  show "trfs_symlink K dir d str s = Some (e, s') \<Longrightarrow> str \<noteq> [] \<Longrightarrow> 0 \<notin> set str \<Longrightarrow> length str < 2 ^ 15 \<Longrightarrow>
      meets tf (Some SYMLINK_CALL) e info s s'"
    by (drule ops(6) [rotated]) (auto simp: call_defs excused_def intro!: entry_good [OF E(2)] elim!: meets_op)
  show "trfs_link K od dir nd s = Some (e, s') \<Longrightarrow> meets tf (Some LINK_CALL) e info s s'"
    by (drule ops(7)) (auto simp: call_defs excused_def intro!: entry_good [OF E(2)] elim!: meets_op)
qed

lemma rename_meets:
  assumes env: "fs_env K name tf th path_of" and m: "mounted s name info"
    and run: "trfs_rename K odir od ndir nd s = Some (e, s')"
  shows "meets tf (Some RENAME_CALL) e info s s'"
proof -
  have E: "tracing_env K name tf th path_of" "paths_ok path_of"
    using env by (auto simp: fs_env_def)
  from rename_op(1) [OF E(1) m run] show ?thesis
    by (auto simp: call_defs excused_def errno_defs intro!: entry_good [OF E(2)] elim!: meets_op meets_silent)
qed


text \<open>The rest: nothing is logged.\<close>

lemma ioctl_below_state:
  assumes ok: "trace_file_ok K name tf th" and run: "ioctl_below K f cmd arg s = Some (e, s')"
  shows "sb s' = sb s \<and> tf (world s') = tf (world s)"
  using run by (auto simp: ioctl_below_def run_simps trace_file_calls [OF ok] split: if_splits)

lemma ioctl_state:
  assumes ok: "trace_file_ok K name tf th" and run: "trfs_unlocked_ioctl K f cmd arg s = Some (e, s')"
  shows "sb s' = (if cmd \<in> {IOC_ALL, IOC_NONE, IOC_HEX} then set_mask arg (sb s) else sb s) \<and>
    tf (world s') = tf (world s)"
proof -
  obtain s1 where 1: "ioctl_switch K cmd arg s = Some s1" and 2: "ioctl_below K f cmd arg s1 = Some (e, s')"
    using run by (auto simp: trfs_unlocked_ioctl_def run_simps)
  have "sb s1 = (if cmd \<in> {IOC_ALL, IOC_NONE, IOC_HEX} then set_mask arg (sb s) else sb s) \<and>
      tf (world s1) = tf (world s)"
    using 1 unfolding ioctl_switch_def
    by (cases "cmd \<in> {IOC_ALL, IOC_NONE, IOC_HEX}")
      (auto simp: bind_eq_Some_conv upd_sb_def trace_file_calls [OF ok])
  with ioctl_below_state [OF ok 2] show ?thesis by auto
qed

lemma setattr_body_silent:
  assumes ok: "trace_file_ok K name tf th" and run: "setattr_body K i ia lp s = Some (r, s')"
  shows "sb s' = sb s \<and> tf (world s') = tf (world s)"
  using run unfolding setattr_body_def
  by (cases "ia_valid ia AND ATTR_SIZE = 0") (auto simp: run_simps last_call trace_file_calls [OF ok])

lemma setattr_silent:
  assumes ok: "trace_file_ok K name tf th" and run: "trfs_setattr K d ia s = Some (r, s')"
  shows "silent tf s s'"
  using run unfolding trfs_setattr_def with_lower_path_def silent_def
  by (auto simp: run_simps last_call trace_file_calls [OF ok] put_lower_path_tf [OF ok]
      dest!: private_data_silent(3) [OF ok] setattr_body_silent [OF ok])

lemma get_link_silent:
  assumes ok: "trace_file_ok K name tf th" and run: "trfs_get_link K d s = Some (p, data, s')"
  shows "silent tf s s'"
  using run unfolding trfs_get_link_def silent_def
  by (auto simp: run_simps kptr_case_eq_Some trace_file_calls [OF ok] split: if_splits
      dest!: readlink_quiet [OF ok, unfolded quiet_def])

lemmas passed_on = readdir_quiet flush_quiet fsync_quiet fasync_quiet llseek_quiet read_iter_quiet
  write_iter_quiet mmap_quiet compat_ioctl_quiet readlink_quiet permission_quiet getattr_quiet xattr_quiet

lemma common_iops_meets:
  assumes ok: "trace_file_ok K name tf th"
    and run: "common_iops K lb req = Some meth" "meth s = Some (e, s')"
  shows "meets tf (inode_call req) e info s s'"
  using run unfolding common_iops_def inode_call_def
  by (cases req) (auto intro: meets_quiet meets_silent dest: passed_on [OF ok] setattr_silent [OF ok])

lemma file_request_meets:
  assumes env: "fs_env K name tf th path_of" and m: "mounted s name info"
    and run: "file_table K t req = Some meth" "meth s = Some (e, s')"
    and v: "vfs_ok th (File_request t req) e s" and i: "\<And>f cmd arg. req \<noteq> Req_ioctl f cmd arg"
  shows "meets tf (file_call req) e info s s'"
proof -
  have ok: "trace_file_ok K name tf th" using env by (simp add: fs_env_def tracing_env_def)
  note traced = read_meets [OF env m] write_meets [OF env m] open_meets [OF env m] release_meets [OF env m]
  have seek: "quiet K tf s s'" if "call_int K (Upper_llseek f off wh) s = (e, s')" for f off wh
    using that by (auto simp: last_call intro!: quiet_call [OF ok])
  have dir_read: "meets tf (Some READ_CALL) (- EISDIR) info u u" for u :: "'a st"
    by (rule meets_silent) (simp_all add: silent_def excused_def call_defs)
  have "t = Main_fops \<or> t = Dir_fops" using run by (cases t) (auto simp: file_table_def)
  then show ?thesis
  proof
    assume "t = Main_fops"
    with run v i show ?thesis
      by (cases req) (auto simp: file_table_def trfs_main_fops_def vfs_ok_def file_call_def
          intro: traced meets_quiet dest: passed_on [OF ok] seek)
  next
    assume "t = Dir_fops"
    with run v i show ?thesis
      by (cases req) (auto simp: file_table_def trfs_dir_fops_def vfs_ok_def file_call_def silent_def
          intro: traced meets_quiet dir_read dest: passed_on [OF ok])
  qed
qed

lemma inode_request_meets:
  assumes env: "fs_env K name tf th path_of" and m: "mounted s name info"
    and run: "inode_table K lb isr t req = Some meth" "meth s = Some (e, s')"
    and v: "vfs_ok th (Inode_request t req) e s"
  shows "meets tf (inode_call req) e info s s'"
proof -
  have ok: "trace_file_ok K name tf th" using env by (simp add: fs_env_def tracing_env_def)
  note common = common_iops_meets [OF ok, of lb req meth s e s']
  show ?thesis
  proof (cases t)
    case No_iops
    then show ?thesis using run by (simp add: inode_table_def)
  next
    case Symlink_iops
    with run common show ?thesis
      by (cases req) (auto simp: inode_table_def trfs_symlink_iops_def ptr_result_def inode_call_def
          intro: meets_quiet meets_silent dest: passed_on [OF ok] get_link_silent [OF ok])
  next
    case Dir_iops
    with run v common show ?thesis
      by (cases req) (auto simp: inode_table_def trfs_dir_iops_def ptr_result_def vfs_ok_def inode_call_def
          intro: one_name_meets [OF env m] rename_meets [OF env m] meets_silent dest: lookup_silent [OF ok])
  next
    case Main_iops
    with run common show ?thesis
      by (simp add: inode_table_def trfs_main_iops_def)
  qed
qed

section \<open>The abstract tracer is refined\<close>

text \<open>The tracer that a state shows: the trace file holds its records behind \<open>base\<close>.\<close>

definition tracer_of ::
  "('w \<Rightarrow> block) \<Rightarrow> block \<Rightarrow> block \<Rightarrow> 'w st \<Rightarrow> tracer \<Rightarrow> bool" where
  "tracer_of tf name base s t \<longleftrightarrow>
     (\<exists>info. mounted s name info \<and> mask info = t_mask t \<and> sb_record_id info = t_next t) \<and>
     (\<exists>pads. length pads = length (t_log t) \<and> (\<forall>p \<in> set pads. length p = 28) \<and>
        tf (world s) = base @ trace_bytes pads (t_log t))"

lemma tracer_of_start:
  "mounted s name info \<Longrightarrow>
   tracer_of tf name (tf (world s)) s \<lparr>t_mask = mask info, t_next = sb_record_id info, t_log = []\<rparr>"
  by (auto simp: tracer_of_def trace_bytes_def)

lemma tracer_of_silent: "tracer_of tf name base s t \<Longrightarrow> silent tf s s' \<Longrightarrow> tracer_of tf name base s' t"
  by (auto simp: tracer_of_def silent_def mounted_def)

lemma tracer_of_emits:
  assumes "tracer_of tf name base s t" "emits tf s s' x"
  shows "tracer_of tf name base s' (t\<lparr>t_next := t_next t + 1, t_log := t_log t @ [x]\<rparr>)"
proof -
  obtain info pads where i: "mounted s name info" "mask info = t_mask t" "sb_record_id info = t_next t"
    and p: "length pads = length (t_log t)" "\<forall>p \<in> set pads. length p = 28"
      "tf (world s) = base @ trace_bytes pads (t_log t)"
    using assms(1) by (auto simp: tracer_of_def)
  obtain pad where e: "sb s' = bump_id (sb s)" "length pad = 28" "tf (world s') = tf (world s) @ entry_bytes pad x"
    using assms(2) by (auto simp: emits_def)
  have "mounted s' name (info\<lparr>sb_record_id := sb_record_id info + 1\<rparr>)"
    using i(1) e(1) by (auto simp: mounted_def bump_id_def)
  moreover have "tf (world s') = base @ trace_bytes (pads @ [pad]) (t_log t @ [x])"
    using p e by (simp add: trace_bytes_def)
  ultimately show ?thesis
    unfolding tracer_of_def using i p e(2)
    by (intro conjI exI [where x = "info\<lparr>sb_record_id := sb_record_id info + 1\<rparr>"] exI [where x = "pads @ [pad]"]) auto
qed

lemma meets_refines:
  assumes t: "tracer_of tf name base s t" and m: "mounted s name info"
    and "meets tf (request_call r) e info s s'" "request_mask r = None"
  shows "\<exists>t'. tracer_step r e t t' \<and> tracer_of tf name base s' t'"
proof -
  have i: "mask info = t_mask t" "sb_record_id info = t_next t"
    using t m by (auto simp: tracer_of_def mounted_def)
  obtain es where x: "extends tf s s' es"
    and c: "es = [] \<and> (\<forall>rt. request_call r = Some rt \<longrightarrow> \<not> traced rt (t_mask t) \<or> excused rt e) \<or>
      (\<exists>x rt. es = [x] \<and> request_call r = Some rt \<and> good_entry (request_call r) info x \<and> reported rt e x)"
    using assms(3) i unfolding meets_def by auto
  from c show ?thesis
  proof
    assume n: "es = [] \<and> (\<forall>rt. request_call r = Some rt \<longrightarrow> \<not> traced rt (t_mask t) \<or> excused rt e)"
    then have "tracer_of tf name base s' t"
      using t x by (auto intro: tracer_of_silent simp: extends_Nil_iff silent_def)
    moreover have "tracer_step r e t t"
      using n assms(4) by (cases "request_call r") (auto intro: tracer_step.intros)
    ultimately show ?thesis by blast
  next
    assume "\<exists>x rt. es = [x] \<and> request_call r = Some rt \<and> good_entry (request_call r) info x \<and> reported rt e x"
    then obtain x rt where y: "es = [x]" "request_call r = Some rt" "good_entry (Some rt) info x" "reported rt e x" by auto
    have "emits tf s s' x" using x y(1) by (simp add: extends_single_iff)
    from tracer_of_emits [OF t this]
    have "tracer_of tf name base s' (t\<lparr>t_next := t_next t + 1, t_log := t_log t @ [x]\<rparr>)" .
    moreover have "tracer_step r e t (t\<lparr>t_next := t_next t + 1, t_log := t_log t @ [x]\<rparr>)"
      by (rule step_log [OF y(2)]) (use y(3,4) i in \<open>simp_all add: good_entry_def record_of_def\<close>)
    ultimately show ?thesis by blast
  qed
qed

lemma request_refines:
  assumes env: "fs_env K name tf th path_of" and t: "tracer_of tf name base s t"
    and run: "vfs_method K lb isr r = Some meth" "meth s = Some (e, s')" and v: "vfs_ok th r e s"
  shows "\<exists>t'. tracer_step r e t t' \<and> tracer_of tf name base s' t'"
proof -
  have ok: "trace_file_ok K name tf th" using env by (simp add: fs_env_def tracing_env_def)
  obtain info where m: "mounted s name info" using t by (auto simp: tracer_of_def)
  show ?thesis
  proof (cases "\<exists>tb f cmd arg. r = File_request tb (Req_ioctl f cmd arg)")
    case False
    then have n: "request_mask r = None"
      by (auto simp: request_mask_def split: request.splits file_request.splits)
    have "meets tf (request_call r) e info s s'"
      using False run v file_request_meets [OF env m] inode_request_meets [OF env m]
      by (cases r) (auto simp: vfs_method_def request_call_def)
    then show ?thesis by (rule meets_refines [OF t m _ n])
  next
    case True
    then obtain tb f cmd arg where r: "r = File_request tb (Req_ioctl f cmd arg)" by blast
    then have "trfs_unlocked_ioctl K f cmd arg s = Some (e, s')"
      using run by (cases tb) (auto simp: vfs_method_def file_table_def trfs_main_fops_def trfs_dir_fops_def)
    note I = ioctl_state [OF ok this]
    show ?thesis
    proof (cases "request_mask r")
      case None
      then have "silent tf s s'" using I r by (auto simp: request_mask_def silent_def split: if_splits)
      from tracer_of_silent [OF t this] show ?thesis
        using step_untraced [OF _ None] r by (auto simp: request_call_def file_call_def)
    next
      case (Some a)
      then have "sb s' = set_mask a (sb s)" "tf (world s') = tf (world s)"
        using I r by (auto simp: request_mask_def split: if_splits)
      then have "tracer_of tf name base s' (t\<lparr>t_mask := a\<rparr>)"
        using t by (fastforce simp: tracer_of_def mounted_def set_mask_def)
      then show ?thesis using step_mask [OF Some] by blast
    qed
  qed
qed

text \<open>A call whose bit is off leaves the trace file alone.\<close>

lemma untraced_request:
  assumes env: "fs_env K name tf th path_of" and m: "mounted s name info"
    and run: "vfs_method K lb isr r = Some meth" "meth s = Some (e, s')" and v: "vfs_ok th r e s"
    and off: "\<And>rt. request_call r = Some rt \<Longrightarrow> \<not> traced rt (mask info)"
  shows "tf (world s') = tf (world s)"
proof -
  obtain t' where st: "tracer_step r e \<lparr>t_mask = mask info, t_next = sb_record_id info, t_log = []\<rparr> t'"
    and t': "tracer_of tf name (tf (world s)) s' t'"
    using request_refines [OF env tracer_of_start [OF m] run v] by blast
  have "t_log t' = []" using st off by (auto elim!: tracer_stepE)
  with t' show ?thesis by (auto simp: tracer_of_def trace_bytes_def)
qed

section \<open>Runs\<close>

text \<open>
  A run of the mounted file system: requests through the tables, and between them anything
  the kernel does that leaves the super block and the trace file alone.
\<close>

inductive runs ::
  "'w kernel \<Rightarrow> ('w \<Rightarrow> int) \<Rightarrow> (ptr \<Rightarrow> bool) \<Rightarrow> ('w \<Rightarrow> block) \<Rightarrow> (ptr \<Rightarrow> bool) \<Rightarrow>
   'w st \<Rightarrow> request list \<Rightarrow> 'w st \<Rightarrow> bool"
  for K lb isr tf th s where
  runs_start: "runs K lb isr tf th s [] s"
| runs_kernel: "runs K lb isr tf th s rs s1 \<Longrightarrow> silent tf s1 s2 \<Longrightarrow> runs K lb isr tf th s rs s2"
| runs_request: "runs K lb isr tf th s rs s1 \<Longrightarrow> vfs_method K lb isr r = Some meth \<Longrightarrow>
    meth s1 = Some (e, s2) \<Longrightarrow> vfs_ok th r e s1 \<Longrightarrow> runs K lb isr tf th s (rs @ [r]) s2"

lemma runs_refine:
  assumes env: "fs_env K name tf th path_of" and r: "runs K lb isr tf th s rs s'"
    and t: "tracer_of tf name base s t"
  shows "\<exists>t'. tracer_run t rs t' \<and> tracer_of tf name base s' t'"
  using r
proof (induction rule: runs.induct)
  case runs_start
  then show ?case using t run_start by blast
next
  case (runs_kernel rs s1 s2)
  then show ?case using tracer_of_silent by blast
next
  case (runs_request rs s1 r meth e s2)
  then obtain t1 where "tracer_run t rs t1" "tracer_of tf name base s1 t1" by blast
  with request_refines [OF env _ runs_request.hyps(2-4)] show ?case using run_step by blast
qed

lemma runs_trace:
  assumes env: "fs_env K name tf th path_of" and r: "runs K lb isr tf th s rs s'"
    and m: "mounted s name info"
  shows "\<exists>es. logged tf name s s' es \<and> trace_ok info rs es"
proof -
  obtain t' where "tracer_run \<lparr>t_mask = mask info, t_next = sb_record_id info, t_log = []\<rparr> rs t'"
    and t: "tracer_of tf name (tf (world s)) s' t'"
    using runs_refine [OF env r tracer_of_start [OF m]] by blast
  from tracer_run_log [OF this(1), of info]
  have L: "trace_ok info rs (t_log t')" "t_next t' = sb_record_id info + of_nat (length (t_log t'))" by auto
  have "i = info" if "mounted s name i" for i using m that by (auto simp: mounted_def)
  then have "logged tf name s s' (t_log t')"
    using t L(2) by (auto simp: logged_def tracer_of_def)
  then show ?thesis using L(1) by blast
qed

section \<open>From the file system to the replay program\<close>

lemma length_es_trace_bytes:
  "length pads = length es \<Longrightarrow> \<forall>p \<in> set pads. length p = 28 \<Longrightarrow> 28 * length es \<le> length (trace_bytes pads es)"
proof (induction pads es rule: list_induct2)
  case (Cons p ps e es)
  then show ?case using entry_size_ge [of e] by (simp add: trace_bytes_def)
qed simp

lemma two_le_trace_bytes:
  "length pads = length es \<Longrightarrow> \<forall>p \<in> set pads. length p = 28 \<Longrightarrow> trace_bytes pads es \<noteq> [] \<Longrightarrow>
   2 \<le> length (trace_bytes pads es)"
  using length_es_trace_bytes [of pads es] by (cases es) (auto simp: trace_bytes_def)

lemma traced_then_printed:
  assumes env: "fs_env K name tf th path_of" and r: "runs K lb isr tf th s rs s'"
    and m: "mounted s name info" and empty: "tf (world s) = []"
    and size: "length (tf (world s')) < 2 ^ 31" and ne: "tf (world s') \<noteq> []"
    and calm: "calm E" and held_in: "contents f = Some (tf (world s'))"
    and arg: "f \<noteq> []" "hd f \<noteq> CHR ''-''"
    and fuel: "length (tf (world s')) < fuel"
  shows "\<exists>es st'. logged tf name s s' es \<and> trace_ok info rs es \<and>
    treplay_main fuel E g contents [''-n'', f] st = Done st' \<and>
    lines st' = lines st @ Number ''Fileread : '' (int (length (tf (world s')))) #
      concat (map (\<lambda>e. entry_lines e @ [separator]) es) \<and> os st' = os st"
proof -
  obtain es where L: "logged tf name s s' es" and T: "trace_ok info rs es"
    using runs_trace [OF env r m] by blast
  obtain pads where p: "length pads = length es" "\<forall>p \<in> set pads. length p = 28"
    "tf (world s') = trace_bytes pads es"
    using L empty unfolding logged_def by auto
  let ?buf = "tf (world s')"
  have big: "length ?buf \<noteq> 0" "length ?buf \<noteq> 1" using ne two_le_trace_bytes [OF p(1,2)] p(3) by auto
  have good: "\<forall>e \<in> set es. wf_entry e \<and> complete e" using T by (simp add: trace_ok_def)
  have fuel': "length es < fuel" using fuel p(3) length_es_trace_bytes [OF p(1,2)] by simp
  define st2 where "st2 = emit (Number ''Fileread : '' (int (length ?buf))) (ticks 1 (ticks 1 st))"
  obtain st' where loop: "replay_loop fuel E False False ([] @ trace_bytes pads es) start_cursor st2 = Done st'"
    "lines st' = lines st2 @ concat (map (\<lambda>e. entry_lines e @ [separator]) es)" "os st' = os st2"
    using print_loop [OF calm p(1,2) good, of "[]" start_cursor fuel False st2] size p(3) fuel'
    by (auto simp: start_cursor_def)
  have opts: "treplay_options g [''-n'', f] = Inr (False, False)" "file_argument [''-n'', f] = f"
    using arg by (auto simp: treplay_options_def file_argument_def is_option_def opt_char_def)
  obtain r1 r2 where "alloc E 144 st = Some (mallocs st, r1, ticks 1 st)"
    "alloc E (length ?buf) (ticks 1 st) = Some (mallocs (ticks 1 st), r2, ticks 1 (ticks 1 st))"
    using calm_alloc [OF calm] by blast
  then have "treplay_main fuel E g contents [''-n'', f] st = Done st'"
    using opts held_in big loop(1) p(3) by (simp add: treplay_main_def st2_def Let_def)
  with L T loop(2,3) show ?thesis by (auto simp: st2_def)
qed

end
