(* ===== verification/Object_Correct.thy ===== *)
theory Object_Correct
  imports Runs
begin

text \<open>
  The life of inodes and dentries, seeking, remounting, and the records the replay program
  cannot take.
\<close>

section \<open>Inodes\<close>

text \<open>The operations an upper inode gets from the type of its lower inode.\<close>

definition ops_for :: "16 word \<Rightarrow> inode_ops \<times> file_ops" where
  "ops_for mode = (if S_ISDIR mode then (Dir_iops, Dir_fops)
     else if S_ISLNK mode then (Symlink_iops, Main_fops) else (Main_iops, Main_fops))"

lemma init_inode_result:
  "trfs_lower_inode i (init_inode K i li s) = Some li"
  "(i_op (inodes (init_inode K i li s) i), i_fop (inodes (init_inode K i li s) i)) =
     ops_for (i_mode (l_attr (k_linode K (world s) li)))"
  "trfs_aops (inodes (init_inode K i li s) i)"
  by (simp_all add: init_inode_def Let_def trfs_set_lower_inode_def trfs_lower_inode_def fsstack_def ops_for_def)

text \<open>
  The inode cache: a candidate it returns as found passed the test, and finding changes
  nothing; \<open>igrab\<close> returns the inode it was given or NULL.
\<close>

definition inode_cache_ok :: "'w kernel \<Rightarrow> bool" where
  "inode_cache_ok K \<longleftrightarrow>
     (\<forall>t h ns w j ns' w'. k_iget5 K t h ns w = (Ptr j, ns', w') \<longrightarrow> \<not> i_new (attrs (ns' j)) \<longrightarrow> t j \<and> ns' = ns) \<and>
     (\<forall>li w. fst (k_ptr K (Igrab li) w) = Ptr li \<or> fst (k_ptr K (Igrab li) w) = Null)"

lemma iget_inode:
  assumes cache: "inode_cache_ok K" and run: "trfs_iget K (Some li) s = Some (Ptr i, s')"
  shows "trfs_lower_inode i s' = Some li"
    "held (log s') (R_linode j) - held (log s) (R_linode j) \<in> {0, of_bool (j = li)}"
proof -
  obtain p ns w where g: "k_iget5 K (trfs_inode_test s li) (i_ino (l_attr (k_linode K (world s) li))) (inodes s) (world s)
      = (p, ns, w)" by (metis prod_cases3)
  have p: "p = Ptr i" using run g by (auto simp: trfs_iget_def run_simps kptr_case_eq_Some)
  show "trfs_lower_inode i s' = Some li"
    "held (log s') (R_linode j) - held (log s) (R_linode j) \<in> {0, of_bool (j = li)}"
  proof (atomize (full), cases "i_new (attrs (ns i))")
    case False
    then have "s' = s\<lparr>inodes := ns, world := w\<rparr>" using run g p by (auto simp: trfs_iget_def run_simps)
    then show "trfs_lower_inode i s' = Some li \<and>
        held (log s') (R_linode j) - held (log s) (R_linode j) \<in> {0, of_bool (j = li)}"
      using cache g [unfolded p] False unfolding inode_cache_ok_def
      by (fastforce simp: trfs_inode_test_def trfs_lower_inode_def)
  next
    case True
    define s2 where "s2 = upd_attrs i (\<lambda>a. a\<lparr>i_ino := i_ino (l_attr (k_linode K w li))\<rparr>) (s\<lparr>inodes := ns, world := w\<rparr>)"
    have r: "fst (call_ptr K (Igrab li) s2) \<noteq> Null" "s' = init_inode K i li (snd (call_ptr K (Igrab li) s2))"
      using run g p True by (auto simp: trfs_iget_def run_simps s2_def)
    moreover have "fst (call_ptr K (Igrab li) s2) = Ptr li"
      using r(1) cache unfolding inode_cache_ok_def call_ptr_def by auto
    ultimately show "trfs_lower_inode i s' = Some li \<and>
        held (log s') (R_linode j) - held (log s) (R_linode j) \<in> {0, of_bool (j = li)}"
      by (simp add: init_inode_result(1)) (simp add: s2_def)
  qed
qed

lemma evict_inode_effect:
  "lower_inode (inodes (trfs_evict_inode K i s) i) = None"
  "held (log (trfs_evict_inode K i s)) q = held (log s) q -
     (case lower_inode (inodes s i) of None \<Rightarrow> 0 | Some li \<Rightarrow> of_bool (q = R_linode li))"
  by (simp_all add: trfs_evict_inode_def Let_def trfs_set_lower_inode_def trfs_lower_inode_def iput_opt_def split: option.splits)

section \<open>Dentries\<close>

lemma d_release_effect:
  assumes "trfs_d_release K d s = Some s'"
  shows "d_fsdata (dentries s' d) = None \<and> (\<exists>a info. d_fsdata (dentries s d) = Some (a, info) \<and>
     held (log s') q = held (log s) q - path_ref (lower_path info) q - of_bool (q = R_dinfo a))"
  using assms
  by (auto simp: trfs_d_release_def trfs_put_reset_lower_path_def free_dentry_private_data_def run_simps pathcpy_def path_ref_def)

text \<open>A lookup that fails to interpose leaves no lower path behind.\<close>

lemma lookup_failed_resets:
  assumes run: "lookup_dentry K isr d fl pp s = Some (r, s')" and bad: "IS_ERR r"
    and found: "\<And>dir. p_dentry pp = Some dir \<Longrightarrow>
      to_int (fst (k_int K (Vfs_path_lookup dir (p_mnt pp) (d_name (dentries s d))) (world s))) = 0"
    and root: "\<not> isr d"
  shows "\<exists>a info. d_fsdata (dentries s' d) = Some (a, info) \<and> lower_path info = null_path"
proof -
  obtain dir where d: "p_dentry pp = Some dir" using run root by (auto simp: lookup_dentry_def run_simps)
  have "trfs_put_reset_lower_path K d s2 = Some s3 \<Longrightarrow>
    \<exists>a info. d_fsdata (dentries s3 d) = Some (a, info) \<and> lower_path info = null_path" for s2 s3
    by (auto simp: trfs_put_reset_lower_path_def run_simps)
  then show ?thesis using run root bad found [OF d] d
    by (auto simp: lookup_dentry_def run_simps call_i32_def call_int_def)
qed

section \<open>Seeking, mapping, remounting\<close>

text \<open>A position beyond 2 GiB comes back as something else.\<close>

lemma llseek_cuts:
  assumes up: "fst (call_int K (Upper_llseek f off wh) s) = p" "0 \<le> p" "p < 2 ^ 31"
    and low: "trfs_lower_file f s = Some (Some lower)"
    and q: "fst (call_int K (Lower_llseek lower off wh) (snd (call_int K (Upper_llseek f off wh) s))) = q"
  shows "\<exists>s'. trfs_file_llseek K f off wh s = Some (to_int q, s')"
proof -
  have "trfs_lower_file f (snd (call_int K c s)) = trfs_lower_file f s" for c
    by (simp add: trfs_lower_file_def)
  then show ?thesis using assms by (simp add: trfs_file_llseek_def case_prod_beta to_int_id)
qed

lemma to_int_big: "2 ^ 31 \<le> q \<Longrightarrow> q < 2 ^ 32 \<Longrightarrow> to_int q = q - 2 ^ 32"
proof -
  assume q: "2 ^ 31 \<le> q" "q < 2 ^ 32"
  have "(q + 2 ^ 31) mod 2 ^ 32 = (q + 2 ^ 31 - 2 ^ 32) mod 2 ^ 32" by (rule minus_mod_self2 [symmetric])
  also have "\<dots> = q - 2 ^ 31" using q by (subst mod_pos_pos_trivial) auto
  finally show ?thesis by (simp add: to_int_def signed_take_bit_eq_take_bit_shift take_bit_eq_mod)
qed

lemma remount_ok_iff:
  "trfs_remount_fs flags = 0 \<longleftrightarrow> (\<forall>n < 32. bit flags n \<longrightarrow> n \<in> {0, 6, 15})"
proof -
  have m: "bit (MS_RDONLY OR MS_MANDLOCK OR MS_SILENT) n \<longleftrightarrow> n \<in> {0, 6, 15}" if "n < 32" for n
  proof -
    have e: "MS_RDONLY = 2 ^ 0" "MS_MANDLOCK = 2 ^ 6" "MS_SILENT = 2 ^ 15"
      by (simp_all add: MS_RDONLY_def MS_MANDLOCK_def MS_SILENT_def)
    show ?thesis unfolding e bit_or_iff bit_exp_iff possible_bit_word using that by auto
  qed
  let ?m = "MS_RDONLY OR MS_MANDLOCK OR MS_SILENT"
  have "flags AND NOT ?m = 0 \<longleftrightarrow> (\<forall>n < 32. bit flags n \<longrightarrow> n \<in> {0, 6, 15})"
  proof
    assume "flags AND NOT ?m = 0"
    then have z: "\<not> bit (flags AND NOT ?m) n" for n by simp
    show "\<forall>n < 32. bit flags n \<longrightarrow> n \<in> {0, 6, 15}"
    proof (intro allI impI)
      fix n :: nat assume n: "n < 32" "bit flags n"
      then have "bit ?m n" using z [of n] unfolding bit_and_iff bit_not_iff possible_bit_word by simp
      then show "n \<in> {0, 6, 15}" using m [OF n(1)] by blast
    qed
  next
    assume f: "\<forall>n < 32. bit flags n \<longrightarrow> n \<in> {0, 6, 15}"
    show "flags AND NOT ?m = 0"
    proof (rule bit_word_eqI)
      fix n :: nat assume "n < LENGTH(32)"
      then have n: "n < 32" by simp
      then have "bit flags n \<Longrightarrow> bit ?m n" using f m [OF n] by blast
      then have "\<not> bit (flags AND NOT ?m) n" unfolding bit_and_iff bit_not_iff by blast
      then show "bit (flags AND NOT ?m) n = bit 0 n" by simp
    qed
  qed
  then show ?thesis by (simp add: trfs_remount_fs_def errno_defs)
qed

section \<open>What the reader cannot take\<close>

lemma fetch_lengths:
  assumes "fetch E buffer cur st = Some (r, b1, cur', st')"
  shows "r = read_trace_ds (peek (nat (prev_rec_size cur)) 28 buffer)" "0 \<le> sint (write_len r)"
proof -
  obtain kb st1 b2 st3 c where
    1: "copy_part E buffer (nat (prev_rec_size cur)) 28 st = Some (kb, st1)" and
    r: "r = read_trace_ds (snd kb)" and
    4: "copy_part_unless_empty E buffer (nat (prev_rec_size cur) + 28 + nat (sint (path_len1 r)) +
          nat (sint (path_len2 r))) (sint (write_len r)) (content_buf cur) st3 = Some (c, st')"
    using assms by (auto simp: fetch_def run_simps)
  show "r = read_trace_ds (peek (nat (prev_rec_size cur)) 28 buffer)"
    using 1 r by (auto simp: copy_part_def load_def run_simps)
  show "0 \<le> sint (write_len r)"
    using 4 by (auto simp: copy_part_unless_empty_def run_simps dest: copy_part_bound split: if_splits)
qed

text \<open>A record whose length is negative ends the program that reads it.\<close>

lemma negative_length_crashes:
  assumes pad: "length pad = 28" and neg: "sint (write_len (te_ds e)) < 0"
    and pos: "prev_rec_size cur = int (length pre)" and n: "0 < n"
  shows "replay_loop n E replay ab (pre @ entry_bytes pad e @ rest) cur st = Crash"
proof -
  have "peek (length pre) 28 (pre @ entry_bytes pad e @ rest) = fill_trace_ds (te_ds e) pad"
    using pad by (simp add: entry_bytes_def peek_def)
  then have "fetch E (pre @ entry_bytes pad e @ rest) cur st = None"
    using fetch_lengths [of E "pre @ entry_bytes pad e @ rest" cur st] neg pos
    by (cases "fetch E (pre @ entry_bytes pad e @ rest) cur st")
      (auto simp: read_fill_trace_ds [OF pad])
  moreover have "prev_rec_size cur < int (length (pre @ entry_bytes pad e @ rest)) - 1"
    using pos pad entry_size_ge [of e] by simp
  ultimately show ?thesis using n by (cases n) (simp_all add: record_step_def)
qed

lemma failed_write_entry:
  assumes "e < 0" "- (2 ^ 31) \<le> e"
  shows "sint (write_len (te_ds (trace_entry_of pf rt fl pm e rid d1 second (Some data)))) = e"
  using assms by (simp add: trace_entry_of_def new_record_def Let_def sint_word32_of_int to_int_id)


end
