(* ===== verification/Returns.thy ===== *)
theory Returns
  imports Object_Correct
begin

text \<open>
  When the traced operations return at all. The tracing code follows the results of its
  allocations, of \<open>filp_open\<close> and of \<open>dentry_path_raw\<close> without a test, so it returns only
  while memory lasts, the trace file opens and the paths are shorter than its 256 bytes.
  Under these conditions the results on the operations are total; a longer path ends the run.
\<close>

section \<open>The tracing code\<close>

definition plenty :: "'w kernel \<Rightarrow> bool" where
  "plenty K \<longleftrightarrow> (\<forall>n w. \<exists>a. fst (k_ptr K (Kmalloc n) w) = Ptr a) \<and>
     (\<forall>nm w. \<exists>h. fst (k_ptr K (Filp_open nm) w) = Ptr h)"

lemma plenty_calls:
  assumes "plenty K"
  shows "\<exists>a. fst (call_ptr K (Kmalloc n) s) = Ptr a" "\<exists>h. fst (call_ptr K (Filp_open nm) s) = Ptr h"
  using assms by (simp_all add: plenty_def call_ptr_def)

definition fits :: "(ptr \<Rightarrow> block) \<Rightarrow> ptr \<Rightarrow> second_path \<Rightarrow> bool" where
  "fits pf d1 second \<longleftrightarrow> length (pf d1) < 256 \<and>
     (case second of Same_buffer d2 \<Rightarrow> length (pf d2) < 256 | _ \<Rightarrow> True)"

lemma trace_paths_returns:
  assumes env: "tracing_env K name tf th path_of" and pl: "plenty K"
    and fit: "fits (path_of (dentries s)) d1 second"
  shows "trace_paths K d1 second s \<noteq> None"
proof -
  have dp: "dentry_path_ok K path_of" and km: "kmalloc_ok K"
    using env by (simp_all add: tracing_env_def)
  obtain a where a: "fst (call_ptr K (Kmalloc 256) s) = Ptr a"
    using plenty_calls(1) [OF pl] by blast
  have len: "length (k_fill K (world (snd (call_ptr K (Kmalloc 256) s))) a) = 256"
    using km a by (simp add: kmalloc_ok_def call_ptr_def)
  show ?thesis using fit a
    by (cases second)
      (auto simp: trace_paths_def fits_def case_prod_beta Let_def path_in_buffer_ok [OF dp] len)
qed

lemma trace_block_returns:
  assumes env: "tracing_env K name tf th path_of" and pl: "plenty K" and m: "mounted s name info"
    and fit: "fits (path_of (dentries s)) d1 second"
  shows "trace_block K rt fl pm er d1 second content s \<noteq> None"
proof -
  obtain b p1 p2 s1 where tp: "trace_paths K d1 second s = Some (b, p1, p2, s1)"
    using trace_paths_returns [OF env pl fit] by auto
  let ?s2 = "snd (call_ptr K (Filp_open name) s1)"
  let ?s3 = "call_void K Set_fs_kernel (snd (call_ptr K (Kmalloc trace_ds_size) ?s2))"
  obtain h t w where "fst (call_ptr K (Filp_open name) s1) = Ptr h"
    "fst (call_ptr K (Kmalloc trace_ds_size) ?s2) = Ptr t"
    "fst (call_ptr K (Kmalloc trace_ds_size) ?s3) = Ptr w"
    using plenty_calls [OF pl] by blast
  with m tp show ?thesis by (auto simp: trace_block_def mounted_def case_prod_beta Let_def)
qed

lemma trace_op_returns:
  assumes env: "tracing_env K name tf th path_of" and pl: "plenty K" and m: "mounted s name info"
    and fit: "fits (path_of (dentries s)) d1 second" and f: "flds \<noteq> None"
  shows "\<exists>l s'. trace_op K rt flds er d1 second content s = Some (l, s')"
proof -
  have "trace_op K rt flds er d1 second content s \<noteq> None"
    using trace_block_returns [OF env pl m fit] m f
    by (auto simp: trace_op_def mounted_def)
  then show ?thesis by auto
qed

text \<open>A path that does not fit the buffer: \<open>strlen\<close> runs on an error pointer.\<close>

lemma long_path_crashes:
  assumes env: "tracing_env K name tf th path_of" and m: "mounted s name info"
    and tr: "traced rt (mask info)" and long: "256 \<le> length (path_of (dentries s) d1)"
  shows "trace_op K rt flds er d1 second content s = None"
proof -
  have dp: "dentry_path_ok K path_of" and km: "kmalloc_ok K"
    using env by (simp_all add: tracing_env_def)
  have "length (k_fill K (world (snd (call_ptr K (Kmalloc 256) s))) a) = 256"
    if "fst (call_ptr K (Kmalloc 256) s) = Ptr a" for a
    using km that by (simp add: kmalloc_ok_def call_ptr_def)
  then have "trace_paths K d1 second s = None"
    using long
    by (cases "fst (call_ptr K (Kmalloc 256) s)")
      (auto simp: trace_paths_def case_prod_beta Let_def path_in_buffer_ok [OF dp])
  then show ?thesis using m tr
    by (cases flds) (auto simp: trace_op_def trace_block_def mounted_def Let_def)
qed

section \<open>The file operations\<close>

text \<open>A file that is open: its private data and lower file, and the inode of its dentry.\<close>

definition open_file :: "ptr \<Rightarrow> ptr \<Rightarrow> ptr \<Rightarrow> 'w st \<Rightarrow> bool" where
  "open_file f lf i s \<longleftrightarrow> trfs_lower_file f s = Some (Some lf) \<and> d_inode (dentries s (f_dentry (files s f))) = Some i"

lemma read_returns:
  assumes env: "tracing_env K name tf th path_of" and pl: "plenty K" and m: "mounted s name info"
    and o: "open_file f lf i s" and fit: "length (path_of (dentries s) (f_dentry (files s f))) < 256"
  shows "\<exists>s'. trfs_read K f buf count s = Some (to_int (fst (k_int K (Vfs_read lf buf count Caller_ppos) (world s))), s')"
proof -
  let ?d = "f_dentry (files s f)"
  have f: "fits (path_of (dentries s)) ?d No_second" using fit by (simp add: fits_def)
  let ?s1 = "snd (call_int K (Vfs_read lf buf count Caller_ppos) s)"
  let ?e = "to_int (fst (k_int K (Vfs_read lf buf count Caller_ppos) (world s)))"
  let ?s2 = "if 0 \<le> ?e then fsstack K (k_attr_atime K) i (lower_file_inode K lf ?s1) ?s1 else ?s1"
  have "mounted ?s2 name info" "dentries ?s2 = dentries s" using m by (simp_all add: mounted_def fsstack_def)
  moreover from this have "inode_fields ?d ?s2 \<noteq> None" using o by (simp add: open_file_def inode_fields_def)
  ultimately obtain l s' where "trace_op K READ_CALL (inode_fields ?d ?s2) ?e ?d No_second None ?s2 = Some (l, s')"
    using trace_op_returns [OF env pl, of ?s2] f by metis
  then show ?thesis using o
    by (auto simp: trfs_read_def open_file_def call_int_def Let_def split: if_splits)
qed

lemma write_returns:
  assumes env: "tracing_env K name tf th path_of" and pl: "plenty K" and m: "mounted s name info"
    and o: "open_file f lf i s" and fit: "length (path_of (dentries s) (f_dentry (files s f))) < 256"
  shows "\<exists>s'. trfs_write K f buf count s = Some (to_int (fst (k_int K (Vfs_write lf buf count Caller_ppos) (world s))), s')"
proof -
  let ?d = "f_dentry (files s f)"
  have f: "fits (path_of (dentries s)) ?d No_second" using fit by (simp add: fits_def)
  let ?s1 = "snd (call_int K (Vfs_write lf buf count Caller_ppos) s)"
  let ?e = "to_int (fst (k_int K (Vfs_write lf buf count Caller_ppos) (world s)))"
  have "mounted ?s1 name info" using m by (simp add: mounted_def)
  moreover have "inode_fields ?d ?s1 \<noteq> None" using o by (simp add: open_file_def inode_fields_def)
  ultimately obtain l s' where t: "trace_op K WRITE_CALL (inode_fields ?d ?s1) ?e ?d No_second (Some buf) ?s1 = Some (l, s')"
    using trace_op_returns [OF env pl, of ?s1] f by (metis call_int_frame(2))
  then have "dentries s' = dentries s" using trace_op_frame(2) [OF t] by simp
  then show ?thesis using o t
    by (auto simp: trfs_write_def open_file_def call_int_def Let_def case_prod_beta)
qed

lemma release_returns:
  assumes env: "tracing_env K name tf th path_of" and pl: "plenty K" and m: "mounted s name info"
    and o: "private_data (files s f) \<noteq> None" and fit: "length (path_of (dentries s) (f_dentry (files s f))) < 256"
  shows "\<exists>s'. trfs_file_release K i f s = Some (0, s')"
proof -
  let ?d = "f_dentry (files s f)"
  obtain a info where pd: "private_data (files s f) = Some (a, info)" using o by auto
  have f: "fits (path_of (dentries s)) ?d No_second" using fit by (simp add: fits_def)
  define s1 where "s1 = (case lower_file info of None \<Rightarrow> s | Some lf \<Rightarrow>
    call_void K (Fput lf) (upd_file f (\<lambda>x. x\<lparr>private_data := Some (a, info\<lparr>lower_file := None\<rparr>)\<rparr>) s))"
  have s1: "mounted s1 name info'" if "mounted s name info'" for info'
    using that by (auto simp: s1_def mounted_def split: option.splits)
  have ds: "dentries s1 = dentries s" "f_dentry (files s1 f) = ?d" by (auto simp: s1_def split: option.splits)
  obtain l s' where "trace_op K RELEASE_CALL (Some (0, 0)) 0 ?d No_second None s1 = Some (l, s')"
    using trace_op_returns [OF env pl s1 [OF m]] f ds by (metis option.distinct(1))
  then show ?thesis using pd ds
    by (cases "lower_file info")
      (simp_all add: trfs_file_release_def trfs_lower_file_def trfs_set_lower_file_def s1_def)
qed

lemma open_returns:
  assumes env: "tracing_env K name tf th path_of" and pl: "plenty K" and m: "mounted s name info"
    and d: "d_fsdata (dentries s (f_dentry (files s f))) \<noteq> None" "d_inode (dentries s (f_dentry (files s f))) \<noteq> None"
    and i: "trfs_lower_inode inode s \<noteq> None"
    and fit: "length (path_of (dentries s) (f_dentry (files s f))) < 256"
  shows "trfs_open K inode f s \<noteq> None"
proof -
  let ?d = "f_dentry (files s f)"
  let ?s1 = "snd (call_ptr K (Kzalloc 16) s)" and ?fi = "fst (call_ptr K (Kzalloc 16) s)"
  have f: "fits (path_of (dentries s)) ?d No_second" using fit by (simp add: fits_def)
  show ?thesis
  proof (cases "d_unhashed (dentries s ?d) \<or> deref ?fi = None")
    case True
    then show ?thesis by (auto simp: trfs_open_def Let_def case_prod_beta)
  next
    case False
    then obtain a where a: "deref ?fi = Some a" by auto
    define s2 where "s2 = upd_file f (\<lambda>x. x\<lparr>private_data := Some (a, \<lparr>lower_file = None, lower_vm_ops = None\<rparr>)\<rparr>) ?s1"
    obtain b dinfo where fs: "d_fsdata (dentries s ?d) = Some (b, dinfo)" using d(1) by auto
    then have "trfs_get_lower_path K ?d s2 \<noteq> None" by (simp add: s2_def trfs_get_lower_path_def Let_def)
    then obtain lp s3 where g: "trfs_get_lower_path K ?d s2 = Some (lp, s3)" by auto
    note G = get_lower_path_effect [OF g]
    let ?c = "call_ptr K (Dentry_open lp (f_flags (files s3 f))) s3"
    let ?s4 = "call_void K (Path_put lp) (snd ?c)"
    have pd: "private_data (files ?s4 f) = Some (a, \<lparr>lower_file = None, lower_vm_ops = None\<rparr>)"
      using G(3) by (simp add: s2_def)
    define lf where "lf = (case fst ?c of Err_ptr e \<Rightarrow> None | p \<Rightarrow> deref p)"
    define er where "er = (case fst ?c of Err_ptr e \<Rightarrow> e | p \<Rightarrow> 0)"
    define s5 where "s5 = (case fst ?c of Err_ptr e \<Rightarrow> ?s4
      | p \<Rightarrow> upd_file f (\<lambda>x. x\<lparr>private_data := Some (a, \<lparr>lower_file = deref p, lower_vm_ops = None\<rparr>)\<rparr>) ?s4)"
    have fr: "sb s5 = sb s" "dentries s5 = dentries s" "inodes s5 = inodes s"
      using G(1,2,4) by (auto simp: s5_def s2_def split: kptr.splits)
    then have m5: "mounted s5 name info" using m by (simp add: mounted_def)
    let ?flds = "do { i \<leftarrow> d_inode (dentries s5 ?d); Some (f_flags (files s5 f), i_mode (attrs (inodes s5 i))) }"
    have "?flds \<noteq> None" using d(2) fr by auto
    then obtain l s6 where t: "trace_op K OPEN_CALL ?flds er ?d No_second None s5 = Some (l, s6)"
      using trace_op_returns [OF env pl m5] f fr by metis
    obtain li where e: "trfs_lower_inode inode s6 = Some li"
      using i trace_op_frame(1) [OF t] fr(3) by (auto simp: trfs_lower_inode_def)
    have "\<not> d_unhashed (dentries s ?d)" using False by simp
    then show ?thesis
      using a g t e pd
      by (cases "fst ?c") (auto simp: trfs_open_def Let_def case_prod_beta s2_def [symmetric] er_def s5_def
          trfs_lower_file_def trfs_set_lower_file_def simp del: call_ptr_frame)
  qed
qed

section \<open>Removing and renaming\<close>

text \<open>Lower parents exist and are positive dentries that stay what they are while in use.\<close>

definition dirs_ok :: "'w kernel \<Rightarrow> (ptr \<Rightarrow> bool) \<Rightarrow> bool" where
  "dirs_ok K D \<longleftrightarrow> stable_dirs K D \<and> (\<forall>d w. \<exists>p. fst (k_ptr K (Dget_parent d) w) = Ptr p) \<and>
     (\<forall>p w. D p \<longrightarrow> ld_inode (k_ldentry K w p) \<noteq> None)"

lemma dirs_parent:
  assumes "dirs_ok K D"
  shows "\<exists>p. fst (call_ptr K (Dget_parent d) s) = Ptr p \<and> D p"
  using assms by (fastforce simp: dirs_ok_def stable_dirs_def call_ptr_def)

lemma dirs_inode: "dirs_ok K D \<Longrightarrow> D p \<Longrightarrow> \<exists>i. lower_d_inode K p s = Some i"
  by (auto simp: dirs_ok_def lower_d_inode_def)

lemma get_lower_path_returns:
  assumes "on_lower d lp ld s"
  shows "\<exists>s'. trfs_get_lower_path K d s = Some (lp, s') \<and> dentries s' = dentries s \<and>
    inodes s' = inodes s \<and> sb s' = sb s"
  using assms by (auto simp: on_lower_def trfs_get_lower_path_def Let_def pathcpy_def)

lemma lock_parent_returns:
  assumes "dirs_ok K D"
  shows "\<exists>pd s'. lock_parent K (Some ld) s = Some (pd, s') \<and> D pd \<and> dentries s' = dentries s \<and>
    inodes s' = inodes s \<and> sb s' = sb s"
proof -
  obtain p where p: "fst (call_ptr K (Dget_parent ld) s) = Ptr p" "D p"
    using dirs_parent [OF assms] by blast
  obtain i where "lower_d_inode K p (snd (call_ptr K (Dget_parent ld) s)) = Some i"
    using dirs_inode [OF assms p(2)] by blast
  with p show ?thesis by (simp add: lock_parent_def case_prod_beta Let_def)
qed

lemma unlock_dir_returns: "dirs_ok K D \<Longrightarrow> D pd \<Longrightarrow> unlock_dir K pd s \<noteq> None"
  using dirs_inode [of K D pd s] by (auto simp: unlock_dir_def Let_def)

lemma with_parent_returns:
  assumes dirs: "dirs_ok K D" and ld: "on_lower d lp ld s"
    and body: "\<And>pd pi s1. D pd \<Longrightarrow> inodes s1 = inodes s \<Longrightarrow> dentries s1 = dentries s \<Longrightarrow> sb s1 = sb s \<Longrightarrow>
      body lp pd ld pi s1 \<noteq> None"
  shows "with_parent K d body s \<noteq> None"
proof -
  obtain s1 where 1: "trfs_get_lower_path K d s = Some (lp, s1)" "dentries s1 = dentries s"
    "inodes s1 = inodes s" "sb s1 = sb s"
    using get_lower_path_returns [OF ld] by blast
  obtain pd s2 where 2: "lock_parent K (Some ld) s1 = Some (pd, s2)" "D pd" "dentries s2 = dentries s1"
    "inodes s2 = inodes s1" "sb s2 = sb s1"
    using lock_parent_returns [OF dirs] by blast
  obtain pi where 3: "lower_d_inode K pd s2 = Some pi" using dirs_inode [OF dirs 2(2)] by blast
  obtain er l s3 where 4: "body lp pd ld pi s2 = Some (er, l, s3)"
    using body [OF 2(2), of s2 pi] 1 2 by auto
  obtain s4 where "unlock_dir K pd s3 = Some s4" using unlock_dir_returns [OF dirs 2(2)] by blast
  with 1 2 3 4 ld show ?thesis
    by (simp add: with_parent_def in_parent_def out_parent_def on_lower_def Let_def)
qed

lemma rmdir_returns:
  fixes K :: "'w kernel"
  assumes env: "tracing_env K name tf th path_of" and pl: "plenty K" and m: "mounted s name info"
    and dirs: "dirs_ok K D" and ld: "on_lower d lp ld s" and fit: "length (path_of (dentries s) d) < 256"
  shows "trfs_rmdir K dir d s \<noteq> None"
  unfolding trfs_rmdir_def
proof (rule with_parent_returns [OF dirs ld])
  fix pd pi and s1 :: "'w st"
  assume pd: "D pd" and s1: "inodes s1 = inodes s" "dentries s1 = dentries s" "sb s1 = sb s"
  let ?s2 = "snd (call_i32 K (Vfs_rmdir pi ld) s1)"
  have "mounted ?s2 name info" "fits (path_of (dentries ?s2)) d No_second"
    using m s1 fit by (simp_all add: mounted_def fits_def)
  then obtain l s3 where "trace_op K RMDIR_CALL (Some (dir_opflags dir ?s2, i_mode (attrs (inodes ?s2 dir)))) 0
      d No_second None ?s2 = Some (l, s3)"
    using trace_op_returns [OF env pl] by blast
  moreover obtain i where "lower_d_inode K pd (case d_inode (dentries (d_drop K d s3) d) of
      None \<Rightarrow> d_drop K d s3 | Some i \<Rightarrow> set_nlink i 0 (d_drop K d s3)) = Some i"
    using dirs_inode [OF dirs pd] by blast
  ultimately show "rmdir_body K dir d lp pd ld pi s1 \<noteq> None"
    by (auto simp: rmdir_body_def Let_def case_prod_beta)
qed

lemma unlink_returns:
  assumes env: "tracing_env K name tf th path_of" and pl: "plenty K" and m: "mounted s name info"
    and dirs: "dirs_ok K D" and ld: "on_lower d lp ld s" and fit: "length (path_of (dentries s) d) < 256"
    and i: "trfs_lower_inode dir s \<noteq> None" "d_inode (dentries s d) = Some i" "trfs_lower_inode i s \<noteq> None"
  shows "trfs_unlink K dir d s \<noteq> None"
proof -
  obtain s1 where 1: "trfs_get_lower_path K d s = Some (lp, s1)" "dentries s1 = dentries s"
    "inodes s1 = inodes s" "sb s1 = sb s"
    using get_lower_path_returns [OF ld] by blast
  obtain pd s2 where 2: "lock_parent K (Some ld) (call_void K (Dget ld) s1) = Some (pd, s2)" "D pd"
    "dentries s2 = dentries s" "inodes s2 = inodes s" "sb s2 = sb s"
    using lock_parent_returns [OF dirs, of ld "call_void K (Dget ld) s1"] 1 by auto
  obtain ldi where 3: "trfs_lower_inode dir s = Some ldi" using i by blast
  let ?s3 = "snd (call_i32 K (Vfs_unlink ldi ld) s2)"
  have "mounted ?s3 name info" "fits (path_of (dentries ?s3)) d No_second"
    using m 2 fit by (simp_all add: mounted_def fits_def)
  then obtain l s4 where t: "trace_op K UNLINK_CALL (Some (0, 0)) 0 d No_second None ?s3 = Some (l, s4)"
    using trace_op_returns [OF env pl] by blast
  have "inodes s4 = inodes s" "dentries s4 = dentries s" using trace_op_frame(1,2) [OF t] 2 by simp_all
  then have "unlink_body K dir d ldi ld s2 \<noteq> None"
    using t i by (auto simp: unlink_body_def Let_def case_prod_beta trfs_lower_inode_def fsstack_def)
  then obtain er l' s5 where "unlink_body K dir d ldi ld s2 = Some (er, l', s5)" by auto
  moreover obtain s6 where "unlock_dir K pd s5 = Some s6" using unlock_dir_returns [OF dirs 2(2)] by blast
  ultimately show ?thesis using 1 2 3 ld
    by (simp add: trfs_unlink_def on_lower_def Let_def)
qed

lemma rename_returns:
  assumes env: "tracing_env K name tf th path_of" and pl: "plenty K" and m: "mounted s name info"
    and dirs: "dirs_ok K D" and lo: "on_lower od op lo s" and ln: "on_lower nd np ln s"
    and fit: "fits (path_of (dentries s)) od (Same_buffer nd)"
  shows "trfs_rename K odir od ndir nd s \<noteq> None"
proof -
  obtain s1 where 1: "trfs_get_lower_path K od s = Some (op, s1)" "dentries s1 = dentries s" "sb s1 = sb s"
    using get_lower_path_returns [OF lo] by blast
  have "on_lower nd np ln s1" using ln 1 by (simp add: on_lower_def)
  then obtain s2 where 2: "trfs_get_lower_path K nd s1 = Some (np, s2)" "dentries s2 = dentries s" "sb s2 = sb s"
    using get_lower_path_returns 1 by metis
  let ?s3 = "snd (call_ptr K (Dget_parent lo) s2)" and ?s4 = "\<lambda>s. snd (call_ptr K (Dget_parent ln) s)"
  obtain p q where p: "fst (call_ptr K (Dget_parent lo) s2) = Ptr p" "D p"
    "fst (call_ptr K (Dget_parent ln) ?s3) = Ptr q" "D q"
    using dirs_parent [OF dirs] by meson
  let ?t = "call_ptr K (Lock_rename p q) (?s4 ?s3)"
  obtain pi qi where i: "lower_d_inode K p (snd ?t) = Some pi" "lower_d_inode K q (snd ?t) = Some qi"
    using dirs_inode [OF dirs] p by meson
  let ?s5 = "snd (call_i32 K (Vfs_rename pi lo qi ln) (snd ?t))"
  have "mounted ?s5 name info" "fits (path_of (dentries ?s5)) od (Same_buffer nd)"
    using m 2 fit by (simp_all add: mounted_def)
  then obtain l s6 where t: "trace_op K RENAME_CALL (Some (0, 0)) 0 od (Same_buffer nd) None ?s5 = Some (l, s6)"
    using trace_op_returns [OF env pl] by blast
  obtain qi' where q6: "lower_d_inode K q s6 = Some qi'" using dirs_inode [OF dirs p(4)] by blast
  let ?s7 = "fsstack K (k_inode_size K) ndir qi' (fsstack K (k_attr_all K) ndir qi' s6)"
  obtain pi' where p7: "lower_d_inode K p ?s7 = Some pi'" using dirs_inode [OF dirs p(2)] by blast
  have "rename_body K odir od ndir nd (fst ?t) lo ln p q (snd ?t) \<noteq> None"
    using i t q6 p7 by (auto simp: rename_body_def Let_def case_prod_beta)
  then obtain er l' s8 where "rename_body K odir od ndir nd (fst ?t) lo ln p q (snd ?t) = Some (er, l', s8)" by auto
  then show ?thesis using 1 2 p lo ln
    by (simp add: trfs_rename_def on_lower_def Let_def case_prod_beta)
qed

section \<open>Making names\<close>

text \<open>
  A lower operation that succeeds in making a name makes its dentry positive, and the calls
  of the tracing code leave it so; the inode cache keeps the lower inodes of the inodes it
  has.
\<close>

fun creates :: "icall \<Rightarrow> ptr option" where
  "creates (Vfs_create pi ld m x) = Some ld"
| "creates (Vfs_link lo pi ld) = Some ld"
| "creates (Vfs_symlink pi ld str) = Some ld"
| "creates (Vfs_mkdir pi ld m) = Some ld"
| "creates (Vfs_mknod pi ld m dev) = Some ld"
| "creates _ = None"

definition positive :: "'w kernel \<Rightarrow> ptr \<Rightarrow> 'w \<Rightarrow> bool" where
  "positive K ld w \<longleftrightarrow> ld_inode (k_ldentry K w ld) \<noteq> None"

definition kept_by_tracing :: "'w kernel \<Rightarrow> ('w \<Rightarrow> bool) \<Rightarrow> bool" where
  "kept_by_tracing K P \<longleftrightarrow>
     (\<forall>w n. P w \<longrightarrow> P (snd (k_ptr K (Kmalloc n) w))) \<and>
     (\<forall>w nm. P w \<longrightarrow> P (snd (k_ptr K (Filp_open nm) w))) \<and>
     (\<forall>w. P w \<longrightarrow> P (k_void K Set_fs_kernel w)) \<and>
     (\<forall>w. P w \<longrightarrow> P (k_void K Set_fs_old w)) \<and>
     (\<forall>w f. P w \<longrightarrow> P (k_void K (Filp_close f) w)) \<and>
     (\<forall>w f b n. P w \<longrightarrow> P (snd (k_int K (Vfs_write f b n Own_offset) w)))"

definition names_ok :: "'w kernel \<Rightarrow> bool" where
  "names_ok K \<longleftrightarrow>
     (\<forall>c ld w. creates c = Some ld \<longrightarrow> to_int (fst (k_int K c w)) = 0 \<longrightarrow> positive K ld (snd (k_int K c w))) \<and>
     (\<forall>ld. kept_by_tracing K (positive K ld)) \<and>
     (\<forall>t h ns w j. lower_inode (ns j) \<noteq> None \<longrightarrow> lower_inode (fst (snd (k_iget5 K t h ns w)) j) \<noteq> None)"

lemma trace_op_keeps:
  assumes k: "kept_by_tracing K P" and run: "trace_op K rt flds er d1 second content s = Some (l, s')"
    and P: "P (world s)"
  shows "P (world s')"
proof -
  have p: "P (world (snd (call_ptr K (Kmalloc n) s)))" "P (world (snd (call_ptr K (Filp_open nm) s)))"
    "P (world (call_void K Set_fs_kernel s))" "P (world (call_void K Set_fs_old s))"
    "P (world (call_void K (Filp_close f) s))" "P (world (trace_write K f b m s))"
    if "P (world s)" for n nm f b m s
    using k that by (simp_all add: kept_by_tracing_def call_simps trace_write_def)
  have w: "P (world (trace_writes K f b p1 sec p2 c er s))" if "P (world s)" for f b p1 sec p2 c er s
    using that by (auto simp: trace_writes_def Let_def p split: option.splits)
  have b: "P (world s')" if "trace_block K rt fl pm er d1 second content s = Some (l, s')" for fl pm
    using that P
    by (auto simp: trace_block_def bind_eq_Some_conv case_prod_beta Let_def p w dest!: trace_paths_frame(6))
  show ?thesis using run P b by (auto simp: trace_op_def bind_eq_Some_conv split: if_splits)
qed

lemma interpose_returns:
  assumes ok: "names_ok K" "dentry_path_ok K path_of" and s: "s_fs_info (sb s) \<noteq> None"
    "p_dentry lp = Some ld" "positive K ld (world s)"
  shows "\<exists>r s'. trfs_interpose K d lp s = Some (r, s') \<and> sb s' = sb s \<and>
    (\<forall>j. trfs_lower_inode j s \<noteq> None \<longrightarrow> trfs_lower_inode j s' \<noteq> None) \<and>
    path_of (dentries s') = path_of (dentries s)"
proof -
  have ig: "\<exists>p s'. trfs_iget K (Some li) s = Some (p, s') \<and> sb s' = sb s \<and> dentries s' = dentries s \<and>
    (\<forall>j. trfs_lower_inode j s \<noteq> None \<longrightarrow> trfs_lower_inode j s' \<noteq> None)" for li
  proof -
    obtain p ns w where g: "k_iget5 K (trfs_inode_test s li) (i_ino (l_attr (k_linode K (world s) li)))
        (inodes s) (world s) = (p, ns, w)" by (metis prod_cases3)
    have keep: "lower_inode (inodes s j) \<noteq> None \<Longrightarrow> lower_inode (ns j) \<noteq> None" for j
      using ok(1) g unfolding names_ok_def by (metis fst_conv snd_conv)
    have init: "lower_inode (inodes (init_inode K i li s1) j) = (if j = i then Some li else lower_inode (inodes s1 j))"
      "sb (init_inode K i li s1) = sb s1" "dentries (init_inode K i li s1) = dentries s1" for i j and s1 :: "'a st"
      by (simp_all add: init_inode_def Let_def trfs_set_lower_inode_def trfs_lower_inode_def fsstack_def)
    show ?thesis using keep g
      by (cases p) (auto simp: trfs_iget_def Let_def case_prod_beta init trfs_lower_inode_def)
  qed
  obtain li where li: "lower_d_inode K ld s = Some li" using s(3) by (auto simp: positive_def lower_d_inode_def)
  obtain x where x: "trfs_lower_super s = Some x" using s(1) by (auto simp: trfs_lower_super_def)
  obtain p s1 where 1: "trfs_iget K (Some li) s = Some (p, s1)" "sb s1 = sb s" "dentries s1 = dentries s"
    "\<forall>j. trfs_lower_inode j s \<noteq> None \<longrightarrow> trfs_lower_inode j s1 \<noteq> None" using ig by metis
  show ?thesis
    using 1 li x s(2) ok(2)
    by (cases p) (auto simp: trfs_interpose_def interpose_dentry_def Let_def case_prod_beta
        dentry_path_ok_def trfs_lower_inode_def)
qed

text \<open>What the operations that make a name need: one name and its directory.\<close>

definition new_name_ok :: "'w kernel \<Rightarrow> ((ptr \<Rightarrow> dentry) \<Rightarrow> ptr \<Rightarrow> block) \<Rightarrow> (ptr \<Rightarrow> bool) \<Rightarrow> ptr \<Rightarrow> ptr \<Rightarrow> 'w st \<Rightarrow> bool" where
  "new_name_ok K path_of D dir d s \<longleftrightarrow> dirs_ok K D \<and> names_ok K \<and> (\<exists>lp ld. on_lower d lp ld s) \<and>
     trfs_lower_inode dir s \<noteq> None \<and> length (path_of (dentries s) d) < 256"

text \<open>The end of these operations: the attributes of the parent.\<close>

lemma made_returns:
  assumes "dirs_ok K D" "D pd" "trfs_lower_inode dir s \<noteq> None"
  shows "\<exists>li pi. trfs_lower_inode dir s = Some li \<and>
    lower_d_inode K pd (fsstack K (k_attr_times K) dir li s) = Some pi"
  using assms dirs_inode [OF assms(1,2)] by (meson option.exhaust_sel)

lemma trace_op_mounted:
  assumes t: "trace_op K rt flds er d second content s = Some (l, s')" and m: "mounted s name info"
  shows "s_fs_info (sb s') \<noteq> None"
proof (cases "s' = s")
  case True
  then show ?thesis using m by (auto simp: mounted_def)
next
  case False
  then obtain fl pm where "trace_block K rt fl pm er d second content s = Some (l, s')"
    using t by (auto simp: trace_op_def bind_eq_Some_conv split: if_splits)
  from trace_block_frame [OF this] show ?thesis by auto
qed

lemma trace_then_interpose_returns:
  assumes env: "tracing_env K name tf th path_of" and pl: "plenty K" and m: "mounted s name info"
    and n: "names_ok K" "length (path_of (dentries s) d) < 256" "trfs_lower_inode dir s \<noteq> None"
    and ld: "p_dentry lp = Some ld" "positive K ld (world s)"
  shows "\<exists>l s1 r s2. trace_op K rt (Some flds) er d No_second None s = Some (l, s1) \<and>
    trfs_interpose K d lp s1 = Some (r, s2) \<and> trfs_lower_inode dir s2 \<noteq> None"
proof -
  have "fits (path_of (dentries s)) d No_second" using n(2) by (simp add: fits_def)
  then obtain l s1 where t: "trace_op K rt (Some flds) er d No_second None s = Some (l, s1)"
    using trace_op_returns [OF env pl m] by blast
  have "kept_by_tracing K (positive K ld)" using n(1) by (simp add: names_ok_def)
  from trace_op_keeps [OF this t ld(2)] have pos: "positive K ld (world s1)" .
  have fr: "trfs_lower_inode dir s1 \<noteq> None" using trace_op_frame(1) [OF t] n(3) by (simp add: trfs_lower_inode_def)
  have sb1: "s_fs_info (sb s1) \<noteq> None"
    by (rule trace_op_mounted [OF t m])
  have dp: "dentry_path_ok K path_of" using env by (simp add: tracing_env_def)
  show ?thesis using interpose_returns [OF n(1) dp sb1 ld(1) pos] t fr by blast
qed

lemma create_returns:
  fixes K :: "'w kernel"
  assumes env: "tracing_env K name tf th path_of" and pl: "plenty K" and m: "mounted s name info"
    and n: "new_name_ok K path_of D dir d s"
  shows "trfs_create K dir d mode excl s \<noteq> None"
proof -
  obtain lp ld where ld: "on_lower d lp ld s" using n by (auto simp: new_name_ok_def)
  have dirs: "dirs_ok K D" using n by (simp add: new_name_ok_def)
  show ?thesis unfolding trfs_create_def
  proof (rule with_parent_returns [OF dirs ld])
    fix pd pi and s1 :: "'w st"
    assume pd: "D pd" and s1: "inodes s1 = inodes s" "dentries s1 = dentries s" "sb s1 = sb s"
    let ?c = "Vfs_create pi ld mode excl" and ?s2 = "snd (call_i32 K (Vfs_create pi ld mode excl) s1)"
    have m2: "mounted ?s2 name info" and fit: "length (path_of (dentries ?s2) d) < 256"
      and li: "trfs_lower_inode dir ?s2 \<noteq> None"
      using m n s1 by (simp_all add: mounted_def new_name_ok_def trfs_lower_inode_def)
    have nm: "names_ok K" using n by (simp add: new_name_ok_def)
    have ld': "p_dentry lp = Some ld" using ld by (simp add: on_lower_def)
    show "create_body K dir d mode excl lp pd ld pi s1 \<noteq> None"
    proof (cases "fst (call_i32 K ?c s1) = 0")
      case False
      obtain l s3 where "trace_op K CREATE_CALL (Some (dir_opflags dir ?s2, mode)) (fst (call_i32 K ?c s1)) d No_second None ?s2 = Some (l, s3)"
        using trace_op_returns [OF env pl m2, of d No_second] fit by (fastforce simp: fits_def)
      with False show ?thesis by (simp add: create_body_def Let_def case_prod_beta)
    next
      case True
      have "positive K ld (world ?s2)"
        using nm True by (simp add: names_ok_def call_i32_def call_int_def)
      then obtain l s3 r s4 where 1: "trace_op K CREATE_CALL (Some (dir_opflags dir ?s2, mode)) 0 d No_second None ?s2 = Some (l, s3)"
        "trfs_interpose K d lp s3 = Some (r, s4)" "trfs_lower_inode dir s4 \<noteq> None"
        using trace_then_interpose_returns [OF env pl m2 nm fit li ld'] by blast
      with True made_returns [OF dirs pd 1(3)] show ?thesis
        by (auto simp: create_body_def Let_def case_prod_beta)
    qed
  qed
qed

lemma mkdir_returns:
  fixes K :: "'w kernel"
  assumes env: "tracing_env K name tf th path_of" and pl: "plenty K" and m: "mounted s name info"
    and n: "new_name_ok K path_of D dir d s"
  shows "trfs_mkdir K dir d mode s \<noteq> None"
proof -
  obtain lp ld where ld: "on_lower d lp ld s" using n by (auto simp: new_name_ok_def)
  have dirs: "dirs_ok K D" using n by (simp add: new_name_ok_def)
  show ?thesis unfolding trfs_mkdir_def
  proof (rule with_parent_returns [OF dirs ld])
    fix pd pi and s1 :: "'w st"
    assume pd: "D pd" and s1: "inodes s1 = inodes s" "dentries s1 = dentries s" "sb s1 = sb s"
    let ?c = "Vfs_mkdir pi ld mode" and ?s2 = "snd (call_i32 K (Vfs_mkdir pi ld mode) s1)"
    have m2: "mounted ?s2 name info" and fit: "length (path_of (dentries ?s2) d) < 256"
      and li: "trfs_lower_inode dir ?s2 \<noteq> None"
      using m n s1 by (simp_all add: mounted_def new_name_ok_def trfs_lower_inode_def)
    have nm: "names_ok K" using n by (simp add: new_name_ok_def)
    have ld': "p_dentry lp = Some ld" using ld by (simp add: on_lower_def)
    show "mkdir_body K dir d mode lp pd ld pi s1 \<noteq> None"
    proof (cases "fst (call_i32 K ?c s1) = 0")
      case False
      then show ?thesis by (simp add: mkdir_body_def Let_def case_prod_beta)
    next
      case True
      have "positive K ld (world ?s2)"
        using nm True by (simp add: names_ok_def call_i32_def call_int_def)
      then obtain l s3 r s4 where 1: "trace_op K MKDIR_CALL (Some (dir_opflags dir ?s2, mode)) 0 d No_second None ?s2 = Some (l, s3)"
        "trfs_interpose K d lp s3 = Some (r, s4)" "trfs_lower_inode dir s4 \<noteq> None"
        using trace_then_interpose_returns [OF env pl m2 nm fit li ld'] by blast
      with True made_returns [OF dirs pd 1(3)] show ?thesis
        by (auto simp: mkdir_body_def Let_def case_prod_beta)
    qed
  qed
qed

lemma interpose_then_trace_returns:
  assumes env: "tracing_env K name tf th path_of" and pl: "plenty K" and m: "mounted s name info"
    and n: "names_ok K" "fits (path_of (dentries s)) e second" "trfs_lower_inode dir s \<noteq> None"
    and ld: "p_dentry lp = Some ld" "positive K ld (world s)"
  shows "\<exists>r s1 l s2. trfs_interpose K d lp s = Some (r, s1) \<and>
    trace_op K rt (Some flds) er e second None s1 = Some (l, s2) \<and> trfs_lower_inode dir s2 \<noteq> None"
proof -
  have dp: "dentry_path_ok K path_of" using env by (simp add: tracing_env_def)
  have sb: "s_fs_info (sb s) \<noteq> None" using m by (auto simp: mounted_def)
  obtain r s1 where i: "trfs_interpose K d lp s = Some (r, s1)" "sb s1 = sb s"
    "trfs_lower_inode dir s1 \<noteq> None" "path_of (dentries s1) = path_of (dentries s)"
    using interpose_returns [OF n(1) dp sb ld] n(3) by blast
  have "mounted s1 name info" using m i(2) by (simp add: mounted_def)
  then obtain l s2 where t: "trace_op K rt (Some flds) er e second None s1 = Some (l, s2)"
    using trace_op_returns [OF env pl] n(2) i(4) by (metis option.distinct(1))
  then show ?thesis using i trace_op_frame(1) [OF t] by (auto simp: trfs_lower_inode_def)
qed

lemma symlink_mknod_returns:
  fixes K :: "'w kernel"
  assumes env: "tracing_env K name tf th path_of" and pl: "plenty K" and m: "mounted s name info"
    and n: "new_name_ok K path_of D dir d s"
  shows "trfs_symlink K dir d str s \<noteq> None" "trfs_mknod K dir d mode dev s \<noteq> None"
proof -
  obtain lp ld where ld: "on_lower d lp ld s" using n by (auto simp: new_name_ok_def)
  have dirs: "dirs_ok K D" and nm: "names_ok K" using n by (simp_all add: new_name_ok_def)
  have ld': "p_dentry lp = Some ld" using ld by (simp add: on_lower_def)
  have step: "\<exists>r s3 l s4. trfs_interpose K d lp (snd (call_i32 K c s1)) = Some (r, s3) \<and>
      trace_op K rt (Some flds) 0 d second None s3 = Some (l, s4) \<and> trfs_lower_inode dir s4 \<noteq> None"
    if "creates c = Some ld" "fst (call_i32 K c s1) = 0" "inodes s1 = inodes s" "dentries s1 = dentries s"
      "sb s1 = sb s" "\<And>x. second \<noteq> Same_buffer x" for c s1 rt flds second
  proof (rule interpose_then_trace_returns [OF env pl _ nm _ _ ld'])
    show "mounted (snd (call_i32 K c s1)) name info" using m that by (simp add: mounted_def)
    show "fits (path_of (dentries (snd (call_i32 K c s1)))) d second"
      using n that by (cases second) (auto simp: fits_def new_name_ok_def)
    show "trfs_lower_inode dir (snd (call_i32 K c s1)) \<noteq> None"
      using n that by (simp add: new_name_ok_def trfs_lower_inode_def)
    show "positive K ld (world (snd (call_i32 K c s1)))"
      using nm that by (simp add: names_ok_def call_i32_def call_int_def)
  qed
  show "trfs_symlink K dir d str s \<noteq> None" unfolding trfs_symlink_def
  proof (rule with_parent_returns [OF dirs ld])
    fix pd pi and s1 :: "'w st"
    assume pd: "D pd" and s1: "inodes s1 = inodes s" "dentries s1 = dentries s" "sb s1 = sb s"
    show "symlink_body K dir d str lp pd ld pi s1 \<noteq> None"
    proof (cases "fst (call_i32 K (Vfs_symlink pi ld str) s1) = 0")
      case True
      from step [OF _ True s1, of "Given_string str" SYMLINK_CALL "(0, 0)"] True show ?thesis
        using made_returns [OF dirs pd] by (fastforce simp: symlink_body_def Let_def case_prod_beta)
    qed (simp add: symlink_body_def Let_def case_prod_beta)
  qed
  show "trfs_mknod K dir d mode dev s \<noteq> None" unfolding trfs_mknod_def
  proof (rule with_parent_returns [OF dirs ld])
    fix pd pi and s1 :: "'w st"
    assume pd: "D pd" and s1: "inodes s1 = inodes s" "dentries s1 = dentries s" "sb s1 = sb s"
    show "mknod_body K dir d mode dev lp pd ld pi s1 \<noteq> None"
    proof (cases "fst (call_i32 K (Vfs_mknod pi ld mode dev) s1) = 0")
      case True
      from step [OF _ True s1, of No_second MKNOD_CALL "(dev, mode)"] True show ?thesis
        using made_returns [OF dirs pd] by (fastforce simp: mknod_body_def Let_def case_prod_beta)
    qed (simp add: mknod_body_def Let_def case_prod_beta)
  qed
qed

section \<open>Linking\<close>

text \<open>
  Interposing leaves a lower dentry positive, and gives the new dentry its inode unless it
  reports an error or an alias; an alias counts as an error to the caller, who takes the low
  32 bits of its address for an error number (they are not all 0).
\<close>

definition kept_by_interposing :: "'w kernel \<Rightarrow> ('w \<Rightarrow> bool) \<Rightarrow> bool" where
  "kept_by_interposing K P \<longleftrightarrow>
     (\<forall>t h ns w. P w \<longrightarrow> P (snd (snd (k_iget5 K t h ns w)))) \<and>
     (\<forall>li w. P w \<longrightarrow> P (snd (k_ptr K (Igrab li) w))) \<and>
     (\<forall>li w. P w \<longrightarrow> P (k_void K (Iput li) w)) \<and>
     (\<forall>i w. P w \<longrightarrow> P (k_void K (Unlock_new_inode i) w)) \<and>
     (\<forall>i d ds w. P w \<longrightarrow> P (snd (snd (k_d_splice_alias K i d ds w))))"

definition splice_ok :: "'w kernel \<Rightarrow> bool" where
  "splice_ok K \<longleftrightarrow> (\<forall>i d ds w r ds' w'. k_d_splice_alias K i d ds w = (r, ds', w') \<longrightarrow>
     (\<forall>x. x \<noteq> d \<longrightarrow> d_inode (ds' x) = d_inode (ds x)) \<and>
     (case r of Null \<Rightarrow> d_inode (ds' d) = Some i | p \<Rightarrow> to_int (PTR_ERR p) \<noteq> 0))"

lemma init_inode_world: "world (init_inode K i li s) = k_void K (Unlock_new_inode i) (world s)"
  by (simp add: init_inode_def Let_def trfs_set_lower_inode_def call_simps)

lemma iget_keeps:
  assumes k: "kept_by_interposing K P" and run: "trfs_iget K (Some li) s = Some (p, s')" and P: "P (world s)"
  shows "P (world s')"
proof -
  obtain q ns w where g: "k_iget5 K (trfs_inode_test s li) (i_ino (l_attr (k_linode K (world s) li)))
      (inodes s) (world s) = (q, ns, w)" by (metis prod_cases3)
  have "P (snd (snd (k_iget5 K (trfs_inode_test s li) (i_ino (l_attr (k_linode K (world s) li)))
      (inodes s) (world s))))"
    using k P by (simp add: kept_by_interposing_def)
  then have w: "P w" using g by simp
  have v: "P (k_void K (Iput li) w)" "P (snd (k_ptr K (Igrab li) w))"
    "P (k_void K (Unlock_new_inode i) (snd (k_ptr K (Igrab li) w)))" for i
    using k w by (simp_all add: kept_by_interposing_def)
  show ?thesis
    using run w v g
    by (cases q) (auto simp: trfs_iget_def run_simps init_inode_world call_void_def call_ptr_def case_prod_beta)
qed

lemma interpose_keeps:
  assumes k: "kept_by_interposing K P" and sp: "splice_ok K" and run: "trfs_interpose K d lp s = Some (r, s')"
    and P: "P (world s)"
  shows "P (world s')" "x \<noteq> d \<Longrightarrow> d_inode (dentries s' x) = d_inode (dentries s x)"
    "r = 0 \<Longrightarrow> d_inode (dentries s' d) \<noteq> None"
proof -
  obtain p where q: "interpose_dentry K d lp s = Some (p, s')" and r: "r = to_int (PTR_ERR p)"
    using run by (auto simp: trfs_interpose_def run_simps)
  obtain ld li where ld: "p_dentry lp = Some ld" "lower_d_inode K ld s = Some li"
    using q by (auto simp: interpose_dentry_def run_simps)
  show "P (world s')" "x \<noteq> d \<Longrightarrow> d_inode (dentries s' x) = d_inode (dentries s x)"
    "r = 0 \<Longrightarrow> d_inode (dentries s' d) \<noteq> None"
  proof -
    consider (refused) "p = Err_ptr (- EXDEV)" "s' = s"
      | (no_inode) "trfs_iget K (Some li) s = Some (p, s')" "p = Err_ptr (- EACCES) \<or> p = Err_ptr (- ESTALE)"
      | (spliced) i s1 ds w where "trfs_iget K (Some li) s = Some (Ptr i, s1)"
          "k_d_splice_alias K i d (dentries s1) (world s1) = (p, ds, w)" "s' = s1\<lparr>dentries := ds, world := w\<rparr>"
    proof -
      show thesis
        using q ld that
        by (auto simp: interpose_dentry_def run_simps kptr_case_eq_Some case_prod_beta prod_eq_iff
            split: if_splits dest: iget_result)
    qed
    then have "P (world s') \<and> (x \<noteq> d \<longrightarrow> d_inode (dentries s' x) = d_inode (dentries s x)) \<and>
        (r = 0 \<longrightarrow> d_inode (dentries s' d) \<noteq> None)"
    proof cases
      case refused
      then show ?thesis using P r by (simp add: PTR_ERR_def to_int_id errno_defs)
    next
      case no_inode
      then show ?thesis using iget_keeps [OF k _ P] iget_effect(2) [OF no_inode(1)] r
        by (auto simp: PTR_ERR_def to_int_id errno_defs)
    next
      case spliced
      have "P (world s1)" by (rule iget_keeps [OF k spliced(1) P])
      then have "P (snd (snd (k_d_splice_alias K i d (dentries s1) (world s1))))"
        using k by (simp add: kept_by_interposing_def)
      then have "P w" using spliced(2) by simp
      moreover have "(x \<noteq> d \<longrightarrow> d_inode (ds x) = d_inode (dentries s1 x)) \<and>
          (case p of Null \<Rightarrow> d_inode (ds d) = Some i | p \<Rightarrow> to_int (PTR_ERR p) \<noteq> 0)"
        using sp spliced(2) unfolding splice_ok_def by blast
      ultimately show ?thesis using iget_effect(2) [OF spliced(1)] spliced(3) r
        by (cases p) auto
    qed
    then show "P (world s')" "x \<noteq> d \<Longrightarrow> d_inode (dentries s' x) = d_inode (dentries s x)"
      "r = 0 \<Longrightarrow> d_inode (dentries s' d) \<noteq> None" by auto
  qed
qed

text \<open>What a link needs: two names of the mount, the old one positive, the new one another dentry.\<close>

definition two_names_ok ::
  "'w kernel \<Rightarrow> ((ptr \<Rightarrow> dentry) \<Rightarrow> ptr \<Rightarrow> block) \<Rightarrow> (ptr \<Rightarrow> bool) \<Rightarrow> ptr \<Rightarrow> ptr \<Rightarrow> 'w st \<Rightarrow> bool" where
  "two_names_ok K path_of D od nd s \<longleftrightarrow> dirs_ok K D \<and> names_ok K \<and> splice_ok K \<and>
     (\<forall>ld. kept_by_interposing K (positive K ld)) \<and> od \<noteq> nd \<and>
     (\<exists>p ld. on_lower od p ld s) \<and> (\<exists>p ld. on_lower nd p ld s) \<and>
     (\<exists>oi. d_inode (dentries s od) = Some oi \<and> trfs_lower_inode oi s \<noteq> None) \<and>
     fits (path_of (dentries s)) od (Same_buffer nd)"

lemma linked_returns:
  assumes env: "tracing_env K name tf th path_of" and pl: "plenty K" and m: "mounted s name info"
    and n: "two_names_ok K path_of D od nd s0" and ld: "p_dentry np = Some ln" "positive K ln (world s)"
    and s: "dentries s = dentries s0" "inodes s = inodes s0"
  shows "\<exists>r s1. trfs_interpose K nd np s = Some (r, s1) \<and> (r = 0 \<longrightarrow> (\<exists>l s2 lni oi loi ni.
    trace_op K LINK_CALL (Some (0, 0)) 0 od (Same_buffer nd) None s1 = Some (l, s2) \<and>
    lower_d_inode K ln s2 = Some lni \<and> d_inode (dentries s2 od) = Some oi \<and>
    trfs_lower_inode oi s2 = Some loi \<and> d_inode (dentries s2 nd) = Some ni))"
proof -
  have N: "names_ok K" "splice_ok K" "kept_by_interposing K (positive K ln)" "nd \<noteq> od"
    "fits (path_of (dentries s)) od (Same_buffer nd)"
    using n s by (auto simp: two_names_ok_def)
  obtain oi where oi: "d_inode (dentries s od) = Some oi" "trfs_lower_inode oi s \<noteq> None"
    using n s by (auto simp: two_names_ok_def trfs_lower_inode_def)
  have dp: "dentry_path_ok K path_of" using env by (simp add: tracing_env_def)
  have sb: "s_fs_info (sb s) \<noteq> None" using m by (auto simp: mounted_def)
  obtain r s1 where i: "trfs_interpose K nd np s = Some (r, s1)" "sb s1 = sb s"
    "trfs_lower_inode oi s1 \<noteq> None" "path_of (dentries s1) = path_of (dentries s)"
    using interpose_returns [OF N(1) dp sb ld] oi(2) by blast
  note I = interpose_keeps [OF N(3) N(2) i(1) ld(2)]
  have "mounted s1 name info" using m i(2) by (simp add: mounted_def)
  then obtain l s2 where t: "trace_op K LINK_CALL (Some (0, 0)) 0 od (Same_buffer nd) None s1 = Some (l, s2)"
    using trace_op_returns [OF env pl] N(5) i(4) by (metis option.distinct(1))
  note F = trace_op_frame(1,2) [OF t]
  have "kept_by_tracing K (positive K ln)" using N(1) by (simp add: names_ok_def)
  from trace_op_keeps [OF this t I(1)] obtain lni where "lower_d_inode K ln s2 = Some lni"
    by (auto simp: positive_def lower_d_inode_def)
  moreover have "d_inode (dentries s2 od) = Some oi" using I(2) [of od] oi(1) F(2) N(4) by simp
  moreover obtain loi where "trfs_lower_inode oi s2 = Some loi" using i(3) F(1) by (auto simp: trfs_lower_inode_def)
  moreover have "r = 0 \<Longrightarrow> \<exists>ni. d_inode (dentries s2 nd) = Some ni" using I(3) F(2) by auto
  ultimately show ?thesis using i(1) t by blast
qed

lemma link_returns:
  assumes env: "tracing_env K name tf th path_of" and pl: "plenty K" and m: "mounted s name info"
    and n: "two_names_ok K path_of D od nd s"
  shows "trfs_link K od dir nd s \<noteq> None"
proof -
  have dirs: "dirs_ok K D" and nm: "names_ok K" using n by (simp_all add: two_names_ok_def)
  obtain op lo np ln oi where lo: "on_lower od op lo s" and ln: "on_lower nd np ln s"
    and oi: "d_inode (dentries s od) = Some oi"
    using n by (auto simp: two_names_ok_def)
  obtain s1 where 1: "trfs_get_lower_path K od s = Some (op, s1)" "dentries s1 = dentries s" "inodes s1 = inodes s" "sb s1 = sb s"
    using get_lower_path_returns [OF lo] by blast
  have "on_lower nd np ln s1" using ln 1 by (simp add: on_lower_def)
  then obtain s2 where 2: "trfs_get_lower_path K nd s1 = Some (np, s2)" "dentries s2 = dentries s" "inodes s2 = inodes s" "sb s2 = sb s"
    using get_lower_path_returns 1 by metis
  have ld: "p_dentry np = Some ln" "p_dentry op = Some lo" using ln lo by (simp_all add: on_lower_def)
  obtain pd s3 where 3: "lock_parent K (Some ln) s2 = Some (pd, s3)" "D pd" "dentries s3 = dentries s"
    "inodes s3 = inodes s" "sb s3 = sb s"
    using lock_parent_returns [OF dirs, of ln s2] 2 by auto
  obtain pi where 4: "lower_d_inode K pd s3 = Some pi" using dirs_inode [OF dirs 3(2)] by blast
  let ?c = "Vfs_link lo pi ln" and ?s4 = "snd (call_i32 K (Vfs_link lo pi ln) s3)"
  have "link_body K od dir nd sz np lo ln pi s3 \<noteq> None" for sz
  proof (cases "fst (call_i32 K ?c s3) \<noteq> 0")
    case True
    then show ?thesis by (simp add: link_body_def Let_def case_prod_beta)
  next
    case False
    then have pos: "positive K ln (world ?s4)" using nm by (simp add: names_ok_def call_i32_def call_int_def)
    have "mounted ?s4 name info" using m 3 by (simp add: mounted_def)
    from linked_returns [OF env pl this n ld(1) pos] obtain r s5 where
      5: "trfs_interpose K nd np ?s4 = Some (r, s5)" and
      6: "r = 0 \<Longrightarrow> \<exists>l s6 lni oi loi ni. trace_op K LINK_CALL (Some (0, 0)) 0 od (Same_buffer nd) None s5 = Some (l, s6) \<and>
        lower_d_inode K ln s6 = Some lni \<and> d_inode (dentries s6 od) = Some oi \<and>
        trfs_lower_inode oi s6 = Some loi \<and> d_inode (dentries s6 nd) = Some ni"
      using 3 by auto
    show ?thesis
    proof (cases "r = 0")
      case True
      then show ?thesis using 6 5 False
        by (auto simp: link_body_def Let_def case_prod_beta fsstack_def set_nlink_def trfs_lower_inode_def)
    qed (use 5 False in \<open>simp add: link_body_def Let_def case_prod_beta\<close>)
  qed
  then obtain r l s5 where b: "link_body K od dir nd (i_size (attrs (inodes s oi))) np lo ln pi s3 = Some (r, l, s5)"
    by (metis not_None_eq surj_pair)
  obtain s6 where "unlock_dir K pd s5 = Some s6" using unlock_dir_returns [OF dirs 3(2)] by blast
  with 1 2 3 4 b ld oi show ?thesis by (simp add: trfs_link_def Let_def)
qed

end
