(* ===== verification/Replay_Run.thy ===== *)
theory Replay_Run
  imports Replay_Correct
begin

text \<open>
  A whole replay, against a reference: \<open>play\<close> goes through the entries of the trace, makes the
  call of each and compares its result, without files, buffers or offsets. The program does
  the same calls in the same order, and stops where \<open>play\<close> stops.
\<close>

section \<open>The reference\<close>

text \<open>The state is the descriptor the program keeps and the operating system.\<close>

definition play_one :: "'o env \<Rightarrow> trace_entry \<Rightarrow> int \<times> 'o \<Rightarrow> bool \<times> int \<times> 'o" where
  "play_one E e s =
     (case replay_call (fst s) e of
        None \<Rightarrow> (True, s)
      | Some sc \<Rightarrow>
          (let (x, q) = syscall E sc (snd s) in
           if unat (record_type (te_ds e)) = OPEN_CALL
           then (False, if to_int x < 0 then fst s else to_int x, q)
           else (sint (err (te_ds e)) = to_int x, fst s, q)))"

primrec play :: "'o env \<Rightarrow> bool \<Rightarrow> trace_entry list \<Rightarrow> int \<times> 'o \<Rightarrow> int \<times> 'o" where
  "play E abort [] s = s"
| "play E abort (e # es) s =
     (case play_one E e s of (ok, s') \<Rightarrow> if abort \<and> \<not> ok then s' else play E abort es s')"

section \<open>One record\<close>

lemma if_eq_NoneE:
  assumes "(if b then Some x else m) = None" "\<not> b \<Longrightarrow> m = None \<Longrightarrow> P"
  shows P
  using assms by (auto split: if_splits)

lemma replay_entry_plays:
  assumes E: "calm E" and c: "complete e"
  shows "\<exists>ok st'. replay_record E (te_ds e) (k1, te_path1 e) (part_buffer k2 (te_path2 e) old2)
      (part_buffer k3 (te_content e) old3) st = Some (ok, st') \<and>
    play_one E e (global_fd st, os st) = (ok, global_fd st', os st')"
proof -
  have 1: "takeWhile (\<lambda>b. b \<noteq> 0) (te_path1 e) = te_path1 e" "takeWhile (\<lambda>b. b \<noteq> 0) (te_path2 e) = te_path2 e"
    using c by (simp_all add: complete_def takeWhile_all)
  obtain st1 where R: "replay_record E (te_ds e) (k1, te_path1 e) (part_buffer k2 (te_path2 e) old2)
      (part_buffer k3 (te_content e) old3) st =
    replay_switch E (te_ds e) (replay_path @ te_path1 e)
      (map_option (\<lambda>b. replay_path @ takeWhile (\<lambda>x. x \<noteq> 0) (snd b)) (part_buffer k2 (te_path2 e) old2))
      (part_buffer k2 (te_path2 e) old2) (part_buffer k3 (te_content e) old3) st1" and
    st1: "os st1 = os st" "global_fd st1 = global_fd st"
    using replay_record_calm [OF E, of "te_ds e" "(k1, te_path1 e)" "part_buffer k2 (te_path2 e) old2"
      "part_buffer k3 (te_content e) old3" st] by (auto simp: 1)
  let ?t = "unat (record_type (te_ds e))"
  have w: "?t = WRITE_CALL \<Longrightarrow> part_buffer k3 (te_content e) old3 = Some (k3, te_content e)"
    and p: "?t \<in> {LINK_CALL, SYMLINK_CALL, RENAME_CALL} \<Longrightarrow> part_buffer k2 (te_path2 e) old2 = Some (k2, te_path2 e)"
    using c by (auto simp: complete_def part_buffer_def)
  show ?thesis
  proof (cases "replay_call (global_fd st) e")
    case None
    have "replay_switch E (te_ds e) f1 f2 b2 c' st1 = Some (True, st1)" for f1 f2 b2 c'
      using None unfolding replay_call_def replay_switch_def Let_def
      by (elim if_eq_NoneE) simp
    then show ?thesis using None st1 unfolding R by (auto simp: play_one_def)
  next
    case (Some sc)
    have S: "replay_record E (te_ds e) (k1, te_path1 e) (part_buffer k2 (te_path2 e) old2)
        (part_buffer k3 (te_content e) old3) st =
      Some (if ?t = OPEN_CALL then replay_open E (te_ds e) (replay_path @ te_path1 e) st1
            else replay_judge E (te_ds e) sc st1)"
      using Some unfolding R replay_switch_def replay_call_def Let_def st1(2)
      by (elim if_eq_SomeE)
        (simp_all add: w p 1 calm_string [OF E] calm_str_arg [OF E] text_of_def call_defs)
    show ?thesis
    proof (cases "?t = OPEN_CALL")
      case True
      then have "sc = Sys_open (replay_path @ te_path1 e) (open_flags (te_ds e))"
        using Some by (simp add: replay_call_def Let_def)
      with True S Some show ?thesis
        by (simp add: replay_open_def sys_def st1 play_one_def case_prod_beta Let_def)
    next
      case False
      with S Some show ?thesis by (simp add: replay_judge_def sys_def st1 play_one_def case_prod_beta Let_def)
    qed
  qed
qed

section \<open>The loop\<close>

lemma replay_step:
  assumes E: "calm E" and e: "wf_entry e" "complete e" and pad: "length pad = 28"
    and len: "length pre + entry_size e + length rest < 2 ^ 31"
    and pos: "prev_rec_size cur = int (length pre)"
  shows "\<exists>ok cur' st'. record_step E True ab (pre @ entry_bytes pad e @ rest) cur st =
      Some (ab \<and> \<not> ok, cur', st') \<and> prev_rec_size cur' = int (length pre + entry_size e) \<and>
    play_one E e (global_fd st, os st) = (ok, global_fd st', os st')"
proof -
  obtain k1 k2 k3 n where F: "fetch E (pre @ entry_bytes pad e @ rest) cur st =
    Some (te_ds e, (k1, te_path1 e),
      \<lparr>prev_rec_size = int (length pre + entry_size e),
       pathbuf2 = part_buffer k2 (te_path2 e) (pathbuf2 cur),
       content_buf = part_buffer k3 (te_content e) (content_buf cur)\<rparr>, ticks n st)"
    using fetch_entry [OF E e(1) pad len pos] by blast
  obtain st1 where P: "treplay_print_record E (te_ds e) (k1, te_path1 e)
      (part_buffer k2 (te_path2 e) (pathbuf2 cur)) (part_buffer k3 (te_content e) (content_buf cur)) (ticks n st) = Some st1"
    "os st1 = os st" "global_fd st1 = global_fd st"
    using print_entry [OF E e(2), of k1 k2 _ k3 _ "ticks n st"] by fastforce
  obtain ok st2 where "replay_record E (te_ds e) (k1, te_path1 e)
      (part_buffer k2 (te_path2 e) (pathbuf2 cur)) (part_buffer k3 (te_content e) (content_buf cur)) st1 = Some (ok, st2)"
    "play_one E e (global_fd st, os st) = (ok, global_fd st2, os st2)"
    using replay_entry_plays [OF E e(2), of k1 k2 _ k3 _ st1] P(2,3) by metis
  with F P(1) show ?thesis by (cases "ab \<and> \<not> ok") (auto simp: record_step_def)
qed

lemma play_loop:
  assumes E: "calm E"
  shows "length pads = length es \<Longrightarrow> \<forall>p \<in> set pads. length p = 28 \<Longrightarrow>
    \<forall>e \<in> set es. wf_entry e \<and> complete e \<Longrightarrow> length pre + length (trace_bytes pads es) < 2 ^ 31 \<Longrightarrow>
    prev_rec_size cur = int (length pre) \<Longrightarrow> length es < fuel \<Longrightarrow>
    \<exists>st'. replay_loop fuel E True ab (pre @ trace_bytes pads es) cur st = Done st' \<and>
      (global_fd st', os st') = play E ab es (global_fd st, os st)"
proof (induction es arbitrary: pads pre cur st fuel)
  case Nil
  then obtain n where "fuel = Suc n" by (cases fuel) auto
  with Nil show ?case by (simp add: trace_bytes_def)
next
  case (Cons e es)
  obtain pad pads' where p: "pads = pad # pads'" using Cons.prems(1) by (cases pads) auto
  obtain n where n: "fuel = Suc n" using Cons.prems(6) by (cases fuel) auto
  let ?rest = "trace_bytes pads' es"
  have tb: "trace_bytes pads (e # es) = entry_bytes pad e @ ?rest" by (simp add: trace_bytes_def p)
  have pad: "length pad = 28" and e: "wf_entry e" "complete e" using Cons.prems p by auto
  have len: "length pre + entry_size e + length ?rest < 2 ^ 31" using Cons.prems(4) tb pad by simp
  obtain ok cur' st1 where S: "record_step E True ab (pre @ entry_bytes pad e @ ?rest) cur st = Some (ab \<and> \<not> ok, cur', st1)"
    "prev_rec_size cur' = int (length pre + entry_size e)"
    "play_one E e (global_fd st, os st) = (ok, global_fd st1, os st1)"
    using replay_step [OF E e pad len Cons.prems(5)] by blast
  have more: "prev_rec_size cur < int (length (pre @ entry_bytes pad e @ ?rest)) - 1"
    using Cons.prems(5) pad entry_size_ge [of e] by simp
  show ?case
  proof (cases "ab \<and> \<not> ok")
    case True
    then show ?thesis using S more by (auto simp: tb n)
  next
    case False
    obtain st' where "replay_loop n E True ab ((pre @ entry_bytes pad e) @ ?rest) cur' st1 = Done st'"
      "(global_fd st', os st') = play E ab es (global_fd st1, os st1)"
      using Cons.IH [of pads' "pre @ entry_bytes pad e" cur' n st1] Cons.prems S(2) p n pad len by auto
    with False S more show ?thesis by (auto simp: tb n)
  qed
qed

section \<open>The program\<close>

text \<open>
  The two command lines that replay: with the file alone, and with \<open>-s\<close>, which needs
  \<open>nVal\<close>, a variable without an initial value, to hold 0.
\<close>

definition replays :: "garbage \<Rightarrow> string \<Rightarrow> string list \<Rightarrow> bool \<Rightarrow> bool" where
  "replays g f args abort \<longleftrightarrow> f \<noteq> [] \<and> hd f \<noteq> CHR ''-'' \<and>
     (if abort then args = [''-s'', f] \<and> \<not> g_nVal g else args = [f])"

lemma replay_options:
  assumes "replays g f args ab"
  shows "treplay_options g args = Inr (True, ab)" "file_argument args = f" "args \<noteq> []" "\<not> 2 < length args"
  using assms
  by (auto simp: replays_def treplay_options_def file_argument_def is_option_def opt_char_def split: if_splits)

lemma main_plays:
  assumes E: "calm E" and p: "length pads = length es" "\<forall>p \<in> set pads. length p = 28"
    and good: "\<forall>e \<in> set es. wf_entry e \<and> complete e" and ne: "es \<noteq> []"
    and size: "length (trace_bytes pads es) < 2 ^ 31" and fuel: "length es < fuel"
    and args: "replays g f args ab" and held_in: "contents f = Some (trace_bytes pads es)"
  shows "\<exists>st'. treplay_main fuel E g contents args st = Done st' \<and>
    (global_fd st', os st') = play E ab es (global_fd st, os st)"
proof -
  let ?buf = "trace_bytes pads es"
  obtain pad pads' e es' where "pads = pad # pads'" "es = e # es'" "length pad = 28"
    using p ne by (cases pads; cases es) auto
  then have "28 \<le> length ?buf" using entry_size_ge [of e] by (simp add: trace_bytes_def)
  then have big: "?buf \<noteq> []" "length ?buf \<noteq> 1" by auto
  define st2 where "st2 = emit (Number ''Fileread : '' (int (length ?buf))) (ticks 1 (ticks 1 st))"
  obtain st' where loop: "replay_loop fuel E True ab ([] @ trace_bytes pads es) start_cursor st2 = Done st'"
    "(global_fd st', os st') = play E ab es (global_fd st2, os st2)"
    using play_loop [OF E p good, of "[]" start_cursor fuel ab st2] size fuel by (auto simp: start_cursor_def)
  obtain r1 r2 where "alloc E 144 st = Some (mallocs st, r1, ticks 1 st)"
    "alloc E (length ?buf) (ticks 1 st) = Some (mallocs (ticks 1 st), r2, ticks 1 (ticks 1 st))"
    using calm_alloc [OF E] by blast
  then have "treplay_main fuel E g contents args st = Done st'"
    using replay_options [OF args] held_in big loop(1) by (simp add: treplay_main_def st2_def Let_def)
  with loop(2) show ?thesis by (auto simp: st2_def)
qed

end
