(* ===== verification/Trctl.thy ===== *)
theory Trctl
  imports Trace_Record "HOL-Library.Char_ord"
begin

text \<open>
  The control program \<open>src/hw2/trctl.c\<close>: its command line and the \<open>ioctl\<close> calls it
  makes. The device it talks to is an interface, the locale \<open>mask_device\<close>; the file
  system's \<open>trfs_unlocked_ioctl\<close> is shown to provide it in the theory \<open>Mask_Control\<close>.
\<close>

section \<open>The device\<close>

text \<open>
  The commands of \<open>src/hw2/trctl.h\<close>. \<open>dev_set\<close> is an \<open>ioctl\<close> that passes a value,
  \<open>dev_get\<close> the one that asks for it; its answer is \<open>None\<close> when nothing was copied out.
\<close>

datatype set_command = Set_all | Set_none | Set_hex

record 'd device =
  dev_set :: "set_command \<Rightarrow> 64 word \<Rightarrow> 'd \<Rightarrow> int \<times> 'd"
  dev_get :: "'d \<Rightarrow> int \<times> 64 word option \<times> 'd"

section \<open>Reading a number\<close>

text \<open>\<open>strtol(str, NULL, 16)\<close>: white space, a sign, an optional \<open>0x\<close>, hexadecimal digits.\<close>

definition is_space :: "char \<Rightarrow> bool" where
  "is_space c \<longleftrightarrow> of_char c \<in> {9, 10, 11, 12, 13, 32 :: nat}"

definition hex_digit :: "char \<Rightarrow> int option" where
  "hex_digit c = (let n = of_char c :: int in
     if 48 \<le> n \<and> n \<le> 57 then Some (n - 48)
     else if 97 \<le> n \<and> n \<le> 102 then Some (n - 87)
     else if 65 \<le> n \<and> n \<le> 70 then Some (n - 55) else None)"

fun hex_value :: "int \<Rightarrow> string \<Rightarrow> int" where
  "hex_value acc [] = acc"
| "hex_value acc (c # cs) =
     (case hex_digit c of None \<Rightarrow> acc | Some d \<Rightarrow> hex_value (16 * acc + d) cs)"

definition starts_hex :: "string \<Rightarrow> bool" where
  "starts_hex str = (case str of c # _ \<Rightarrow> hex_digit c \<noteq> None | [] \<Rightarrow> False)"

definition skip_0x :: "string \<Rightarrow> string" where
  "skip_0x str = (case str of
     a # b # rest \<Rightarrow> if a = CHR ''0'' \<and> (b = CHR ''x'' \<or> b = CHR ''X'') \<and> starts_hex rest then rest else str
   | _ \<Rightarrow> str)"

definition strtol16 :: "string \<Rightarrow> int" where
  "strtol16 str =
     (let str = dropWhile is_space str;
          neg = (case str of c # _ \<Rightarrow> c = CHR ''-'' | [] \<Rightarrow> False);
          str = (case str of c # rest \<Rightarrow> if c = CHR ''-'' \<or> c = CHR ''+'' then rest else str | [] \<Rightarrow> []);
          v = hex_value 0 (skip_0x str);
          v = (if neg then - v else v)
      in max (- (2 ^ 63)) (min (2 ^ 63 - 1) v))"

section \<open>Switching single calls\<close>

text \<open>
  One arm of the loop: \<open>+name\<close> sets the bit unless it is set, \<open>-name\<close> clears it if it is
  set, and the new value goes to the device. The state is \<open>retmapval\<close>, \<open>rc\<close> and the
  device.
\<close>

type_synonym 'd ctl = "64 word \<times> int \<times> 'd"

definition send_map :: "'d device \<Rightarrow> 64 word \<Rightarrow> 'd ctl \<Rightarrow> 'd ctl" where
  "send_map D m st = (case st of (_, _, d) \<Rightarrow> let (rc, d) = dev_set D Set_hex m d in (m, rc, d))"

definition toggle_arm :: "'d device \<Rightarrow> string \<Rightarrow> string \<times> nat \<Rightarrow> 'd ctl \<Rightarrow> 'd ctl" where
  "toggle_arm D arg nc st =
     (if CHR ''+'' # fst nc = arg then
        (if drop_bit (snd nc) (fst st) AND 1 = 0
         then send_map D (fst st + push_bit (snd nc) 1) st else st)
      else if CHR ''-'' # fst nc = arg then
        (if drop_bit (snd nc) (fst st) AND 1 = 1
         then send_map D (fst st - push_bit (snd nc) 1) st else st)
      else st)"

definition call_names :: "(string \<times> nat) list" where
  "call_names =
     [(''open'', OPEN_CALL), (''read'', READ_CALL), (''write'', WRITE_CALL),
      (''close'', RELEASE_CALL), (''create'', CREATE_CALL), (''link'', LINK_CALL),
      (''unlink'', UNLINK_CALL), (''symlink'', SYMLINK_CALL), (''mkdir'', MKDIR_CALL),
      (''rmdir'', RMDIR_CALL), (''mknod'', MKNOD_CALL), (''rename'', RENAME_CALL)]"

definition toggle_arg :: "'d device \<Rightarrow> string \<Rightarrow> 'd ctl \<Rightarrow> 'd ctl" where
  "toggle_arg D arg st = fold (toggle_arm D arg) call_names st"

text \<open>
  The loop runs over the arguments between the program name and the last one.
  \<open>retmapval\<close> keeps what it held before when the device gives no answer.
\<close>

definition extra_credit :: "'d device \<Rightarrow> string list \<Rightarrow> 64 word \<Rightarrow> 'd \<Rightarrow> int \<times> 'd" where
  "extra_credit D args uninit d =
     (let (rc, v, d) = dev_get D d;
          retmapval = (case v of None \<Rightarrow> uninit | Some m \<Rightarrow> m);
          (_, rc, d) = fold (toggle_arg D) (butlast args) (retmapval, rc, d)
      in (rc, d))"

section \<open>The program\<close>

text \<open>
  \<open>args\<close> are the arguments after the program name, so \<open>argc = Suc (length args)\<close>.
  \<open>uninit\<close> is what \<open>retmapval\<close> holds before it is assigned. The result is the exit
  status, the value displayed (if any) and the device.
\<close>

definition char_at :: "string \<Rightarrow> nat \<Rightarrow> char" where
  "char_at str n = (if n < length str then str ! n else CHR 0x00)"

definition trctl_main ::
  "'d device \<Rightarrow> string list \<Rightarrow> 64 word \<Rightarrow> 'd \<Rightarrow> int \<times> 64 word option \<times> 'd" where
  "trctl_main D args uninit d =
     (if length args = 0 then (0, None, d)
      else if length args = 1 then
        (let (rc, v, d) = dev_get D d
         in (rc, Some (case v of None \<Rightarrow> uninit | Some m \<Rightarrow> m), d))
      else if length args = 2 then
        (let command = hd args in
         if command = ''all'' then (let (rc, d) = dev_set D Set_all BITMAP_MAX d in (rc, None, d))
         else if command = ''none'' then (let (rc, d) = dev_set D Set_none 0 d in (rc, None, d))
         else if char_at command 0 = CHR ''+'' \<or> char_at command 0 = CHR ''-'' then
           (let (rc, d) = extra_credit D args uninit d in (rc, None, d))
         else if char_at command 0 \<noteq> CHR ''0'' then (0, None, d)
         else if char_at command 1 \<noteq> CHR ''x'' \<and> char_at command 1 \<noteq> CHR ''X'' then (0, None, d)
         else
           (let bitmapval = word_of_int (strtol16 (drop 2 command)) in
            if bitmapval > BITMAP_MAX then (0, None, d)
            else (let (rc, d) = dev_set D Set_hex bitmapval d in (rc, None, d))))
      else (let (rc, d) = extra_credit D args uninit d in (rc, None, d)))"


section \<open>What an argument asks for\<close>

text \<open>
  The meaning of the arguments, without the loop: \<open>named\<close> is what one argument says about
  a call, \<open>wanted\<close> what a list of them says in the end, \<open>requested\<close> the bitmap they ask for.
\<close>

fun named :: "(string \<times> nat) list \<Rightarrow> string \<Rightarrow> nat \<Rightarrow> bool option" where
  "named [] arg k = None"
| "named ((nm, n) # l) arg k =
     (if n = k \<and> arg = CHR ''+'' # nm then Some True
      else if n = k \<and> arg = CHR ''-'' # nm then Some False else named l arg k)"

fun wanted :: "string list \<Rightarrow> nat \<Rightarrow> bool option" where
  "wanted [] k = None"
| "wanted (a # as) k = (case wanted as k of Some b \<Rightarrow> Some b | None \<Rightarrow> named call_names a k)"

definition toggle_word :: "string \<Rightarrow> string \<times> nat \<Rightarrow> 64 word \<Rightarrow> 64 word" where
  "toggle_word arg nc m =
     (if CHR ''+'' # fst nc = arg then set_bit (snd nc) m
      else if CHR ''-'' # fst nc = arg then unset_bit (snd nc) m else m)"

definition requested :: "string list \<Rightarrow> 64 word \<Rightarrow> 64 word" where
  "requested args m = fold (\<lambda>a. fold (toggle_word a) call_names) args m"

lemma add_bit_is_set_bit:
  fixes m :: "64 word"
  assumes "\<not> bit m n"
  shows "m + push_bit n 1 = set_bit n m"
proof (subst disjunctive_add_eq_or)
  show "m AND push_bit n 1 = 0" using assms by (intro bit_word_eqI) (auto simp: bit_simps)
qed (simp add: set_bit_eq_or)

lemma sub_bit_is_unset_bit:
  fixes m :: "64 word"
  assumes "bit m n"
  shows "m - push_bit n 1 = unset_bit n m"
proof -
  have "\<not> bit (unset_bit n m) n" by (simp add: bit_simps)
  then have "unset_bit n m + push_bit n 1 = set_bit n (unset_bit n m)" by (rule add_bit_is_set_bit)
  also have "\<dots> = m"
    using assms by (intro bit_word_eqI) (auto simp: bit_simps)
  finally show ?thesis by (simp add: algebra_simps)
qed

lemma toggle_word_bit:
  "k < 64 \<Longrightarrow> bit (toggle_word arg (nm, n) m) k =
   (if n = k \<and> arg = CHR ''+'' # nm then True
    else if n = k \<and> arg = CHR ''-'' # nm then False else bit m k)"
  by (auto simp: toggle_word_def bit_simps)

lemma toggle_word_other:
  "nm \<notin> fst ` set l \<Longrightarrow> arg = c # nm \<Longrightarrow> fold (toggle_word arg) l m = m"
  by (induction l arbitrary: m) (auto simp: toggle_word_def)

lemma named_other: "nm \<notin> fst ` set l \<Longrightarrow> named l (c # nm) k = None"
  by (induction l) auto

lemma toggle_words_bit:
  "distinct (map fst l) \<Longrightarrow> k < 64 \<Longrightarrow> bit (fold (toggle_word arg) l m) k =
   (case named l arg k of None \<Rightarrow> bit m k | Some b \<Rightarrow> b)"
proof (induction l arbitrary: m)
  case (Cons x l)
  obtain nm n where x: "x = (nm, n)" by (cases x)
  with Cons show ?case
    by (cases "\<exists>c. arg = c # nm")
      (auto simp: toggle_word_bit toggle_word_other named_other split: option.splits)
qed simp

lemma requested_bit:
  "k < 64 \<Longrightarrow> bit (requested args m) k = (case wanted args k of None \<Rightarrow> bit m k | Some b \<Rightarrow> b)"
proof (induction args arbitrary: m)
  case (Cons a as)
  have "distinct (map fst call_names)" by (simp add: call_names_def)
  note bits = toggle_words_bit [OF this Cons.prems]
  show ?case using Cons bits [of a m] by (auto simp: requested_def split: option.splits)
qed (simp add: requested_def)

section \<open>The interface\<close>

text \<open>
  A device that keeps a bitmap: while it is \<open>ready\<close>, setting stores the value whatever the
  command, asking returns it and changes nothing.
\<close>

locale mask_device =
  fixes D :: "'d device" and mask_of :: "'d \<Rightarrow> 64 word" and ready :: "'d \<Rightarrow> bool"
  assumes set_mask_of: "ready d \<Longrightarrow> mask_of (snd (dev_set D c m d)) = m"
    and set_ready: "ready d \<Longrightarrow> ready (snd (dev_set D c m d))"
    and get_answer: "ready d \<Longrightarrow> fst (snd (dev_get D d)) = Some (mask_of d)"
    and get_mask_of: "ready d \<Longrightarrow> mask_of (snd (snd (dev_get D d))) = mask_of d"
    and get_ready: "ready d \<Longrightarrow> ready (snd (snd (dev_get D d)))"
begin

definition synced :: "'d ctl \<Rightarrow> bool" where
  "synced st \<longleftrightarrow> ready (snd (snd st)) \<and> mask_of (snd (snd st)) = fst st"

lemma send_map_synced:
  "ready (snd (snd st)) \<Longrightarrow> synced (send_map D m st) \<and> fst (send_map D m st) = m"
  by (simp add: send_map_def synced_def case_prod_beta set_mask_of set_ready)

lemma toggle_arm_synced:
  assumes "synced st"
  shows "synced (toggle_arm D arg nc st) \<and> fst (toggle_arm D arg nc st) = toggle_word arg nc (fst st)"
proof -
  have "ready (snd (snd st))" using assms by (simp add: synced_def)
  note send = send_map_synced [OF this]
  have bits: "drop_bit n (fst st) AND 1 = 0 \<longleftrightarrow> \<not> bit (fst st) n" 
    "drop_bit n (fst st) AND 1 = 1 \<longleftrightarrow> bit (fst st) n" for n
    by (simp_all add: and_one_eq mod_2_eq_odd bit_iff_odd_drop_bit)
  have same: "bit (fst st) n \<Longrightarrow> set_bit n (fst st) = fst st" 
    "\<not> bit (fst st) n \<Longrightarrow> unset_bit n (fst st) = fst st" for n
    by (auto intro!: bit_word_eqI simp: bit_simps)
  show ?thesis
    using assms send same
    by (simp add: toggle_arm_def toggle_word_def bits 
        add_bit_is_set_bit [simplified] sub_bit_is_unset_bit [simplified])
qed

lemma toggle_arms_synced:
  "synced st \<Longrightarrow> synced (fold (toggle_arm D arg) l st) \<and>
   fst (fold (toggle_arm D arg) l st) = fold (toggle_word arg) l (fst st)"
  by (induction l arbitrary: st) (use toggle_arm_synced in auto)

lemma toggle_args_synced:
  "synced st \<Longrightarrow> synced (fold (toggle_arg D) args st) \<and>
   fst (fold (toggle_arg D) args st) = requested args (fst st)"
  by (induction args arbitrary: st)
    (use toggle_arms_synced in \<open>auto simp: requested_def toggle_arg_def\<close>)

lemma extra_credit_requested:
  assumes "ready d"
  shows "mask_of (snd (extra_credit D args uninit d)) = requested (butlast args) (mask_of d)"
proof -
  let ?st = "(mask_of d, fst (dev_get D d), snd (snd (dev_get D d)))"
  have "synced ?st" using assms by (simp add: synced_def get_ready get_mask_of)
  from toggle_args_synced [OF this, of "butlast args"] show ?thesis
    using assms by (simp add: extra_credit_def get_answer case_prod_beta synced_def)
qed

lemma main_shows_mask:
  assumes "ready d"
  shows "fst (snd (trctl_main D [path] uninit d)) = Some (mask_of d)"
    "mask_of (snd (snd (trctl_main D [path] uninit d))) = mask_of d"
  using assms by (simp_all add: trctl_main_def get_answer get_mask_of case_prod_beta)

lemma main_sets_mask:
  assumes "ready d"
  shows "mask_of (snd (snd (trctl_main D [''all'', path] uninit d))) = BITMAP_MAX"
    "mask_of (snd (snd (trctl_main D [''none'', path] uninit d))) = 0"
  using assms by (simp_all add: trctl_main_def set_mask_of case_prod_beta)

end

end
