(* ===== verification/Mask_Control.thy ===== *)
theory Mask_Control
  imports Trctl File_Ops
begin

text \<open>
  The file system as the device \<open>trctl\<close> talks to: the \<open>ioctl\<close> system call on a file of the
  mount, by \<open>trfs_unlocked_ioctl\<close>. It provides the interface \<open>mask_device\<close>, so the
  results on \<open>trctl\<close> hold for the bitmap in the super block.
\<close>

section \<open>The system call\<close>

text \<open>
  \<open>f\<close> is the open file and \<open>ubuf\<close> the address of the program's variable. A negative result
  is \<open>-1\<close> for the caller; a crash of the kernel is the state \<open>None\<close>, which stays.
\<close>

definition sys_ioctl ::
  "'w kernel \<Rightarrow> ptr \<Rightarrow> 32 word \<Rightarrow> 64 word \<Rightarrow> 'w st option \<Rightarrow> int \<times> 'w st option" where
  "sys_ioctl K f cmd arg d =
     (case d of None \<Rightarrow> (- 1, None)
      | Some s \<Rightarrow> (case trfs_unlocked_ioctl K f cmd arg s of
            None \<Rightarrow> (- 1, None)
          | Some (er, s) \<Rightarrow> (if er < 0 then - 1 else to_int er, Some s)))"

definition command_number :: "set_command \<Rightarrow> 32 word" where
  "command_number c = (case c of Set_all \<Rightarrow> IOC_ALL | Set_none \<Rightarrow> IOC_NONE | Set_hex \<Rightarrow> IOC_HEX)"

text \<open>The bitmap in the super block of a state.\<close>

definition device_mask :: "'w st option \<Rightarrow> 64 word" where
  "device_mask d = (case d of None \<Rightarrow> 0
     | Some s \<Rightarrow> (case s_fs_info (sb s) of None \<Rightarrow> 0 | Some (a, info) \<Rightarrow> mask info))"

text \<open>What \<open>copy_to_user\<close> put into the variable, if it could.\<close>

definition copied_out :: "'w kernel \<Rightarrow> 64 word \<Rightarrow> 'w st option \<Rightarrow> 64 word option" where
  "copied_out K ubuf d = (case d of None \<Rightarrow> None
     | Some s \<Rightarrow> (case s_fs_info (sb s) of None \<Rightarrow> None
        | Some (a, info) \<Rightarrow>
            if fst (call_int K (Copy_to_user ubuf (mask info)) s) = 0 then Some (mask info) else None))"

definition trfs_device :: "'w kernel \<Rightarrow> ptr \<Rightarrow> 64 word \<Rightarrow> 'w st option device" where
  "trfs_device K f ubuf =
     \<lparr>dev_set = (\<lambda>c m d. sys_ioctl K f (command_number c) m d),
      dev_get = (\<lambda>d. (fst (sys_ioctl K f IOC_RET ubuf d), copied_out K ubuf d,
                      snd (sys_ioctl K f IOC_RET ubuf d)))\<rparr>"

text \<open>The file is open on a mounted file system and the variable can be written.\<close>

definition device_ready :: "'w kernel \<Rightarrow> ptr \<Rightarrow> 64 word \<Rightarrow> 'w st option \<Rightarrow> bool" where
  "device_ready K f ubuf d \<longleftrightarrow>
     (\<forall>v w. fst (k_int K (Copy_to_user ubuf v) w) = 0) \<and>
     (\<exists>s. d = Some s \<and> s_fs_info (sb s) \<noteq> None \<and> private_data (files s f) \<noteq> None)"

section \<open>It is a mask device\<close>

lemma ioctl_effect:
  assumes "s_fs_info (sb s) = Some (a, info)" "private_data (files s f) = Some p"
  shows "\<exists>er s'. trfs_unlocked_ioctl K f cmd arg s = Some (er, s') \<and> files s' = files s \<and>
    sb s' = (if cmd \<in> {IOC_ALL, IOC_NONE, IOC_HEX} then set_mask arg (sb s) else sb s)"
  using assms
  by (auto simp: trfs_unlocked_ioctl_def ioctl_switch_def ioctl_below_def trfs_lower_file_def fsstack_def case_prod_beta Let_def
      split: option.splits)

interpretation ioctl_mask: mask_device "trfs_device K f ubuf" device_mask "device_ready K f ubuf"
  for K :: "'w kernel" and f :: ptr and ubuf :: "64 word"
proof
  fix d c and m :: "64 word"
  assume "device_ready K f ubuf d"
  then obtain s a info p where
    s: "d = Some s" "s_fs_info (sb s) = Some (a, info)" "private_data (files s f) = Some p" and
    cu: "\<forall>v w. fst (k_int K (Copy_to_user ubuf v) w) = 0"
    by (auto simp: device_ready_def)
  note E = ioctl_effect [OF s(2,3), of K]
  have cn: "command_number c \<in> {IOC_ALL, IOC_NONE, IOC_HEX}"
    by (auto simp: command_number_def split: set_command.splits)
  show "device_mask (snd (dev_set (trfs_device K f ubuf) c m d)) = m"
    "device_ready K f ubuf (snd (dev_set (trfs_device K f ubuf) c m d))"
    using E [of "command_number c" m] cn s cu
    by (auto simp: trfs_device_def sys_ioctl_def device_mask_def device_ready_def set_mask_def)
  show "fst (snd (dev_get (trfs_device K f ubuf) d)) = Some (device_mask d)"
    using s cu by (simp add: trfs_device_def copied_out_def device_mask_def call_int_def)
  show "device_mask (snd (snd (dev_get (trfs_device K f ubuf) d))) = device_mask d"
    "device_ready K f ubuf (snd (snd (dev_get (trfs_device K f ubuf) d)))"
    using E [of IOC_RET ubuf] s cu
    by (auto simp: trfs_device_def sys_ioctl_def device_mask_def device_ready_def)
qed

end
