(* ===== verification/Trace_Stream.thy ===== *)
theory Trace_Stream
  imports Trace_Record
begin

text \<open>
  The trace file as a stream: the interface between the writer and the reader of records,
  as a locale, and its interpretation on the format of the module and \<open>treplay\<close>.
\<close>

section \<open>Streams of self-delimiting items\<close>

text \<open>
  \<open>enc\<close> is the image of one item and \<open>dec\<close> takes one item off the front; it returns what it
  can see of the item, \<open>view\<close>, and the rest.
\<close>

locale record_stream =
  fixes enc :: "'x \<Rightarrow> block" and dec :: "block \<Rightarrow> ('e \<times> block) option"
    and view :: "'x \<Rightarrow> 'e" and ok :: "'x \<Rightarrow> bool"
  assumes dec_enc: "ok x \<Longrightarrow> dec (enc x @ rest) = Some (view x, rest)"
    and enc_nonempty: "ok x \<Longrightarrow> enc x \<noteq> []"
begin

definition image :: "'x list \<Rightarrow> block" where
  "image xs = concat (map enc xs)"

text \<open>Taking items off until the stream is empty, at most \<open>n\<close> of them.\<close>

primrec parse :: "nat \<Rightarrow> block \<Rightarrow> 'e list option" where
  "parse 0 bs = (if bs = [] then Some [] else None)"
| "parse (Suc n) bs =
     (if bs = [] then Some []
      else (case dec bs of None \<Rightarrow> None
        | Some (e, rest) \<Rightarrow> map_option ((#) e) (parse n rest)))"

lemma parse_image:
  "\<forall>x \<in> set xs. ok x \<Longrightarrow> length xs \<le> n \<Longrightarrow> parse n (image xs) = Some (map view xs)"
proof (induction xs arbitrary: n)
  case Nil
  then show ?case by (cases n) (simp_all add: image_def)
next
  case (Cons x xs)
  then obtain m where n: "n = Suc m" by (cases n) auto
  have x: "ok x" using Cons.prems by simp
  have "image (x # xs) \<noteq> []" using enc_nonempty [OF x] by (simp add: image_def)
  moreover have "dec (image (x # xs)) = Some (view x, image xs)"
    using dec_enc [OF x, of "image xs"] by (simp add: image_def)
  ultimately show ?case using Cons n by simp
qed

lemma image_determines:
  assumes "\<forall>x \<in> set xs. ok x" "\<forall>y \<in> set ys. ok y" "image xs = image ys"
  shows "map view xs = map view ys"
  using parse_image [OF assms(1), of "length xs + length ys"]
    parse_image [OF assms(2), of "length xs + length ys"] assms(3) by simp

lemma image_append: "image (xs @ ys) = image xs @ image ys"
  by (simp add: image_def)

end

section \<open>The format of the trace\<close>

text \<open>
  One round of the reader's loop without the heap: the structure, then the three parts it
  announces. A negative or too large length is refused.
\<close>

definition take_part :: "int \<Rightarrow> block \<Rightarrow> (block \<times> block) option" where
  "take_part n bs =
     (if 0 \<le> n \<and> nat n \<le> length bs then Some (take (nat n) bs, drop (nat n) bs) else None)"

definition decode_entry :: "block \<Rightarrow> (trace_entry \<times> block) option" where
  "decode_entry bs = do {
     (hdr, bs) \<leftarrow> take_part (int trace_ds_size) bs;
     let r = read_trace_ds hdr;
     (p1, bs) \<leftarrow> take_part (sint (path_len1 r)) bs;
     (p2, bs) \<leftarrow> take_part (sint (path_len2 r)) bs;
     (c, bs) \<leftarrow> take_part (sint (write_len r)) bs;
     Some (\<lparr>te_ds = r, te_path1 = p1, te_path2 = p2, te_content = c\<rparr>, bs)
   }"

text \<open>An item is an entry with the memory its structure was allocated in.\<close>

definition item_ok :: "block \<times> trace_entry \<Rightarrow> bool" where
  "item_ok x \<longleftrightarrow> length (fst x) = 28 \<and> wf_entry (snd x)"

definition item_bytes :: "block \<times> trace_entry \<Rightarrow> block" where
  "item_bytes x = entry_bytes (fst x) (snd x)"

lemma take_part_append: "n = int (length p) \<Longrightarrow> take_part n (p @ bs) = Some (p, bs)"
  by (simp add: take_part_def)

lemma decode_entry_bytes:
  assumes "length pad = 28" "wf_entry e"
  shows "decode_entry (entry_bytes pad e @ rest) = Some (e, rest)"
proof -
  let ?hdr = "fill_trace_ds (te_ds e) pad"
  have h: "take_part 28 (?hdr @ bs) = Some (?hdr, bs)" for bs
    using assms(1) by (intro take_part_append) simp
  have r: "read_trace_ds ?hdr = te_ds e" by (rule read_fill_trace_ds [OF assms(1)])
  have p: "take_part (sint (path_len1 (te_ds e))) (te_path1 e @ bs) = Some (te_path1 e, bs)"
    "take_part (sint (path_len2 (te_ds e))) (te_path2 e @ bs) = Some (te_path2 e, bs)"
    "take_part (sint (write_len (te_ds e))) (te_content e @ bs) = Some (te_content e, bs)" for bs
    using assms(2) by (auto simp: wf_entry_def intro!: take_part_append)
  show ?thesis by (simp add: decode_entry_def entry_bytes_def h r p)
qed

interpretation trace_file: record_stream item_bytes decode_entry snd item_ok
proof
  fix x rest
  assume "item_ok x"
  then have "length (fst x) = 28" "wf_entry (snd x)" by (auto simp: item_ok_def)
  then show "decode_entry (item_bytes x @ rest) = Some (snd x, rest)"
    by (simp add: item_bytes_def decode_entry_bytes)
next
  fix x assume "item_ok x"
  then have "length (item_bytes x) = entry_size (snd x)" by (simp add: item_ok_def item_bytes_def)
  then show "item_bytes x \<noteq> []" using entry_size_ge [of "snd x"] by auto
qed

lemma trace_bytes_image: 
  "length pads = length es \<Longrightarrow> trace_bytes pads es = trace_file.image (zip pads es)"
  unfolding trace_bytes_def trace_file.image_def item_bytes_def by (simp add: case_prod_unfold)

end
