(* ===== verification/Sample.thy ===== *)
theory Sample
  imports Returns Replay_Run Mount_Correct Mask_Control Trace_Stream
begin

text \<open>
  A concrete kernel, mount and replay machine on which the hypotheses of the theorems hold,
  so that each theorem can be applied to a run that happens. Its world is the content of the
  trace file; lower objects never change; every lower operation succeeds.
\<close>

section \<open>The kernel\<close>

definition ex_name :: block where "ex_name = [0x2F, 0x74]"

definition ex_th :: "ptr \<Rightarrow> bool" where "ex_th h \<longleftrightarrow> h = 7"

definition ex_int :: "icall \<Rightarrow> block \<Rightarrow> int \<times> block" where
  "ex_int c w = (case c of
     Vfs_write f b n p \<Rightarrow>
       (if f = 7 then (int (unat n), if sint n < 0 then w else w @ take (unat n) b)
        else (int (length b), w))
   | Vfs_read f buf n p \<Rightarrow> (3, w)
   | Lower_readlink d buf n \<Rightarrow> (5, w)
   | _ \<Rightarrow> (0, w))"

definition ex_ptr :: "pcall \<Rightarrow> block \<Rightarrow> kptr \<times> block" where
  "ex_ptr c w = (case c of
     Kmalloc n \<Rightarrow> (Ptr (1000 + n), w)
   | Kzalloc n \<Rightarrow> (Ptr (1000 + n), w)
   | Filp_open name \<Rightarrow> (Ptr 7, w)
   | Filp_open_trunc name \<Rightarrow> (Ptr 7, if name = ex_name then [] else w)
   | Igrab i \<Rightarrow> (Ptr i, w)
   | Lock_rename d1 d2 \<Rightarrow> (Null, w)
   | Mntget m \<Rightarrow> (Ptr 9, w)
   | _ \<Rightarrow> (Ptr 8, w))"

definition ex_attr :: attr where
  "ex_attr = \<lparr>i_ino = 1, i_mode = 0x81A4, i_opflags = 0, i_nlink = 1, i_rdev = 0, i_size = 0,
     i_atime = (0, 0), i_mtime = (0, 0), i_ctime = (0, 0), i_version = 0, i_new = False\<rparr>"

definition ex_path_of :: "(ptr \<Rightarrow> dentry) \<Rightarrow> ptr \<Rightarrow> block" where
  "ex_path_of ds d = 0x2F # replicate (d mod 16) 0x61"

definition ex_dentry_path :: "(ptr \<Rightarrow> dentry) \<Rightarrow> ptr \<Rightarrow> block \<Rightarrow> kptr \<times> block" where
  "ex_dentry_path ds d buf =
     (if length (ex_path_of ds d) < length buf
      then (Ptr (length buf - 1 - length (ex_path_of ds d)),
            take (length buf - 1 - length (ex_path_of ds d)) buf @ ex_path_of ds d @ [0])
      else (Err_ptr (- 36), buf))"

definition ex_kernel :: "block kernel" where
  "ex_kernel = \<lparr>
     k_int = ex_int, k_ptr = ex_ptr, k_void = (\<lambda>c w. w),
     k_fill = (\<lambda>w a. replicate (a - 1000) 0),
     k_linode = (\<lambda>w i. \<lparr>l_attr = ex_attr, l_sb = 60, has_i_op = True, has_readlink = True,
       has_setxattr = True, has_getxattr = True, has_listxattr = True, has_removexattr = True\<rparr>),
     k_ldentry = (\<lambda>w d. \<lparr>ld_inode = Some (d + 1), ld_flags = 0, ld_sb = 60\<rparr>),
     k_lfile = (\<lambda>w f. \<lparr>lf_inode = f + 1, lf_pos = 0, has_f_op = True, has_flush = True,
       has_fasync = True, has_unlocked_ioctl = False, has_compat_ioctl = False, has_read_iter = True,
       has_write_iter = True, has_writepage = True\<rparr>),
     k_lsuper = (\<lambda>w b. \<lparr>ls_maxbytes = 1000000, ls_umount_begin = False\<rparr>),
     k_dentry_path_raw = ex_dentry_path,
     k_attr_all = (\<lambda>a b. b), k_attr_times = (\<lambda>a b. a\<lparr>i_mtime := i_mtime b, i_ctime := i_ctime b\<rparr>),
     k_attr_atime = (\<lambda>a b. a\<lparr>i_atime := i_atime b\<rparr>), k_inode_size = (\<lambda>a b. a\<lparr>i_size := i_size b\<rparr>),
     k_init_special = (\<lambda>a m r. a), k_truncate_setsize = (\<lambda>a n. a\<lparr>i_size := n\<rparr>),
     k_d_drop = (\<lambda>d. d\<lparr>d_unhashed := True\<rparr>),
     k_iget5 = (\<lambda>t h ns w. (Ptr 30, ns(30 := (ns 30)\<lparr>attrs := (attrs (ns 30))\<lparr>i_new := True\<rparr>\<rparr>), w)),
     k_d_splice_alias = (\<lambda>i d ds w. (Null, ds(d := (ds d)\<lparr>d_inode := Some i\<rparr>), w)),
     k_d_make_root = (\<lambda>i ds w. (Ptr 40, ds(40 := (ds 40)\<lparr>d_inode := Some i\<rparr>), w)),
     k_path_result = (\<lambda>w. \<lparr>p_dentry = Some 70, p_mnt = Some 9\<rparr>),
     k_vm_ops = (\<lambda>w v. Some 80)\<rparr>"

lemma ex_sel [simp]:
  "k_int ex_kernel = ex_int" "k_ptr ex_kernel = ex_ptr" "k_void ex_kernel c w = w"
  "k_fill ex_kernel w a = replicate (a - 1000) 0"
  "l_sb (k_linode ex_kernel w i) = 60" "l_attr (k_linode ex_kernel w i) = ex_attr"
  "k_ldentry ex_kernel w d = \<lparr>ld_inode = Some (d + 1), ld_flags = 0, ld_sb = 60\<rparr>"
  "k_iget5 ex_kernel t h ns w =
     (Ptr 30, ns(30 := (ns 30)\<lparr>attrs := (attrs (ns 30))\<lparr>i_new := True\<rparr>\<rparr>), w)"
  "k_d_splice_alias ex_kernel i d ds w = (Null, ds(d := (ds d)\<lparr>d_inode := Some i\<rparr>), w)"
  "k_d_make_root ex_kernel i ds w = (Ptr 40, ds(40 := (ds 40)\<lparr>d_inode := Some i\<rparr>), w)"
  "k_path_result ex_kernel w = \<lparr>p_dentry = Some 70, p_mnt = Some 9\<rparr>"
  "has_unlocked_ioctl (k_lfile ex_kernel w f) = False"
  by (simp_all add: ex_kernel_def)

section \<open>It keeps the laws\<close>

lemma ex_trace_file: "trace_file_ok ex_kernel ex_name (\<lambda>w. w) ex_th"
  by (auto simp: trace_file_ok_def ex_kernel_def ex_int_def ex_ptr_def on_trace_file_def ex_th_def
      split: icall.splits pcall.splits)

lemma ex_kmalloc: "kmalloc_ok ex_kernel"
  by (simp add: kmalloc_ok_def ex_kernel_def ex_ptr_def)

lemma ex_paths: "paths_ok ex_path_of"
proof -
  have "d mod 16 < 16" for d :: nat by simp
  then show ?thesis unfolding paths_ok_def ex_path_of_def
    by (fastforce intro: less_trans [of _ "16"])
qed

lemma ex_dentry_paths: "dentry_path_ok ex_kernel ex_path_of"
  by (auto simp: dentry_path_ok_def ex_kernel_def ex_dentry_path_def) (auto simp: ex_path_of_def)

lemma ex_env: "fs_env ex_kernel ex_name (\<lambda>w. w) ex_th ex_path_of"
proof -
  have "atime_copy_ok ex_kernel" "link_ok ex_kernel" "dentry_open_ok ex_kernel"
    by (simp_all add: atime_copy_ok_def link_ok_def dentry_open_ok_def ex_kernel_def ex_ptr_def)
  then show ?thesis
    using ex_trace_file ex_kmalloc ex_paths ex_dentry_paths by (simp add: fs_env_def tracing_env_def)
qed

lemma ex_dirs: "stable_dirs ex_kernel (\<lambda>p. True)"
  by (simp add: stable_dirs_def ex_kernel_def)

section \<open>A mounted file system\<close>

definition ex_mount_path :: trfs_mount_path where
  "ex_mount_path = \<lparr>mp_addr = 51, tfile_path = Some (52, ex_name), device_path = Some (53, [0x2F, 0x64])\<rparr>"

definition ex_info :: trfs_sb_info where
  "ex_info = \<lparr>lower_sb = Some 60, mount_path = Some ex_mount_path, sb_record_id = 0, mask = BITMAP_MAX\<rparr>"

definition ex_state :: "block st" where
  "ex_state = \<lparr>
     inodes = (\<lambda>i. \<lparr>attrs = ex_attr, lower_inode = Some (i + 500), i_op = Main_iops, i_fop = Main_fops,
                   trfs_aops = True\<rparr>),
     dentries = (\<lambda>d. \<lparr>d_inode = Some d, d_unhashed = False,
                     d_fsdata = Some (d + 300, \<lparr>lower_path = \<lparr>p_dentry = Some (d + 600), p_mnt = Some 9\<rparr>\<rparr>),
                     d_parent = 1, d_name = [0x61], d_trfs_dops = True\<rparr>),
     files = (\<lambda>f. \<lparr>f_flags = 2, f_dentry = f, f_inode = f, f_pos = 0,
                  private_data = Some (400, \<lparr>lower_file = Some 8, lower_vm_ops = None\<rparr>),
                  f_trfs_aops = False\<rparr>),
     vmas = (\<lambda>v. \<lparr>vm_flags = 0, vm_ops = Other_vm_ops None, vm_file = v\<rparr>),
     ki_filp = (\<lambda>i. i),
     sb = \<lparr>s_fs_info = Some (50, ex_info), s_maxbytes = 0, s_time_gran = 1, s_trfs_ops = True,
           s_export_ops = True, s_root = Some 40\<rparr>,
     world = [], log = []\<rparr>"

lemma ex_mounted: "mounted ex_state ex_name ex_info"
  by (simp add: mounted_def ex_state_def ex_info_def ex_mount_path_def)

lemma ex_env_parts: "atime_copy_ok ex_kernel" "link_ok ex_kernel" "dentry_open_ok ex_kernel"
  using ex_env by (simp_all add: fs_env_def)

lemmas ex_atime = ex_env_parts(1)
lemmas ex_link_ok = ex_env_parts(2)
lemmas ex_dentry_open = ex_env_parts(3)

section \<open>Its runs return\<close>

lemma ex_tracing: "tracing_env ex_kernel ex_name (\<lambda>w. w) ex_th ex_path_of"
  using ex_env by (simp add: fs_env_def)

lemma ex_plenty: "plenty ex_kernel"
  by (simp add: plenty_def ex_kernel_def ex_ptr_def)

lemma ex_short: "length (ex_path_of ds d) < 256"
proof -
  have "d mod 16 < 16" by simp
  then show ?thesis unfolding ex_path_of_def by (simp only: length_Cons length_replicate)
qed

lemma ex_fits: "fits (ex_path_of ds) d second"
  using ex_short by (simp add: fits_def split: second_path.split)

lemma ex_dirs_ok: "dirs_ok ex_kernel (\<lambda>p. True)"
  using ex_dirs by (simp add: dirs_ok_def ex_kernel_def ex_ptr_def)

lemma ex_trace_op:
  assumes "sb s = sb ex_state"
  shows "\<exists>l s'. trace_op ex_kernel rt (Some flds) er d second content s = Some (l, s')"
proof -
  have "mounted s ex_name ex_info" using ex_mounted assms by (simp add: mounted_def)
  then show ?thesis using trace_op_returns [OF ex_tracing ex_plenty _ ex_fits] by blast
qed

lemma ex_on_lower:
  "on_lower d \<lparr>p_dentry = Some (d + 600), p_mnt = Some 9\<rparr> (d + 600) ex_state"
  by (simp add: on_lower_def ex_state_def)

text \<open>Interposition makes the inode 30 and keeps the lower inodes of the others.\<close>

lemma ex_lower_positive: "\<exists>i. lower_d_inode ex_kernel d s = Some i"
  by (simp add: lower_d_inode_def ex_kernel_def)

lemma init_inode_lower:
  "trfs_lower_inode j (init_inode K i li s) = (if j = i then Some li else trfs_lower_inode j s)"
  by (simp add: init_inode_def Let_def trfs_set_lower_inode_def trfs_lower_inode_def fsstack_def)

lemma ex_iget:
  assumes "\<forall>j. trfs_lower_inode j s \<noteq> None"
  shows "\<exists>s'. trfs_iget ex_kernel (Some li) s = Some (Ptr 30, s') \<and> sb s' = sb s \<and>
    dentries s' = dentries s \<and> (\<forall>j. trfs_lower_inode j s' \<noteq> None)"
proof -
  define s1 where "s1 = snd (call_ptr ex_kernel (Igrab li) (upd_attrs 30
    (\<lambda>a. a\<lparr>i_ino := i_ino (l_attr (k_linode ex_kernel (world s) li))\<rparr>)
    (s\<lparr>inodes := (inodes s)(30 := (inodes s 30)\<lparr>attrs := (attrs (inodes s 30))\<lparr>i_new := True\<rparr>\<rparr>), world := world s\<rparr>)))"
  have "trfs_iget ex_kernel (Some li) s = Some (Ptr 30, init_inode ex_kernel 30 li s1)"
    by (simp add: trfs_iget_def ex_ptr_def call_ptr_def s1_def upd_defs)
  moreover have "sb s1 = sb s" "dentries s1 = dentries s" "\<forall>j. trfs_lower_inode j s1 \<noteq> None"
    using assms by (simp_all add: s1_def trfs_lower_inode_def)
  ultimately show ?thesis by (simp add: init_inode_lower)
qed

lemma ex_full:
  "\<forall>j. trfs_lower_inode j ex_state \<noteq> None" "\<forall>x. d_inode (dentries ex_state x) \<noteq> None"
  by (simp_all add: trfs_lower_inode_def ex_state_def)

section \<open>Its operations return\<close>

lemma ex_names_ok: "names_ok ex_kernel"
  by (auto simp: names_ok_def kept_by_tracing_def positive_def)

lemma ex_new_name: "new_name_ok ex_kernel ex_path_of (\<lambda>p. True) dir d ex_state"
  using ex_dirs_ok ex_names_ok ex_on_lower ex_full ex_short unfolding new_name_ok_def by blast

lemmas ex_makes =
  create_returns [OF ex_tracing ex_plenty ex_mounted ex_new_name]
  mkdir_returns [OF ex_tracing ex_plenty ex_mounted ex_new_name]
  symlink_mknod_returns [OF ex_tracing ex_plenty ex_mounted ex_new_name]

lemmas ex_removes =
  rmdir_returns [OF ex_tracing ex_plenty ex_mounted ex_dirs_ok ex_on_lower ex_short]
  unlink_returns [OF ex_tracing ex_plenty ex_mounted ex_dirs_ok ex_on_lower ex_short
    spec [OF ex_full(1)] _ spec [OF ex_full(1)]]
  rename_returns [OF ex_tracing ex_plenty ex_mounted ex_dirs_ok ex_on_lower ex_on_lower ex_fits]

lemma ex_open_file: "open_file f 8 f ex_state"
  by (simp add: open_file_def trfs_lower_file_def ex_state_def)

lemma ex_read: "\<exists>s'. trfs_read ex_kernel 3 b n ex_state = Some (3, s')"
  using read_returns [OF ex_tracing ex_plenty ex_mounted ex_open_file ex_short]
  by (simp add: ex_int_def to_int_id)

lemma ex_write: "\<exists>s'. trfs_write ex_kernel 3 [0x68, 0x69] 2 ex_state = Some (2, s')"
  using write_returns [OF ex_tracing ex_plenty ex_mounted ex_open_file ex_short, of 3 "[0x68, 0x69]" 2]
  by (simp add: ex_int_def to_int_id)

lemma ex_two_names: "two_names_ok ex_kernel ex_path_of (\<lambda>p. True) 1 2 ex_state"
proof -
  have "splice_ok ex_kernel" "\<forall>ld. kept_by_interposing ex_kernel (positive ex_kernel ld)"
    by (auto simp: splice_ok_def kept_by_interposing_def positive_def)
  moreover have "\<exists>oi. d_inode (dentries ex_state 1) = Some oi \<and> trfs_lower_inode oi ex_state \<noteq> None"
    using ex_full by blast
  ultimately show ?thesis
    using ex_dirs_ok ex_names_ok ex_on_lower ex_fits unfolding two_names_ok_def by auto
qed

text \<open>The same kernel, with a lower \<open>rmdir\<close> that finds the directory not empty.\<close>

definition ex_failing :: "block kernel" where
  "ex_failing = ex_kernel\<lparr>k_int := (\<lambda>c w. case c of Vfs_rmdir i d \<Rightarrow> (- 39, w) | _ \<Rightarrow> ex_int c w)\<rparr>"

lemma ex_failed_rmdir: "\<exists>s'. trfs_rmdir ex_failing 1 2 ex_state = Some (- 39, s')"
proof -
  have [simp]: "k_int ex_failing (Vfs_rmdir i d) w = (- 39, w)" "k_ptr ex_failing = ex_ptr"
    "k_ldentry ex_failing w d = \<lparr>ld_inode = Some (d + 1), ld_flags = 0, ld_sb = 60\<rparr>" for i d w
    by (simp_all add: ex_failing_def)
  show ?thesis
    by (simp add: trfs_rmdir_def with_parent_def in_parent_def out_parent_def rmdir_body_def
        trfs_get_lower_path_def lock_parent_def unlock_dir_def lower_d_inode_def ex_ptr_def
        call_i32_def call_int_def call_ptr_def to_int_id ex_state_def pathcpy_def Let_def)
qed

section \<open>A run, a machine for the replay and a trace\<close>

lemma ex_file_ok: "file_ok ex_th f ex_state"
  by (simp add: file_ok_def inode_fields_def trfs_lower_file_def ex_state_def ex_th_def)

lemma ex_run:
  "\<exists>s'. trfs_write ex_kernel 3 [0x68, 0x69] 2 ex_state = Some (2, s') \<and>
     runs ex_kernel lb isr (\<lambda>w. w) ex_th ex_state [File_request Main_fops (Req_write 3 [0x68, 0x69] 2)] s'"
proof -
  obtain s' where s': "trfs_write ex_kernel 3 [0x68, 0x69] 2 ex_state = Some (2, s')"
    using ex_write by blast
  have "runs ex_kernel lb isr (\<lambda>w. w) ex_th ex_state ([] @ [File_request Main_fops (Req_write 3 [0x68, 0x69] 2)]) s'"
    by (rule runs_request [OF runs_start, where meth = "trfs_write ex_kernel 3 [0x68, 0x69] 2" and e = 2])
      (use s' ex_file_ok in \<open>auto simp: vfs_method_def file_table_def trfs_main_fops_def vfs_ok_def\<close>)
  with s' show ?thesis by auto
qed

definition ex_entry :: trace_entry where
  "ex_entry = trace_entry_of (ex_path_of (dentries ex_state)) WRITE_CALL 0 0x81A4 2 0 3 No_second
     (Some [0x68, 0x69])"

lemma ex_traced: "n < 12 \<Longrightarrow> traced n (mask ex_info)"
proof -
  have "\<forall>n \<in> set [0..<12]. bit (0xfff :: 64 word) n" by code_simp
  then show "n < 12 \<Longrightarrow> traced n (mask ex_info)" by (simp add: traced_bit ex_info_def BITMAP_MAX_def)
qed

text \<open>What the write leaves in the trace file.\<close>

lemma ex_write_trace:
  assumes "trfs_write ex_kernel 3 [0x68, 0x69] 2 ex_state = Some (2, s')"
  shows "\<exists>pad. length pad = 28 \<and> world s' = entry_bytes pad ex_entry"
proof -
  have f: "inode_fields (f_dentry (files ex_state 3)) ex_state = Some (0, 0x81A4)"
    by (simp add: inode_fields_def ex_state_def ex_attr_def)
  have "\<not> ex_th lf" if "trfs_lower_file 3 ex_state = Some (Some lf)" for lf
    using that by (auto simp: trfs_lower_file_def ex_state_def ex_th_def)
  from write_op [OF ex_tracing ex_mounted this f assms]
  have "extends (\<lambda>w. w) ex_state s' [ex_entry]"
    using ex_traced [of WRITE_CALL]
    by (auto simp: op_trace_def ex_entry_def ex_state_def ex_info_def call_defs)
  moreover have "world ex_state = []" by (simp add: ex_state_def)
  ultimately show ?thesis by (auto simp: extends_single_iff emits_def)
qed

lemma ex_entry_good: "wf_entry ex_entry" "complete ex_entry" "entry_size ex_entry = 34"
proof -
  have "good_entry (Some WRITE_CALL) ex_info (trace_entry_of (ex_path_of (dentries ex_state)) WRITE_CALL 0 0x81A4 2
      (sb_record_id ex_info) 3 No_second (Some [0x68, 0x69]))"
    by (rule entry_good [OF ex_paths]) (auto simp: call_defs intro: ex_traced)
  then have "good_entry (Some WRITE_CALL) ex_info ex_entry" by (simp add: ex_entry_def ex_info_def)
  then show "wf_entry ex_entry" "complete ex_entry" by (simp_all add: good_entry_def)
  show "entry_size ex_entry = 34"
    by (simp add: entry_size_def ex_entry_def trace_entry_of_def ex_path_of_def)
qed

definition ex_open_entry :: trace_entry where
  "ex_open_entry = trace_entry_of (\<lambda>d. [0x2F]) OPEN_CALL 2 0x81A4 0 0 3 No_second None"

lemma ex_open_entry_good:
  "wf_entry ex_open_entry" "complete ex_open_entry" "entry_size ex_open_entry = 29"
  "unat (record_type (te_ds ex_open_entry)) = OPEN_CALL"
  by (simp_all add: ex_open_entry_def trace_entry_of_def new_record_def wf_entry_def complete_def
      entry_size_def call_defs sint_word16_of_nat)

definition ex_machine :: "unit env" where
  "ex_machine = \<lparr>usable = (\<lambda>k n. Some (n + 8)), tail = (\<lambda>t k. [0]), syscall = (\<lambda>c q. (2, q))\<rparr>"

definition ex_garbage :: garbage where
  "ex_garbage = \<lparr>g_nVal = False, g_sVal = False, g_tracer_null = True\<rparr>"

definition ex_rstate :: "unit rstate" where
  "ex_rstate = \<lparr>mallocs = 0, global_fd = 0, os = (), lines = []\<rparr>"

lemma ex_calm: "calm ex_machine"
  by (auto simp: calm_def ex_machine_def)

section \<open>The same kernel with paths that do not fit\<close>

definition long_path_of :: "(ptr \<Rightarrow> dentry) \<Rightarrow> ptr \<Rightarrow> block" where
  "long_path_of ds d = replicate 300 0x61"

definition long_kernel :: "block kernel" where
  "long_kernel = ex_kernel\<lparr>k_dentry_path_raw := (\<lambda>ds d buf.
     if 300 < length buf
     then (Ptr (length buf - 1 - 300), take (length buf - 1 - 300) buf @ replicate 300 0x61 @ [0])
     else (Err_ptr (- 36), buf))\<rparr>"

lemma long_tracing: "tracing_env long_kernel ex_name (\<lambda>w. w) ex_th long_path_of"
proof -
  have "trace_file_ok long_kernel ex_name (\<lambda>w. w) ex_th" "kmalloc_ok long_kernel"
    using ex_trace_file ex_kmalloc by (simp_all add: long_kernel_def trace_file_ok_def kmalloc_ok_def)
  moreover have "dentry_path_ok long_kernel long_path_of"
    by (simp add: dentry_path_ok_def long_kernel_def fun_eq_iff long_path_of_def)
  ultimately show ?thesis by (simp add: tracing_env_def)
qed

section \<open>Mounting on it\<close>

definition ex_bare :: "block st" where
  "ex_bare = ex_state\<lparr>sb := \<lparr>s_fs_info = None, s_maxbytes = 0, s_time_gran = 0, s_trfs_ops = False,
     s_export_ops = False, s_root = None\<rparr>\<rparr>"

definition ex_options :: block where
  "ex_options = [0x74, 0x66, 0x69, 0x6C, 0x65] @ 0x3D # ex_name @ 0 # []"

lemma ex_read_super:
  assumes "device_path mp = Some d" "tfile_path mp = Some t" "inodes s = inodes ex_state"
  shows "\<exists>s'. trfs_read_super ex_kernel (Some mp) s = Some (0, s')"
proof -
  define s1 where "s1 = snd (call_i32 ex_kernel (Kern_path (snd d)) s)"
  define s2 where "s2 = upd_sb (\<lambda>b. b\<lparr>s_fs_info := Some (1032, fresh_sb_info)\<rparr>) (snd (call_ptr ex_kernel (Kzalloc 32) s1))"
  obtain s3 where c: "create_trace_file ex_kernel mp s2 = Some s3" "inodes s3 = inodes s2" "sb s3 = sb s2"
    using assms(2) by (simp add: create_trace_file_def case_prod_beta Let_def call_ptr_def ex_ptr_def call_void_def)
  obtain s4 where f: "fill_super ex_kernel mp 70 s3 = Some (60, s4)" "inodes s4 = inodes s3" "s_fs_info (sb s4) \<noteq> None"
    using c(3) by (simp add: fill_super_def Let_def trfs_set_lower_super_def s2_def)
  have low: "\<forall>j. trfs_lower_inode j s4 \<noteq> None"
    using assms(3) c f ex_full(1) by (simp add: trfs_lower_inode_def s2_def s1_def)
  obtain s5 where g: "trfs_iget ex_kernel (lower_d_inode ex_kernel 70 s4) s4 = Some (Ptr 30, s5)" "sb s5 = sb s4"
    using ex_iget [OF low, of 71] by (auto simp: lower_d_inode_def)
  have "\<exists>s'. make_root ex_kernel \<lparr>p_dentry = Some 70, p_mnt = Some 9\<rparr> 60 30 s5 = Some (0, s')"
    by (simp add: make_root_def new_dentry_private_data_def trfs_set_lower_path_def call_ptr_def ex_ptr_def Let_def case_prod_beta)
  then have "\<exists>s'. read_super_root ex_kernel mp \<lparr>p_dentry = Some 70, p_mnt = Some 9\<rparr> 70 s3 = Some (0, s')"
    using f g by (simp add: read_super_root_def)
  moreover have "fst (call_i32 ex_kernel (Kern_path (snd d)) s) = 0" "fst (call_ptr ex_kernel (Kzalloc 32) s1) = Ptr 1032"
    by (simp_all add: call_simps ex_int_def ex_ptr_def to_int_id)
  ultimately show ?thesis
    using assms c by (simp add: trfs_read_super_def case_prod_beta Let_def s1_def [symmetric] s2_def [symmetric])
qed

lemma ex_mount:
  "\<exists>s'. trfs_mount ex_kernel (\<lambda>fill raw s. fill raw s) (Some ex_options) (Some [0x2F, 0x64]) ex_bare = Some (0, s')"
proof -
  obtain mp s1 where "mount_prepare ex_kernel (Some ex_options) (Some [0x2F, 0x64]) ex_bare = Some (Some mp, s1)"
    "device_path mp \<noteq> None" "tfile_path mp \<noteq> None" "inodes s1 = inodes ex_state"
    by (simp add: mount_prepare_def ex_options_def ex_name_def dup_string_def cstr_def strlen.simps call_ptr_def
        ex_ptr_def Let_def case_prod_beta ex_bare_def)
  then show ?thesis using ex_read_super [of mp _ _ s1] by (auto simp: trfs_mount_def)
qed

lemma ex_nodev: "nodev_ok (\<lambda>fill raw s. fill raw s)"
  by (auto simp: nodev_ok_def)

text \<open>A kernel on which the device of the mount cannot be looked up.\<close>

definition missing_kernel :: "block kernel" where
  "missing_kernel = ex_kernel\<lparr>k_int := (\<lambda>c w. case c of Kern_path nm \<Rightarrow> (- 2, w) | _ \<Rightarrow> ex_int c w)\<rparr>"

lemma missing_trace_file: "trace_file_ok missing_kernel ex_name (\<lambda>w. w) ex_th"
  using ex_trace_file by (auto simp: trace_file_ok_def missing_kernel_def split: icall.splits)

section \<open>Links, lookups and positions on it\<close>

lemma ex_get_link: "\<exists>p data s'. trfs_get_link ex_kernel (Some 2) ex_state = Some (p, data, s')"
proof -
  let ?s = "call_void ex_kernel Set_fs_kernel (snd (call_ptr ex_kernel (Kmalloc PAGE_SIZE) ex_state))"
  have "on_lower 2 \<lparr>p_dentry = Some (2 + 600), p_mnt = Some 9\<rparr> (2 + 600) ?s"
    using ex_on_lower [of 2] by (simp add: on_lower_def)
  then obtain s1 where s1: "trfs_get_lower_path ex_kernel 2 ?s = Some (\<lparr>p_dentry = Some (2 + 600), p_mnt = Some 9\<rparr>, s1)"
    "dentries s1 = dentries ?s" using get_lower_path_returns by blast
  have "has_i_op (k_linode ex_kernel w i)" "has_readlink (k_linode ex_kernel w i)" for w i
    by (simp_all add: ex_kernel_def)
  moreover have "fst (call_i32 ex_kernel (Lower_readlink d b n) s) = 5" for d b n and s :: "block st"
    by (simp add: call_simps ex_int_def to_int_id)
  moreover have "d_inode (dentries s1 2) = Some 2" using s1(2) by (simp add: ex_state_def)
  ultimately have "\<exists>s2. trfs_readlink ex_kernel 2 (1000 + PAGE_SIZE) (int PAGE_SIZE) ?s = Some (5, s2)"
    using s1 by (simp add: trfs_readlink_def with_lower_path_def copy_from_lower_def lower_d_inode_def case_prod_beta Let_def)
  moreover have "fst (call_ptr ex_kernel (Kmalloc PAGE_SIZE) ex_state) = Ptr (1000 + PAGE_SIZE)"
    by (simp add: call_ptr_def ex_ptr_def)
  moreover have "5 < PAGE_SIZE" by (simp add: PAGE_SIZE_def)
  ultimately show ?thesis by (auto simp: trfs_get_link_def case_prod_beta Let_def)
qed

lemma ex_page: "page_ok ex_kernel"
  by (auto simp: page_ok_def ex_ptr_def)

lemma ex_inode_cache: "inode_cache_ok ex_kernel"
  by (auto simp: inode_cache_ok_def ex_ptr_def)

text \<open>No inode can be had.\<close>

definition no_inode_kernel :: "block kernel" where
  "no_inode_kernel = ex_kernel\<lparr>k_iget5 := (\<lambda>t h ns w. (Null, ns, w))\<rparr>"

lemma no_inode_lookup:
  "\<exists>s'. lookup_dentry no_inode_kernel (\<lambda>d. False) 2 0 \<lparr>p_dentry = Some 601, p_mnt = Some 9\<rparr> ex_state =
     Some (Err_ptr (- EACCES), s')"
proof -
  let ?s = "snd (call_i32 no_inode_kernel (Vfs_path_lookup 601 (Some 9) [0x61])
    (upd_dentry 2 (\<lambda>d. d\<lparr>d_trfs_dops := True\<rparr>) ex_state))"
  have k: "k_ldentry no_inode_kernel w d = \<lparr>ld_inode = Some (d + 1), ld_flags = 0, ld_sb = 60\<rparr>"
    "k_path_result no_inode_kernel w = \<lparr>p_dentry = Some 70, p_mnt = Some 9\<rparr>" "l_sb (k_linode no_inode_kernel w i) = 60"
    "k_iget5 no_inode_kernel t h ns w = (Null, ns, w)" "k_int no_inode_kernel = ex_int" for w d i t h ns
    by (simp_all add: no_inode_kernel_def)
  have e: "fst (call_i32 no_inode_kernel (Vfs_path_lookup a b c) s) = 0" for a b c and s :: "block st"
    by (simp add: call_simps k ex_int_def to_int_id)
  have n: "d_name (dentries ex_state 2) = [0x61]" by (simp add: ex_state_def)
  obtain s1 where s1: "trfs_set_lower_path no_inode_kernel 2 \<lparr>p_dentry = Some 70, p_mnt = Some 9\<rparr> ?s = Some s1"
    "sb s1 = sb ex_state" "d_fsdata (dentries s1 2) \<noteq> None"
    by (auto simp: trfs_set_lower_path_def ex_state_def Let_def)
  obtain s2 where s2: "interpose_dentry no_inode_kernel 2 \<lparr>p_dentry = Some 70, p_mnt = Some 9\<rparr> s1 = Some (Err_ptr (- EACCES), s2)"
    "dentries s2 = dentries s1"
    using s1(2) by (simp add: interpose_dentry_def lower_d_inode_def k trfs_lower_super_def ex_state_def ex_info_def trfs_iget_def)
  have "\<exists>s3. trfs_put_reset_lower_path no_inode_kernel 2 s2 = Some s3"
    using s1(3) s2(2) by (auto simp: trfs_put_reset_lower_path_def Let_def)
  then show ?thesis using s1(1) s2(1)
    by (auto simp: lookup_dentry_def case_prod_beta Let_def e k n)
qed

text \<open>A lower file system with a file of 3 GiB.\<close>

definition big_kernel :: "block kernel" where
  "big_kernel = ex_kernel\<lparr>k_int := (\<lambda>c w. case c of Lower_llseek f off wh \<Rightarrow> (0xC0000000, w) | _ \<Rightarrow> ex_int c w)\<rparr>"

lemma big_seek:
  "fst (call_int big_kernel (Upper_llseek f off wh) s) = 0"
  "fst (call_int big_kernel (Lower_llseek lf off wh) s) = 0xC0000000"
  by (simp_all add: big_kernel_def call_int_def ex_int_def)

end
