(* ===== verification/Errors.thy ===== *)
theory Errors
  imports File_Trace Operations
begin

text \<open>
  Errors of the lower file system: an operation on a name that fails below returns that error
  and leaves every upper inode and dentry as it was.
\<close>

section \<open>The first call of a body\<close>

text \<open>
  The results of a lower call that are not an error: 0, and for the lower unlink also the
  \<open>EBUSY\<close> of an NFS file that was renamed instead of removed.
\<close>

definition forgiven :: "icall \<Rightarrow> int \<Rightarrow> bool" where
  "forgiven c e \<longleftrightarrow> e = 0 \<or> e = - EBUSY \<and> (\<exists>i d. c = Vfs_unlink i d)"

definition first_call :: "'w kernel \<Rightarrow> icall \<Rightarrow> int \<Rightarrow> 'w st \<Rightarrow> 'w st \<Rightarrow> bool" where
  "first_call K c r s s' \<longleftrightarrow> moves K (snd (call_i32 K c s)) s' \<and>
     (\<not> forgiven c (fst (call_i32 K c s)) \<longrightarrow> r = fst (call_i32 K c s) \<and> inodes s' = inodes s \<and> dentries s' = dentries s)"

text \<open>The lower call has been made, and its error is the result of an operation that changed nothing.\<close>

definition reports_error :: "icall \<Rightarrow> int \<Rightarrow> 'w st \<Rightarrow> 'w st \<Rightarrow> bool" where
  "reports_error c r s s' \<longleftrightarrow> (\<exists>e. called s s' (Int_call c e) \<and>
     (\<not> forgiven c (to_int e) \<longrightarrow> r = to_int e \<and> inodes s' = inodes s \<and> dentries s' = dentries s))"

lemma first_call_reports:
  assumes "first_call K c r s1 s2" "moves K s s1" "moves K s2 s'"
    and "inodes s1 = inodes s" "dentries s1 = dentries s" "inodes s' = inodes s2" "dentries s' = dentries s2"
  shows "reports_error c r s s'"
proof -
  have "grows s s1" "grows (snd (call_i32 K c s1)) s'"
    using assms(1-3) moves_trans [of K _ s2 s'] by (auto simp: first_call_def moves_def)
  from called_i32 [OF this] have "called s s' (Int_call c (fst (call_int K c s1)))" .
  moreover have "to_int (fst (call_int K c s1)) = fst (call_i32 K c s1)" by (simp add: call_i32_def case_prod_beta)
  ultimately show ?thesis using assms unfolding reports_error_def first_call_def by auto
qed

lemma trace_op_leaves:
  "trace_op K rt flds er d second content s = Some (l, s') \<Longrightarrow>
   moves K s s' \<and> inodes s' = inodes s \<and> dentries s' = dentries s"
  by (intro conjI) (erule trace_op_moves trace_op_frame)+

lemma interpose_moves: "trfs_interpose K d lp s = Some (r, s') \<Longrightarrow> moves K s s'"
  by (rule interpose_effect(6))

lemma one_name_first:
  "create_body K dir d mode excl lp pd ld pi s = Some (r, l, s') \<Longrightarrow> first_call K (Vfs_create pi ld mode excl) r s s'"
  "mkdir_body K dir d mode lp pd ld pi s = Some (r, l, s') \<Longrightarrow> first_call K (Vfs_mkdir pi ld mode) r s s'"
  "symlink_body K dir d str lp pd ld pi s = Some (r, l, s') \<Longrightarrow> first_call K (Vfs_symlink pi ld str) r s s'"
  "mknod_body K dir d mode dev lp pd ld pi s = Some (r, l, s') \<Longrightarrow> first_call K (Vfs_mknod pi ld mode dev) r s s'"
  "rmdir_body K dir d lp pd ld pi s = Some (r, l, s') \<Longrightarrow> first_call K (Vfs_rmdir pi ld) r s s'"
  "unlink_body K dir d ldi ld s = Some (r, l, s') \<Longrightarrow> first_call K (Vfs_unlink ldi ld) r s s'"
  by (auto simp: first_call_def forgiven_def unlink_body_def create_body_def mkdir_body_def symlink_body_def mknod_body_def rmdir_body_def
      run_simps dest!: trace_op_leaves interpose_moves intro!: moves_refl intro: moves_trans split: option.splits)

lemma two_names_first:
  "link_body K od dir nd sz np lo ln pi s = Some (r, l, s') \<Longrightarrow> first_call K (Vfs_link lo pi ln) r s s'"
  "rename_body K odir od ndir nd trap lo ln lod lnd s = Some (r, l, s') \<Longrightarrow> trap \<noteq> Ptr lo \<Longrightarrow> trap \<noteq> Ptr ln \<Longrightarrow>
   lower_d_inode K lod s = Some odi \<Longrightarrow> lower_d_inode K lnd s = Some ndi \<Longrightarrow>
   first_call K (Vfs_rename odi lo ndi ln) r s s'"
  by (auto simp: first_call_def forgiven_def link_body_def rename_body_def
      run_simps dest!: trace_op_leaves interpose_moves intro!: moves_refl intro: moves_trans)

section \<open>The operations\<close>

lemma with_parent_reports:
  assumes run: "with_parent K d body s = Some (r, s')"
    and body: "\<And>lp pd ld pi s1 l s2. body lp pd ld pi s1 = Some (r, l, s2) \<Longrightarrow> first_call K (c pi ld) r s1 s2"
  shows "\<exists>lp pi ld. on_lower d lp ld s \<and> reports_error (c pi ld) r s s'"
proof -
  obtain lp pd ld pi s1 l s2 where
    ip: "in_parent K d s = Some (lp, pd, ld, pi, s1)" and
    bd: "body lp pd ld pi s1 = Some (r, l, s2)" and
    op: "out_parent K pd lp l s2 = Some s'"
    using run by (auto simp: with_parent_def run_simps)
  note I = in_parent_effect [OF ip] and O = out_parent_effect [OF op]
  show ?thesis using first_call_reports [OF body [OF bd] I(5) O(5) I(1,2) O(3,2)] I(8) by blast
qed

lemma one_name_reports:
  "trfs_create K dir d mode excl s = Some (r, s') \<Longrightarrow>
   \<exists>lp pi ld. on_lower d lp ld s \<and> reports_error (Vfs_create pi ld mode excl) r s s'"
  "trfs_mkdir K dir d mode s = Some (r, s') \<Longrightarrow>
   \<exists>lp pi ld. on_lower d lp ld s \<and> reports_error (Vfs_mkdir pi ld mode) r s s'"
  "trfs_symlink K dir d str s = Some (r, s') \<Longrightarrow>
   \<exists>lp pi ld. on_lower d lp ld s \<and> reports_error (Vfs_symlink pi ld str) r s s'"
  "trfs_mknod K dir d mode dev s = Some (r, s') \<Longrightarrow>
   \<exists>lp pi ld. on_lower d lp ld s \<and> reports_error (Vfs_mknod pi ld mode dev) r s s'"
  "trfs_rmdir K dir d s = Some (r, s') \<Longrightarrow>
   \<exists>lp pi ld. on_lower d lp ld s \<and> reports_error (Vfs_rmdir pi ld) r s s'"
  unfolding one_name_ops by (erule with_parent_reports, erule one_name_first)+

lemma link_reports:
  assumes "trfs_link K od dir nd s = Some (r, s')"
  shows "\<exists>op lo np ln pi. on_lower od op lo s \<and> on_lower nd np ln s \<and> reports_error (Vfs_link lo pi ln) r s s'"
proof -
  obtain op s1 np s2 pd s3 sz lo ln pi l s4 s5 where
    g1: "trfs_get_lower_path K od s = Some (op, s1)" and
    g2: "trfs_get_lower_path K nd s1 = Some (np, s2)" and
    k: "lock_parent K (p_dentry np) s2 = Some (pd, s3)" and
    lo: "p_dentry op = Some lo" and ln: "p_dentry np = Some ln" and
    b: "link_body K od dir nd sz np lo ln pi s3 = Some (r, l, s4)" and
    u: "unlock_dir K pd s4 = Some s5" and
    s': "s' = free_str_writer_buffer K l (trfs_put_lower_path K np (trfs_put_lower_path K op s5))"
    using assms by (auto simp: trfs_link_def run_simps)
  note G1 = get_lower_path_effect [OF g1] and G2 = get_lower_path_effect [OF g2]
    and L = lock_parent_effect [OF k] and U = unlock_dir_effect [OF u]
  have "reports_error (Vfs_link lo pi ln) r s s'"
    by (rule first_call_reports [OF two_names_first(1) [OF b]])
      (use s' G1 G2 L U moves_trans [OF moves_trans [OF G1(6) G2(6)] L(5)] in auto)
  then show ?thesis using G1(7) G2(7) G1(2) lo ln unfolding on_lower_def by metis
qed

lemma unlink_reports:
  assumes "trfs_unlink K dir d s = Some (r, s')"
  shows "\<exists>lp ldi ld. on_lower d lp ld s \<and> trfs_lower_inode dir s = Some ldi \<and> reports_error (Vfs_unlink ldi ld) r s s'"
proof -
  obtain lp s1 ld pd s2 ldi l s3 s4 where
    g: "trfs_get_lower_path K d s = Some (lp, s1)" and ld: "p_dentry lp = Some ld" and
    ldi: "trfs_lower_inode dir s = Some ldi" and
    k: "lock_parent K (Some ld) (call_void K (Dget ld) s1) = Some (pd, s2)" and
    b: "unlink_body K dir d ldi ld s2 = Some (r, l, s3)" and
    u: "unlock_dir K pd s3 = Some s4" and
    s': "s' = free_str_writer_buffer K l (trfs_put_lower_path K lp (call_void K (Dput ld) s4))"
    using assms by (auto simp: trfs_unlink_def run_simps)
  note G = get_lower_path_effect [OF g] and L = lock_parent_effect [OF k] and U = unlock_dir_effect [OF u]
  have "reports_error (Vfs_unlink ldi ld) r s s'"
    by (rule first_call_reports [OF one_name_first(6) [OF b]])
      (use s' G L U moves_trans [OF _ L(5), of s] in auto)
  then show ?thesis using G(7) ld ldi unfolding on_lower_def by metis
qed

text \<open>A rename onto its own ancestor or descendant is refused before the lower file system is asked.\<close>

definition refused :: "int \<Rightarrow> 'w st \<Rightarrow> 'w st \<Rightarrow> bool" where
  "refused r s s' \<longleftrightarrow> r \<in> {- EINVAL, - ENOTEMPTY} \<and> inodes s' = inodes s \<and> dentries s' = dentries s"

lemma rename_reports:
  assumes "trfs_rename K odir od ndir nd s = Some (r, s')"
  shows "refused r s s' \<or> (\<exists>op lo np ln odi ndi. on_lower od op lo s \<and> on_lower nd np ln s \<and>
    reports_error (Vfs_rename odi lo ndi ln) r s s')"
proof -
  obtain op s1 np s2 lo ln s3 s4 lod lnd trap s5 l s6 where
    g1: "trfs_get_lower_path K od s = Some (op, s1)" and
    g2: "trfs_get_lower_path K nd s1 = Some (np, s2)" and
    lo: "p_dentry op = Some lo" and ln: "p_dentry np = Some ln" and
    s3: "s3 = snd (call_ptr K (Dget_parent lo) s2)" "fst (call_ptr K (Dget_parent lo) s2) = Ptr lod" and
    s4: "s4 = snd (call_ptr K (Dget_parent ln) s3)" "fst (call_ptr K (Dget_parent ln) s3) = Ptr lnd" and
    s5: "s5 = snd (call_ptr K (Lock_rename lod lnd) s4)" and
    b: "rename_body K odir od ndir nd trap lo ln lod lnd s5 = Some (r, l, s6)" and
    s': "s' = free_str_writer_buffer K l (trfs_put_lower_path K np (trfs_put_lower_path K op
       (call_void K (Dput lnd) (call_void K (Dput lod) (call_void K (Unlock_rename lod lnd) s6)))))"
    using assms by (auto simp: trfs_rename_def run_simps)
  note G1 = get_lower_path_effect [OF g1] and G2 = get_lower_path_effect [OF g2]
  show ?thesis
  proof (cases "trap = Ptr lo \<or> trap = Ptr ln")
    case True
    then have "s6 = s5" "r \<in> {- EINVAL, - ENOTEMPTY}" using b by (auto simp: rename_body_def split: if_splits)
    then show ?thesis using s' s3 s4 s5 G1(1,2) G2(1,2) by (simp add: refused_def)
  next
    case False
    then have t: "trap \<noteq> Ptr lo" "trap \<noteq> Ptr ln" by auto
    then obtain odi ndi where i: "lower_d_inode K lod s5 = Some odi" "lower_d_inode K lnd s5 = Some ndi"
      using b by (auto simp: rename_body_def run_simps)
    have "reports_error (Vfs_rename odi lo ndi ln) r s s'"
      by (rule first_call_reports [OF two_names_first(2) [OF b t i]])
        (use s' s3 s4 s5 G1 G2 moves_trans [OF G1(6) G2(6)] in auto)
    then show ?thesis using G1(7) G2(7) G1(2) lo ln unfolding on_lower_def by metis
  qed
qed

section \<open>Requests on names\<close>

text \<open>
  The lower call of a request: the one of its own kind, on the lower dentry of its own dentry,
  with the arguments of the request.
\<close>

definition name_call :: "request \<Rightarrow> 'w st \<Rightarrow> icall \<Rightarrow> bool" where
  "name_call r s c \<longleftrightarrow> (case r of
     Inode_request t req \<Rightarrow> (case req of
        Req_create dir d mode excl \<Rightarrow> \<exists>lp pi ld. on_lower d lp ld s \<and> c = Vfs_create pi ld mode excl
      | Req_mkdir dir d mode \<Rightarrow> \<exists>lp pi ld. on_lower d lp ld s \<and> c = Vfs_mkdir pi ld mode
      | Req_symlink dir d str \<Rightarrow> \<exists>lp pi ld. on_lower d lp ld s \<and> c = Vfs_symlink pi ld str
      | Req_mknod dir d mode dev \<Rightarrow> \<exists>lp pi ld. on_lower d lp ld s \<and> c = Vfs_mknod pi ld mode dev
      | Req_rmdir dir d \<Rightarrow> \<exists>lp pi ld. on_lower d lp ld s \<and> c = Vfs_rmdir pi ld
      | Req_unlink dir d \<Rightarrow> \<exists>lp pi ld. on_lower d lp ld s \<and> trfs_lower_inode dir s = Some pi \<and> c = Vfs_unlink pi ld
      | Req_link od dir nd \<Rightarrow> \<exists>op lo np ln pi. on_lower od op lo s \<and> on_lower nd np ln s \<and> c = Vfs_link lo pi ln
      | Req_rename odir od ndir nd \<Rightarrow>
          \<exists>op lo np ln odi ndi. on_lower od op lo s \<and> on_lower nd np ln s \<and> c = Vfs_rename odi lo ndi ln
      | _ \<Rightarrow> False)
   | _ \<Rightarrow> False)"

lemma name_request_reports:
  assumes "vfs_method K lb isr (Inode_request t req) = Some m" "m s = Some (e, s')"
    and "inode_call req \<noteq> None"
  shows "(\<exists>c. name_call (Inode_request t req) s c \<and> reports_error c e s s') \<or>
    (inode_call req = Some RENAME_CALL \<and> refused e s s')"
proof -
  have t: "trfs_dir_iops K lb isr req = Some m"
    using assms by (cases t; cases req)
      (auto simp: vfs_method_def inode_table_def trfs_main_iops_def trfs_symlink_iops_def common_iops_def inode_call_def)
  show ?thesis
    using t assms(2,3)
    by (cases req) (auto simp: trfs_dir_iops_def name_call_def inode_call_def
        dest!: one_name_reports link_reports unlink_reports rename_reports, blast+)
qed

end
