(* ===== verification/Attributes.thy ===== *)
theory Attributes
  imports Returns
begin

text \<open>
  Changing attributes (\<open>trfs_setattr\<close>): how it can end, and that it returns. The tests on the
  upper inode come first, then the upper inode is resized, then the lower file system is asked.
\<close>

section \<open>How a change of attributes ends\<close>

definition resized :: "'w kernel \<Rightarrow> iattr \<Rightarrow> attr \<Rightarrow> attr" where
  "resized K ia a = (if ia_valid ia AND ATTR_SIZE \<noteq> 0 then k_truncate_setsize K a (ia_size ia) else a)"

text \<open>
  How a change of attributes ends: refused by one of the two tests on the upper inode, with
  nothing changed; or handed to the lower file system, for the lower dentry and with the lower
  file, and then either failed, where the upper inode already has the new size, or done, where
  the upper inode has the attributes of its lower inode.
\<close>

definition setattr_outcome ::
  "'w kernel \<Rightarrow> ptr \<Rightarrow> ptr \<Rightarrow> iattr \<Rightarrow> int \<Rightarrow> 'w st \<Rightarrow> 'w st \<Rightarrow> bool" where
  "setattr_outcome K d i ia r s s' \<longleftrightarrow>
     (\<exists>c e. c \<in> {Inode_change_ok i ia, Inode_newsize_ok i (ia_size ia)} \<and> called s s' (Int_call c e) \<and>
        r = to_int e \<and> r \<noteq> 0 \<and> inodes s' = inodes s) \<or>
     (\<exists>lp ld lia e. on_lower d lp ld s \<and> lower_iattr ia s = Some lia \<and>
        called s s' (Int_call (Notify_change ld (drop_mode lia)) e) \<and> r = to_int e \<and>
        (if r \<noteq> 0 then attrs (inodes s' i) = resized K ia (attrs (inodes s i))
         else \<exists>li w. trfs_lower_inode i s = Some li \<and> reach K (world s) w \<and> reach K w (world s') \<and>
           attrs (inodes s' i) = k_attr_all K (resized K ia (attrs (inodes s i))) (l_attr (k_linode K w li))))"

text \<open>The state in which the lower file system is asked, but for the lock.\<close>

definition resized_st :: "'w kernel \<Rightarrow> ptr \<Rightarrow> iattr \<Rightarrow> 'w st \<Rightarrow> 'w st" where
  "resized_st K i ia s =
     (if ia_valid ia AND ATTR_SIZE \<noteq> 0
      then upd_attrs i (\<lambda>a. k_truncate_setsize K a (ia_size ia)) (snd (call_i32 K (Inode_newsize_ok i (ia_size ia)) s))
      else s)"

lemma resized_st_effect:
  "moves K s (resized_st K i ia s)" "dentries (resized_st K i ia s) = dentries s"
  "attrs (inodes (resized_st K i ia s) i) = resized K ia (attrs (inodes s i))"
  by (auto simp: resized_st_def) (simp_all add: resized_def upd_defs)

lemma setattr_body_cases:
  assumes "setattr_body K i ia lp s = Some (r, s')"
  shows "(r \<noteq> 0 \<and> r = fst (call_i32 K (Inode_newsize_ok i (ia_size ia)) s) \<and>
       s' = snd (call_i32 K (Inode_newsize_ok i (ia_size ia)) s)) \<or>
    (\<exists>ld lia l1 l2 s2. p_dentry lp = Some ld \<and> lower_iattr ia s = Some lia \<and>
       s2 = call_void K (Inode_lock l1) (resized_st K i ia s) \<and>
       r = fst (call_i32 K (Notify_change ld (drop_mode lia)) s2) \<and>
       (let s3 = call_void K (Inode_unlock l2) (snd (call_i32 K (Notify_change ld (drop_mode lia)) s2)) in
        r \<noteq> 0 \<and> s' = s3 \<or> r = 0 \<and> (\<exists>li. trfs_lower_inode i s = Some li \<and> s' = fsstack K (k_attr_all K) i li s3)))"
proof -
  let ?ask = "ia_valid ia AND ATTR_SIZE \<noteq> 0" and ?n = "call_i32 K (Inode_newsize_ok i (ia_size ia)) s"
  show ?thesis
  proof (cases "?ask \<and> fst ?n \<noteq> 0")
    case True
    then show ?thesis using assms by (intro disjI1) (simp add: setattr_body_def run_simps)
  next
    case False
    then have "setattr_body K i ia lp s = do {
        ld \<leftarrow> p_dentry lp;
        lia \<leftarrow> lower_iattr ia s;
        l1 \<leftarrow> lower_d_inode K ld (resized_st K i ia s);
        let n = call_i32 K (Notify_change ld (drop_mode lia)) (call_void K (Inode_lock l1) (resized_st K i ia s));
        l2 \<leftarrow> lower_d_inode K ld (snd n);
        let s3 = call_void K (Inode_unlock l2) (snd n);
        if fst n \<noteq> 0 then Some (fst n, s3)
        else do { li \<leftarrow> trfs_lower_inode i s; Some (0, fsstack K (k_attr_all K) i li s3) } }"
      by (cases ?ask) (simp_all add: setattr_body_def resized_st_def Let_def case_prod_beta)
    with assms obtain ld lia l1 l2 where "p_dentry lp = Some ld" "lower_iattr ia s = Some lia" and
      "(let n = call_i32 K (Notify_change ld (drop_mode lia)) (call_void K (Inode_lock l1) (resized_st K i ia s));
            s3 = call_void K (Inode_unlock l2) (snd n) in
        fst n \<noteq> 0 \<and> r = fst n \<and> s' = s3 \<or>
        fst n = 0 \<and> r = 0 \<and> (\<exists>li. trfs_lower_inode i s = Some li \<and> s' = fsstack K (k_attr_all K) i li s3))"
      by (simp add: run_simps) blast
    then show ?thesis unfolding Let_def by (intro disjI2) metis
  qed
qed

lemma lower_iattr_same: "files s1 = files s \<Longrightarrow> lower_iattr ia s1 = lower_iattr ia s"
  by (simp add: lower_iattr_def trfs_lower_file_def)

lemma lower_inode_same: "inodes s1 = inodes s \<Longrightarrow> trfs_lower_inode i s1 = trfs_lower_inode i s"
  by (simp add: trfs_lower_inode_def)

lemma setattr_body_outcome:
  assumes b: "setattr_body K i ia lp s1 = Some (r, s2)" and m: "moves K s s1" and e: "moves K s2 s'"
    and same: "inodes s1 = inodes s" "files s1 = files s" "inodes s' = inodes s2"
    and ld: "\<And>ld. p_dentry lp = Some ld \<Longrightarrow> on_lower d lp ld s"
  shows "setattr_outcome K d i ia r s s'"
proof -
  have lia: "lower_iattr ia s1 = lower_iattr ia s" "trfs_lower_inode i s1 = trfs_lower_inode i s"
    using lower_iattr_same [OF same(2)] lower_inode_same [OF same(1)] by simp_all
  from setattr_body_cases [OF b] show ?thesis
  proof (elim disjE)
    assume A: "r \<noteq> 0 \<and> r = fst (call_i32 K (Inode_newsize_ok i (ia_size ia)) s1) \<and>
       s2 = snd (call_i32 K (Inode_newsize_ok i (ia_size ia)) s1)"
    then have "called s s' (Int_call (Inode_newsize_ok i (ia_size ia)) (fst (call_int K (Inode_newsize_ok i (ia_size ia)) s1)))"
      using m e by (intro called_i32) (auto simp: moves_def)
    moreover have "r = to_int (fst (call_int K (Inode_newsize_ok i (ia_size ia)) s1))"
      using A by (simp add: call_i32_def case_prod_beta)
    moreover have "inodes s' = inodes s" using A same by simp
    ultimately show ?thesis using A unfolding setattr_outcome_def by blast
  next
    assume "\<exists>ld lia l1 l2 s2'. p_dentry lp = Some ld \<and> lower_iattr ia s1 = Some lia \<and>
       s2' = call_void K (Inode_lock l1) (resized_st K i ia s1) \<and>
       r = fst (call_i32 K (Notify_change ld (drop_mode lia)) s2') \<and>
       (let s3 = call_void K (Inode_unlock l2) (snd (call_i32 K (Notify_change ld (drop_mode lia)) s2')) in
        r \<noteq> 0 \<and> s2 = s3 \<or> r = 0 \<and> (\<exists>li. trfs_lower_inode i s1 = Some li \<and> s2 = fsstack K (k_attr_all K) i li s3))"
    then obtain ld lia l1 l2 t t3 where p: "p_dentry lp = Some ld" and l: "lower_iattr ia s = Some lia" and
      t: "t = call_void K (Inode_lock l1) (resized_st K i ia s1)" and
      r: "r = fst (call_i32 K (Notify_change ld (drop_mode lia)) t)" and
      t3: "t3 = call_void K (Inode_unlock l2) (snd (call_i32 K (Notify_change ld (drop_mode lia)) t))" and
      fin: "r \<noteq> 0 \<and> s2 = t3 \<or> r = 0 \<and> (\<exists>li. trfs_lower_inode i s = Some li \<and> s2 = fsstack K (k_attr_all K) i li t3)"
      unfolding lia Let_def by blast
    have mt: "moves K s t" using moves_trans [OF m resized_st_effect(1)] t by auto
    have u: "attrs (inodes t3 i) = resized K ia (attrs (inodes s i))"
      by (simp add: t3 t resized_st_effect same)
    have w: "world s2 = world t3" "log s2 = log t3" using fin by auto
    have m3: "moves K (snd (call_i32 K (Notify_change ld (drop_mode lia)) t)) s2"
      unfolding moves_cong [OF w] t3 by (rule moves_calls(1) [OF moves_refl])
    have c: "called s s' (Int_call (Notify_change ld (drop_mode lia)) (fst (call_int K (Notify_change ld (drop_mode lia)) t)))"
      using mt moves_trans [OF m3 e] by (intro called_i32) (auto simp: moves_def)
    have ri: "r = to_int (fst (call_int K (Notify_change ld (drop_mode lia)) t))"
      by (simp add: r call_i32_def case_prod_beta)
    have wr: "reach K (world s) (world t3)" "reach K (world t3) (world s')"
      using mt e unfolding t3 by (auto simp: moves_def w(1)[unfolded t3])
    have "if r \<noteq> 0 then attrs (inodes s' i) = resized K ia (attrs (inodes s i))
         else \<exists>li w. trfs_lower_inode i s = Some li \<and> reach K (world s) w \<and> reach K w (world s') \<and>
           attrs (inodes s' i) = k_attr_all K (resized K ia (attrs (inodes s i))) (l_attr (k_linode K w li))"
      using fin wr u by (auto simp: same fsstack_def upd_defs)
    then show ?thesis using ld [OF p] l c ri unfolding setattr_outcome_def by blast
  qed
qed

lemma setattr_outcomes:
  assumes i: "d_inode (dentries s d) = Some i" and run: "trfs_setattr K d ia s = Some (r, s')"
  shows "setattr_outcome K d i ia r s s'"
proof -
  let ?s1 = "snd (call_i32 K (Inode_change_ok i ia) s)"
  have m: "moves K s ?s1" by auto
  show ?thesis
  proof (cases "fst (call_i32 K (Inode_change_ok i ia) s) = 0")
    case False
    then have r: "r = fst (call_i32 K (Inode_change_ok i ia) s)" "s' = ?s1"
      using run i by (auto simp: trfs_setattr_def run_simps)
    have "called s s' (Int_call (Inode_change_ok i ia) (fst (call_int K (Inode_change_ok i ia) s)))"
      using r by (intro called_i32) auto
    moreover have "r = to_int (fst (call_int K (Inode_change_ok i ia) s))" by (simp add: r call_i32_def case_prod_beta)
    ultimately show ?thesis using False r unfolding setattr_outcome_def by auto
  next
    case True
    then obtain lp s2 s3 where g: "trfs_get_lower_path K d ?s1 = Some (lp, s2)" and
      b: "setattr_body K i ia lp s2 = Some (r, s3)" and s': "s' = trfs_put_lower_path K lp s3"
      using run i by (auto simp: trfs_setattr_def with_lower_path_def run_simps)
    note G = get_lower_path_effect [OF g]
    show ?thesis
      by (rule setattr_body_outcome [OF b moves_trans [OF m G(6)]])
        (use G(1,3,7) s' in \<open>auto simp: on_lower_def\<close>)
  qed
qed

section \<open>It returns\<close>

lemma setattr_returns:
  assumes dirs: "dirs_ok K D" and d: "on_lower d lp ld s" "D ld" and i: "d_inode (dentries s d) = Some i"
    and li: "trfs_lower_inode i s \<noteq> None" and f: "lower_iattr ia s \<noteq> None"
  shows "trfs_setattr K d ia s \<noteq> None"
proof -
  let ?s1 = "snd (call_i32 K (Inode_change_ok i ia) s)"
  have "on_lower d lp ld ?s1" using d(1) by (simp add: on_lower_def)
  from get_lower_path_returns [OF this, of K] obtain s2 where
    g: "trfs_get_lower_path K d ?s1 = Some (lp, s2)" by blast
  note G = get_lower_path_effect [OF g]
  have "files s2 = files s" "inodes s2 = inodes s" using G(1,3) by simp_all
  then obtain src lia where "trfs_lower_inode i s2 = Some src" "lower_iattr ia s2 = Some lia"
    using li f lower_iattr_same [of s2 s] lower_inode_same [of s2 s] by auto
  moreover have "p_dentry lp = Some ld" using d(1) by (simp add: on_lower_def)
  moreover obtain g where "\<And>x. lower_d_inode K ld x = Some (g x)" using dirs_inode [OF dirs d(2)] by metis
  ultimately have "setattr_body K i ia lp s2 \<noteq> None"
    by (simp add: setattr_body_def case_prod_beta Let_def)
  then show ?thesis using i g by (auto simp: trfs_setattr_def with_lower_path_def case_prod_beta Let_def)
qed

end
