(* ===== verification/Spec2Isabelle.thy ===== *)
theory Spec2Isabelle
  imports Sample Errors Attributes
begin

text \<open>
  TRFS, a stackable tracing file system for Linux: a verification development.

  \<^bold>\<open>The program.\<close> The kernel module \<open>src/fs/trfs\<close> mounts on top of a lower directory. Every
  request of the VFS is passed to the lower file system through the lower file, inode or path
  that the private data of the upper object points to. Twelve kinds of request (open, read,
  write, release, create, link, unlink, symlink, mkdir, rmdir, mknod, rename) also append a
  record to a trace file, each if its bit in a bitmap of the super block is on. The program
  \<open>src/hw2/trctl.c\<close> reads and sets that bitmap by \<open>ioctl\<close>; the program \<open>src/hw2/treplay.c\<close> reads
  the trace file, prints its records and makes the recorded system calls again below a replay
  directory.

  \<^bold>\<open>How it is modelled.\<close> The state \<open>st\<close> (theory Kernel) holds the objects trfs fills in: the super
  block with \<open>trfs_sb_info\<close>, inodes, dentries and files with their private data, all indexed by
  pointers. What is below trfs (the lower file systems, the VFS, the allocators, the trace file
  itself) is a parameter: a record \<open>kernel\<close> of functions on a world of any type, one constructor
  of \<open>icall\<close>, \<open>pcall\<close> or \<open>vcall\<close> for each function of the kernel that trfs calls, with its
  arguments. Every call is also logged, and \<open>held\<close> reads from the log the references, locks and
  allocations a run holds. \<open>None\<close> is a run that dies: a NULL or error pointer followed, a string
  without an end. What a proof needs of the kernel is a named predicate: \<open>trace_file_ok\<close> (a write
  through the trace file appends to it, \<open>filp_open\<close> with truncation empties it, nothing else
  touches it), \<open>kmalloc_ok\<close>, \<open>dentry_path_ok\<close>, \<open>plenty\<close> (allocations succeed), and others beside
  the lemmas that use them. Theory Sample gives a kernel that satisfies all of them, and the
  theorem named \<open>T_witness\<close> applies the theorem \<open>T\<close> to it.

  \<^bold>\<open>The theories.\<close>
  \<^item> Prelude: bytes, blocks of memory, C strings, C integers, the \<open>option\<close> monad.
  \<^item> Trace_Record: \<open>struct trfs_trace_ds\<close> of \<open>trfs.h\<close> and \<open>treplay.h\<close>, its layout computed from
    the sizes of the members, one record of the trace file as bytes.
  \<^item> Kernel, Trfs_Header: the state and the calls; the inline functions of \<open>trfs.h\<close>.
  \<^item> Tracer: the block of code that the twelve operations share (the source repeats it in each of
    them) with its effect on the trace file, the counter and the allocations.
  \<^item> File_Ops, File_Pass: \<open>file.c\<close>, the traced operations with \<open>ioctl\<close>, and those that are only
    passed on; File_Pass also holds \<open>mmap.c\<close>.
  \<^item> Lookup: \<open>lookup.c\<close> and \<open>dentry.c\<close>. Inode_Ops, Inode_Attr: \<open>inode.c\<close>, the traced directory
    operations, then links, permissions, attributes and extended attributes.
  \<^item> Super_Ops: \<open>super.c\<close>. Main_Mount: \<open>main.c\<close>. Operations: the operation tables of \<open>file.c\<close> and
    \<open>inode.c\<close> and the dispatch of a request through them.
  \<^item> Trctl, Treplay: the two programs of \<open>src/hw2\<close>.
  \<^item> Effects, Inode_Trace, File_Trace, Untraced: what an operation leaves in the trace file
    (\<open>extends\<close>, \<open>emits\<close>, \<open>silent\<close>) and in what it holds (\<open>balanced\<close>); \<open>body_spec\<close> is the contract
    of an operation's body that the rule for the parent directory lifts.
  \<^item> Trace_Spec: the abstract tracer, a step relation on a bitmap, a counter and a list of records,
    and what its runs keep. Runs: \<open>runs\<close> composes requests, and refines the tracer.
  \<^item> Errors: what an operation on names does with the error of its lower call.
  \<^item> Returns: the operations return, and what they need for that. Attributes: the same for a change
    of attributes, with all the ways it ends.
  \<^item> Mount_Correct, Object_Correct: mounting, shutting down, loading the module; the life of inodes
    and dentries.
  \<^item> Mask_Control: the locale \<open>mask_device\<close> between \<open>trctl\<close> and the module, interpreted on the
    module's \<open>ioctl\<close>. Trace_Stream: the locale \<open>record_stream\<close> between the writer and a reader of
    records, interpreted on the format of the trace file.
  \<^item> Replay_Correct, Replay_Run: what \<open>treplay\<close> prints and does with a well-formed trace, against
    the reference \<open>play\<close>.

  \<^bold>\<open>What the theorems below show.\<close> C1 to C5: the trace file as a whole, first against the
  abstract tracer. C6 to C19: each traced operation, with its lower call, its record and its
  balance, and what it does when the lower call fails. C20, C21: where tracing fails. C22 to
  C24: the bitmap from the command line of \<open>trctl\<close> down to the tracing code. C25 to C29: mount, shut
  down, load. C30 to C36: inodes, dentries and operations that are passed on. C37 to C40: the reader
  of the trace.

  \<^bold>\<open>Bounds and fuel.\<close> Machine integers keep their width (\<open>32 word\<close> flags, \<open>16 word\<close> modes and
  lengths, \<open>64 word\<close> counts and bitmap); results of calls are \<open>int\<close>, cut by \<open>to_int\<close> where the
  source stores a \<open>ssize_t\<close> in an \<open>int\<close>. The loop of \<open>treplay\<close> has fuel: each round moves at least
  the 28 bytes of the structure forward, so the length of the file is enough below 2 GiB (C37).

  \<^bold>\<open>Not modelled.\<close> Concurrency: operations run one after the other, locks are resources that are
  taken and given back; the unlocked increment of the record number is a plain one. Messages to
  the kernel log and the \<open>UDBG\<close> prints. The generated \<open>trfs.mod.c\<close>. \<open>init_once\<close>, which only calls
  \<open>inode_init_once\<close>, and \<open>trfs_inode_set\<close>, which does nothing, run inside functions of the kernel
  that are parameters.
\<close>

section \<open>The trace as a whole\<close>












section \<open>The traced operations\<close>

text \<open>C6: A write on an open file returns what the lower file system returned (as an \<open>int\<close>), and,
  if write tracing is on, adds one record: the path of the file, that result, and the first
  bytes of the user's buffer, as many as the result says. It gives back every lock, reference
  and allocation it took. Memory lasts and the path is shorter than the 256 bytes for it.\<close>

theorem write_traced:
  assumes "tracing_env K name tf th path_of" "plenty K" "mounted s name info" "open_file f lf i s"
    and "\<not> th lf" "length (path_of (dentries s) (f_dentry (files s f))) < 256"
  shows "\<exists>s' fl pm. trfs_write K f buf count s =
      Some (to_int (fst (k_int K (Vfs_write lf buf count Caller_ppos) (world s))), s') \<and>
    inode_fields (f_dentry (files s f)) s = Some (fl, pm) \<and>
    op_trace tf (Vfs_write lf buf count Caller_ppos) (\<lambda>e. if traced WRITE_CALL (mask info)
      then [trace_entry_of (path_of (dentries s)) WRITE_CALL fl pm
        (to_int (fst (k_int K (Vfs_write lf buf count Caller_ppos) (world s))))
        (sb_record_id info) (f_dentry (files s f)) No_second (Some buf)] else []) s s' \<and> balanced s s'"
proof -
  obtain s' where run: "trfs_write K f buf count s =
      Some (to_int (fst (k_int K (Vfs_write lf buf count Caller_ppos) (world s))), s')"
    using write_returns [OF assms(1-4,6)] by blast
  obtain fl pm where f: "inode_fields (f_dentry (files s f)) s = Some (fl, pm)"
    using assms(4) by (auto simp: open_file_def inode_fields_def)
  have "\<not> th x" if "trfs_lower_file f s = Some (Some x)" for x
    using that assms(4,5) by (simp add: open_file_def)
  from write_op [OF assms(1,3) this f run] show ?thesis
    using run f assms(4) by (auto simp: open_file_def)
qed

theorem write_traced_witness:
  "\<exists>s' fl pm. trfs_write ex_kernel 3 [0x68, 0x69] 2 ex_state =
      Some (to_int (fst (k_int ex_kernel (Vfs_write 8 [0x68, 0x69] 2 Caller_ppos) (world ex_state))), s') \<and>
    inode_fields (f_dentry (files ex_state 3)) ex_state = Some (fl, pm) \<and>
    op_trace (\<lambda>w. w) (Vfs_write 8 [0x68, 0x69] 2 Caller_ppos) (\<lambda>e. if traced WRITE_CALL (mask ex_info)
      then [trace_entry_of (ex_path_of (dentries ex_state)) WRITE_CALL fl pm
        (to_int (fst (k_int ex_kernel (Vfs_write 8 [0x68, 0x69] 2 Caller_ppos) (world ex_state))))
        (sb_record_id ex_info) (f_dentry (files ex_state 3)) No_second (Some [0x68, 0x69])] else []) ex_state s' \<and>
    balanced ex_state s'"
  by (rule write_traced [OF ex_tracing ex_plenty ex_mounted ex_open_file _ ex_short]) (simp add: ex_th_def)

text \<open>C7: A read on an open file returns what the lower file system returned and, if read tracing is
  on, adds one record with the path and that result and no data. It is balanced.\<close>

theorem read_traced:
  assumes "tracing_env K name tf th path_of" "plenty K" "atime_copy_ok K" "mounted s name info"
    and "open_file f lf i s" "\<not> th lf" "length (path_of (dentries s) (f_dentry (files s f))) < 256"
  shows "\<exists>s' fl pm. trfs_read K f buf count s =
      Some (to_int (fst (k_int K (Vfs_read lf buf count Caller_ppos) (world s))), s') \<and>
    inode_fields (f_dentry (files s f)) s = Some (fl, pm) \<and>
    op_trace tf (Vfs_read lf buf count Caller_ppos) (\<lambda>e. if traced READ_CALL (mask info)
      then [trace_entry_of (path_of (dentries s)) READ_CALL fl pm
        (to_int (fst (k_int K (Vfs_read lf buf count Caller_ppos) (world s))))
        (sb_record_id info) (f_dentry (files s f)) No_second None] else []) s s' \<and> balanced s s'"
proof -
  obtain s' where run: "trfs_read K f buf count s =
      Some (to_int (fst (k_int K (Vfs_read lf buf count Caller_ppos) (world s))), s')"
    using read_returns [OF assms(1,2,4,5,7)] by blast
  obtain fl pm where f: "inode_fields (f_dentry (files s f)) s = Some (fl, pm)"
    using assms(5) by (auto simp: open_file_def inode_fields_def)
  have "\<not> th x" if "trfs_lower_file f s = Some (Some x)" for x
    using that assms(5,6) by (simp add: open_file_def)
  from read_op [OF assms(1,4,3) this f run] show ?thesis
    using run f assms(5) by (auto simp: open_file_def)
qed

theorem read_traced_witness:
  "\<exists>s' fl pm. trfs_read ex_kernel 3 0 5 ex_state =
      Some (to_int (fst (k_int ex_kernel (Vfs_read 8 0 5 Caller_ppos) (world ex_state))), s') \<and>
    inode_fields (f_dentry (files ex_state 3)) ex_state = Some (fl, pm) \<and>
    op_trace (\<lambda>w. w) (Vfs_read 8 0 5 Caller_ppos) (\<lambda>e. if traced READ_CALL (mask ex_info)
      then [trace_entry_of (ex_path_of (dentries ex_state)) READ_CALL fl pm
        (to_int (fst (k_int ex_kernel (Vfs_read 8 0 5 Caller_ppos) (world ex_state))))
        (sb_record_id ex_info) (f_dentry (files ex_state 3)) No_second None] else []) ex_state s' \<and>
    balanced ex_state s'"
  by (rule read_traced [OF ex_tracing ex_plenty ex_atime ex_mounted ex_open_file _ ex_short]) (simp add: ex_th_def)



text \<open>C9: A release returns 0, adds one record if release tracing is on, and gives back what the
  open of that file kept: its private data and its lower file, if it still has one.\<close>

theorem release_traced:
  assumes "tracing_env K name tf th path_of" "plenty K" "mounted s name info"
    and "private_data (files s f) \<noteq> None" "length (path_of (dentries s) (f_dentry (files s f))) < 256"
  shows "\<exists>s'. trfs_file_release K inode f s = Some (0, s') \<and>
    extends tf s s' (if traced RELEASE_CALL (mask info)
      then [trace_entry_of (path_of (dentries s)) RELEASE_CALL 0 0 0
              (sb_record_id info) (f_dentry (files s f)) No_second None] else []) \<and>
    (\<forall>q. held (log s') q = held (log s) q - open_keeps f 0 s q)"
proof -
  obtain s' where run: "trfs_file_release K inode f s = Some (0, s')"
    using release_returns [OF assms] by blast
  then show ?thesis using release_op [OF assms(1,3) run] by blast
qed

theorem release_traced_witness:
  "\<exists>s'. trfs_file_release ex_kernel 3 3 ex_state = Some (0, s') \<and>
    extends (\<lambda>w. w) ex_state s' (if traced RELEASE_CALL (mask ex_info)
      then [trace_entry_of (ex_path_of (dentries ex_state)) RELEASE_CALL 0 0 0
              (sb_record_id ex_info) (f_dentry (files ex_state 3)) No_second None] else []) \<and>
    (\<forall>q. held (log s') q = held (log ex_state) q - open_keeps 3 0 ex_state q)"
  by (rule release_traced [OF ex_tracing ex_plenty ex_mounted _ ex_short]) (simp add: ex_state_def)


section \<open>The traced directory operations\<close>

text \<open>C10: A create makes the lower file through the lower dentry of its own dentry and, if create
  tracing is on, adds one record with the mode asked for and the result of the lower call,
  whether it succeeded or not. It gives back every lock, reference and allocation it took.\<close>

theorem create_traced:
  assumes "tracing_env K name tf th path_of" "plenty K" "mounted s name info"
    and "new_name_ok K path_of D dir d s"
  shows "\<exists>r s' lp pi ld. trfs_create K dir d mode excl s = Some (r, s') \<and> on_lower d lp ld s \<and>
    op_trace tf (Vfs_create pi ld mode excl) (\<lambda>e. if traced CREATE_CALL (mask info)
      then [trace_entry_of (path_of (dentries s)) CREATE_CALL (dir_opflags dir s) mode e
              (sb_record_id info) d No_second None] else []) s s' \<and> balanced s s'"
proof -
  obtain r s' where run: "trfs_create K dir d mode excl s = Some (r, s')"
    using create_returns [OF assms] by fastforce
  have st: "stable_dirs K D" using assms(4) by (simp add: new_name_ok_def dirs_ok_def)
  show ?thesis using run create_op [OF assms(1,3) run] st by blast
qed

theorem create_traced_witness:
  "\<exists>r s' lp pi ld. trfs_create ex_kernel 1 2 0x1A4 True ex_state = Some (r, s') \<and> on_lower 2 lp ld ex_state \<and>
    op_trace (\<lambda>w. w) (Vfs_create pi ld 0x1A4 True) (\<lambda>e. if traced CREATE_CALL (mask ex_info)
      then [trace_entry_of (ex_path_of (dentries ex_state)) CREATE_CALL (dir_opflags 1 ex_state) 0x1A4 e
              (sb_record_id ex_info) 2 No_second None] else []) ex_state s' \<and> balanced ex_state s'"
  by (rule create_traced [OF ex_tracing ex_plenty ex_mounted ex_new_name])

text \<open>C11: A mkdir makes the lower directory and adds one record, with the mode asked for and the
  result 0, if the lower call succeeded (always so when the whole succeeds) and mkdir tracing is
  on; a failed one is not traced. It is balanced.\<close>

theorem mkdir_traced:
  assumes "tracing_env K name tf th path_of" "plenty K" "mounted s name info"
    and "new_name_ok K path_of D dir d s"
  shows "\<exists>r s' lp pi ld. trfs_mkdir K dir d mode s = Some (r, s') \<and> on_lower d lp ld s \<and>
    op_trace tf (Vfs_mkdir pi ld mode) (\<lambda>e. if (e = 0 \<or> r = 0) \<and> traced MKDIR_CALL (mask info)
      then [trace_entry_of (path_of (dentries s)) MKDIR_CALL (dir_opflags dir s) mode 0
              (sb_record_id info) d No_second None] else []) s s' \<and> balanced s s'"
proof -
  obtain r s' where run: "trfs_mkdir K dir d mode s = Some (r, s')"
    using mkdir_returns [OF assms] by fastforce
  have st: "stable_dirs K D" using assms(4) by (simp add: new_name_ok_def dirs_ok_def)
  show ?thesis using run mkdir_op [OF assms(1,3) run] st by blast
qed

theorem mkdir_traced_witness:
  "\<exists>r s' lp pi ld. trfs_mkdir ex_kernel 1 2 0x1ED ex_state = Some (r, s') \<and> on_lower 2 lp ld ex_state \<and>
    op_trace (\<lambda>w. w) (Vfs_mkdir pi ld 0x1ED) (\<lambda>e. if (e = 0 \<or> r = 0) \<and> traced MKDIR_CALL (mask ex_info)
      then [trace_entry_of (ex_path_of (dentries ex_state)) MKDIR_CALL (dir_opflags 1 ex_state) 0x1ED 0
              (sb_record_id ex_info) 2 No_second None] else []) ex_state s' \<and> balanced ex_state s'"
  by (rule mkdir_traced [OF ex_tracing ex_plenty ex_mounted ex_new_name])

text \<open>C12: A symlink is traced, with the path of the link and the target as the caller gave it, if it
  succeeded as a whole (the lower link and the new inode) and symlink tracing is on. It is
  balanced.\<close>

theorem symlink_traced:
  assumes "tracing_env K name tf th path_of" "plenty K" "mounted s name info"
    and "new_name_ok K path_of D dir d s" "length str < 2 ^ 15"
  shows "\<exists>r s' lp pi ld. trfs_symlink K dir d str s = Some (r, s') \<and> on_lower d lp ld s \<and>
    op_trace tf (Vfs_symlink pi ld str) (\<lambda>e. if r = 0 \<and> traced SYMLINK_CALL (mask info)
      then [trace_entry_of (path_of (dentries s)) SYMLINK_CALL 0 0 0
              (sb_record_id info) d (Given_string str) None] else []) s s' \<and> balanced s s'"
proof -
  obtain r s' where run: "trfs_symlink K dir d str s = Some (r, s')"
    using symlink_mknod_returns(1) [OF assms(1-4)] by fastforce
  have st: "stable_dirs K D" using assms(4) by (simp add: new_name_ok_def dirs_ok_def)
  show ?thesis using run symlink_op [OF assms(1,3,5) run] st by blast
qed

theorem symlink_traced_witness:
  "\<exists>r s' lp pi ld. trfs_symlink ex_kernel 1 2 [0x78] ex_state = Some (r, s') \<and> on_lower 2 lp ld ex_state \<and>
    op_trace (\<lambda>w. w) (Vfs_symlink pi ld [0x78]) (\<lambda>e. if r = 0 \<and> traced SYMLINK_CALL (mask ex_info)
      then [trace_entry_of (ex_path_of (dentries ex_state)) SYMLINK_CALL 0 0 0
              (sb_record_id ex_info) 2 (Given_string [0x78]) None] else []) ex_state s' \<and> balanced ex_state s'"
  by (rule symlink_traced [OF ex_tracing ex_plenty ex_mounted ex_new_name]) simp

text \<open>C13: A mknod is traced, with the device number as the flags and the mode asked for, if it
  succeeded as a whole and mknod tracing is on. It is balanced.\<close>

theorem mknod_traced:
  assumes "tracing_env K name tf th path_of" "plenty K" "mounted s name info"
    and "new_name_ok K path_of D dir d s"
  shows "\<exists>r s' lp pi ld. trfs_mknod K dir d mode dev s = Some (r, s') \<and> on_lower d lp ld s \<and>
    op_trace tf (Vfs_mknod pi ld mode dev) (\<lambda>e. if r = 0 \<and> traced MKNOD_CALL (mask info)
      then [trace_entry_of (path_of (dentries s)) MKNOD_CALL dev mode 0
              (sb_record_id info) d No_second None] else []) s s' \<and> balanced s s'"
proof -
  obtain r s' where run: "trfs_mknod K dir d mode dev s = Some (r, s')"
    using symlink_mknod_returns(2) [OF assms] by fastforce
  have st: "stable_dirs K D" using assms(4) by (simp add: new_name_ok_def dirs_ok_def)
  show ?thesis using run mknod_op [OF assms(1,3) run] st by blast
qed

theorem mknod_traced_witness:
  "\<exists>r s' lp pi ld. trfs_mknod ex_kernel 1 2 0x21B6 0x103 ex_state = Some (r, s') \<and> on_lower 2 lp ld ex_state \<and>
    op_trace (\<lambda>w. w) (Vfs_mknod pi ld 0x21B6 0x103) (\<lambda>e. if r = 0 \<and> traced MKNOD_CALL (mask ex_info)
      then [trace_entry_of (ex_path_of (dentries ex_state)) MKNOD_CALL 0x103 0x21B6 0
              (sb_record_id ex_info) 2 No_second None] else []) ex_state s' \<and> balanced ex_state s'"
  by (rule mknod_traced [OF ex_tracing ex_plenty ex_mounted ex_new_name])

text \<open>C14: An rmdir removes the lower directory and is traced, with the flags and mode of the parent,
  if the lower call succeeded and rmdir tracing is on. It is balanced.\<close>

theorem rmdir_traced:
  assumes "tracing_env K name tf th path_of" "plenty K" "mounted s name info"
    and "dirs_ok K D" "on_lower d lp ld s" "length (path_of (dentries s) d) < 256"
  shows "\<exists>r s' lp pi ld. trfs_rmdir K dir d s = Some (r, s') \<and> on_lower d lp ld s \<and>
    op_trace tf (Vfs_rmdir pi ld) (\<lambda>e. if r = 0 \<and> traced RMDIR_CALL (mask info)
      then [trace_entry_of (path_of (dentries s)) RMDIR_CALL (dir_opflags dir s) (i_mode (attrs (inodes s dir))) 0
              (sb_record_id info) d No_second None] else []) s s' \<and> balanced s s'"
proof -
  obtain r s' where run: "trfs_rmdir K dir d s = Some (r, s')"
    using rmdir_returns [OF assms] by fastforce
  have st: "stable_dirs K D" using assms(4) by (simp add: dirs_ok_def)
  show ?thesis using run rmdir_op [OF assms(1,3) run] st by blast
qed

theorem rmdir_traced_witness:
  "\<exists>r s' lp pi ld. trfs_rmdir ex_kernel 1 2 ex_state = Some (r, s') \<and> on_lower 2 lp ld ex_state \<and>
    op_trace (\<lambda>w. w) (Vfs_rmdir pi ld) (\<lambda>e. if r = 0 \<and> traced RMDIR_CALL (mask ex_info)
      then [trace_entry_of (ex_path_of (dentries ex_state)) RMDIR_CALL (dir_opflags 1 ex_state) (i_mode (attrs (inodes ex_state 1))) 0
              (sb_record_id ex_info) 2 No_second None] else []) ex_state s' \<and> balanced ex_state s'"
  by (rule rmdir_traced [OF ex_tracing ex_plenty ex_mounted ex_dirs_ok ex_on_lower ex_short])

text \<open>C15: An unlink removes the name of its own lower dentry from the lower inode of its directory and
  is traced if it succeeded and unlink tracing is on. It is balanced, also in the extra reference
  it takes on the lower dentry.\<close>

theorem unlink_traced:
  assumes "tracing_env K name tf th path_of" "plenty K" "mounted s name info"
    and "dirs_ok K D" "on_lower d lp ld s" "length (path_of (dentries s) d) < 256"
    and "trfs_lower_inode dir s \<noteq> None" "d_inode (dentries s d) = Some i" "trfs_lower_inode i s \<noteq> None"
  shows "\<exists>r s' lp ldi ld. trfs_unlink K dir d s = Some (r, s') \<and> on_lower d lp ld s \<and>
    trfs_lower_inode dir s = Some ldi \<and>
    op_trace tf (Vfs_unlink ldi ld) (\<lambda>e. if r = 0 \<and> traced UNLINK_CALL (mask info)
      then [trace_entry_of (path_of (dentries s)) UNLINK_CALL 0 0 0
              (sb_record_id info) d No_second None] else []) s s' \<and> balanced s s'"
proof -
  obtain r s' where run: "trfs_unlink K dir d s = Some (r, s')"
    using unlink_returns [OF assms] by fastforce
  have st: "stable_dirs K D" using assms(4) by (simp add: dirs_ok_def)
  show ?thesis using run unlink_op [OF assms(1,3) run] st by blast
qed

theorem unlink_traced_witness:
  "\<exists>r s' lp ldi ld. trfs_unlink ex_kernel 1 2 ex_state = Some (r, s') \<and> on_lower 2 lp ld ex_state \<and>
    trfs_lower_inode 1 ex_state = Some ldi \<and>
    op_trace (\<lambda>w. w) (Vfs_unlink ldi ld) (\<lambda>e. if r = 0 \<and> traced UNLINK_CALL (mask ex_info)
      then [trace_entry_of (ex_path_of (dentries ex_state)) UNLINK_CALL 0 0 0
              (sb_record_id ex_info) 2 No_second None] else []) ex_state s' \<and> balanced ex_state s'"
  by (rule unlink_traced [OF ex_tracing ex_plenty ex_mounted ex_dirs_ok ex_on_lower ex_short]) (simp_all add: trfs_lower_inode_def ex_state_def)




text \<open>C17: A link makes the lower link of the two lower dentries, is traced if it succeeded as a whole
  and link tracing is on, and gives back everything it took.\<close>

theorem link_traced:
  assumes "tracing_env K name tf th path_of" "plenty K" "mounted s name info" "link_ok K"
    and "two_names_ok K path_of D od nd s"
  shows "\<exists>r s' op np lo pi ln. trfs_link K od dir nd s = Some (r, s') \<and> on_lower od op lo s \<and>
    on_lower nd np ln s \<and> op_trace tf (Vfs_link lo pi ln) (\<lambda>e. if r = 0 \<and> traced LINK_CALL (mask info)
      then [trace_entry_of (path_of (dentries s)) LINK_CALL 0 0 0
              (sb_record_id info) od (Same_buffer nd) None] else []) s s' \<and> balanced s s'"
proof -
  obtain r s' where run: "trfs_link K od dir nd s = Some (r, s')"
    using link_returns [OF assms(1-3,5)] by fastforce
  have st: "stable_dirs K D" using assms(5) by (simp add: two_names_ok_def dirs_ok_def)
  show ?thesis using run link_op(1) [OF assms(1,3) run assms(4)] link_op(2) [OF assms(1,3) run assms(4) st] by blast
qed

theorem link_traced_witness:
  "\<exists>r s' op np lo pi ln. trfs_link ex_kernel 1 1 2 ex_state = Some (r, s') \<and> on_lower 1 op lo ex_state \<and>
    on_lower 2 np ln ex_state \<and> op_trace (\<lambda>w. w) (Vfs_link lo pi ln) (\<lambda>e. if r = 0 \<and> traced LINK_CALL (mask ex_info)
      then [trace_entry_of (ex_path_of (dentries ex_state)) LINK_CALL 0 0 0
              (sb_record_id ex_info) 1 (Same_buffer 2) None] else []) ex_state s' \<and> balanced ex_state s'"
  by (rule link_traced [OF ex_tracing ex_plenty ex_mounted ex_link_ok ex_two_names])



text \<open>C19: The two paths of a link or rename record are built in the same buffer, so the old path is
  lost: where the record should hold it there is what the new path leaves of it, and when the two
  paths are of the same length the record holds the new path twice.\<close>

theorem link_record_loses_old_path:
  assumes "length (path_of (dentries s) od) = length (path_of (dentries s) nd)"
    and "tracing_env K name tf th path_of" "mounted s name info"
    and "trace_op K rt (Some (fl, pm)) er od (Same_buffer nd) None s = Some (l, s')" "traced rt (mask info)"
    and "- (2 ^ 31) \<le> er" "er < 2 ^ 31"
  shows "\<exists>e. emits tf s s' e \<and> te_path1 e = path_of (dentries s) nd \<and> te_path2 e = path_of (dentries s) nd"
proof -
  have "emits tf s s' (trace_entry_of (path_of (dentries s)) rt fl pm er (sb_record_id info) od (Same_buffer nd) None)"
    using trace_op_effect [OF assms(2-4,6,7)] assms(5) by simp
  then show ?thesis using assms(1)
    by (intro exI conjI) (assumption, simp_all add: trace_entry_of_def Let_def overwritten_def)
qed

theorem link_record_loses_old_path_witness:
  "\<exists>l s' e. trace_op ex_kernel LINK_CALL (Some (0, 0)) 0 17 (Same_buffer 1) None ex_state = Some (l, s') \<and>
    emits (\<lambda>w. w) ex_state s' e \<and> te_path1 e = te_path2 e"
proof -
  obtain l s' where t: "trace_op ex_kernel LINK_CALL (Some (0, 0)) 0 17 (Same_buffer 1) None ex_state = Some (l, s')"
    using ex_trace_op [of ex_state] by blast
  show ?thesis
    using link_record_loses_old_path [OF _ ex_tracing ex_mounted t ex_traced] t
    by (fastforce simp: ex_path_of_def call_defs)
qed

text \<open>C20: A path that does not fit the 256 bytes ends the run: with write tracing on, a write to a
  file whose path is that long does not return, although the lower write has been made.\<close>

theorem write_to_long_path_crashes:
  assumes "tracing_env K name tf th path_of" "mounted s name info" "open_file f lf i s"
    and "traced WRITE_CALL (mask info)" "256 \<le> length (path_of (dentries s) (f_dentry (files s f)))"
  shows "trfs_write K f buf count s = None"
proof -
  let ?s1 = "snd (call_int K (Vfs_write lf buf count Caller_ppos) s)"
  have "mounted ?s1 name info" "256 \<le> length (path_of (dentries ?s1) (f_dentry (files s f)))"
    using assms(2,5) by (simp_all add: mounted_def)
  from long_path_crashes [OF assms(1) this(1) assms(4) this(2)] show ?thesis
    using assms(3) by (simp add: trfs_write_def open_file_def Let_def case_prod_beta)
qed

theorem write_to_long_path_crashes_witness: "trfs_write long_kernel 3 [0x68] 1 ex_state = None"
  by (rule write_to_long_path_crashes [OF long_tracing ex_mounted ex_open_file ex_traced])
    (simp_all add: call_defs long_path_of_def)

text \<open>C21: The record of a write that failed carries the error number as the length of the data, and
  the program that reads the trace does not survive it: the rest of the trace is lost.\<close>

theorem failed_write_stops_the_reader:
  assumes "length pad = 28" "er < 0" "- (2 ^ 31) \<le> er"
    and "e = trace_entry_of pf WRITE_CALL fl pm er rid d No_second (Some data)"
    and "prev_rec_size cur = int (length pre)" "0 < n"
  shows "replay_loop n E replay abort (pre @ entry_bytes pad e @ rest) cur st = Crash"
  by (rule negative_length_crashes)
    (use assms failed_write_entry [OF assms(2,3)] in \<open>simp_all add: failed_write_entry\<close>)

theorem failed_write_stops_the_reader_witness:
  "replay_loop 1 ex_machine False False ([] @ entry_bytes (replicate 28 0)
      (trace_entry_of (\<lambda>d. [0x2F]) WRITE_CALL 2 0x1A4 (- 28) 0 3 No_second (Some [0x68])) @ []) start_cursor ex_rstate = Crash"
  by (rule failed_write_stops_the_reader [where er = "- 28"]) (simp_all add: start_cursor_def)


section \<open>Controlling the bitmap\<close>










section \<open>Mounting and unmounting\<close>





text \<open>C27: A mount that fails ends in a NULL pointer: whatever the error, \<open>s_fs_info\<close> is NULL when
  \<open>trfs_read_super\<close> returns it, and \<open>trfs_shutdown_super\<close>, which the kernel then calls, follows
  that pointer without a test.\<close>

theorem failed_mount_shutdown_crashes:
  assumes "trace_file_ok K name tf th" "trfs_read_super K raw s = Some (r, s')" "r \<noteq> 0"
    and "s_fs_info (sb s) = None" "\<And>mp. raw = Some mp \<Longrightarrow> tfile_path mp = Some (fa, name)"
  shows "trfs_shutdown_super K gs s' = None"
  by (rule failed_mount_crashes [OF assms])

theorem failed_mount_shutdown_crashes_witness:
  "\<exists>s'. trfs_read_super missing_kernel (Some ex_mount_path) ex_bare = Some (- 2, s') \<and>
     trfs_shutdown_super missing_kernel (\<lambda>s. Some s) s' = None"
proof -
  have "\<exists>s'. trfs_read_super missing_kernel (Some ex_mount_path) ex_bare = Some (- 2, s')"
    by (simp add: trfs_read_super_def ex_mount_path_def missing_kernel_def call_simps Let_def to_int_id)
  then obtain s' where s': "trfs_read_super missing_kernel (Some ex_mount_path) ex_bare = Some (- 2, s')" ..
  have "s_fs_info (sb ex_bare) = None" by (simp add: ex_bare_def)
  from failed_mount_shutdown_crashes [OF missing_trace_file s' _ this, of 52] s' show ?thesis
    by (auto simp: ex_mount_path_def)
qed






section \<open>Inodes, dentries and the operations that are passed on\<close>

text \<open>C30: Following a symbolic link gives either an error and nothing kept, or a page that holds a
  NUL-terminated string and is the only thing kept (the caller frees it later).\<close>

theorem get_link_gives_a_string:
  assumes "trace_file_ok K name tf th" "page_ok K"
    and "trfs_get_link K (Some d) s = Some (p, data, s')"
  shows "(\<exists>e. p = Err_ptr e \<and> e < 0 \<and> balanced s s') \<or>
    (\<exists>a. p = Ptr a \<and> cstr data \<noteq> None \<and>
      (\<forall>q. (\<forall>i. q \<noteq> R_linode i) \<longrightarrow> held (log s') q = held (log s) q + of_bool (q = R_mem a)))"
  using get_link_ok [OF assms] unfolding balanced_def by blast

theorem get_link_gives_a_string_witness:
  "\<exists>p data s'. trfs_get_link ex_kernel (Some 2) ex_state = Some (p, data, s') \<and>
    ((\<exists>e. p = Err_ptr e \<and> e < 0 \<and> balanced ex_state s') \<or> (\<exists>a. p = Ptr a \<and> cstr data \<noteq> None))"
proof -
  obtain p data s' where "trfs_get_link ex_kernel (Some 2) ex_state = Some (p, data, s')"
    using ex_get_link by blast
  with get_link_gives_a_string [OF ex_trace_file ex_page this] show ?thesis by blast
qed

text \<open>C31: Changing attributes of an open or closed file returns, gives back what it took and leaves
  the trace alone. It is refused by one of the two tests on the upper inode without a change; or
  the lower file system is asked, for the lower dentry, with the lower file in place of the
  upper one and without the mode when set-id bits are to be dropped. If that fails, its error is
  returned, and a change of size has nevertheless reached the upper inode; if it succeeds, the
  upper inode has the attributes of its lower inode.\<close>

theorem setattr_handed_down:
  assumes "trace_file_ok K name tf th" "dirs_ok K D" "on_lower d lp ld s" "D ld"
    and "d_inode (dentries s d) = Some i" "trfs_lower_inode i s \<noteq> None" "lower_iattr ia s \<noteq> None"
  shows "\<exists>r s'. trfs_setattr K d ia s = Some (r, s') \<and> setattr_outcome K d i ia r s s' \<and> quiet K tf s s'"
proof -
  obtain r s' where run: "trfs_setattr K d ia s = Some (r, s')"
    using setattr_returns [OF assms(2-7)] by fastforce
  have "stable_dirs K D" using assms(2) by (simp add: dirs_ok_def)
  then have "quiet K tf s s'"
    by (rule setattr_quiet [OF assms(1) _ _ run]) (use assms(3,4) in \<open>auto simp: on_lower_def\<close>)
  then show ?thesis using run setattr_outcomes [OF assms(5) run] by blast
qed

theorem setattr_handed_down_witness:
  "\<exists>r s'. trfs_setattr ex_kernel 1 \<lparr>ia_valid = ATTR_SIZE, ia_size = 5, ia_mode = 0, ia_file = None\<rparr> ex_state = Some (r, s') \<and>
     setattr_outcome ex_kernel 1 1 \<lparr>ia_valid = ATTR_SIZE, ia_size = 5, ia_mode = 0, ia_file = None\<rparr> r ex_state s' \<and>
     quiet ex_kernel (\<lambda>w. w) ex_state s'"
  by (rule setattr_handed_down [OF ex_trace_file ex_dirs_ok ex_on_lower])
    (simp_all add: ex_full, simp_all add: ex_state_def lower_iattr_def attr_flag_defs)



text \<open>C33: A lookup that finds the lower name but cannot make the inode leaves no lower path in the
  dentry: it is taken back and its references are given back with it.\<close>

theorem failed_lookup_resets:
  assumes "lookup_dentry K isr d fl pp s = Some (r, s')" "IS_ERR r" "\<not> isr d"
    and "\<And>dir. p_dentry pp = Some dir \<Longrightarrow>
      to_int (fst (k_int K (Vfs_path_lookup dir (p_mnt pp) (d_name (dentries s d))) (world s))) = 0"
  shows "\<exists>a info. d_fsdata (dentries s' d) = Some (a, info) \<and> lower_path info = null_path"
  by (rule lookup_failed_resets [OF assms(1,2,4,3)])

theorem failed_lookup_resets_witness:
  "\<exists>s' a info. lookup_dentry no_inode_kernel (\<lambda>d. False) 2 0 \<lparr>p_dentry = Some 601, p_mnt = Some 9\<rparr> ex_state =
     Some (Err_ptr (- EACCES), s') \<and> d_fsdata (dentries s' 2) = Some (a, info) \<and> lower_path info = null_path"
proof -
  obtain s' where s': "lookup_dentry no_inode_kernel (\<lambda>d. False) 2 0 \<lparr>p_dentry = Some 601, p_mnt = Some 9\<rparr> ex_state =
     Some (Err_ptr (- EACCES), s')" using no_inode_lookup by blast
  have "\<exists>a info. d_fsdata (dentries s' 2) = Some (a, info) \<and> lower_path info = null_path"
    by (rule failed_lookup_resets [OF s']) (simp_all add: no_inode_kernel_def ex_int_def to_int_id)
  with s' show ?thesis by blast
qed

text \<open>C34: Releasing a dentry gives back the references of its lower path and its private data, and
  leaves it without private data.\<close>

theorem released_dentry_gives_back:
  assumes "trfs_d_release K d s = Some s'"
  shows "d_fsdata (dentries s' d) = None \<and> (\<exists>a info. d_fsdata (dentries s d) = Some (a, info) \<and>
     (\<forall>q. held (log s') q = held (log s) q - path_ref (lower_path info) q - of_bool (q = R_dinfo a)))"
proof -
  obtain a info where "d_fsdata (dentries s d) = Some (a, info)" using d_release_effect [OF assms] by blast
  then show ?thesis using d_release_effect [OF assms] by auto
qed

theorem released_dentry_gives_back_witness:
  "\<exists>s'. trfs_d_release ex_kernel 2 ex_state = Some s' \<and> d_fsdata (dentries s' 2) = None"
proof -
  have "\<exists>s'. trfs_d_release ex_kernel 2 ex_state = Some s'"
    by (simp add: trfs_d_release_def trfs_put_reset_lower_path_def ex_state_def Let_def)
  then obtain s' where "trfs_d_release ex_kernel 2 ex_state = Some s'" ..
  with released_dentry_gives_back [OF this] show ?thesis by blast
qed

text \<open>C35: Seeking in a directory is cut to 32 bits: a lower position of 2 GiB or more, below 4 GiB, is
  returned as a negative number, which the caller takes for an error.\<close>

theorem seek_beyond_2GiB_is_negative:
  assumes "fst (call_int K (Upper_llseek f off wh) s) = p" "0 \<le> p" "p < 2 ^ 31"
    and "trfs_lower_file f s = Some (Some lower)"
    and "fst (call_int K (Lower_llseek lower off wh) (snd (call_int K (Upper_llseek f off wh) s))) = q"
    and "2 ^ 31 \<le> q" "q < 2 ^ 32"
  shows "\<exists>s'. trfs_file_llseek K f off wh s = Some (q - 2 ^ 32, s')"
  using llseek_cuts [OF assms(1-5)] to_int_big [OF assms(6,7)] by simp

theorem seek_beyond_2GiB_is_negative_witness:
  "\<exists>s'. trfs_file_llseek big_kernel 3 0xC0000000 0 ex_state = Some (0xC0000000 - 2 ^ 32, s')"
proof (rule seek_beyond_2GiB_is_negative [where p = 0 and lower = 8 and q = "0xC0000000"])
  show "trfs_lower_file 3 ex_state = Some (Some 8)" by (simp add: trfs_lower_file_def ex_state_def)
qed (simp_all only: big_seek, simp_all)

text \<open>C36: A remount is accepted if and only if its flags are among read-only, mandatory locking and
  silent.\<close>

theorem remount_flags_accepted:
  "trfs_remount_fs flags = 0 \<longleftrightarrow> (\<forall>n. n < 32 \<and> bit flags n \<longrightarrow> n = 0 \<or> n = 6 \<or> n = 15)"
  using remount_ok_iff [of flags] by auto

theorem remount_flags_accepted_witness:
  "trfs_remount_fs 1 = 0"
proof -
  have "\<forall>n. n < 32 \<and> bit (1 :: 32 word) n \<longrightarrow> n = 0 \<or> n = 6 \<or> n = 15"
    by (simp add: bit_1_iff)
  then show ?thesis using remount_flags_accepted [of 1] by blast
qed

section \<open>The reader of the trace\<close>

text \<open>C37: The loop of \<open>treplay\<close> ends on every file below 2 GiB, well-formed or not, replaying or not:
  every round that does not end the program moves the offset by at least the 28 bytes of the
  structure, so as many rounds as the file has bytes are enough.\<close>

theorem replay_loop_terminates:
  assumes "length buffer < 2 ^ 31" "length buffer \<le> n"
  shows "replay_loop (Suc n) E replay abort buffer start_cursor st \<noteq> Timeout"
proof (cases "length buffer = 0")
  case True
  then show ?thesis by (simp add: start_cursor_def)
next
  case False
  then have "int (length buffer) < 28 * int n" using assms(2) by linarith
  then have "int (length buffer) - prev_rec_size start_cursor < 28 * int n"
    by (simp add: start_cursor_def)
  then show ?thesis by (rule replay_loop_ends [OF assms(1)])
qed

theorem replay_loop_terminates_witness:
  "replay_loop (Suc 3) ex_machine True False [1, 2, 3] start_cursor ex_rstate \<noteq> Timeout"
  by (rule replay_loop_terminates) simp_all





text \<open>C40: The structure of a record and its memory: reading it back gives every member, and the five
  bytes that no member covers are what the allocator left there, so a trace file holds bytes of
  the kernel's heap.\<close>

theorem record_header_roundtrip_and_leak:
  assumes "length blk = 28"
  shows "read_trace_ds (fill_trace_ds r blk) = r \<and> length (fill_trace_ds r blk) = 28 \<and>
    peek 13 3 (fill_trace_ds r blk) = peek 13 3 blk \<and> peek 22 2 (fill_trace_ds r blk) = peek 22 2 blk"
  using read_fill_trace_ds [OF assms] fill_trace_ds_padding [OF assms] assms by simp

theorem record_header_roundtrip_and_leak_witness:
  "peek 13 3 (fill_trace_ds (te_ds ex_entry) (replicate 28 7)) = peek 13 3 (replicate 28 7)"
  using record_header_roundtrip_and_leak [of "replicate 28 7" "te_ds ex_entry"] by simp


end
